(* ===== verification/Prelude.thy ===== *)
theory Prelude
  imports Main "HOL-Library.Word"
begin

text \<open>
  What the component theories share: names for the machine integers of the source, the C++
  exceptions as values, decimal rendering of numbers (fmt's \<^verbatim>\<open>{}\<close>), and generic lemmas on
  lists, intervals of integers and words.
\<close>

section \<open>Machine integers and exceptions\<close>

type_synonym u8 = "8 word"
type_synonym u16 = "16 word"
type_synonym u32 = "32 word"
type_synonym u64 = "64 word"

text \<open>
  The exceptions the code throws, with their \<^verbatim>\<open>what()\<close> text. \<open>Lua_panic\<close> is the class
  LuaPanic of runtime/errors.hpp; the others are standard classes.
\<close>

datatype cxx =
    Runtime_error string
  | Logic_error string
  | Invalid_argument string
  | Out_of_range string
  | Length_error string
  | Config_error string
  | Lua_panic string

type_synonym 'a res = "cxx + 'a"

fun what :: "cxx \<Rightarrow> string" where
  "what (Runtime_error s) = s"
| "what (Logic_error s) = s"
| "what (Invalid_argument s) = s"
| "what (Out_of_range s) = s"
| "what (Length_error s) = s"
| "what (Config_error s) = s"
| "what (Lua_panic s) = s"

section \<open>Decimal rendering\<close>

fun show_nat :: "nat \<Rightarrow> string" where
  "show_nat n = (if n < 10 then [char_of (48 + n)]
                 else show_nat (n div 10) @ [char_of (48 + n mod 10)])"

declare show_nat.simps [simp del]

definition show_int :: "int \<Rightarrow> string" where
  "show_int i = (if i < 0 then CHR ''-'' # show_nat (nat (- i)) else show_nat (nat i))"

text \<open>Text between single quotes (character 39), and between double quotes (character 34).\<close>

definition quoted :: "string \<Rightarrow> string" where
  "quoted s = CHR 0x27 # s @ [CHR 0x27]"

definition dquoted :: "string \<Rightarrow> string" where
  "dquoted s = CHR 0x22 # s @ [CHR 0x22]"

section \<open>Collections of facts\<close>

named_theorems pool_ops
named_theorems bus_ops
named_theorems timer_ops
named_theorems stream_ops

section \<open>Components and their invariants\<close>

text \<open>
  A component as its users see it: a state that changes only by its operations, each of which
  keeps the invariant. Then every state that a sequence of operations reaches satisfies it.
\<close>

locale machine =
  fixes step :: "'s \<Rightarrow> 'c \<Rightarrow> 's"
    and wf :: "'s \<Rightarrow> bool"
  assumes wf_step: "wf s \<Longrightarrow> wf (step s c)"
begin

lemma wf_run: "wf s \<Longrightarrow> wf (foldl step s cs)"
  by (induction cs arbitrary: s) (simp_all add: wf_step)

lemma wf_fold: "wf s \<Longrightarrow> wf (fold (\<lambda>c s. step s c) cs s)"
  using wf_run [of s cs] by (simp add: foldl_conv_fold)

end

text \<open>
  A component that implements a specification: every operation changes what the specification
  sees of the state as the specification says, and answers as it says. Then so does every
  sequence of operations.
\<close>

fun replies :: "('s \<Rightarrow> 'c \<Rightarrow> 's) \<Rightarrow> ('s \<Rightarrow> 'c \<Rightarrow> 'r) \<Rightarrow> 's \<Rightarrow> 'c list \<Rightarrow> 'r list" where
  "replies step answer s [] = []"
| "replies step answer s (c # cs) = answer s c # replies step answer (step s c) cs"

locale simulation = machine step wf
  for step :: "'s \<Rightarrow> 'c \<Rightarrow> 's" and wf :: "'s \<Rightarrow> bool" +
  fixes answer :: "'s \<Rightarrow> 'c \<Rightarrow> 'r"
    and view :: "'s \<Rightarrow> 'a"
    and spec_step :: "'a \<Rightarrow> 'c \<Rightarrow> 'a"
    and spec_answer :: "'a \<Rightarrow> 'c \<Rightarrow> 'r"
  assumes view_step: "wf s \<Longrightarrow> view (step s c) = spec_step (view s) c"
    and same_answer: "wf s \<Longrightarrow> answer s c = spec_answer (view s) c"
begin

lemma view_run: "wf s \<Longrightarrow> view (foldl step s cs) = foldl spec_step (view s) cs"
  by (induction cs arbitrary: s) (simp_all add: view_step wf_step)

lemma same_answers: "wf s \<Longrightarrow> replies step answer s cs = replies spec_step spec_answer (view s) cs"
  by (induction cs arbitrary: s) (simp_all add: view_step same_answer wf_step)

end

section \<open>Lists and intervals of integers\<close>

lemma nth_upto_int: "i < nat (b - a + 1) \<Longrightarrow> [a..b] ! i = a + int i"
  by (simp add: nth_upto)

lemma sorted_filter_upto: "sorted (filter P [a..b])"
  by (simp add: sorted_wrt_filter)

lemma distinct_filter_upto: "distinct (filter P [a..b])"
  by simp

lemma list_update_id_nth: "xs ! i = x \<Longrightarrow> xs[i := x] = xs"
  by auto

lemma nth_list_update_if:
  "i < length xs \<Longrightarrow> xs[i := x] ! j = (if i = j then x else xs ! j)"
  by auto

section \<open>Words\<close>

lemma of_nat_word_zero_small:
  assumes "(of_nat k :: 'a::len word) = 0" and "k < 2 ^ LENGTH('a)"
  shows "k = 0"
proof -
  have "unat (of_nat k :: 'a word) = k"
    using assms(2) by (simp add: unat_of_nat take_bit_nat_eq_self)
  with assms(1) show ?thesis by simp
qed

lemma of_nat_word_ne_zero:
  "0 < k \<Longrightarrow> k < 2 ^ LENGTH('a) \<Longrightarrow> (of_nat k :: 'a::len word) \<noteq> 0"
  using of_nat_word_zero_small by blast

end
