(* ===== verification/Entity_Pool.thy ===== *)
theory Entity_Pool
  imports Prelude
begin

text \<open>
  The entity pools of \<^verbatim>\<open>src/src/core/entity_pool.hpp\<close> and \<^verbatim>\<open>entity_pool.cpp\<close>: one slot per
  server id, adopted when the entity appears and released when it goes, with a 32-bit
  generation that changes once per lifetime, the cached Lua handle, the script's data table
  and the tag. A Lua object is named by the address the Lua allocator gave it.
\<close>

section \<open>Data\<close>

datatype EntityKind = Player | Vehicle | Object | Pickup | Checkpoint | Blip | Bind

record EntityTraits =
  tr_name :: string
  type_name :: string
  first_id :: int
  capacity :: int

fun Traits :: "EntityKind \<Rightarrow> EntityTraits" where
  "Traits Player = \<lparr>tr_name = ''player'', type_name = ''Player'', first_id = 0, capacity = 100\<rparr>"
| "Traits Vehicle = \<lparr>tr_name = ''vehicle'', type_name = ''Vehicle'', first_id = 1, capacity = 1001\<rparr>"
| "Traits Object = \<lparr>tr_name = ''object'', type_name = ''Object'', first_id = 0, capacity = 3000\<rparr>"
| "Traits Pickup = \<lparr>tr_name = ''pickup'', type_name = ''Pickup'', first_id = 0, capacity = 2000\<rparr>"
| "Traits Checkpoint = \<lparr>tr_name = ''checkpoint'', type_name = ''Checkpoint'', first_id = 0, capacity = 2000\<rparr>"
| "Traits Blip = \<lparr>tr_name = ''blip'', type_name = ''Blip'', first_id = 0, capacity = 100\<rparr>"
| "Traits Bind = \<lparr>tr_name = ''bind'', type_name = ''Bind'', first_id = 0, capacity = 256\<rparr>"

type_synonym objref = nat

text \<open>The userdata a script holds: the object's address and its immutable contents.\<close>

record EntityHandle =
  eh_obj :: objref
  eh_kind :: EntityKind
  eh_id :: int
  eh_generation :: u32

record EntityRef =
  er_id :: int
  er_generation :: u32

definition no_ref :: EntityRef where
  "no_ref = \<lparr>er_id = -1, er_generation = 0\<rparr>"

record SlotData =
  alive :: bool
  created_by_us :: bool
  generation :: u32
  handle :: "EntityHandle option"
  data :: "objref option"
  tag :: string

definition empty_slot :: SlotData where
  "empty_slot = \<lparr>alive = False, created_by_us = False, generation = 0, handle = None,
                 data = None, tag = []\<rparr>"

record EntityPool =
  pool_kind :: EntityKind
  slots :: "SlotData list"
  closed :: bool

abbreviation traits :: "EntityPool \<Rightarrow> EntityTraits" where
  "traits p \<equiv> Traits (pool_kind p)"

section \<open>Operations of one pool\<close>

definition new_pool :: "EntityKind \<Rightarrow> EntityPool" where
  "new_pool k = \<lparr>pool_kind = k,
     slots = replicate (nat (capacity (Traits k) - first_id (Traits k))) empty_slot,
     closed = False\<rparr>"

definition InRange :: "EntityPool \<Rightarrow> int \<Rightarrow> bool" where
  "InRange p i \<longleftrightarrow> i \<ge> first_id (traits p) \<and> i < capacity (traits p)"

definition slot_index :: "EntityPool \<Rightarrow> int \<Rightarrow> nat" where
  "slot_index p i = nat (i - first_id (traits p))"

definition Slot :: "EntityPool \<Rightarrow> int \<Rightarrow> SlotData" where
  "Slot p i = slots p ! slot_index p i"

definition put_slot :: "EntityPool \<Rightarrow> int \<Rightarrow> SlotData \<Rightarrow> EntityPool" where
  "put_slot p i s = p\<lparr>slots := (slots p)[slot_index p i := s]\<rparr>"

definition Alive :: "EntityPool \<Rightarrow> int \<Rightarrow> bool" where
  "Alive p i \<longleftrightarrow> InRange p i \<and> alive (Slot p i)"

definition Valid :: "EntityPool \<Rightarrow> int \<Rightarrow> u32 \<Rightarrow> bool" where
  "Valid p i g \<longleftrightarrow> Alive p i \<and> generation (Slot p i) = g"

definition Adopt :: "EntityPool \<Rightarrow> int \<Rightarrow> EntityPool" where
  "Adopt p i =
     (if \<not> InRange p i then p
      else let slot = Slot p i in
        if alive slot then p
        else put_slot p i (slot\<lparr>alive := True, created_by_us := False,
                                generation := generation slot + 1\<rparr>))"

definition Release :: "EntityPool \<Rightarrow> int \<Rightarrow> EntityPool" where
  "Release p i =
     (if \<not> Alive p i then p
      else put_slot p i ((Slot p i)\<lparr>alive := False, created_by_us := False, handle := None,
                                    data := None, tag := []\<rparr>))"

definition Ref :: "EntityPool \<Rightarrow> int \<Rightarrow> EntityRef" where
  "Ref p i = (if \<not> Alive p i then no_ref
              else \<lparr>er_id = i, er_generation = generation (Slot p i)\<rparr>)"

definition Seen :: "EntityPool \<Rightarrow> int \<Rightarrow> EntityPool \<times> EntityRef" where
  "Seen p i = (let p' = Adopt p i in (p', Ref p' i))"

definition MarkCreatedByUs :: "EntityPool \<Rightarrow> int \<Rightarrow> EntityPool" where
  "MarkCreatedByUs p i =
     (if Alive p i then put_slot p i ((Slot p i)\<lparr>created_by_us := True\<rparr>) else p)"

definition CreatedByUs :: "EntityPool \<Rightarrow> int list" where
  "CreatedByUs p = filter (\<lambda>i. alive (Slot p i) \<and> created_by_us (Slot p i))
     [first_id (traits p) .. capacity (traits p) - 1]"

definition AliveIds :: "EntityPool \<Rightarrow> int list" where
  "AliveIds p = filter (\<lambda>i. alive (Slot p i))
     [first_id (traits p) .. capacity (traits p) - 1]"

definition Require :: "EntityPool \<Rightarrow> int \<Rightarrow> u32 \<Rightarrow> unit res" where
  "Require p i g =
     (if closed p then Inl (Runtime_error ''runtime shutting down'')
      else if \<not> Valid p i g then Inl (Runtime_error (tr_name (traits p) @ '' no longer exists''))
      else Inr ())"

text \<open>
  \<open>Push\<close> returns the handle it pushes, \<open>None\<close> for nil; \<open>fresh\<close> is the address of the
  userdata Lua allocates when the slot has no cached handle.
\<close>

definition Push :: "objref \<Rightarrow> EntityPool \<Rightarrow> int \<Rightarrow> u32 \<Rightarrow> EntityPool \<times> EntityHandle option" where
  "Push fresh p i g =
     (if closed p \<or> \<not> Valid p i g then (p, None)
      else let slot = Slot p i in
        (case handle slot of
          None \<Rightarrow>
            let h = \<lparr>eh_obj = fresh, eh_kind = pool_kind p, eh_id = i, eh_generation = g\<rparr>
            in (put_slot p i (slot\<lparr>handle := Some h\<rparr>), Some h)
        | Some h \<Rightarrow> (p, Some h)))"

definition Data :: "objref \<Rightarrow> EntityPool \<Rightarrow> int \<Rightarrow> u32 \<Rightarrow> EntityPool \<times> objref res" where
  "Data fresh p i g =
     (case Require p i g of
        Inl e \<Rightarrow> (p, Inl e)
      | Inr _ \<Rightarrow>
          let slot = Slot p i in
          (case data slot of
            None \<Rightarrow> (put_slot p i (slot\<lparr>data := Some fresh\<rparr>), Inr fresh)
          | Some d \<Rightarrow> (p, Inr d)))"

definition SetData :: "EntityPool \<Rightarrow> int \<Rightarrow> u32 \<Rightarrow> objref \<Rightarrow> EntityPool \<times> unit res" where
  "SetData p i g d =
     (case Require p i g of
        Inl e \<Rightarrow> (p, Inl e)
      | Inr _ \<Rightarrow> (put_slot p i ((Slot p i)\<lparr>data := Some d\<rparr>), Inr ()))"

definition Tag :: "EntityPool \<Rightarrow> int \<Rightarrow> u32 \<Rightarrow> string res" where
  "Tag p i g = (case Require p i g of Inl e \<Rightarrow> Inl e | Inr _ \<Rightarrow> Inr (tag (Slot p i)))"

definition SetTag :: "EntityPool \<Rightarrow> int \<Rightarrow> u32 \<Rightarrow> string \<Rightarrow> EntityPool \<times> unit res" where
  "SetTag p i g t =
     (case Require p i g of
        Inl e \<Rightarrow> (p, Inl e)
      | Inr _ \<Rightarrow> (put_slot p i ((Slot p i)\<lparr>tag := t\<rparr>), Inr ()))"

definition Close :: "EntityPool \<Rightarrow> EntityPool" where
  "Close p = p\<lparr>closed := True\<rparr>"

definition ReleaseRefs :: "EntityPool \<Rightarrow> EntityPool" where
  "ReleaseRefs p = p\<lparr>slots := map (\<lambda>s. s\<lparr>handle := None, data := None\<rparr>) (slots p)\<rparr>"


section \<open>Histories of a pool\<close>

text \<open>Every operation that changes a pool, as the rest of the plugin calls them.\<close>

datatype pool_op =
    OpAdopt int
  | OpRelease int
  | OpMark int
  | OpPush objref int u32
  | OpData objref int u32
  | OpSetData int u32 objref
  | OpSetTag int u32 string
  | OpClose
  | OpReleaseRefs

fun pool_step :: "EntityPool \<Rightarrow> pool_op \<Rightarrow> EntityPool" where
  "pool_step p (OpAdopt i) = Adopt p i"
| "pool_step p (OpRelease i) = Release p i"
| "pool_step p (OpMark i) = MarkCreatedByUs p i"
| "pool_step p (OpPush a i g) = fst (Push a p i g)"
| "pool_step p (OpData a i g) = fst (Data a p i g)"
| "pool_step p (OpSetData i g d) = fst (SetData p i g d)"
| "pool_step p (OpSetTag i g t) = fst (SetTag p i g t)"
| "pool_step p OpClose = Close p"
| "pool_step p OpReleaseRefs = ReleaseRefs p"

definition pool_run :: "EntityPool \<Rightarrow> pool_op list \<Rightarrow> EntityPool" where
  "pool_run p ops = foldl pool_step p ops"

section \<open>Well-formed pools\<close>

definition slot_wf :: "EntityKind \<Rightarrow> int \<Rightarrow> SlotData \<Rightarrow> bool" where
  "slot_wf k i s \<longleftrightarrow>
     (alive s \<or> handle s = None \<and> data s = None \<and> tag s = [] \<and> \<not> created_by_us s) \<and>
     (case handle s of None \<Rightarrow> True
      | Some h \<Rightarrow> eh_kind h = k \<and> eh_id h = i \<and> eh_generation h = generation s)"

definition pool_wf :: "EntityPool \<Rightarrow> bool" where
  "pool_wf p \<longleftrightarrow>
     length (slots p) = nat (capacity (traits p) - first_id (traits p)) \<and>
     list_all (\<lambda>i. slot_wf (pool_kind p) i (Slot p i))
       [first_id (traits p) .. capacity (traits p) - 1]"

lemma pool_wf_length:
  "pool_wf p \<Longrightarrow> length (slots p) = nat (capacity (traits p) - first_id (traits p))"
  by (simp add: pool_wf_def)

lemma pool_wf_slot: "pool_wf p \<Longrightarrow> InRange p i \<Longrightarrow> slot_wf (pool_kind p) i (Slot p i)"
  by (simp add: pool_wf_def InRange_def list_all_iff)

lemma pool_wfI:
  assumes "length (slots p) = nat (capacity (traits p) - first_id (traits p))"
    and "\<And>i. InRange p i \<Longrightarrow> slot_wf (pool_kind p) i (Slot p i)"
  shows "pool_wf p"
  using assms by (simp add: pool_wf_def InRange_def list_all_iff)

lemma put_slot_frame [simp]:
  "pool_kind (put_slot p i s) = pool_kind p"
  "closed (put_slot p i s) = closed p"
  "InRange (put_slot p i s) j = InRange p j"
  "length (slots (put_slot p i s)) = length (slots p)"
  by (simp_all add: put_slot_def InRange_def)

lemma slot_index_bound: "pool_wf p \<Longrightarrow> InRange p i \<Longrightarrow> slot_index p i < length (slots p)"
  by (simp add: pool_wf_length slot_index_def InRange_def)

lemma slot_index_inj: "InRange p i \<Longrightarrow> InRange p j \<Longrightarrow> slot_index p i = slot_index p j \<Longrightarrow> i = j"
  by (auto simp: slot_index_def InRange_def eq_nat_nat_iff)

lemma Slot_put_slot:
  assumes "pool_wf p" and "InRange p i" and "InRange p j"
  shows "Slot (put_slot p i s) j = (if i = j then s else Slot p j)"
proof -
  have "slot_index (put_slot p i s) j = slot_index p j"
    by (simp add: slot_index_def)
  then show ?thesis
    using slot_index_bound [OF assms(1,2)] slot_index_inj [OF assms(2,3)]
    by (auto simp: Slot_def put_slot_def slot_index_def nth_list_update_if)
qed

lemma pool_wf_put_slot:
  assumes "pool_wf p" and "InRange p i" and "slot_wf (pool_kind p) i s"
  shows "pool_wf (put_slot p i s)"
proof (rule pool_wfI)
  show "length (slots (put_slot p i s)) =
      nat (capacity (traits (put_slot p i s)) - first_id (traits (put_slot p i s)))"
    using pool_wf_length [OF assms(1)] by simp
next
  fix j
  assume "InRange (put_slot p i s) j"
  then show "slot_wf (pool_kind (put_slot p i s)) j (Slot (put_slot p i s) j)"
    using assms by (auto simp: Slot_put_slot pool_wf_slot)
qed

lemma Alive_InRange: "Alive p i \<Longrightarrow> InRange p i"
  by (simp add: Alive_def)

lemma Valid_Alive: "Valid p i g \<Longrightarrow> Alive p i"
  by (simp add: Valid_def)

lemma Require_Inr [simp]: "Require p i g = Inr u \<longleftrightarrow> \<not> closed p \<and> Valid p i g"
  by (simp add: Require_def)

lemma pool_wf_new_pool: "pool_wf (new_pool k)"
proof (rule pool_wfI)
  show "length (slots (new_pool k)) =
      nat (capacity (traits (new_pool k)) - first_id (traits (new_pool k)))"
    by (simp add: new_pool_def)
next
  fix i
  assume "InRange (new_pool k) i"
  then have "Slot (new_pool k) i = empty_slot"
    by (simp add: Slot_def new_pool_def slot_index_def InRange_def)
  then show "slot_wf (pool_kind (new_pool k)) i (Slot (new_pool k) i)"
    by (simp add: slot_wf_def empty_slot_def)
qed

lemma new_pool_dead [simp]: "\<not> Alive (new_pool k) i"
  by (auto simp: Alive_def Slot_def new_pool_def slot_index_def InRange_def empty_slot_def)

text \<open>Each operation keeps a pool well-formed.\<close>

lemma pool_wf_Adopt: "pool_wf p \<Longrightarrow> pool_wf (Adopt p i)"
  using pool_wf_slot [of p i]
  by (auto simp: Adopt_def Let_def slot_wf_def intro!: pool_wf_put_slot)

lemma pool_wf_Release: "pool_wf p \<Longrightarrow> pool_wf (Release p i)"
  using Alive_InRange [of p i]
  by (auto simp: Release_def slot_wf_def intro!: pool_wf_put_slot)

lemma pool_wf_put_alive:
  assumes "pool_wf p" and "Alive p i" and "alive s"
    and "generation s = generation (Slot p i)" and "handle s = handle (Slot p i)"
  shows "pool_wf (put_slot p i s)"
proof -
  note i = Alive_InRange [OF assms(2)]
  have "slot_wf (pool_kind p) i s"
    using pool_wf_slot [OF assms(1) i] assms(3,4,5)
    by (auto simp: slot_wf_def split: option.splits)
  with assms(1) i show ?thesis by (rule pool_wf_put_slot)
qed

lemma pool_wf_MarkCreatedByUs: "pool_wf p \<Longrightarrow> pool_wf (MarkCreatedByUs p i)"
  by (auto simp: MarkCreatedByUs_def Alive_def intro!: pool_wf_put_alive)

lemma pool_wf_Push: "pool_wf p \<Longrightarrow> pool_wf (fst (Push a p i g))"
  using pool_wf_slot [of p i]
  by (auto simp: Push_def Let_def Valid_def Alive_def slot_wf_def
      intro!: pool_wf_put_slot split: option.splits)

lemma pool_wf_Data: "pool_wf p \<Longrightarrow> pool_wf (fst (Data a p i g))"
  by (auto simp: Data_def Let_def Valid_def Alive_def
      intro!: pool_wf_put_alive split: option.splits sum.splits)

lemma pool_wf_SetData: "pool_wf p \<Longrightarrow> pool_wf (fst (SetData p i g d))"
  by (auto simp: SetData_def Valid_def Alive_def intro!: pool_wf_put_alive split: sum.splits)

lemma pool_wf_SetTag: "pool_wf p \<Longrightarrow> pool_wf (fst (SetTag p i g t))"
  by (auto simp: SetTag_def Valid_def Alive_def intro!: pool_wf_put_alive split: sum.splits)

lemma Close_frame [simp]:
  "pool_kind (Close p) = pool_kind p" "slots (Close p) = slots p"
  "InRange (Close p) i = InRange p i" "Slot (Close p) i = Slot p i"
  by (simp_all add: Close_def InRange_def Slot_def slot_index_def)

lemma pool_wf_Close: "pool_wf p \<Longrightarrow> pool_wf (Close p)"
  by (simp add: pool_wf_def)

lemma ReleaseRefs_frame [simp]:
  "pool_kind (ReleaseRefs p) = pool_kind p" "closed (ReleaseRefs p) = closed p"
  "InRange (ReleaseRefs p) i = InRange p i"
  by (simp_all add: ReleaseRefs_def InRange_def)

lemma Slot_ReleaseRefs:
  "pool_wf p \<Longrightarrow> InRange p i \<Longrightarrow> Slot (ReleaseRefs p) i = (Slot p i)\<lparr>handle := None, data := None\<rparr>"
  using slot_index_bound [of p i] by (simp add: Slot_def ReleaseRefs_def slot_index_def)

lemma pool_wf_ReleaseRefs:
  assumes "pool_wf p"
  shows "pool_wf (ReleaseRefs p)"
proof (rule pool_wfI)
  show "length (slots (ReleaseRefs p)) =
      nat (capacity (traits (ReleaseRefs p)) - first_id (traits (ReleaseRefs p)))"
    using pool_wf_length [OF assms] by (simp add: ReleaseRefs_def)
next
  fix i
  assume "InRange (ReleaseRefs p) i"
  then show "slot_wf (pool_kind (ReleaseRefs p)) i (Slot (ReleaseRefs p) i)"
    using pool_wf_slot [OF assms, of i] assms by (auto simp: Slot_ReleaseRefs slot_wf_def)
qed

lemmas pool_wf_ops =
  pool_wf_Adopt pool_wf_Release pool_wf_MarkCreatedByUs pool_wf_Push pool_wf_Data
  pool_wf_SetData pool_wf_SetTag pool_wf_Close pool_wf_ReleaseRefs

lemma pool_wf_step: "pool_wf p \<Longrightarrow> pool_wf (pool_step p c)"
  by (cases c) (simp_all add: pool_wf_ops)


section \<open>Lifetimes\<close>

text \<open>
  What the users of a handle rely on, whatever the pool does inside: an operation advances
  the generation of an id by one exactly when it adopts a dead slot, and only an adoption
  revives one. The 32-bit counter then tells two lifetimes of the same id apart for fewer
  than \<open>2 ^ 32\<close> adoptions.
\<close>

locale lifetimes = machine step wf
  for step :: "'p \<Rightarrow> 'c \<Rightarrow> 'p" and wf :: "'p \<Rightarrow> bool" +
  fixes live :: "'p \<Rightarrow> int \<Rightarrow> bool"
    and gen :: "'p \<Rightarrow> int \<Rightarrow> u32"
    and adopts :: "'c \<Rightarrow> int \<Rightarrow> bool"
    and tracked :: "'p \<Rightarrow> int \<Rightarrow> bool"
  assumes tracked_step: "tracked (step p c) i = tracked p i"
    and gen_step: "wf p \<Longrightarrow> tracked p i \<Longrightarrow>
      gen (step p c) i = gen p i + (if adopts c i \<and> \<not> live p i then 1 else 0)"
    and live_step: "wf p \<Longrightarrow> tracked p i \<Longrightarrow> live (step p c) i \<Longrightarrow> live p i \<or> adopts c i"
begin

lemma gen_run:
  assumes "wf p" and "tracked p i"
  shows "\<exists>k \<le> length (filter (\<lambda>c. adopts c i) cs).
    gen (foldl step p cs) i = gen p i + of_nat k \<and>
    (live (foldl step p cs) i \<longrightarrow> live p i \<or> 0 < k)"
  using assms
proof (induction cs arbitrary: p)
  case Nil
  then show ?case by simp
next
  case (Cons c cs)
  let ?q = "step p c"
  from Cons.IH [of ?q] Cons.prems obtain k
    where k: "k \<le> length (filter (\<lambda>c. adopts c i) cs)"
      and g: "gen (foldl step ?q cs) i = gen ?q i + of_nat k"
      and l: "live (foldl step ?q cs) i \<longrightarrow> live ?q i \<or> 0 < k"
    by (auto simp: wf_step tracked_step)
  note step = gen_step [OF Cons.prems, of c] live_step [OF Cons.prems, of c]
  show ?case
  proof (cases "adopts c i \<and> \<not> live p i")
    case True
    with k g l step show ?thesis
      by (intro exI [of _ "Suc k"]) (simp add: add.assoc)
  next
    case False
    with k g l step show ?thesis
      by (intro exI [of _ k]) auto
  qed
qed

lemma stale:
  assumes "wf p" and "tracked p i" and "\<not> live p i"
    and "length (filter (\<lambda>c. adopts c i) cs) < 2 ^ 32"
    and "live (foldl step p cs) i"
  shows "gen (foldl step p cs) i \<noteq> gen p i"
proof -
  from gen_run [OF assms(1,2), of cs] obtain k
    where "k \<le> length (filter (\<lambda>c. adopts c i) cs)" and "0 < k"
      and g: "gen (foldl step p cs) i = gen p i + of_nat k"
    using assms(3,5) by blast
  with assms(4) have "(of_nat k :: u32) \<noteq> 0"
    by (intro of_nat_word_ne_zero) simp_all
  with g show ?thesis by simp
qed

end

fun is_adopt :: "pool_op \<Rightarrow> int \<Rightarrow> bool" where
  "is_adopt (OpAdopt j) i = (j = i)"
| "is_adopt _ i = False"

definition gen_of :: "EntityPool \<Rightarrow> int \<Rightarrow> u32" where
  "gen_of p i = generation (Slot p i)"

lemma pool_step_frame [simp]: "pool_kind (pool_step p c) = pool_kind p"
  by (cases c) (auto simp: Adopt_def Release_def MarkCreatedByUs_def Push_def Data_def
      SetData_def SetTag_def Let_def split: option.splits sum.splits)

lemma InRange_step [simp]: "InRange (pool_step p c) i = InRange p i"
  by (simp add: InRange_def)

lemma gen_of_step:
  assumes "pool_wf p" and "InRange p i"
  shows "gen_of (pool_step p c) i = gen_of p i + (if is_adopt c i \<and> \<not> Alive p i then 1 else 0)"
  using assms
  by (cases c) (auto simp: gen_of_def Adopt_def Release_def MarkCreatedByUs_def Push_def Data_def
      SetData_def SetTag_def Let_def Alive_def Valid_def Slot_put_slot Slot_ReleaseRefs
      split: option.splits sum.splits)

lemma Alive_step:
  assumes "pool_wf p" and "InRange p i" and "Alive (pool_step p c) i"
  shows "Alive p i \<or> is_adopt c i"
  using assms
  by (cases c) (auto simp: Adopt_def Release_def MarkCreatedByUs_def Push_def Data_def
      SetData_def SetTag_def Let_def Alive_def Valid_def Slot_put_slot Slot_ReleaseRefs
      split: option.splits sum.splits if_splits)

interpretation pool: lifetimes pool_step pool_wf Alive gen_of is_adopt InRange
  by unfold_locales (simp_all add: pool_wf_step gen_of_step Alive_step)

lemma pool_wf_run: "pool_wf p \<Longrightarrow> pool_wf (pool_run p cs)"
  unfolding pool_run_def by (rule pool.wf_run)


lemma Adopt_frame [simp]:
  "pool_kind (Adopt p i) = pool_kind p" "closed (Adopt p i) = closed p"
  "InRange (Adopt p i) j = InRange p j"
  by (simp_all add: Adopt_def Let_def)

lemma Release_frame [simp]:
  "pool_kind (Release p i) = pool_kind p" "closed (Release p i) = closed p"
  "InRange (Release p i) j = InRange p j"
  by (simp_all add: Release_def)

lemma kind_frame [simp]:
  "pool_kind (new_pool k) = k" "pool_kind (MarkCreatedByUs p i) = pool_kind p"
  by (simp_all add: new_pool_def MarkCreatedByUs_def)

lemma Alive_Adopt: "pool_wf p \<Longrightarrow> Alive (Adopt p i) j \<longleftrightarrow> Alive p j \<or> (j = i \<and> InRange p i)"
  by (auto simp: Alive_def Adopt_def Let_def Slot_put_slot split: if_splits)

lemma Alive_Release: "pool_wf p \<Longrightarrow> Alive (Release p i) j \<longleftrightarrow> Alive p j \<and> j \<noteq> i"
  by (auto simp: Alive_def Release_def Slot_put_slot split: if_splits)

section \<open>Properties\<close>

lemma pool_run_Cons [simp]: "pool_run p (c # cs) = pool_run (pool_step p c) cs"
  by (simp add: pool_run_def)

lemma pool_run_Nil [simp]: "pool_run p [] = p"
  by (simp add: pool_run_def)

lemma InRange_run [simp]: "InRange (pool_run p cs) i = InRange p i"
  by (induction cs arbitrary: p) simp_all

lemma Release_dead: "pool_wf p \<Longrightarrow> \<not> Alive (Release p i) i"
  by (simp add: Alive_Release)

lemma gen_of_Release: "pool_wf p \<Longrightarrow> InRange p i \<Longrightarrow> gen_of (Release p i) i = gen_of p i"
  using gen_of_step [of p i "OpRelease i"] by simp

lemma Valid_gen_of: "Valid p i g \<longleftrightarrow> Alive p i \<and> gen_of p i = g"
  by (simp add: Valid_def gen_of_def)

text \<open>
  C23. Every pool reachable from a new one by any sequence of operations is well-formed: it
  has one slot per id of its kind, a slot that is not alive holds no Lua reference, no tag
  and no creation mark, and a cached handle names the pool's kind, the slot's id and the
  slot's current generation.
\<close>

theorem pool_invariant: "pool_wf (pool_run (new_pool k) cs)"
  by (rule pool_wf_run [OF pool_wf_new_pool])

text \<open>
  C22. A handle to a released entity never becomes valid again, whatever the plugin does to
  the pool afterwards, as long as the id is adopted fewer than \<open>2 ^ 32\<close> times: Valid is
  false, Require raises and Push gives nil, also when a new entity reuses the id.
\<close>

theorem stale_handle_stays_invalid:
  assumes "pool_wf p" and "Valid p i g"
    and "length (filter (\<lambda>c. is_adopt c i) cs) < 2 ^ 32"
  shows "\<not> Valid (pool_run (Release p i) cs) i g \<and>
    (\<exists>e. Require (pool_run (Release p i) cs) i g = Inl e) \<and>
    snd (Push a (pool_run (Release p i) cs) i g) = None"
proof -
  let ?p = "Release p i"
  have r: "InRange p i" "InRange ?p i"
    using assms(2) by (simp_all add: Valid_def Alive_def Release_def)
  have "\<not> Valid (pool_run ?p cs) i g"
  proof
    assume v: "Valid (pool_run ?p cs) i g"
    then have "gen_of (foldl pool_step ?p cs) i \<noteq> gen_of ?p i"
      using pool.stale [OF pool_wf_Release [OF assms(1)] r(2) Release_dead [OF assms(1)] assms(3)]
      by (simp add: Valid_def pool_run_def)
    with v assms(1,2) r show False
      by (simp add: Valid_gen_of gen_of_Release pool_run_def)
  qed
  then show ?thesis
    by (simp add: Require_def Push_def)
qed

definition demo_pool :: EntityPool where
  "demo_pool = Adopt (new_pool Blip) 7"

theorem stale_handle_stays_invalid_witness:
  "\<not> Valid (pool_run (Release demo_pool 7) [OpAdopt 7]) 7 1 \<and>
   (\<exists>e. Require (pool_run (Release demo_pool 7) [OpAdopt 7]) 7 1 = Inl e) \<and>
   snd (Push 0 (pool_run (Release demo_pool 7) [OpAdopt 7]) 7 1) = None"
proof (rule stale_handle_stays_invalid)
  show "pool_wf demo_pool"
    unfolding demo_pool_def by (rule pool_wf_Adopt [OF pool_wf_new_pool])
  show "Valid demo_pool 7 1" by code_simp
  show "length (filter (\<lambda>c. is_adopt c 7) [OpAdopt 7]) < 2 ^ 32" by simp
qed

lemma cycle_step:
  assumes "pool_wf q" and "Alive q i"
  shows "pool_wf (Adopt (Release q i) i) \<and> Alive (Adopt (Release q i) i) i \<and>
    gen_of (Adopt (Release q i) i) i = gen_of q i + 1"
proof -
  note i = Alive_InRange [OF assms(2)]
  note r = pool_wf_Release [OF assms(1), of i] Release_dead [OF assms(1), of i]
  have "gen_of (Adopt (Release q i) i) i = gen_of (Release q i) i + 1"
    using gen_of_step [OF r(1), of i "OpAdopt i"] r(2) i by simp
  with r i assms(1) show ?thesis
    by (simp add: pool_wf_Adopt Alive_Adopt gen_of_Release)
qed

lemma cycle_gen:
  assumes "pool_wf p" and "Alive p i"
  shows "pool_wf (((\<lambda>q. Adopt (Release q i) i) ^^ n) p) \<and>
    Alive (((\<lambda>q. Adopt (Release q i) i) ^^ n) p) i \<and>
    gen_of (((\<lambda>q. Adopt (Release q i) i) ^^ n) p) i = gen_of p i + of_nat n"
  using assms by (induction n) (simp_all add: cycle_step algebra_simps)

text \<open>
  C36. The bound is exact: the 32-bit generation wraps, so after \<open>2 ^ 32\<close> further lifetimes
  of the same id a handle to the first one is valid again.
\<close>

theorem generation_wraps:
  assumes "pool_wf p" and "Valid p i g"
  shows "Valid (((\<lambda>q. Adopt (Release q i) i) ^^ (2 ^ 32)) p) i g"
proof -
  have z: "(of_nat (2 ^ 32) :: u32) = 0"
    by simp
  show ?thesis
    using cycle_gen [OF assms(1) Valid_Alive [OF assms(2)], of "2 ^ 32"] assms(2)
    by (simp only: Valid_gen_of z add_0_right)
qed

theorem generation_wraps_witness:
  "Valid (((\<lambda>q. Adopt (Release q 7) 7) ^^ (2 ^ 32)) demo_pool) 7 1"
proof (rule generation_wraps)
  show "pool_wf demo_pool"
    unfolding demo_pool_def by (rule pool_wf_Adopt [OF pool_wf_new_pool])
  show "Valid demo_pool 7 1" by code_simp
qed

text \<open>Operations that neither end the lifetime of \<open>i\<close> nor drop the references of the pool.\<close>

fun keeps_handle :: "int \<Rightarrow> pool_op \<Rightarrow> bool" where
  "keeps_handle i (OpRelease j) = (j \<noteq> i)"
| "keeps_handle i OpClose = False"
| "keeps_handle i OpReleaseRefs = False"
| "keeps_handle i _ = True"

lemma handle_kept_step:
  assumes "pool_wf p" and "Valid p i g" and "\<not> closed p" and "handle (Slot p i) = Some h"
    and "keeps_handle i c"
  shows "Valid (pool_step p c) i g \<and> \<not> closed (pool_step p c) \<and>
    handle (Slot (pool_step p c) i) = Some h"
  using assms
  by (cases c) (auto simp: Adopt_def Release_def MarkCreatedByUs_def Push_def Data_def
      SetData_def SetTag_def Let_def Alive_def Valid_def Slot_put_slot
      split: option.splits sum.splits)

lemma handle_kept_run:
  assumes "pool_wf p" and "Valid p i g" and "\<not> closed p" and "handle (Slot p i) = Some h"
    and "list_all (keeps_handle i) cs"
  shows "Valid (pool_run p cs) i g \<and> \<not> closed (pool_run p cs) \<and>
    handle (Slot (pool_run p cs) i) = Some h"
  using assms
  by (induction cs arbitrary: p) (simp_all add: handle_kept_step pool_wf_step)

lemma Push_caches:
  assumes "pool_wf p" and "snd (Push a p i g) = Some h"
  shows "Valid (fst (Push a p i g)) i g \<and> \<not> closed (fst (Push a p i g)) \<and>
    handle (Slot (fst (Push a p i g)) i) = Some h"
  using assms
  by (auto simp: Push_def Let_def Valid_def Alive_def Slot_put_slot
      split: if_splits option.splits)

text \<open>
  Within one lifetime an entity is always the same Lua value: once Push gave a handle,
  every later Push of the same entity gives the very same object, whatever else happens to
  the pool in between (adoptions, other releases, data and tags), until the entity is
  released or the runtime closes. The handle carries the entity's own kind, id and
  generation.
\<close>

theorem same_entity_same_value:
  assumes "pool_wf p" and "snd (Push a p i g) = Some h" and "list_all (keeps_handle i) cs"
  shows "snd (Push b (pool_run (fst (Push a p i g)) cs) i g) = Some h \<and>
    eh_kind h = pool_kind p \<and> eh_id h = i \<and> eh_generation h = g"
proof -
  let ?q = "fst (Push a p i g)"
  note q = Push_caches [OF assms(1,2)] and wf = pool_wf_Push [OF assms(1), of a i g]
  have h: "eh_kind h = pool_kind ?q \<and> eh_id h = i \<and> eh_generation h = g"
    using pool_wf_slot [OF wf, of i] q by (auto simp: slot_wf_def Valid_def Alive_def)
  have "pool_kind ?q = pool_kind p"
    using pool_step_frame [of p "OpPush a i g"] by simp
  with h handle_kept_run [of ?q i g h cs] q wf assms(3) show ?thesis
    by (simp add: Push_def)
qed

theorem same_entity_same_value_witness:
  "snd (Push 9 (pool_run (fst (Push 5 demo_pool 7 1)) [OpAdopt 7, OpRelease 8, OpMark 7]) 7 1)
     = Some \<lparr>eh_obj = 5, eh_kind = Blip, eh_id = 7, eh_generation = 1\<rparr>"
proof -
  have "pool_wf demo_pool"
    unfolding demo_pool_def by (rule pool_wf_Adopt [OF pool_wf_new_pool])
  moreover have "snd (Push 5 demo_pool 7 1) =
      Some \<lparr>eh_obj = 5, eh_kind = Blip, eh_id = 7, eh_generation = 1\<rparr>"
    by code_simp
  moreover have "list_all (keeps_handle 7) [OpAdopt 7, OpRelease 8, OpMark 7]"
    by simp
  ultimately show ?thesis
    using same_entity_same_value [of demo_pool 5 7 1 _ "[OpAdopt 7, OpRelease 8, OpMark 7]" 9]
    by blast
qed

text \<open>
  Adopt and Release are idempotent, so a pool event that the server raises inside a
  Create or Delete call and the binding that repeats the update agree; adopting an id of
  the pool always gives a live reference, and adopting one outside it changes nothing and
  gives the empty reference.
\<close>

theorem adopt_release_idempotent:
  assumes "pool_wf p"
  shows "Adopt (Adopt p i) i = Adopt p i \<and> Release (Release p i) i = Release p i \<and>
    (if InRange p i
     then Valid (fst (Seen p i)) i (er_generation (snd (Seen p i))) \<and> er_id (snd (Seen p i)) = i
     else fst (Seen p i) = p \<and> snd (Seen p i) = no_ref)"
proof -
  have a: "Alive (Adopt p i) i" if "InRange p i"
    using that assms by (auto simp: Alive_def Adopt_def Let_def Slot_put_slot)
  have "Adopt (Adopt p i) i = Adopt p i"
  proof (cases "InRange p i")
    case True
    with a show ?thesis by (simp add: Adopt_def [of "Adopt p i"] Alive_def Let_def)
  next
    case False
    then show ?thesis by (simp add: Adopt_def)
  qed
  moreover have "Release (Release p i) i = Release p i"
    using Release_dead [OF assms] by (simp add: Release_def [of "Release p i"])
  moreover have "if InRange p i
      then Valid (fst (Seen p i)) i (er_generation (snd (Seen p i))) \<and> er_id (snd (Seen p i)) = i
      else fst (Seen p i) = p \<and> snd (Seen p i) = no_ref"
    using a by (auto simp: Seen_def Let_def Ref_def Valid_def Alive_def Adopt_def)
  ultimately show ?thesis by blast
qed

theorem adopt_release_idempotent_witness:
  "Adopt (Adopt (new_pool Vehicle) 4) 4 = Adopt (new_pool Vehicle) 4 \<and>
   Release (Release (new_pool Vehicle) 4) 4 = Release (new_pool Vehicle) 4"
  using adopt_release_idempotent [OF pool_wf_new_pool, of Vehicle 4] by blast

end
