(* ===== verification/Api_Guard.thy ===== *)
theory Api_Guard
  imports Prelude
begin

text \<open>
  The structSize guard of \<^verbatim>\<open>src/src/plugin/api_guard.hpp\<close>, and the server functions the
  modelled code calls. The server is not part of the repository: its functions are the
  fields of the record \<open>PluginFuncs\<close>, arguments of every definition that uses them, with
  \<open>None\<close> for a null pointer. Offsets are those of \<^verbatim>\<open>third_party/vcmp/vcmp.h\<close>: structSize
  first, then one 8-byte pointer per function.
\<close>

datatype vcmpError =
    vcmpErrorNone | vcmpErrorNoSuchEntity | vcmpErrorBufferTooSmall | vcmpErrorTooLargeInput
  | vcmpErrorArgumentOutOfBounds | vcmpErrorNullArgument | vcmpErrorPoolExhausted
  | vcmpErrorInvalidName | vcmpErrorRequestDenied
  | vcmpErrorOther int

datatype vcmpEntityPool =
    vcmpEntityPoolVehicle | vcmpEntityPoolObject | vcmpEntityPoolPickup | vcmpEntityPoolRadio
  | vcmpEntityPoolPlayer | vcmpEntityReserved1 | vcmpEntityPoolBlip | vcmpEntityPoolCheckPoint

text \<open>
  The comparison of the source is made in \<^verbatim>\<open>std::size_t\<close> (64 bits): the 32-bit struct size
  is zero-extended, and \<open>struct_size - offset\<close> is computed only when it does not wrap.
\<close>

definition FieldFits :: "u32 \<Rightarrow> u64 \<Rightarrow> u64 \<Rightarrow> bool" where
  "FieldFits struct_size offset field_size \<longleftrightarrow>
     offset \<le> ucast struct_size \<and> field_size \<le> ucast struct_size - offset"

text \<open>One key bind as GetKeyBindData reports it: the error, on-release flag, three keys.\<close>

type_synonym bind_data = "vcmpError \<times> u8 \<times> int \<times> int \<times> int"

record PluginFuncs =
  structSize :: u32
  fn_GetLastError :: "vcmpError option"
  fn_SendClientScriptData :: "(int \<Rightarrow> u8 list \<Rightarrow> vcmpError) option"
  fn_GetKeyBindUnusedSlot :: "int option"
  fn_RegisterKeyBind :: "(int \<Rightarrow> u8 \<Rightarrow> int \<Rightarrow> int \<Rightarrow> int \<Rightarrow> vcmpError) option"
  fn_GetKeyBindData :: "(int \<Rightarrow> bind_data) option"
  fn_RemoveKeyBind :: "(int \<Rightarrow> vcmpError) option"
  fn_DestroyCoordBlip :: "(int \<Rightarrow> vcmpError) option"
  fn_IsPlayerConnected :: "(int \<Rightarrow> bool) option"
  fn_CheckEntityExists :: "(vcmpEntityPool \<Rightarrow> int \<Rightarrow> bool) option"
  fn_DeleteVehicle :: "(int \<Rightarrow> vcmpError) option"
  fn_DeletePickup :: "(int \<Rightarrow> vcmpError) option"
  fn_DeleteCheckPoint :: "(int \<Rightarrow> vcmpError) option"
  fn_DeleteObject :: "(int \<Rightarrow> vcmpError) option"
  fn_provided :: "string \<Rightarrow> bool"   \<comment> \<open>the functions that the class bindings call: not null\<close>

text \<open>A ServerApi is a pointer to the function table, possibly null.\<close>

type_synonym ServerApi = "PluginFuncs option"

text \<open>The macro VCMP\_LUA\_FIND for the function pointer at \<open>offset\<close>.\<close>

definition find_fn :: "ServerApi \<Rightarrow> u64 \<Rightarrow> (PluginFuncs \<Rightarrow> 'f option) \<Rightarrow> 'f option" where
  "find_fn api offset field =
     (case api of None \<Rightarrow> None
      | Some funcs \<Rightarrow> if FieldFits (structSize funcs) offset 8 then field funcs else None)"

text \<open>The macro VCMP\_LUA\_API: ServerApi::Require on what VCMP\_LUA\_FIND gives.\<close>

definition require_fn :: "ServerApi \<Rightarrow> u64 \<Rightarrow> (PluginFuncs \<Rightarrow> 'f option) \<Rightarrow> string \<Rightarrow> 'f res" where
  "require_fn api offset field name =
     (case find_fn api offset field of
        None \<Rightarrow> Inl (Runtime_error (name @ '' is not supported by this server version''))
      | Some f \<Rightarrow> Inr f)"

abbreviation find_GetLastError :: "ServerApi \<Rightarrow> vcmpError option" where
  "find_GetLastError api \<equiv> find_fn api 88 fn_GetLastError"
abbreviation require_SendClientScriptData :: "ServerApi \<Rightarrow> (int \<Rightarrow> u8 list \<Rightarrow> vcmpError) res" where
  "require_SendClientScriptData api \<equiv>
     require_fn api 96 fn_SendClientScriptData ''SendClientScriptData''"
abbreviation find_GetKeyBindData :: "ServerApi \<Rightarrow> (int \<Rightarrow> bind_data) option" where
  "find_GetKeyBindData api \<equiv> find_fn api 496 fn_GetKeyBindData"
abbreviation require_GetKeyBindUnusedSlot :: "ServerApi \<Rightarrow> int res" where
  "require_GetKeyBindUnusedSlot api \<equiv> require_fn api 488 fn_GetKeyBindUnusedSlot ''GetKeyBindUnusedSlot''"
abbreviation require_GetKeyBindData :: "ServerApi \<Rightarrow> (int \<Rightarrow> bind_data) res" where
  "require_GetKeyBindData api \<equiv> require_fn api 496 fn_GetKeyBindData ''GetKeyBindData''"
abbreviation require_RegisterKeyBind :: "ServerApi \<Rightarrow> (int \<Rightarrow> u8 \<Rightarrow> int \<Rightarrow> int \<Rightarrow> int \<Rightarrow> vcmpError) res" where
  "require_RegisterKeyBind api \<equiv> require_fn api 504 fn_RegisterKeyBind ''RegisterKeyBind''"
abbreviation require_RemoveKeyBind :: "ServerApi \<Rightarrow> (int \<Rightarrow> vcmpError) res" where
  "require_RemoveKeyBind api \<equiv> require_fn api 512 fn_RemoveKeyBind ''RemoveKeyBind''"
abbreviation find_RemoveKeyBind :: "ServerApi \<Rightarrow> (int \<Rightarrow> vcmpError) option" where
  "find_RemoveKeyBind api \<equiv> find_fn api 512 fn_RemoveKeyBind"
abbreviation find_DestroyCoordBlip :: "ServerApi \<Rightarrow> (int \<Rightarrow> vcmpError) option" where
  "find_DestroyCoordBlip api \<equiv> find_fn api 536 fn_DestroyCoordBlip"
abbreviation find_IsPlayerConnected :: "ServerApi \<Rightarrow> (int \<Rightarrow> bool) option" where
  "find_IsPlayerConnected api \<equiv> find_fn api 688 fn_IsPlayerConnected"
abbreviation find_CheckEntityExists :: "ServerApi \<Rightarrow> (vcmpEntityPool \<Rightarrow> int \<Rightarrow> bool) option" where
  "find_CheckEntityExists api \<equiv> find_fn api 1336 fn_CheckEntityExists"
abbreviation find_DeleteVehicle :: "ServerApi \<Rightarrow> (int \<Rightarrow> vcmpError) option" where
  "find_DeleteVehicle api \<equiv> find_fn api 1352 fn_DeleteVehicle"
abbreviation find_DeletePickup :: "ServerApi \<Rightarrow> (int \<Rightarrow> vcmpError) option" where
  "find_DeletePickup api \<equiv> find_fn api 1816 fn_DeletePickup"
abbreviation find_DeleteCheckPoint :: "ServerApi \<Rightarrow> (int \<Rightarrow> vcmpError) option" where
  "find_DeleteCheckPoint api \<equiv> find_fn api 1944 fn_DeleteCheckPoint"
abbreviation find_DeleteObject :: "ServerApi \<Rightarrow> (int \<Rightarrow> vcmpError) option" where
  "find_DeleteObject api \<equiv> find_fn api 2048 fn_DeleteObject"

lemma unat_ucast_u32_u64: "unat (ucast (s :: u32) :: u64) = unat s"
  using unsigned_less [of s, where 'a = nat]
  by (simp add: unsigned_ucast_eq take_bit_nat_eq_self)

lemma FieldFits_iff:
  "FieldFits struct_size offset field_size \<longleftrightarrow> unat offset + unat field_size \<le> unat struct_size"
proof (cases "offset \<le> ucast struct_size")
  case True
  then have "unat ((ucast struct_size :: u64) - offset) = unat struct_size - unat offset"
    by (simp add: unat_sub unat_ucast_u32_u64)
  moreover from True have "unat offset \<le> unat struct_size"
    by (simp add: word_le_nat_alt unat_ucast_u32_u64)
  ultimately show ?thesis
    using True by (auto simp: FieldFits_def word_le_nat_alt)
next
  case False
  then show ?thesis
    by (auto simp: FieldFits_def word_le_nat_alt unat_ucast_u32_u64)
qed

text \<open>A field of an older, shorter struct is never read: the function counts as missing.\<close>

lemma find_fn_outside:
  "unat (structSize funcs) < unat offset + 8 \<Longrightarrow> find_fn (Some funcs) offset field = None"
  by (simp add: find_fn_def FieldFits_iff)

text \<open>
  FieldFits accepts a field exactly when its bytes lie inside the struct the server
  passed, computed without wrap-around: no offset or size, however large, makes the 64-bit
  comparison accept a field outside the first struct\_size bytes.
\<close>

theorem FieldFits_exact:
  "FieldFits struct_size offset field_size \<longleftrightarrow> unat offset + unat field_size \<le> unat struct_size"
  by (rule FieldFits_iff)

end
