(* ===== verification/Entity_Pools.thy ===== *)
theory Entity_Pools
  imports Entity_Pool Api_Guard
begin

text \<open>
  The class EntityPools of \<^verbatim>\<open>src/src/core/entity_pool.cpp\<close>: one pool per kind, the
  enumeration of what exists when scripts load, and the deletion of what a runtime created
  when it is reloaded.
\<close>

type_synonym EntityPools = "EntityKind \<Rightarrow> EntityPool"

definition new_pools :: EntityPools where
  "new_pools = new_pool"

definition KeyBindExists :: "ServerApi \<Rightarrow> int \<Rightarrow> bool" where
  "KeyBindExists api i =
     (case find_GetKeyBindData api of
        None \<Rightarrow> False
      | Some bind_data \<Rightarrow>
          (case bind_data i of (err, on_release, k0, k1, k2) \<Rightarrow>
             err = vcmpErrorNone \<and> (k0 \<noteq> 0 \<or> k1 \<noteq> 0 \<or> k2 \<noteq> 0)))"

fun FromServerPool :: "vcmpEntityPool \<Rightarrow> EntityKind option" where
  "FromServerPool vcmpEntityPoolVehicle = Some Vehicle"
| "FromServerPool vcmpEntityPoolObject = Some Object"
| "FromServerPool vcmpEntityPoolPickup = Some Pickup"
| "FromServerPool vcmpEntityPoolCheckPoint = Some Checkpoint"
| "FromServerPool vcmpEntityPoolBlip = Some Blip"
| "FromServerPool _ = None"

definition kServerPools :: "(EntityKind \<times> vcmpEntityPool) list" where
  "kServerPools =
     [(Vehicle, vcmpEntityPoolVehicle),
      (Object, vcmpEntityPoolObject),
      (Pickup, vcmpEntityPoolPickup),
      (Checkpoint, vcmpEntityPoolCheckPoint),
      (Blip, vcmpEntityPoolBlip)]"

text \<open>The loops of Enumerate: adopt every id of \<open>ids\<close> that \<open>exists\<close> reports.\<close>

fun adopt_where :: "(int \<Rightarrow> bool) \<Rightarrow> int list \<Rightarrow> EntityPool \<Rightarrow> EntityPool" where
  "adopt_where exists [] p = p"
| "adopt_where exists (i # ids) p =
     adopt_where exists ids (if exists i then Adopt p i else p)"

definition Enumerate :: "ServerApi \<Rightarrow> EntityPools \<Rightarrow> EntityPools" where
  "Enumerate api ps0 =
     (let ps1 =
        (case find_IsPlayerConnected api of
           None \<Rightarrow> ps0
         | Some is_connected \<Rightarrow>
             ps0(Player := adopt_where is_connected
                   [0 .. capacity (Traits Player) - 1] (ps0 Player)));
      ps2 =
        (case find_GetKeyBindData api of
           None \<Rightarrow> ps1
         | Some _ \<Rightarrow>
             ps1(Bind := adopt_where (KeyBindExists api)
                   [0 .. capacity (Traits Bind) - 1] (ps1 Bind)))
      in case find_CheckEntityExists api of
           None \<Rightarrow> ps2
         | Some exists \<Rightarrow>
             foldl (\<lambda>ps (k, server_pool).
                 ps(k := adopt_where (exists server_pool)
                       [first_id (Traits k) .. capacity (Traits k) - 1] (ps k)))
               ps2 kServerPools)"

text \<open>
  What DeleteCreated asks of the server, in order: the call \<open>delete_one(kind, id)\<close> makes,
  if this server version has the function.
\<close>

fun delete_one :: "ServerApi \<Rightarrow> EntityKind \<Rightarrow> int \<Rightarrow> (EntityKind \<times> int) list" where
  "delete_one api Vehicle i = (if find_DeleteVehicle api = None then [] else [(Vehicle, i)])"
| "delete_one api Object i = (if find_DeleteObject api = None then [] else [(Object, i)])"
| "delete_one api Pickup i = (if find_DeletePickup api = None then [] else [(Pickup, i)])"
| "delete_one api Checkpoint i = (if find_DeleteCheckPoint api = None then [] else [(Checkpoint, i)])"
| "delete_one api Blip i = (if find_DestroyCoordBlip api = None then [] else [(Blip, i)])"
| "delete_one api Player i = []"
| "delete_one api Bind i = []"

text \<open>
  The loop body of DeleteCreated, once per created entity. The plugin has no runtime while
  the old one shuts down, so the server's pool event for the deletion reaches no pool; the
  pool is updated by Release alone.
\<close>

fun delete_ids :: "(int \<Rightarrow> (EntityKind \<times> int) list) \<Rightarrow> int list \<Rightarrow> EntityPool \<Rightarrow>
    EntityPool \<times> (EntityKind \<times> int) list" where
  "delete_ids del [] p = (p, [])"
| "delete_ids del (i # ids) p =
     (case delete_ids del ids (Release p i) of (p', calls) \<Rightarrow> (p', del i @ calls))"

definition remove_bind :: "ServerApi \<Rightarrow> int \<Rightarrow> (EntityKind \<times> int) list" where
  "remove_bind api i = (if find_RemoveKeyBind api = None then [] else [(Bind, i)])"

definition delete_kind :: "(int \<Rightarrow> (EntityKind \<times> int) list) \<Rightarrow> EntityKind \<Rightarrow>
    EntityPools \<times> (EntityKind \<times> int) list \<Rightarrow> EntityPools \<times> (EntityKind \<times> int) list" where
  "delete_kind del k acc =
     (case acc of (ps, calls) \<Rightarrow>
        (case delete_ids del (CreatedByUs (ps k)) (ps k) of
           (p', new_calls) \<Rightarrow> (ps(k := p'), calls @ new_calls)))"

definition DeleteCreated :: "ServerApi \<Rightarrow> EntityPools \<Rightarrow> EntityPools \<times> (EntityKind \<times> int) list" where
  "DeleteCreated api ps =
     delete_kind (remove_bind api) Bind
       (foldl (\<lambda>acc (k, server_pool). delete_kind (delete_one api k) k acc) (ps, []) kServerPools)"

definition CloseAll :: "EntityPools \<Rightarrow> EntityPools" where
  "CloseAll ps = (\<lambda>k. Close (ps k))"

definition ReleaseAllRefs :: "EntityPools \<Rightarrow> EntityPools" where
  "ReleaseAllRefs ps = (\<lambda>k. ReleaseRefs (ps k))"

text \<open>Every pool is the pool of its kind and well-formed.\<close>

definition pools_wf :: "EntityPools \<Rightarrow> bool" where
  "pools_wf ps \<longleftrightarrow> (\<forall>k. pool_wf (ps k) \<and> pool_kind (ps k) = k)"

section \<open>Enumeration\<close>

lemma adopt_where_frame [simp]:
  "pool_kind (adopt_where ex ids p) = pool_kind p" "closed (adopt_where ex ids p) = closed p"
  by (induction ids arbitrary: p) auto

lemma pool_wf_adopt_where: "pool_wf p \<Longrightarrow> pool_wf (adopt_where ex ids p)"
  by (induction ids arbitrary: p) (simp_all add: pool_wf_Adopt)

lemma Alive_adopt_where:
  "pool_wf p \<Longrightarrow> Alive (adopt_where ex ids p) j \<longleftrightarrow>
     Alive p j \<or> (j \<in> set ids \<and> ex j \<and> InRange p j)"
  by (induction ids arbitrary: p) (auto simp: Alive_Adopt pool_wf_Adopt)

lemma Alive_adopt_all:
  assumes "pool_wf p"
  shows "Alive (adopt_where ex [first_id (traits p) .. capacity (traits p) - 1] p) j \<longleftrightarrow>
    Alive p j \<or> (ex j \<and> InRange p j)"
  using assms by (auto simp: Alive_adopt_where InRange_def)

lemma pools_wf_upd: "pools_wf ps \<Longrightarrow> pool_wf p \<Longrightarrow> pool_kind p = k \<Longrightarrow> pools_wf (ps(k := p))"
  by (simp add: pools_wf_def)

lemma pools_wfD: "pools_wf ps \<Longrightarrow> pool_wf (ps k)" "pools_wf ps \<Longrightarrow> pool_kind (ps k) = k"
  by (simp_all add: pools_wf_def)

lemma pools_wf_new [simp]: "pools_wf new_pools"
  by (simp add: pools_wf_def new_pools_def pool_wf_new_pool)

lemma pools_wf_Enumerate: "pools_wf ps \<Longrightarrow> pools_wf (Enumerate api ps)"
  by (auto simp: Enumerate_def Let_def kServerPools_def pools_wf_def pool_wf_adopt_where
      split: option.splits)

text \<open>
  Whether the server reports entity \<open>(k, i)\<close>, through the function that Enumerate asks for
  that kind; a missing function reports nothing.
\<close>

fun server_reports :: "ServerApi \<Rightarrow> EntityKind \<Rightarrow> int \<Rightarrow> bool" where
  "server_reports api Player i =
     (case find_IsPlayerConnected api of None \<Rightarrow> False | Some f \<Rightarrow> f i)"
| "server_reports api Bind i = KeyBindExists api i"
| "server_reports api Vehicle i =
     (case find_CheckEntityExists api of None \<Rightarrow> False | Some f \<Rightarrow> f vcmpEntityPoolVehicle i)"
| "server_reports api Object i =
     (case find_CheckEntityExists api of None \<Rightarrow> False | Some f \<Rightarrow> f vcmpEntityPoolObject i)"
| "server_reports api Pickup i =
     (case find_CheckEntityExists api of None \<Rightarrow> False | Some f \<Rightarrow> f vcmpEntityPoolPickup i)"
| "server_reports api Checkpoint i =
     (case find_CheckEntityExists api of None \<Rightarrow> False | Some f \<Rightarrow> f vcmpEntityPoolCheckPoint i)"
| "server_reports api Blip i =
     (case find_CheckEntityExists api of None \<Rightarrow> False | Some f \<Rightarrow> f vcmpEntityPoolBlip i)"


lemma Alive_Enumerate:
  assumes "pools_wf ps"
  shows "Alive (Enumerate api ps k) i \<longleftrightarrow>
    Alive (ps k) i \<or> (server_reports api k i \<and> InRange (ps k) i)"
proof -
  have wf: "pool_wf (ps j)" "pool_kind (ps j) = j" for j
    using assms by (simp_all add: pools_wf_def)
  have all: "Alive (adopt_where ex [first_id (Traits j) .. capacity (Traits j) - 1] (ps j)) i \<longleftrightarrow>
      Alive (ps j) i \<or> (ex i \<and> InRange (ps j) i)" for ex j
    using Alive_adopt_all [OF wf(1)[of j], of ex i] by (simp only: wf(2))
  have zero: "first_id (Traits Player) = 0" "first_id (Traits Bind) = 0"
    by simp_all
  note all0 = all [where j = Player, unfolded zero] all [where j = Bind, unfolded zero]
  show ?thesis
    by (cases k; simp only: Enumerate_def Let_def kServerPools_def foldl.simps prod.case;
        auto simp del: Traits.simps simp: all all0 KeyBindExists_def split: option.splits)
qed

section \<open>Deletion of what a runtime created\<close>

lemma delete_ids_eq: "delete_ids del ids p = (foldl Release p ids, concat (map del ids))"
  by (induction ids arbitrary: p) auto

lemma foldl_Release_frame [simp]:
  "pool_kind (foldl Release p ids) = pool_kind p" "closed (foldl Release p ids) = closed p"
  "InRange (foldl Release p ids) j = InRange p j"
  by (induction ids arbitrary: p) auto

lemma pool_wf_foldl_Release: "pool_wf p \<Longrightarrow> pool_wf (foldl Release p ids)"
  by (induction ids arbitrary: p) (simp_all add: pool_wf_Release)

lemma Alive_foldl_Release:
  "pool_wf p \<Longrightarrow> Alive (foldl Release p ids) j \<longleftrightarrow> Alive p j \<and> j \<notin> set ids"
  by (induction ids arbitrary: p) (auto simp: Alive_Release pool_wf_Release)

lemma Slot_Release_other:
  "pool_wf p \<Longrightarrow> InRange p j \<Longrightarrow> j \<noteq> i \<Longrightarrow> Slot (Release p i) j = Slot p j"
  using Alive_InRange [of p i] by (auto simp: Release_def Slot_put_slot)

lemma Slot_foldl_Release_other:
  "pool_wf p \<Longrightarrow> InRange p j \<Longrightarrow> j \<notin> set ids \<Longrightarrow> Slot (foldl Release p ids) j = Slot p j"
  by (induction ids arbitrary: p) (auto simp: Slot_Release_other pool_wf_Release)

lemma set_CreatedByUs:
  "set (CreatedByUs p) = {i. Alive p i \<and> created_by_us (Slot p i)}"
  by (auto simp: CreatedByUs_def Alive_def InRange_def)

lemma set_AliveIds: "set (AliveIds p) = {i. Alive p i}"
  by (auto simp: AliveIds_def Alive_def InRange_def)

lemma delete_kind_eq:
  "delete_kind del k (ps, calls) =
     (ps(k := foldl Release (ps k) (CreatedByUs (ps k))),
      calls @ concat (map del (CreatedByUs (ps k))))"
  by (simp add: delete_kind_def delete_ids_eq)

definition delete_order :: "EntityKind list" where
  "delete_order = [Vehicle, Object, Pickup, Checkpoint, Blip, Bind]"

definition delete_call :: "ServerApi \<Rightarrow> EntityKind \<Rightarrow> int \<Rightarrow> (EntityKind \<times> int) list" where
  "delete_call api k = (if k = Bind then remove_bind api else delete_one api k)"

lemma DeleteCreated_pools:
  "fst (DeleteCreated api ps) k =
     (if k = Player then ps k else foldl Release (ps k) (CreatedByUs (ps k)))"
  by (cases k) (simp_all add: DeleteCreated_def kServerPools_def delete_kind_eq)

lemma DeleteCreated_calls:
  "snd (DeleteCreated api ps) =
     concat (map (\<lambda>k. concat (map (delete_call api k) (CreatedByUs (ps k)))) delete_order)"
  by (simp add: DeleteCreated_def kServerPools_def delete_kind_eq delete_order_def
      delete_call_def)

lemma pools_wf_DeleteCreated: "pools_wf ps \<Longrightarrow> pools_wf (fst (DeleteCreated api ps))"
  by (simp add: pools_wf_def DeleteCreated_pools pool_wf_foldl_Release)

lemma pools_wf_CloseAll: "pools_wf ps \<Longrightarrow> pools_wf (CloseAll ps)"
  by (simp add: pools_wf_def CloseAll_def pool_wf_Close)

lemma pools_wf_ReleaseAllRefs: "pools_wf ps \<Longrightarrow> pools_wf (ReleaseAllRefs ps)"
  by (simp add: pools_wf_def ReleaseAllRefs_def pool_wf_ReleaseRefs)

lemmas pools_wf_ops =
  pools_wf_Enumerate pools_wf_DeleteCreated pools_wf_CloseAll pools_wf_ReleaseAllRefs


section \<open>Properties\<close>

text \<open>
  After Enumerate a slot of any of the seven kinds is alive exactly when it was alive
  before or the server reports the entity and its id lies in the pool: nothing that exists
  is missed and nothing is invented, and a server function that is missing reports nothing.
\<close>

theorem Enumerate_exact:
  assumes "pools_wf ps"
  shows "Alive (Enumerate api ps k) i \<longleftrightarrow>
    Alive (ps k) i \<or> (server_reports api k i \<and> InRange (ps k) i)"
  by (rule Alive_Enumerate [OF assms])

definition demo_funcs :: PluginFuncs where
  "demo_funcs = \<lparr>structSize = 2360, fn_GetLastError = None, fn_SendClientScriptData = None,
     fn_GetKeyBindUnusedSlot = None, fn_RegisterKeyBind = None, fn_GetKeyBindData = None,
     fn_RemoveKeyBind = None, fn_DestroyCoordBlip = Some (\<lambda>i. vcmpErrorNone),
     fn_IsPlayerConnected = Some (\<lambda>i. i = 3), fn_CheckEntityExists = None,
     fn_DeleteVehicle = None, fn_DeletePickup = None, fn_DeleteCheckPoint = None,
     fn_DeleteObject = None, fn_provided = (\<lambda>_. False)\<rparr>"

theorem Enumerate_exact_witness: "Alive (Enumerate (Some demo_funcs) new_pools Player) 3"
proof -
  have "server_reports (Some demo_funcs) Player 3 \<and> InRange (new_pools Player) 3"
    by code_simp
  then show ?thesis
    using Enumerate_exact [OF pools_wf_new, of "Some demo_funcs" Player 3] by simp
qed

text \<open>
  C35. DeleteCreated on a reload: of every kind but players, exactly the entities this
  runtime created are released, everything else keeps its slot, and the server is asked to
  delete exactly those entities whose delete function it has, kind by kind in the order
  vehicle, object, pickup, checkpoint, blip, key bind and in increasing id.
\<close>

theorem DeleteCreated_only_ours:
  assumes "pools_wf ps"
  shows "(Alive (fst (DeleteCreated api ps) k) i \<longleftrightarrow>
      Alive (ps k) i \<and> (k = Player \<or> \<not> created_by_us (Slot (ps k) i))) \<and>
    (Alive (fst (DeleteCreated api ps) k) i \<longrightarrow>
      Slot (fst (DeleteCreated api ps) k) i = Slot (ps k) i) \<and>
    snd (DeleteCreated api ps) =
      concat (map (\<lambda>k. concat (map (delete_call api k) (CreatedByUs (ps k)))) delete_order)"
proof -
  note wf = pools_wfD(1) [OF assms, of k]
  have "Slot (fst (DeleteCreated api ps) k) i = Slot (ps k) i"
    if "Alive (fst (DeleteCreated api ps) k) i"
    using that Alive_InRange [of "ps k" i] wf
    by (auto simp: DeleteCreated_pools Alive_foldl_Release Slot_foldl_Release_other
        split: if_splits)
  then show ?thesis
    using wf by (auto simp: DeleteCreated_pools DeleteCreated_calls Alive_foldl_Release
        set_CreatedByUs)
qed

definition demo_created :: EntityPools where
  "demo_created = new_pools(Blip := MarkCreatedByUs (Adopt (Adopt (new_pool Blip) 4) 5) 5)"

lemma pools_wf_demo_created: "pools_wf demo_created"
  by (simp add: demo_created_def pools_wf_upd pool_wf_ops pool_wf_new_pool)

theorem DeleteCreated_only_ours_witness:
  "\<not> Alive (fst (DeleteCreated (Some demo_funcs) demo_created) Blip) 5 \<and>
   Alive (fst (DeleteCreated (Some demo_funcs) demo_created) Blip) 4 \<and>
   snd (DeleteCreated (Some demo_funcs) demo_created) = [(Blip, 5)]"
proof -
  note dc = DeleteCreated_only_ours [OF pools_wf_demo_created, of "Some demo_funcs" Blip]
  have "created_by_us (Slot (demo_created Blip) 5)" "Alive (demo_created Blip) 4"
    "\<not> created_by_us (Slot (demo_created Blip) 4)"
    "CreatedByUs (demo_created Blip) = [5]" "CreatedByUs (demo_created Bind) = []"
    by code_simp+
  moreover have "CreatedByUs (new_pool k) = []" for k
    using set_CreatedByUs [of "new_pool k"] by simp
  then have "CreatedByUs (demo_created k) = []" if "k \<noteq> Blip" for k
    using that by (simp add: demo_created_def new_pools_def)
  moreover have "delete_call (Some demo_funcs) Blip 5 = [(Blip, 5)]"
    by code_simp
  ultimately show ?thesis
    using dc [of 5] dc [of 4] by (simp add: delete_order_def)
qed

end
