(* ===== verification/Lua_Value.thy ===== *)
theory Lua_Value
  imports Complex_Main Entity_Pool
begin

text \<open>
  Lua values as C++ sees them. Functions, tables and userdata are named by their address, so
  raw equality of two such values is equality of addresses. A lua\_Number is a double: every
  finite double is a rational number, and the code only compares, floors and converts
  finite doubles exactly, so a finite one is modelled by the rational it denotes.
\<close>

datatype lua_float = Fin rat | PosInf | NegInf | NaN

datatype lval =
    LNil
  | LBool bool
  | LInt int
  | LFloat lua_float
  | LStr string
  | LFun nat
  | LTab nat
  | LHandle EntityHandle
  | LUser nat

text \<open>lua\_typename of a value's type.\<close>

fun lua_typename :: "lval \<Rightarrow> string" where
  "lua_typename LNil = ''nil''"
| "lua_typename (LBool _) = ''boolean''"
| "lua_typename (LInt _) = ''number''"
| "lua_typename (LFloat _) = ''number''"
| "lua_typename (LStr _) = ''string''"
| "lua_typename (LFun _) = ''function''"
| "lua_typename (LTab _) = ''table''"
| "lua_typename (LHandle _) = ''userdata''"
| "lua_typename (LUser _) = ''userdata''"

end
