(* ===== verification/Std_Map.thy ===== *)
theory Std_Map
  imports Prelude
begin

text \<open>
  \<^verbatim>\<open>std::map\<close> as the code uses it: an association list in increasing key order, with lookup,
  assignment through \<^verbatim>\<open>operator[]\<close>, erase and iteration in key order. The interface is the
  locale \<open>keyed_store\<close>; the components use its facts through the interpretation \<open>std\<close>.
\<close>

fun map_put :: "'k::linorder \<Rightarrow> 'v \<Rightarrow> ('k \<times> 'v) list \<Rightarrow> ('k \<times> 'v) list" where
  "map_put k v [] = [(k, v)]"
| "map_put k v ((k', v') # m) =
     (if k < k' then (k, v) # (k', v') # m
      else if k = k' then (k, v) # m
      else (k', v') # map_put k v m)"

definition map_erase :: "'k \<Rightarrow> ('k \<times> 'v) list \<Rightarrow> ('k \<times> 'v) list" where
  "map_erase k m = filter (\<lambda>e. fst e \<noteq> k) m"

definition map_ordered :: "('k::linorder \<times> 'v) list \<Rightarrow> bool" where
  "map_ordered m \<longleftrightarrow> sorted (map fst m) \<and> distinct (map fst m)"

locale keyed_store =
  fixes get :: "'m \<Rightarrow> 'k \<Rightarrow> 'v option"
    and put :: "'k \<Rightarrow> 'v \<Rightarrow> 'm \<Rightarrow> 'm"
    and erase :: "'k \<Rightarrow> 'm \<Rightarrow> 'm"
    and ok :: "'m \<Rightarrow> bool"
  assumes get_put: "ok m \<Longrightarrow> get (put k v m) = (get m)(k \<mapsto> v)"
    and get_erase: "get (erase k m) = (get m)(k := None)"
    and ok_put: "ok m \<Longrightarrow> ok (put k v m)"
    and ok_erase: "ok m \<Longrightarrow> ok (erase k m)"
begin

lemma get_put_same: "ok m \<Longrightarrow> get (put k v m) k = Some v"
  by (simp add: get_put)

lemma get_put_other: "ok m \<Longrightarrow> j \<noteq> k \<Longrightarrow> get (put k v m) j = get m j"
  by (simp add: get_put)

lemma get_erase_put: "ok m \<Longrightarrow> get m k = None \<Longrightarrow> get (erase k (put k v m)) = get m"
  by (auto simp: get_put get_erase)

end

lemma fst_set_map_put: "fst ` set (map_put k v m) = insert k (fst ` set m)"
  by (induction k v m rule: map_put.induct) auto

lemma map_of_map_put: "map_ordered m \<Longrightarrow> map_of (map_put k v m) = (map_of m)(k \<mapsto> v)"
proof (induction k v m rule: map_put.induct)
  case (1 k v)
  then show ?case by simp
next
  case (2 k v k' v' m)
  have "map_ordered m"
    using 2 by (simp add: map_ordered_def)
  with 2 show ?case by (auto simp: fun_upd_twist)
qed

lemma map_of_map_erase: "map_of (map_erase k m) = (map_of m)(k := None)"
  by (induction m) (auto simp: map_erase_def)

lemma map_ordered_put: "map_ordered m \<Longrightarrow> map_ordered (map_put k v m)"
proof (induction k v m rule: map_put.induct)
  case (1 k v)
  then show ?case by (simp add: map_ordered_def)
next
  case (2 k v k' v' m)
  then have m: "map_ordered m" "\<forall>x \<in> fst ` set m. k' \<le> x" "k' \<notin> fst ` set m"
    by (auto simp: map_ordered_def)
  consider "k < k'" | "k = k'" | "k' < k"
    by (metis linorder_less_linear)
  then show ?case
  proof cases
    case 1
    with 2 m show ?thesis by (auto simp: map_ordered_def)
  next
    case 2
    with m show ?thesis by (auto simp: map_ordered_def)
  next
    case 3
    with 2 m have "map_ordered (map_put k v m)" by simp
    with 3 m show ?thesis
      by (auto simp: map_ordered_def fst_set_map_put simp flip: image_set)
  qed
qed

lemma map_ordered_erase: "map_ordered m \<Longrightarrow> map_ordered (map_erase k m)"
  unfolding map_ordered_def map_erase_def
  by (simp add: distinct_map_filter sorted_filter)

lemma map_ordered_Nil [simp]: "map_ordered []"
  by (simp add: map_ordered_def)

interpretation std: keyed_store map_of map_put map_erase map_ordered
  by unfold_locales
    (simp_all add: map_of_map_put map_of_map_erase map_ordered_put map_ordered_erase)

lemma map_of_Some_iff: "map_ordered m \<Longrightarrow> map_of m k = Some v \<longleftrightarrow> (k, v) \<in> set m"
  by (simp add: map_ordered_def)

end
