(* ===== verification/Event_Bus.thy ===== *)
theory Event_Bus
  imports Prelude
begin

text \<open>
  The event bus of \<^verbatim>\<open>src/src/core/event_bus.hpp\<close> and \<^verbatim>\<open>event_bus.cpp\<close>: the built-in events, the
  handler lists, the name table and the stack of cancel flags of the active dispatches.
  Dispatch itself calls into Lua and is in the theory Runtime. A Lua function is named by its
  address, so lua\_rawequal on two functions is equality.
\<close>

section \<open>Data\<close>

type_synonym luafn = nat

datatype Event =
    ServerInit | ServerShutdown | ServerFrame | PluginCommand | ClientData | PlayerModuleList
  | PlayerConnection | PlayerConnect | PlayerDisconnect | PlayerRequestClass
  | PlayerRequestSpawn | PlayerSpawn | PlayerWasted | PlayerKill | PlayerUpdate
  | PlayerRequestEnterVehicle | PlayerEnterVehicle | PlayerExitVehicle | PlayerNameChange
  | PlayerStateChange | PlayerActionChange | PlayerFireChange | PlayerCrouchChange
  | PlayerGameKeysChange | PlayerBeginTyping | PlayerFinishTyping | PlayerAwayChange
  | PlayerMessage | PlayerCommand | PlayerPM | PlayerKeyDown | PlayerKeyUp | PlayerSpectate
  | PlayerCrashReport | VehicleUpdate | VehicleExplode | VehicleRespawn | ObjectShot
  | ObjectTouch | PickupPickAttempt | PickupPicked | PickupRespawn | CheckpointEnter
  | CheckpointExit | EntityPoolChange | ServerPerformanceReport | EntityStreamingChange

definition kEvents :: "Event list" where
  "kEvents =
    [ServerInit, ServerShutdown, ServerFrame, PluginCommand, ClientData, PlayerModuleList,
     PlayerConnection, PlayerConnect, PlayerDisconnect, PlayerRequestClass,
     PlayerRequestSpawn, PlayerSpawn, PlayerWasted, PlayerKill, PlayerUpdate,
     PlayerRequestEnterVehicle, PlayerEnterVehicle, PlayerExitVehicle, PlayerNameChange,
     PlayerStateChange, PlayerActionChange, PlayerFireChange, PlayerCrouchChange,
     PlayerGameKeysChange, PlayerBeginTyping, PlayerFinishTyping, PlayerAwayChange,
     PlayerMessage, PlayerCommand, PlayerPM, PlayerKeyDown, PlayerKeyUp, PlayerSpectate,
     PlayerCrashReport, VehicleUpdate, VehicleExplode, VehicleRespawn, ObjectShot,
     ObjectTouch, PickupPickAttempt, PickupPicked, PickupRespawn, CheckpointEnter,
     CheckpointExit, EntityPoolChange, ServerPerformanceReport, EntityStreamingChange]"

definition kNames :: "string list" where
  "kNames =
    [''onServerInit'', ''onServerShutdown'', ''onServerFrame'', ''onPluginCommand'',
     ''onClientData'', ''onPlayerModuleList'', ''onPlayerConnection'', ''onPlayerConnect'',
     ''onPlayerDisconnect'', ''onPlayerRequestClass'', ''onPlayerRequestSpawn'',
     ''onPlayerSpawn'', ''onPlayerWasted'', ''onPlayerKill'', ''onPlayerUpdate'',
     ''onPlayerRequestEnterVehicle'', ''onPlayerEnterVehicle'', ''onPlayerExitVehicle'',
     ''onPlayerNameChange'', ''onPlayerStateChange'', ''onPlayerActionChange'',
     ''onPlayerFireChange'', ''onPlayerCrouchChange'', ''onPlayerGameKeysChange'',
     ''onPlayerBeginTyping'', ''onPlayerFinishTyping'', ''onPlayerAwayChange'',
     ''onPlayerMessage'', ''onPlayerCommand'', ''onPlayerPM'', ''onPlayerKeyDown'',
     ''onPlayerKeyUp'', ''onPlayerSpectate'', ''onPlayerCrashReport'', ''onVehicleUpdate'',
     ''onVehicleExplode'', ''onVehicleRespawn'', ''onObjectShot'', ''onObjectTouch'',
     ''onPickupPickAttempt'', ''onPickupPicked'', ''onPickupRespawn'', ''onCheckpointEnter'',
     ''onCheckpointExit'', ''onEntityPoolChange'', ''onServerPerformanceReport'',
     ''onEntityStreamingChange'']"

text \<open>The enum value: the position in the list of events.\<close>

fun position :: "'a \<Rightarrow> 'a list \<Rightarrow> nat" where
  "position x [] = 0"
| "position x (y # ys) = (if x = y then 0 else Suc (position x ys))"

definition Index :: "Event \<Rightarrow> nat" where
  "Index e = position e kEvents"

definition Name :: "Event \<Rightarrow> string" where
  "Name e = kNames ! Index e"

record Handler =
  fn :: luafn
  h_alive :: bool

record EventBus =
  lists :: "Handler list list"
  names :: "string list"
  index_by_name :: "string \<rightharpoonup> nat"
  cancelled :: "bool list"
  needs_compaction :: bool

section \<open>Operations\<close>

definition empty_bus :: EventBus where
  "empty_bus = \<lparr>lists = [], names = [], index_by_name = Map.empty, cancelled = [],
                needs_compaction = False\<rparr>"

definition Find :: "EventBus \<Rightarrow> string \<Rightarrow> nat option" where
  "Find b name = index_by_name b name"

definition Create :: "EventBus \<Rightarrow> string \<Rightarrow> EventBus \<times> bool" where
  "Create b name =
     (if index_by_name b name \<noteq> None then (b, False)
      else (b\<lparr>lists := lists b @ [[]], names := names b @ [name],
              index_by_name := (index_by_name b)(name \<mapsto> length (lists b))\<rparr>, True))"

definition new_bus :: EventBus where
  "new_bus = foldl (\<lambda>b name. fst (Create b name)) empty_bus kNames"

definition Bind :: "EventBus \<Rightarrow> nat \<Rightarrow> luafn \<Rightarrow> EventBus \<times> bool res" where
  "Bind b event f =
     (if length (lists b) \<le> event then (b, Inl (Out_of_range ''deque::at''))
      else let l = lists b ! event in
        if list_ex (\<lambda>h. h_alive h \<and> fn h = f) l then (b, Inr False)
        else (b\<lparr>lists := (lists b)[event := l @ [\<lparr>fn = f, h_alive = True\<rparr>]]\<rparr>, Inr True))"

definition Compact :: "EventBus \<Rightarrow> EventBus" where
  "Compact b = b\<lparr>lists := map (filter h_alive) (lists b), needs_compaction := False\<rparr>"

text \<open>The loop of Unbind: kill the first live handler with this function.\<close>

fun kill_first :: "luafn \<Rightarrow> Handler list \<Rightarrow> (Handler list) option" where
  "kill_first f [] = None"
| "kill_first f (h # hs) =
     (if h_alive h \<and> fn h = f then Some (h\<lparr>h_alive := False\<rparr> # hs)
      else map_option ((#) h) (kill_first f hs))"

definition Unbind :: "EventBus \<Rightarrow> nat \<Rightarrow> luafn \<Rightarrow> EventBus \<times> bool res" where
  "Unbind b event f =
     (if length (lists b) \<le> event then (b, Inl (Out_of_range ''deque::at''))
      else case kill_first f (lists b ! event) of
        None \<Rightarrow> (b, Inr False)
      | Some l \<Rightarrow>
          let b' = b\<lparr>lists := (lists b)[event := l], needs_compaction := True\<rparr> in
          (if cancelled b' = [] then Compact b' else b', Inr True))"

definition Cancel :: "EventBus \<Rightarrow> EventBus \<times> unit res" where
  "Cancel b =
     (if cancelled b = []
      then (b, Inl (Logic_error ''Event.cancel() called outside an event handler''))
      else (b\<lparr>cancelled := butlast (cancelled b) @ [True]\<rparr>, Inr ()))"

definition HasHandlers :: "EventBus \<Rightarrow> nat \<Rightarrow> bool" where
  "HasHandlers b event \<longleftrightarrow> event < length (lists b) \<and> lists b ! event \<noteq> []"

definition Clear :: "EventBus \<Rightarrow> EventBus" where
  "Clear b = b\<lparr>lists := map (\<lambda>_. []) (lists b), needs_compaction := False\<rparr>"

text \<open>DispatchFrame: constructor, destructor after an exception, cancelled() and Finish().\<close>

definition frame_push :: "EventBus \<Rightarrow> EventBus" where
  "frame_push b = b\<lparr>cancelled := cancelled b @ [False]\<rparr>"

definition frame_drop :: "nat \<Rightarrow> EventBus \<Rightarrow> EventBus" where
  "frame_drop index b = b\<lparr>cancelled := take index (cancelled b)\<rparr>"

definition frame_cancelled :: "nat \<Rightarrow> EventBus \<Rightarrow> bool" where
  "frame_cancelled index b = cancelled b ! index"

definition frame_finish :: "nat \<Rightarrow> EventBus \<Rightarrow> EventBus \<times> bool" where
  "frame_finish index b =
     (let was_cancelled = frame_cancelled index b;
          b' = frame_drop index b
      in (if cancelled b' = [] \<and> needs_compaction b' then Compact b' else b', was_cancelled))"

section \<open>Well-formed buses\<close>

definition live_fns :: "Handler list \<Rightarrow> luafn list" where
  "live_fns l = map fn (filter h_alive l)"

definition bus_wf :: "EventBus \<Rightarrow> bool" where
  "bus_wf b \<longleftrightarrow>
     length (names b) = length (lists b) \<and> distinct (names b) \<and>
     (\<forall>name i. index_by_name b name = Some i \<longleftrightarrow> i < length (names b) \<and> names b ! i = name) \<and>
     (\<forall>l \<in> set (lists b). distinct (live_fns l)) \<and>
     (needs_compaction b \<or> (\<forall>l \<in> set (lists b). list_all h_alive l))"


lemma bus_wf_length: "bus_wf b \<Longrightarrow> length (names b) = length (lists b)"
  by (simp add: bus_wf_def)

lemma bus_wf_cancelled [simp]: "bus_wf (b\<lparr>cancelled := c\<rparr>) = bus_wf b"
  by (simp add: bus_wf_def)

lemma bus_wf_empty: "bus_wf empty_bus"
  by (simp add: bus_wf_def empty_bus_def)

lemma bus_wf_index:
  "bus_wf b \<Longrightarrow> index_by_name b name = Some i \<longleftrightarrow> i < length (names b) \<and> names b ! i = name"
  by (simp add: bus_wf_def)

lemma nth_append_one: "i < Suc (length xs) \<Longrightarrow>
    (xs @ [x]) ! i = (if i = length xs then x else xs ! i)"
  by (auto simp: nth_append)

lemma bus_wf_Create: "bus_wf b \<Longrightarrow> bus_wf (fst (Create b name))"
proof (cases "index_by_name b name = None")
  case True
  assume wf: "bus_wf b"
  then have new: "name \<notin> set (names b)"
    using True bus_wf_index [OF wf, of name] by (auto simp: in_set_conv_nth)
  have "((index_by_name b)(name \<mapsto> length (lists b))) n = Some i \<longleftrightarrow>
      i < Suc (length (names b)) \<and> (names b @ [name]) ! i = n" for n i
    using wf new by (auto simp: bus_wf_def nth_append_one less_Suc_eq in_set_conv_nth)
  with wf new True show ?thesis
    by (auto simp: Create_def bus_wf_def live_fns_def)
next
  case False
  assume "bus_wf b"
  with False show ?thesis by (simp add: Create_def)
qed

lemma live_fns_append: "live_fns (l @ [\<lparr>fn = f, h_alive = True\<rparr>]) = live_fns l @ [f]"
  by (simp add: live_fns_def)

lemma set_live_fns: "f \<in> set (live_fns l) \<longleftrightarrow> list_ex (\<lambda>h. h_alive h \<and> fn h = f) l"
  by (auto simp: live_fns_def list_ex_iff)

text \<open>Replacing one list keeps the bus well-formed.\<close>

lemma bus_wf_set_list:
  assumes "bus_wf b" and "event < length (lists b)" and "distinct (live_fns l)"
    and "nc \<or> (\<not> needs_compaction b \<and> list_all h_alive l)"
  shows "bus_wf (b\<lparr>lists := (lists b)[event := l], needs_compaction := nc\<rparr>)"
  using assms by (auto simp: bus_wf_def dest: set_update_subset_insert [THEN subsetD])

lemma bus_wf_nth:
  "bus_wf b \<Longrightarrow> event < length (lists b) \<Longrightarrow> distinct (live_fns (lists b ! event))"
  by (simp add: bus_wf_def)

lemma bus_wf_Bind:
  assumes "bus_wf b"
  shows "bus_wf (fst (Bind b event f))"
proof (cases "event < length (lists b) \<and> f \<notin> set (live_fns (lists b ! event))")
  case True
  let ?l = "lists b ! event @ [\<lparr>fn = f, h_alive = True\<rparr>]"
  have "bus_wf (b\<lparr>lists := (lists b)[event := ?l], needs_compaction := needs_compaction b\<rparr>)"
    using assms True
    by (intro bus_wf_set_list) (auto simp: live_fns_append bus_wf_nth, auto simp: bus_wf_def)
  with True show ?thesis by (simp add: Bind_def Let_def set_live_fns)
next
  case False
  with assms show ?thesis by (auto simp: Bind_def Let_def set_live_fns)
qed

lemma kill_first_None: "kill_first f l = None \<longleftrightarrow> f \<notin> set (live_fns l)"
  by (induction l) (auto simp: live_fns_def)

lemma live_fns_kill_first:
  "kill_first f l = Some l' \<Longrightarrow> live_fns l' = remove1 f (live_fns l)"
  by (induction l arbitrary: l') (auto simp: live_fns_def split: if_splits)

lemma kill_first_same:
  "kill_first f l = Some l' \<Longrightarrow> length l' = length l \<and>
     (\<forall>i < length l. fn (l' ! i) = fn (l ! i) \<and> (h_alive (l' ! i) \<longrightarrow> h_alive (l ! i)))"
proof (induction l arbitrary: l')
  case Nil
  then show ?case by simp
next
  case (Cons h l)
  then show ?case
    by (auto split: if_splits simp: nth_Cons split: nat.splits)
qed

lemma live_fns_filter [simp]: "live_fns (filter h_alive l) = live_fns l"
  by (simp add: live_fns_def)

lemma bus_wf_Compact: "bus_wf b \<Longrightarrow> bus_wf (Compact b)"
  by (auto simp: bus_wf_def Compact_def list_all_iff)

lemma bus_wf_Unbind:
  assumes "bus_wf b"
  shows "bus_wf (fst (Unbind b event f))"
proof (cases "event < length (lists b) \<and> kill_first f (lists b ! event) \<noteq> None")
  case True
  then obtain l where l: "kill_first f (lists b ! event) = Some l" by auto
  have "bus_wf (b\<lparr>lists := (lists b)[event := l], needs_compaction := True\<rparr>)"
    using assms True live_fns_kill_first [OF l]
    by (intro bus_wf_set_list) (simp_all add: bus_wf_nth distinct_remove1)
  with True l show ?thesis by (simp add: Unbind_def Let_def bus_wf_Compact)
next
  case False
  with assms show ?thesis by (auto simp: Unbind_def)
qed

lemma bus_wf_Cancel: "bus_wf b \<Longrightarrow> bus_wf (fst (Cancel b))"
  by (simp add: Cancel_def)

lemma bus_wf_Clear: "bus_wf b \<Longrightarrow> bus_wf (Clear b)"
  by (auto simp: bus_wf_def Clear_def live_fns_def)

lemma bus_wf_frames:
  "bus_wf b \<Longrightarrow> bus_wf (frame_push b)" "bus_wf b \<Longrightarrow> bus_wf (frame_drop n b)"
  "bus_wf b \<Longrightarrow> bus_wf (fst (frame_finish n b))"
  by (simp_all add: frame_push_def frame_drop_def frame_finish_def Let_def bus_wf_Compact)

lemmas bus_wf_ops = bus_wf_Create bus_wf_Bind bus_wf_Unbind bus_wf_Cancel bus_wf_Clear
  bus_wf_Compact bus_wf_frames

lemma bus_wf_foldl_Create: "bus_wf b \<Longrightarrow> bus_wf (foldl (\<lambda>b name. fst (Create b name)) b ns)"
  by (induction ns arbitrary: b) (simp_all add: bus_wf_Create)

lemma bus_wf_new: "bus_wf new_bus"
  unfolding new_bus_def by (rule bus_wf_foldl_Create [OF bus_wf_empty])

section \<open>What code running inside a dispatch may do to the bus\<close>

text \<open>
  While a dispatch is active, lists only grow at the end, a handler keeps its function and
  never comes back to life, names keep their index, the frames below the innermost one are
  untouched and the innermost flag is only ever set.
\<close>

definition list_ext :: "Handler list \<Rightarrow> Handler list \<Rightarrow> bool" where
  "list_ext l l' \<longleftrightarrow> length l \<le> length l' \<and>
     (\<forall>i < length l. fn (l' ! i) = fn (l ! i) \<and> (h_alive (l' ! i) \<longrightarrow> h_alive (l ! i)))"

definition bus_ext :: "EventBus \<Rightarrow> EventBus \<Rightarrow> bool" where
  "bus_ext b b' \<longleftrightarrow>
     length (lists b) \<le> length (lists b') \<and>
     length (cancelled b') = length (cancelled b) \<and>
     butlast (cancelled b') = butlast (cancelled b) \<and>
     (cancelled b \<noteq> [] \<longrightarrow>
        (last (cancelled b) \<longrightarrow> last (cancelled b')) \<and>
        (\<forall>e < length (lists b). list_ext (lists b ! e) (lists b' ! e)))"

lemma list_ext_refl [simp]: "list_ext l l"
  by (simp add: list_ext_def)

lemma list_ext_trans: "list_ext l l' \<Longrightarrow> list_ext l' l'' \<Longrightarrow> list_ext l l''"
  by (simp add: list_ext_def)

lemma bus_ext_refl [simp]: "bus_ext b b"
  by (simp add: bus_ext_def)

lemma bus_ext_lists: "bus_ext b b' \<Longrightarrow> length (lists b) \<le> length (lists b')"
  by (simp add: bus_ext_def)

lemma bus_ext_frames:
  "bus_ext b b' \<Longrightarrow> length (cancelled b') = length (cancelled b)"
  "bus_ext b b' \<Longrightarrow> butlast (cancelled b') = butlast (cancelled b)"
  by (simp_all add: bus_ext_def)

lemma bus_ext_idle: "bus_ext b b' \<Longrightarrow> cancelled b' = [] \<longleftrightarrow> cancelled b = []"
  using bus_ext_frames(1) by (metis length_0_conv)

lemma bus_ext_flag:
  "bus_ext b b' \<Longrightarrow> cancelled b \<noteq> [] \<Longrightarrow> last (cancelled b) \<Longrightarrow> last (cancelled b')"
  by (simp add: bus_ext_def)

lemma bus_ext_nth:
  "bus_ext b b' \<Longrightarrow> cancelled b \<noteq> [] \<Longrightarrow> e < length (lists b) \<Longrightarrow>
   list_ext (lists b ! e) (lists b' ! e)"
  by (simp add: bus_ext_def)

lemma bus_extI:
  assumes "length (lists b) \<le> length (lists b')"
    and "length (cancelled b') = length (cancelled b)"
    and "butlast (cancelled b') = butlast (cancelled b)"
    and "cancelled b \<noteq> [] \<Longrightarrow> last (cancelled b) \<Longrightarrow> last (cancelled b')"
    and "\<And>e. cancelled b \<noteq> [] \<Longrightarrow> e < length (lists b) \<Longrightarrow> list_ext (lists b ! e) (lists b' ! e)"
  shows "bus_ext b b'"
  using assms by (simp add: bus_ext_def)

lemma bus_ext_trans:
  assumes "bus_ext b b'" and "bus_ext b' b''"
  shows "bus_ext b b''"
proof (rule bus_extI)
  show "length (lists b) \<le> length (lists b'')"
    using assms [THEN bus_ext_lists] by simp
  show "length (cancelled b'') = length (cancelled b)"
    using assms [THEN bus_ext_frames(1)] by simp
  show "butlast (cancelled b'') = butlast (cancelled b)"
    using assms [THEN bus_ext_frames(2)] by simp
next
  assume ne: "cancelled b \<noteq> []"
  then have ne': "cancelled b' \<noteq> []"
    using bus_ext_idle [OF assms(1)] by simp
  show "last (cancelled b'')" if "last (cancelled b)"
    using bus_ext_flag [OF assms(2) ne' bus_ext_flag [OF assms(1) ne that]] .
  show "list_ext (lists b ! e) (lists b'' ! e)" if "e < length (lists b)" for e
  proof -
    have "e < length (lists b')"
      using that bus_ext_lists [OF assms(1)] by simp
    with list_ext_trans [OF bus_ext_nth [OF assms(1) ne that] bus_ext_nth [OF assms(2) ne']]
    show ?thesis .
  qed
qed

lemma bus_ext_set_list:
  "event < length (lists b) \<Longrightarrow> list_ext (lists b ! event) l \<Longrightarrow>
   bus_ext b (b\<lparr>lists := (lists b)[event := l], needs_compaction := nc\<rparr>)"
  by (auto simp: bus_ext_def nth_list_update_if)

lemma bus_ext_Create: "bus_ext b (fst (Create b name))"
  by (auto simp: Create_def bus_ext_def nth_append)

lemma bus_ext_Bind: "bus_ext b (fst (Bind b event f))"
  using bus_ext_set_list [of event b _ "needs_compaction b"]
  by (auto simp: Bind_def Let_def list_ext_def nth_append)

lemma bus_ext_Compact: "cancelled b = [] \<Longrightarrow> bus_ext b (Compact b)"
  by (simp add: bus_ext_def Compact_def)

lemma bus_ext_Unbind: "bus_ext b (fst (Unbind b event f))"
proof (cases "event < length (lists b) \<and> kill_first f (lists b ! event) \<noteq> None")
  case True
  then obtain l where l: "kill_first f (lists b ! event) = Some l" by auto
  let ?b = "b\<lparr>lists := (lists b)[event := l], needs_compaction := True\<rparr>"
  have "bus_ext b ?b"
    using True kill_first_same [OF l] by (intro bus_ext_set_list) (simp_all add: list_ext_def)
  moreover have "bus_ext ?b (if cancelled ?b = [] then Compact ?b else ?b)"
    by (simp add: bus_ext_Compact)
  ultimately have "bus_ext b (if cancelled ?b = [] then Compact ?b else ?b)"
    by (rule bus_ext_trans)
  with True l show ?thesis by (simp add: Unbind_def Let_def)
next
  case False
  then show ?thesis by (auto simp: Unbind_def)
qed

lemma bus_ext_Cancel: "bus_ext b (fst (Cancel b))"
  by (auto simp: Cancel_def bus_ext_def)

lemmas bus_ext_ops = bus_ext_Create bus_ext_Bind bus_ext_Unbind bus_ext_Cancel

end
