(* ===== verification/Scheduler.thy ===== *)
theory Scheduler
  imports Lua_Value Std_Map Event_Bus "HOL-Library.Product_Lexorder"
begin

text \<open>
  The timers of \<^verbatim>\<open>src/src/core/scheduler.hpp\<close> and \<^verbatim>\<open>scheduler.cpp\<close>. Times are 64-bit
  milliseconds; the properties show that the sums computed here stay far inside 64 bits.
  Tick and the call inside Run enter Lua and are in the theory Host; this theory holds the
  timer table, the choice and order of the due timers, and the two halves of Run around the
  call.
\<close>

section \<open>Data\<close>

definition kForever :: int where "kForever = -1"

definition kMaxInterval :: int where "kMaxInterval = 2 ^ 40"

record Timer =
  callback :: luafn
  t_args :: "lval list"
  t_handle :: "objref option"
  interval :: int
  remaining :: int
  due :: int
  running :: bool
  destroyed :: bool

record Scheduler =
  timers :: "(u64 \<times> Timer) list"
  next_id :: u64
  due_ids :: "u64 list"

definition new_scheduler :: Scheduler where
  "new_scheduler = \<lparr>timers = [], next_id = 1, due_ids = []\<rparr>"

definition default_timer :: Timer where
  "default_timer = \<lparr>callback = 0, t_args = [], t_handle = None, interval = 0,
     remaining = kForever, due = 0, running = False, destroyed = False\<rparr>"

section \<open>Operations\<close>

text \<open>\<open>now\<close> is what \<^verbatim>\<open>clock_()\<close> returns.\<close>

definition Create :: "int \<Rightarrow> Scheduler \<Rightarrow> luafn \<Rightarrow> int \<Rightarrow> int \<Rightarrow> lval list \<Rightarrow> Scheduler \<times> u64 res" where
  "Create now s cb interval_ms repeats args =
     (if interval_ms < 0 \<or> interval_ms > kMaxInterval
      then (s, Inl (Out_of_range ''timer interval must be between 0 and 2^40 milliseconds''))
      else if repeats \<noteq> kForever \<and> repeats \<le> 0
      then (s, Inl (Out_of_range ''timer repeat count must be -1 (forever) or positive''))
      else
        let i = next_id s;
            t = (case map_of (timers s) i of None \<Rightarrow> default_timer | Some t \<Rightarrow> t)
        in (s\<lparr>next_id := i + 1,
              timers := map_put i (t\<lparr>callback := cb, t_args := args, interval := interval_ms,
                                     remaining := repeats, due := now + interval_ms\<rparr>)
                          (timers s)\<rparr>, Inr i))"

definition SetHandle :: "Scheduler \<Rightarrow> u64 \<Rightarrow> objref \<Rightarrow> Scheduler" where
  "SetHandle s i h =
     (case map_of (timers s) i of
        None \<Rightarrow> s
      | Some t \<Rightarrow> s\<lparr>timers := map_put i (t\<lparr>t_handle := Some h\<rparr>) (timers s)\<rparr>)"

definition Destroy :: "Scheduler \<Rightarrow> u64 \<Rightarrow> Scheduler \<times> bool" where
  "Destroy s i =
     (case map_of (timers s) i of
        None \<Rightarrow> (s, False)
      | Some t \<Rightarrow>
          if destroyed t then (s, False)
          else if running t
          then (s\<lparr>timers := map_put i (t\<lparr>destroyed := True\<rparr>) (timers s)\<rparr>, True)
          else (s\<lparr>timers := map_erase i (timers s)\<rparr>, True))"

definition Exists :: "Scheduler \<Rightarrow> u64 \<Rightarrow> bool" where
  "Exists s i = (case map_of (timers s) i of None \<Rightarrow> False | Some t \<Rightarrow> \<not> destroyed t)"

definition Count :: "Scheduler \<Rightarrow> nat" where
  "Count s = length (filter (\<lambda>(i, t). \<not> destroyed t) (timers s))"

text \<open>Tick's first loop, and its sort: earliest first, ids break ties.\<close>

definition collect_due :: "int \<Rightarrow> Scheduler \<Rightarrow> u64 list" where
  "collect_due now s = map fst (filter (\<lambda>(i, t). \<not> destroyed t \<and> due t \<le> now) (timers s))"

definition due_of :: "Scheduler \<Rightarrow> u64 \<Rightarrow> int" where
  "due_of s i = (case map_of (timers s) i of None \<Rightarrow> 0 | Some t \<Rightarrow> due t)"

definition sort_due :: "Scheduler \<Rightarrow> u64 list \<Rightarrow> u64 list" where
  "sort_due s ids = sort_key (\<lambda>i. (due_of s i, i)) ids"

text \<open>Run before the call: count the repetition and move the due time.\<close>

definition run_begin :: "int \<Rightarrow> Timer \<Rightarrow> Timer" where
  "run_begin now t =
     (let t1 = (if remaining t > 0 then t\<lparr>remaining := remaining t - 1\<rparr> else t);
          t2 = t1\<lparr>due := due t1 + interval t1\<rparr>
      in if due t2 \<le> now then t2\<lparr>due := now + interval t2\<rparr> else t2)"

text \<open>Run after the call: a destroyed or used-up timer goes.\<close>

definition run_end :: "u64 \<Rightarrow> Timer \<Rightarrow> Scheduler \<Rightarrow> Scheduler" where
  "run_end i t s =
     (if destroyed t \<or> remaining t = 0 then s\<lparr>timers := map_erase i (timers s)\<rparr> else s)"

definition Clear :: "Scheduler \<Rightarrow> Scheduler" where
  "Clear s = s\<lparr>timers := [], due_ids := []\<rparr>"

definition put_timer :: "u64 \<Rightarrow> Timer \<Rightarrow> Scheduler \<Rightarrow> Scheduler" where
  "put_timer i t s = s\<lparr>timers := map_put i t (timers s)\<rparr>"

section \<open>Well-formed timer tables\<close>

definition timer_wf :: "Timer \<Rightarrow> bool" where
  "timer_wf t \<longleftrightarrow> 0 \<le> interval t \<and> interval t \<le> kMaxInterval \<and> kForever \<le> remaining t"

definition sched_wf :: "Scheduler \<Rightarrow> bool" where
  "sched_wf s \<longleftrightarrow> map_ordered (timers s) \<and> (\<forall>i t. map_of (timers s) i = Some t \<longrightarrow> timer_wf t)"

text \<open>
  What code that runs inside a timer callback may do to the table: a running timer stays in
  it and stays running.
\<close>

definition sched_ext :: "Scheduler \<Rightarrow> Scheduler \<Rightarrow> bool" where
  "sched_ext s s' \<longleftrightarrow>
     (\<forall>i. (\<exists>t. map_of (timers s) i = Some t \<and> running t) \<longleftrightarrow>
          (\<exists>t. map_of (timers s') i = Some t \<and> running t))"

lemma sched_ext_refl [simp]: "sched_ext s s"
  by (simp add: sched_ext_def)

lemma sched_ext_trans: "sched_ext s s' \<Longrightarrow> sched_ext s' s'' \<Longrightarrow> sched_ext s s''"
  by (simp add: sched_ext_def)

lemma sched_wf_new: "sched_wf new_scheduler"
  by (simp add: sched_wf_def new_scheduler_def)

lemma sched_wf_put:
  "sched_wf s \<Longrightarrow> timer_wf t \<Longrightarrow> sched_wf (s\<lparr>timers := map_put i t (timers s)\<rparr>)"
  by (auto simp: sched_wf_def map_of_map_put map_ordered_put)

lemma sched_wf_erase: "sched_wf s \<Longrightarrow> sched_wf (s\<lparr>timers := map_erase i (timers s)\<rparr>)"
  by (auto simp: sched_wf_def map_of_map_erase map_ordered_erase split: if_splits)

lemma sched_wf_get: "sched_wf s \<Longrightarrow> map_of (timers s) i = Some t \<Longrightarrow> timer_wf t"
  by (simp add: sched_wf_def)

lemma sched_wf_ordered: "sched_wf s \<Longrightarrow> map_ordered (timers s)"
  by (simp add: sched_wf_def)

lemma sched_wf_next [simp]:
  "sched_wf (s\<lparr>next_id := n\<rparr>) = sched_wf s" "sched_wf (s\<lparr>due_ids := d\<rparr>) = sched_wf s"
  by (simp_all add: sched_wf_def)

lemma sched_wf_Create:
  assumes "sched_wf s"
  shows "sched_wf (fst (Create now s cb ms reps args))"
proof (cases "0 \<le> ms \<and> ms \<le> kMaxInterval \<and> (reps = kForever \<or> 0 < reps)")
  case True
  let ?t = "(case map_of (timers s) (next_id s) of None \<Rightarrow> default_timer | Some t \<Rightarrow> t)
    \<lparr>callback := cb, t_args := args, interval := ms, remaining := reps, due := now + ms\<rparr>"
  have "timer_wf ?t"
    using True sched_wf_get [OF assms, of "next_id s"]
    by (auto simp: timer_wf_def default_timer_def kForever_def split: option.split)
  with assms have "sched_wf (s\<lparr>next_id := next_id s + 1\<rparr>
      \<lparr>timers := map_put (next_id s) ?t (timers (s\<lparr>next_id := next_id s + 1\<rparr>))\<rparr>)"
    by (intro sched_wf_put) simp_all
  with True assms show ?thesis
    by (simp add: Create_def Let_def not_less not_le)
next
  case False
  with assms show ?thesis by (auto simp: Create_def)
qed

lemma sched_wf_SetHandle: "sched_wf s \<Longrightarrow> sched_wf (SetHandle s i h)"
  using sched_wf_get [of s i]
  by (auto simp: SetHandle_def timer_wf_def intro!: sched_wf_put split: option.split)

lemma sched_wf_Destroy: "sched_wf s \<Longrightarrow> sched_wf (fst (Destroy s i))"
  using sched_wf_get [of s i]
  by (auto simp: Destroy_def timer_wf_def intro!: sched_wf_put sched_wf_erase
      split: option.split)

lemma sched_wf_Clear: "sched_wf (Clear s)"
  by (simp add: sched_wf_def Clear_def)

lemma run_begin_frame [simp]:
  "callback (run_begin now t) = callback t" "t_args (run_begin now t) = t_args t"
  "interval (run_begin now t) = interval t" "running (run_begin now t) = running t"
  "destroyed (run_begin now t) = destroyed t" "t_handle (run_begin now t) = t_handle t"
  by (simp_all add: run_begin_def Let_def)

lemma remaining_run_begin:
  "remaining (run_begin now t) = (if remaining t > 0 then remaining t - 1 else remaining t)"
  by (simp add: run_begin_def Let_def)

lemma due_run_begin:
  "due (run_begin now t) =
     (if due t + interval t \<le> now then now + interval t else due t + interval t)"
  by (simp add: run_begin_def Let_def)

lemma timer_wf_run_begin: "timer_wf t \<Longrightarrow> timer_wf (run_begin now t)"
  by (auto simp: timer_wf_def remaining_run_begin kForever_def)

lemma sched_ext_put:
  assumes "map_ordered (timers s)" and "map_of (timers s) i = Some t" and "running t' = running t"
  shows "sched_ext s (s\<lparr>timers := map_put i t' (timers s)\<rparr>)"
  using assms by (auto simp: sched_ext_def map_of_map_put)

lemma sched_ext_erase:
  assumes "map_of (timers s) i = Some t" and "\<not> running t"
  shows "sched_ext s (s\<lparr>timers := map_erase i (timers s)\<rparr>)"
  using assms by (auto simp: sched_ext_def map_of_map_erase)

lemma sched_ext_next [simp]: "sched_ext s (s'\<lparr>next_id := n\<rparr>) = sched_ext s s'"
  by (simp add: sched_ext_def)

lemma sched_ext_Create: "sched_wf s \<Longrightarrow> sched_ext s (fst (Create now s cb ms reps args))"
  by (auto simp: Create_def Let_def default_timer_def sched_ext_def map_of_map_put
      sched_wf_ordered split: option.splits)

lemma sched_ext_SetHandle: "sched_wf s \<Longrightarrow> sched_ext s (SetHandle s i h)"
  using sched_ext_put [OF sched_wf_ordered, of s i]
  by (auto simp: SetHandle_def split: option.splits)

lemma sched_ext_Destroy: "sched_wf s \<Longrightarrow> sched_ext s (fst (Destroy s i))"
  using sched_ext_put [OF sched_wf_ordered, of s i] sched_ext_erase [of s i]
  by (auto simp: Destroy_def split: option.splits)


section \<open>Properties\<close>

lemma set_collect_due:
  "sched_wf s \<Longrightarrow> i \<in> set (collect_due now s) \<longleftrightarrow>
     (\<exists>t. map_of (timers s) i = Some t \<and> \<not> destroyed t \<and> due t \<le> now)"
  using sched_wf_ordered [of s]
  by (force simp: collect_due_def map_of_Some_iff)

lemma distinct_collect_due: "sched_wf s \<Longrightarrow> distinct (collect_due now s)"
  using sched_wf_ordered [of s] by (simp add: collect_due_def map_ordered_def distinct_map_filter)


definition demo_scheduler :: Scheduler where
  "demo_scheduler =
     fst (Create 0 (fst (Create 0 (fst (Create 0 new_scheduler 11 50 kForever [])) 12 20 1 []))
            13 20 2 [])"

lemma sched_wf_demo: "sched_wf demo_scheduler"
  unfolding demo_scheduler_def by (intro sched_wf_Create sched_wf_new)


text \<open>
  A timer keeps a fixed rate and never catches up in a burst. When a due timer runs,
  its next due time is the old one plus the interval if that still lies ahead, and one
  interval from now otherwise; so with a positive interval it lies strictly after now and
  at most one interval away. No sum leaves the 64-bit range while the clock is below
  \<open>2 ^ 62\<close> milliseconds.
\<close>

theorem reschedule_fixed_rate:
  assumes "timer_wf t" and "due t \<le> now"
  shows "due (run_begin now t) =
      (if now < due t + interval t then due t + interval t else now + interval t) \<and>
    (0 < interval t \<longrightarrow> now < due (run_begin now t)) \<and>
    due (run_begin now t) \<le> now + interval t \<and>
    (0 \<le> due t \<longrightarrow> now < 2 ^ 62 \<longrightarrow> 0 \<le> due (run_begin now t) \<and> due (run_begin now t) < 2 ^ 63)"
  using assms by (auto simp: due_run_begin timer_wf_def kMaxInterval_def)

theorem reschedule_fixed_rate_witness:
  "due (run_begin 137 (default_timer\<lparr>interval := 50, due := 100\<rparr>)) = 150"
proof -
  have "timer_wf (default_timer\<lparr>interval := 50, due := 100\<rparr>)"
    by (simp add: timer_wf_def default_timer_def kMaxInterval_def kForever_def)
  from reschedule_fixed_rate [OF this, of 137] show ?thesis by simp
qed

text \<open>
  Timer creation: an interval outside \<open>[0, 2 ^ 40]\<close> and a repeat count that is neither
  \<open>-1\<close> nor positive are refused with the timer table unchanged. Otherwise the timer exists
  under the returned id with its first due time one interval from now, and no other timer
  changes.
\<close>

theorem Create_timer_spec:
  assumes "sched_wf s" and "map_of (timers s) (next_id s) = None"
  shows "if 0 \<le> ms \<and> ms \<le> 2 ^ 40 \<and> (reps = -1 \<or> 0 < reps)
    then snd (Create now s cb ms reps args) = Inr (next_id s) \<and>
      map_of (timers (fst (Create now s cb ms reps args))) =
        (map_of (timers s))(next_id s \<mapsto>
          \<lparr>callback = cb, t_args = args, t_handle = None, interval = ms, remaining = reps,
           due = now + ms, running = False, destroyed = False\<rparr>) \<and>
      Exists (fst (Create now s cb ms reps args)) (next_id s)
    else fst (Create now s cb ms reps args) = s \<and>
      (\<exists>msg. snd (Create now s cb ms reps args) = Inl (Out_of_range msg))"
  using assms
  by (auto simp: Create_def Let_def kMaxInterval_def kForever_def default_timer_def Exists_def
      map_of_map_put sched_wf_ordered)

theorem Create_timer_spec_witness:
  "snd (Create 0 demo_scheduler 14 10 3 []) = Inr 4 \<and>
   fst (Create 0 demo_scheduler 14 10 0 []) = demo_scheduler"
proof -
  have n: "next_id demo_scheduler = 4" "map_of (timers demo_scheduler) 4 = None"
    by code_simp+
  then show ?thesis
    using Create_timer_spec [OF sched_wf_demo, of 10 3 0 14 "[]"]
      Create_timer_spec [OF sched_wf_demo, of 10 0 0 14 "[]"] by simp
qed

end
