(* ===== verification/Args.thy ===== *)
theory Args
  imports Lua_Value Api_Guard
begin

text \<open>
  The checked binding arguments of \<^verbatim>\<open>src/src/bindings/args.hpp\<close>, \<^verbatim>\<open>args.cpp\<close>, \<^verbatim>\<open>convert.cpp\<close> and
  \<^verbatim>\<open>bindings.cpp\<close>. An argument is \<open>None\<close> for LUA\_TNONE (no value at that stack index) and
  \<open>Some v\<close> otherwise. What Lua itself computes is a parameter: \<open>ar\<close> is the debug record of
  the running function (\<open>None\<close> when there is no stack level), \<open>heap\<close> the raw contents of
  tables, \<open>i2d\<close> the conversion of a 64-bit integer to a double, \<open>num2str\<close> lua\_tolstring on a
  number.
\<close>

section \<open>Error texts\<close>

record lua_Debug =
  ar_name :: "string option"
  ar_namewhat :: string
  ar_arg2 :: "lval option"

definition PropertyKey :: "lua_Debug \<Rightarrow> string option" where
  "PropertyKey ar =
     (if ar_namewhat ar = ''metamethod'' \<and>
         (ar_name ar = Some ''index'' \<or> ar_name ar = Some ''newindex'')
      then (case ar_arg2 ar of Some (LStr s) \<Rightarrow> Some s | _ \<Rightarrow> None)
      else None)"

definition CurrentFunction :: "lua_Debug option \<Rightarrow> string" where
  "CurrentFunction dbg =
     (case dbg of None \<Rightarrow> ''?''
      | Some ar \<Rightarrow>
          (case PropertyKey ar of
             Some key \<Rightarrow> key
           | None \<Rightarrow> (case ar_name ar of Some n \<Rightarrow> n | None \<Rightarrow> ''?'')))"

definition ArgError :: "lua_Debug option \<Rightarrow> int \<Rightarrow> string \<Rightarrow> cxx" where
  "ArgError dbg index message =
     (case dbg of
        None \<Rightarrow> Invalid_argument (''bad argument #'' @ show_int index @ '' ('' @ message @ '')'')
      | Some ar \<Rightarrow>
          (case PropertyKey ar of
             Some key \<Rightarrow> Invalid_argument (''bad value for '' @ quoted key @ '' ('' @ message @ '')'')
           | None \<Rightarrow>
               let name = (case ar_name ar of Some n \<Rightarrow> n | None \<Rightarrow> ''?'');
                   index' = (if ar_namewhat ar = ''method'' then index - 1 else index)
               in if ar_namewhat ar = ''method'' \<and> index' = 0
                  then Invalid_argument (''calling '' @ quoted name @ '' on bad self ('' @ message @ '')'')
                  else Invalid_argument (''bad argument #'' @ show_int index' @ '' to ''
                         @ quoted name @ '' ('' @ message @ '')'')))"

fun TypeName :: "lval option \<Rightarrow> string" where
  "TypeName None = ''no value''"
| "TypeName (Some (LHandle h)) = type_name (Traits (eh_kind h))"
| "TypeName (Some v) = lua_typename v"

definition TypeError :: "lua_Debug option \<Rightarrow> int \<Rightarrow> string \<Rightarrow> lval option \<Rightarrow> cxx" where
  "TypeError dbg index expected v = ArgError dbg index (expected @ '' expected, got '' @ TypeName v)"

fun ErrorName :: "vcmpError \<Rightarrow> string" where
  "ErrorName vcmpErrorNone = ''no error''"
| "ErrorName vcmpErrorNoSuchEntity = ''no such entity''"
| "ErrorName vcmpErrorBufferTooSmall = ''buffer too small''"
| "ErrorName vcmpErrorTooLargeInput = ''input too large''"
| "ErrorName vcmpErrorArgumentOutOfBounds = ''argument out of bounds''"
| "ErrorName vcmpErrorNullArgument = ''null argument''"
| "ErrorName vcmpErrorPoolExhausted = ''pool exhausted''"
| "ErrorName vcmpErrorInvalidName = ''invalid name''"
| "ErrorName vcmpErrorRequestDenied = ''request denied''"
| "ErrorName (vcmpErrorOther _) = ''unknown error''"

definition Check :: "lua_Debug option \<Rightarrow> vcmpError \<Rightarrow> bool res" where
  "Check dbg err =
     (case err of
        vcmpErrorNone \<Rightarrow> Inr True
      | vcmpErrorRequestDenied \<Rightarrow> Inr False
      | _ \<Rightarrow> Inl (Runtime_error (quoted (CurrentFunction dbg) @ '' failed: '' @ ErrorName err)))"

definition CheckLast :: "lua_Debug option \<Rightarrow> ServerApi \<Rightarrow> bool res" where
  "CheckLast dbg api =
     (case find_GetLastError api of None \<Rightarrow> Inr True | Some err \<Rightarrow> Check dbg err)"

section \<open>One argument\<close>

text \<open>
  The conversion of a float argument: finite, integral and inside \<open>[-2^63, 2^63)\<close>, where
  the C++ conversion to a 64-bit integer is defined.
\<close>

definition float_to_integer :: "lua_float \<Rightarrow> int option" where
  "float_to_integer f =
     (case f of
        Fin q \<Rightarrow> if of_int \<lfloor>q\<rfloor> \<noteq> q \<or> q < -9223372036854775808 \<or> q \<ge> 9223372036854775808
                 then None else Some \<lfloor>q\<rfloor>
      | _ \<Rightarrow> None)"

definition in_range :: "lua_Debug option \<Rightarrow> int \<Rightarrow> int \<Rightarrow> int \<Rightarrow> int \<Rightarrow> int res" where
  "in_range dbg index lo hi v =
     (if v < lo \<or> v > hi
      then Inl (ArgError dbg index (''value '' @ show_int v @ '' out of range ['' @ show_int lo
                  @ '', '' @ show_int hi @ '']''))
      else Inr v)"

definition CheckInteger :: "lua_Debug option \<Rightarrow> int \<Rightarrow> lval option \<Rightarrow> int \<Rightarrow> int \<Rightarrow> int res" where
  "CheckInteger dbg index v lo hi =
     (case v of
        Some (LInt i) \<Rightarrow> in_range dbg index lo hi i
      | Some (LFloat f) \<Rightarrow>
          (case float_to_integer f of
             None \<Rightarrow> Inl (ArgError dbg index ''number has no integer representation'')
           | Some i \<Rightarrow> in_range dbg index lo hi i)
      | _ \<Rightarrow> Inl (TypeError dbg index ''integer'' v))"

definition CheckNumber :: "(int \<Rightarrow> lua_float) \<Rightarrow> lua_Debug option \<Rightarrow> int \<Rightarrow> lval option \<Rightarrow> lua_float res" where
  "CheckNumber i2d dbg index v =
     (case v of
        Some (LInt i) \<Rightarrow> Inr (i2d i)
      | Some (LFloat f) \<Rightarrow> Inr f
      | _ \<Rightarrow> Inl (TypeError dbg index ''number'' v))"

definition CheckBoolean :: "lua_Debug option \<Rightarrow> int \<Rightarrow> lval option \<Rightarrow> bool res" where
  "CheckBoolean dbg index v =
     (case v of Some (LBool b) \<Rightarrow> Inr b | _ \<Rightarrow> Inl (TypeError dbg index ''boolean'' v))"

definition CheckString :: "(lval \<Rightarrow> string) \<Rightarrow> lua_Debug option \<Rightarrow> int \<Rightarrow> lval option \<Rightarrow> string res" where
  "CheckString num2str dbg index v =
     (case v of
        Some (LStr s) \<Rightarrow> Inr s
      | Some (LInt i) \<Rightarrow> Inr (num2str (LInt i))
      | Some (LFloat f) \<Rightarrow> Inr (num2str (LFloat f))
      | _ \<Rightarrow> Inl (TypeError dbg index ''string'' v))"

definition CheckColour :: "lua_Debug option \<Rightarrow> int \<Rightarrow> lval option \<Rightarrow> u32 res" where
  "CheckColour dbg index v =
     (case CheckInteger dbg index v (-2147483648) 4294967295 of
        Inl e \<Rightarrow> Inl e
      | Inr i \<Rightarrow> Inr (word_of_int i))"

text \<open>The argument types \<^verbatim>\<open>Int<T>\<close>: the limits of the integer type.\<close>

datatype int_type = Int32 | UInt32 | Int16 | UInt16 | UInt8

fun int_min :: "int_type \<Rightarrow> int" where
  "int_min Int32 = -2147483648"
| "int_min UInt32 = 0"
| "int_min Int16 = -32768"
| "int_min UInt16 = 0"
| "int_min UInt8 = 0"

fun int_max :: "int_type \<Rightarrow> int" where
  "int_max Int32 = 2147483647"
| "int_max UInt32 = 4294967295"
| "int_max Int16 = 32767"
| "int_max UInt16 = 65535"
| "int_max UInt8 = 255"

definition get_Int :: "int_type \<Rightarrow> lua_Debug option \<Rightarrow> int \<Rightarrow> lval option \<Rightarrow> int res" where
  "get_Int T dbg index v = CheckInteger dbg index v (int_min T) (int_max T)"

definition noneornil :: "lval option \<Rightarrow> bool" where
  "noneornil v \<longleftrightarrow> v = None \<or> v = Some LNil"

definition get_Opt :: "(lval option \<Rightarrow> 'a res) \<Rightarrow> lval option \<Rightarrow> 'a option res" where
  "get_Opt get v = (if noneornil v then Inr None else map_sum id Some (get v))"

section \<open>Tables and vectors\<close>

type_synonym lheap = "nat \<Rightarrow> int \<Rightarrow> lval"

definition TableNumber :: "(int \<Rightarrow> lua_float) \<Rightarrow> lheap \<Rightarrow> lua_Debug option \<Rightarrow> int \<Rightarrow> nat \<Rightarrow> int \<Rightarrow> lua_float res" where
  "TableNumber i2d heap dbg index table i =
     (case heap table i of
        LInt n \<Rightarrow> Inr (i2d n)
      | LFloat f \<Rightarrow> Inr f
      | v \<Rightarrow> Inl (ArgError dbg index (''element '' @ show_int i @ '' must be a number, got ''
               @ lua_typename v)))"

definition element_in_range :: "lua_Debug option \<Rightarrow> int \<Rightarrow> int \<Rightarrow> int \<Rightarrow> int \<Rightarrow> int \<Rightarrow> int res" where
  "element_in_range dbg index i lo hi n =
     (if n < lo \<or> n > hi
      then Inl (ArgError dbg index (''element '' @ show_int i @ '': value '' @ show_int n
             @ '' out of range ['' @ show_int lo @ '', '' @ show_int hi @ '']''))
      else Inr n)"

definition TableInteger :: "lheap \<Rightarrow> lua_Debug option \<Rightarrow> int \<Rightarrow> nat \<Rightarrow> int \<Rightarrow> int \<Rightarrow> int \<Rightarrow> int option \<Rightarrow> int res" where
  "TableInteger heap dbg index table i lo hi fallback =
     (case heap table i of
        LInt n \<Rightarrow> element_in_range dbg index i lo hi n
      | LFloat f \<Rightarrow>
          (case float_to_integer f of
             None \<Rightarrow> Inl (ArgError dbg index (''element '' @ show_int i
                       @ '' has no integer representation''))
           | Some n \<Rightarrow> element_in_range dbg index i lo hi n)
      | v \<Rightarrow>
          (case (v, fallback) of
             (LNil, Some d) \<Rightarrow> Inr d
           | _ \<Rightarrow> Inl (ArgError dbg index (''element '' @ show_int i @ '' must be an integer, got ''
                    @ lua_typename v))))"

text \<open>
  The getter of Vec3: one table or three numbers. The result carries the number of stack
  slots used. \<open>to_float\<close> is the narrowing cast from double to float.
\<close>

definition map_vec :: "(lua_float \<Rightarrow> lua_float) \<Rightarrow> lua_float res \<Rightarrow> lua_float res \<Rightarrow> lua_float res \<Rightarrow>
    (lua_float \<times> lua_float \<times> lua_float) res" where
  "map_vec to_float x y z =
     (case x of Inl e \<Rightarrow> Inl e | Inr a \<Rightarrow>
       (case y of Inl e \<Rightarrow> Inl e | Inr b \<Rightarrow>
         (case z of Inl e \<Rightarrow> Inl e | Inr c \<Rightarrow> Inr (to_float a, to_float b, to_float c))))"

definition get_Vec3 :: "(int \<Rightarrow> lua_float) \<Rightarrow> (lua_float \<Rightarrow> lua_float) \<Rightarrow> lheap \<Rightarrow> lua_Debug option \<Rightarrow>
    (int \<Rightarrow> lval option) \<Rightarrow> int \<Rightarrow> int \<times> (lua_float \<times> lua_float \<times> lua_float) res" where
  "get_Vec3 i2d to_float heap dbg stack index =
     (case stack index of
        Some (LTab t) \<Rightarrow>
          (1, map_vec to_float (TableNumber i2d heap dbg index t 1)
                (TableNumber i2d heap dbg index t 2) (TableNumber i2d heap dbg index t 3))
      | v \<Rightarrow>
          (3, if lua_typename (case v of None \<Rightarrow> LNil | Some w \<Rightarrow> w) \<noteq> ''number''
              then Inl (TypeError dbg index ''table or number'' v)
              else map_vec to_float (CheckNumber i2d dbg index v)
                     (CheckNumber i2d dbg (index + 1) (stack (index + 1)))
                     (CheckNumber i2d dbg (index + 2) (stack (index + 2)))))"

section \<open>ToInteger and RequireFunction\<close>

definition ToInteger :: "(lua_float \<Rightarrow> string) \<Rightarrow> string \<Rightarrow> lval \<Rightarrow> int res" where
  "ToInteger show_float who v =
     (case v of
        LInt i \<Rightarrow> Inr i
      | LFloat f \<Rightarrow>
          (case float_to_integer f of
             Some i \<Rightarrow> Inr i
           | None \<Rightarrow> Inl (Invalid_argument (who @ '' must be an integer (got '' @ show_float f @ '')'')))
      | _ \<Rightarrow> Inl (Invalid_argument (who @ '' must be an integer (got '' @ lua_typename v @ '')'')))"

definition RequireFunction :: "lval \<Rightarrow> string \<Rightarrow> int \<Rightarrow> nat res" where
  "RequireFunction v place argument =
     (case v of
        LFun f \<Rightarrow> Inr f
      | _ \<Rightarrow> Inl (Invalid_argument (place @ '': argument '' @ show_int argument
               @ '' must be a function (got '' @ lua_typename v @ '')'')))"

section \<open>Properties\<close>

lemma float_to_integer_Some:
  "float_to_integer f = Some i \<longleftrightarrow> f = Fin (of_int i) \<and> - (2 ^ 63) \<le> i \<and> i < 2 ^ 63"
proof -
  have "(of_int i :: rat) < -9223372036854775808 \<longleftrightarrow> i < -9223372036854775808"
    using of_int_less_iff [of i "-9223372036854775808", where 'a = rat] by simp
  moreover have "(9223372036854775808 :: rat) \<le> of_int i \<longleftrightarrow> 9223372036854775808 \<le> i"
    using of_int_le_iff [of "9223372036854775808" i, where 'a = rat] by simp
  ultimately show ?thesis
    by (cases f) (auto simp: float_to_integer_def)
qed

lemma float_to_integer_of_int:
  "- (2 ^ 63) \<le> i \<Longrightarrow> i < 2 ^ 63 \<Longrightarrow> float_to_integer (Fin (of_int i)) = Some i"
  by (simp add: float_to_integer_Some)

text \<open>The integer a Lua number denotes, if it denotes one.\<close>

definition denotes :: "lval option \<Rightarrow> int \<Rightarrow> bool" where
  "denotes v i \<longleftrightarrow> v = Some (LInt i) \<or>
     (v = Some (LFloat (Fin (of_int i))) \<and> - (2 ^ 63) \<le> i \<and> i < 2 ^ 63)"

lemma CheckInteger_Inr:
  "CheckInteger dbg index v lo hi = Inr i \<longleftrightarrow> denotes v i \<and> lo \<le> i \<and> i \<le> hi"
  by (auto simp: CheckInteger_def in_range_def denotes_def float_to_integer_Some
      float_to_integer_of_int split: option.splits lval.splits)

text \<open>
  C31. CheckInteger returns \<open>i\<close> exactly when the argument is the integer \<open>i\<close>, or a float with
  that integral value inside the 64-bit range, and \<open>i\<close> lies in \<open>[lo, hi]\<close>; in every other
  case (wrong type, NaN, infinity, a fraction, out of range, no value) it throws.
\<close>

theorem CheckInteger_exact:
  "CheckInteger dbg index v lo hi = Inr i \<longleftrightarrow> denotes v i \<and> lo \<le> i \<and> i \<le> hi"
  by (rule CheckInteger_Inr)

text \<open>
  Colours: every value of \<open>[-2^31, 2^32)\<close> is accepted and gives its low 32 bits, so a
  colour written as an unsigned number and the same bits written as a negative 32-bit
  integer are the same colour; everything else is refused.
\<close>

theorem CheckColour_bits:
  "(CheckColour dbg index v = Inr c \<longleftrightarrow>
      (\<exists>i. denotes v i \<and> - (2 ^ 31) \<le> i \<and> i < 2 ^ 32 \<and> c = word_of_int i)) \<and>
   CheckColour dbg index (Some (LInt (sint (c :: u32)))) = Inr c \<and>
   CheckColour dbg index (Some (LInt (uint c))) = Inr c"
proof -
  have "CheckColour dbg index v = Inr c \<longleftrightarrow>
      (\<exists>i. CheckInteger dbg index v (-2147483648) 4294967295 = Inr i \<and> c = word_of_int i)" for v
    by (auto simp: CheckColour_def split: sum.splits)
  then have eq: "CheckColour dbg index v = Inr c \<longleftrightarrow>
      (\<exists>i. denotes v i \<and> - (2 ^ 31) \<le> i \<and> i < 2 ^ 32 \<and> c = word_of_int i)" for v
    by (auto simp: CheckInteger_Inr)
  have "- (2 ^ 31) \<le> sint c" "sint c < 2 ^ 32" "- (2 ^ 31) \<le> uint c" "uint c < 2 ^ 32"
    using sint_greater_eq [of c] sint_less [of c] uint_range_size [of c]
    by (simp_all add: word_size order_trans [of "- 2147483648" 0])
  then show ?thesis
    by (simp only: eq) (auto simp: denotes_def)
qed

end
