(* ===== verification/Chars.thy ===== *)
theory Chars
  imports Prelude
begin

text \<open>
  The character functions that the program uses, in the C locale: \<^verbatim>\<open>isalnum\<close> and \<^verbatim>\<open>tolower\<close>.
  A character is a byte.
\<close>

definition isalnum :: "char \<Rightarrow> bool" where
  "isalnum ch = (let n = (of_char ch :: nat) in
     48 \<le> n \<and> n \<le> 57 \<or> 65 \<le> n \<and> n \<le> 90 \<or> 97 \<le> n \<and> n \<le> 122)"

definition Lower :: "char \<Rightarrow> char" where
  "Lower ch = (let n = (of_char ch :: nat) in if 65 \<le> n \<and> n \<le> 90 then char_of (n + 32) else ch)"

text \<open>The bytes that a reader of a C string sees.\<close>

definition NUL :: char where "NUL = CHR 0x00"

definition cstr :: "string \<Rightarrow> string" where
  "cstr s = takeWhile (\<lambda>ch. ch \<noteq> NUL) s"

text \<open>The same functions on the bits of a character, for evaluation.\<close>

lemma Lower_code [code]:
  "Lower (Char b0 b1 b2 b3 b4 b5 b6 b7) =
     (if \<not> b7 \<and> b6 \<and> \<not> b5 \<and> (b0 \<or> b1 \<or> b2 \<or> b3 \<or> b4) \<and> \<not> (b4 \<and> b3 \<and> (b2 \<or> b1 \<and> b0))
      then Char b0 b1 b2 b3 b4 True b6 b7 else Char b0 b1 b2 b3 b4 b5 b6 b7)"
  by (cases b0; cases b1; cases b2; cases b3; cases b4; cases b5; cases b6; cases b7;
      simp add: Lower_def Let_def char_of_def bit_0)

lemma isalnum_code [code]:
  "isalnum (Char b0 b1 b2 b3 b4 b5 b6 b7) =
     (\<not> b7 \<and> (if b6 then (b0 \<or> b1 \<or> b2 \<or> b3 \<or> b4) \<and> \<not> (b4 \<and> b3 \<and> (b2 \<or> b1 \<and> b0))
               else b5 \<and> b4 \<and> \<not> (b3 \<and> (b2 \<or> b1))))"
  by (cases b0; cases b1; cases b2; cases b3; cases b4; cases b5; cases b6; cases b7;
      simp add: isalnum_def Let_def)

lemma Lower_Lower [simp]: "Lower (Lower ch) = Lower ch"
  by (cases ch) (auto simp: Lower_code)

lemma isalnum_Lower [simp]: "isalnum (Lower ch) = isalnum ch"
  by (cases ch) (auto simp: Lower_code isalnum_code)

end
