(* ===== verification/Http.thy ===== *)
theory Http
  imports Args Chars Std_Map "HOL-Library.AList"
begin

text \<open>
  The HTTP client of \<^verbatim>\<open>src/modules/http.cpp\<close>: the reading and checking of a script's
  request, the options a transfer is started with, the callbacks that libcurl calls with
  the response (\<^verbatim>\<open>Write\<close>, \<^verbatim>\<open>Header\<close>), and the table of pending transfers. The calls into Lua
  when a transfer is complete are in the theory of the runtime. libcurl is a parameter: the
  record \<open>Curl\<close> holds what its functions return. The branch for Linux is modelled. Running
  out of memory is not modelled.
\<close>

section \<open>Requests and transfers\<close>

record Request =
  url :: string
  req_method :: string
  req_headers :: "string list"
  req_body :: string
  has_body :: bool
  timeout_ms :: int
  max_redirects :: int

definition new_request :: Request where
  "new_request = \<lparr>url = [], req_method = [], req_headers = [], req_body = [], has_body = False,
     timeout_ms = 30000, max_redirects = 5\<rparr>"

definition kMaxPending :: nat where "kMaxPending = 1000"

definition kMaxBody :: nat where "kMaxBody = 16 * 1024 * 1024"

text \<open>The options a transfer sets, with their values; \<^verbatim>\<open>None\<close> is a null pointer.\<close>

datatype curl_option =
    PRIVATE | ERRORBUFFER | NOSIGNAL int | URL string
  | PROTOCOLS_STR string | REDIR_PROTOCOLS_STR string
  | FOLLOWLOCATION int | MAXREDIRS int | TIMEOUT_MS int | CONNECTTIMEOUT_MS int
  | USERAGENT string | ACCEPT_ENCODING string | MAXFILESIZE_LARGE nat
  | WRITEFUNCTION | WRITEDATA | HEADERFUNCTION | HEADERDATA
  | SSL_VERIFYPEER int | SSL_VERIFYHOST int
  | CAINFO "string option" | CAPATH "string option" | CAINFO_BLOB
  | HTTPHEADER "string list" | NOBODY int | CUSTOMREQUEST string
  | POSTFIELDSIZE_LARGE nat | COPYPOSTFIELDS string

record Transfer =
  t_id :: "64 word"
  options :: "curl_option list"   \<comment> \<open>set on the easy handle, in order\<close>
  in_multi :: bool
  t_callback :: nat
  t_result :: nat                 \<comment> \<open>CURLcode; 0 is CURLE OK\<close>
  t_error :: string
  too_large :: bool
  response_headers :: "(string \<times> string) list"
  t_body :: string

record Http =
  cafile :: string
  next_transfer :: "64 word"
  transfers :: "(64 word \<times> Transfer) list"

definition new_http :: "string \<Rightarrow> Http" where
  "new_http ca = \<lparr>cafile = ca, next_transfer = 1, transfers = []\<rparr>"

text \<open>What libcurl and the file system answer.\<close>

record Curl =
  easy_init :: bool
  easy_setopt :: "curl_option \<Rightarrow> nat"
  easy_strerror :: "nat \<Rightarrow> string"
  multi_add_handle :: nat
  multi_strerror :: "nat \<Rightarrow> string"
  readable :: "string \<Rightarrow> bool"
  option_number :: "curl_option \<Rightarrow> nat"
  version :: string

definition kCaBundles :: "string list" where
  "kCaBundles = [''/etc/ssl/certs/ca-certificates.crt'', ''/etc/pki/tls/certs/ca-bundle.crt'',
     ''/etc/pki/ca-trust/extracted/pem/tls-ca-bundle.pem'', ''/etc/ssl/ca-bundle.pem'',
     ''/etc/ssl/cert.pem'', ''/etc/pki/tls/cacert.pem'']"

definition DistributionCaBundle :: "Curl \<Rightarrow> string option" where
  "DistributionCaBundle c = find (readable c) kCaBundles"

section \<open>Starting a transfer\<close>

definition tls_options :: "Curl \<Rightarrow> string \<Rightarrow> curl_option list" where
  "tls_options c ca =
     [SSL_VERIFYPEER 1, SSL_VERIFYHOST 2] @
     (if ca \<noteq> [] then [CAINFO (Some ca), CAPATH None]
      else CAPATH None #
        (case DistributionCaBundle c of
           Some bundle \<Rightarrow> [CAINFO (Some bundle)]
         | None \<Rightarrow> [CAINFO None, CAINFO_BLOB]))"

definition body_options :: "Request \<Rightarrow> curl_option list" where
  "body_options r =
     (if req_method r = ''HEAD'' then [NOBODY 1]
      else if req_method r \<noteq> ''GET'' \<and> req_method r \<noteq> ''POST'' then [CUSTOMREQUEST (req_method r)]
      else []) @
     (if has_body r then [POSTFIELDSIZE_LARGE (length (req_body r)), COPYPOSTFIELDS (req_body r)]
      else if req_method r = ''POST'' then [POSTFIELDSIZE_LARGE 0, COPYPOSTFIELDS []]
      else [])"

definition request_options :: "Curl \<Rightarrow> string \<Rightarrow> Request \<Rightarrow> curl_option list" where
  "request_options c ca r =
     [PRIVATE, ERRORBUFFER, NOSIGNAL 1, URL (url r), PROTOCOLS_STR ''http,https'',
      REDIR_PROTOCOLS_STR ''http,https'', FOLLOWLOCATION (if max_redirects r > 0 then 1 else 0),
      MAXREDIRS (max_redirects r), TIMEOUT_MS (timeout_ms r),
      CONNECTTIMEOUT_MS (min 10000 (timeout_ms r)), USERAGENT (''VCMP-Lua/'' @ version c),
      ACCEPT_ENCODING [], MAXFILESIZE_LARGE kMaxBody,
      WRITEFUNCTION, WRITEDATA, HEADERFUNCTION, HEADERDATA] @
     tls_options c ca @
     (if req_headers r \<noteq> [] then [HTTPHEADER (req_headers r)] else []) @
     body_options r"

text \<open>\<^verbatim>\<open>SetOption\<close> for each option in turn: the first that libcurl refuses ends the request.\<close>

fun SetOptions :: "Curl \<Rightarrow> curl_option list \<Rightarrow> unit res" where
  "SetOptions c [] = Inr ()"
| "SetOptions c (opt # opts) =
     (if easy_setopt c opt \<noteq> 0
      then Inl (Runtime_error (''http.request: curl refused option '' @ show_nat (option_number c opt)
                @ '': '' @ easy_strerror c (easy_setopt c opt)))
      else SetOptions c opts)"

definition Start :: "Curl \<Rightarrow> Http \<Rightarrow> Request \<Rightarrow> nat \<Rightarrow> Http \<times> unit res" where
  "Start c h r callback =
     (if length (transfers h) \<ge> kMaxPending
      then (h, Inl (Runtime_error (''http.request: '' @ show_nat kMaxPending @ '' requests are pending already'')))
      else
        let n = next_transfer h; h' = h\<lparr>next_transfer := n + 1\<rparr> in
        if \<not> easy_init c then (h', Inl (Runtime_error ''http.request: cannot create a libcurl handle''))
        else case SetOptions c (request_options c (cafile h) r) of
          Inl e \<Rightarrow> (h', Inl e)
        | Inr _ \<Rightarrow>
            if multi_add_handle c \<noteq> 0
            then (h', Inl (Runtime_error (''http.request: cannot start the request: ''
                     @ multi_strerror c (multi_add_handle c))))
            else
              let t = \<lparr>t_id = n, options = request_options c (cafile h) r, in_multi = True,
                       t_callback = callback, t_result = 0, t_error = [], too_large = False,
                       response_headers = [], t_body = []\<rparr>
              in (h'\<lparr>transfers := (if n \<in> fst ` set (transfers h) then transfers h
                                    else map_put n t (transfers h))\<rparr>, Inr ()))"

section \<open>What libcurl calls while a transfer runs\<close>

definition Write :: "string \<Rightarrow> Transfer \<Rightarrow> Transfer \<times> nat" where
  "Write chunk t =
     (if length (t_body t) + length chunk > kMaxBody then (t\<lparr>too_large := True\<rparr>, 0)
      else (t\<lparr>t_body := t_body t @ chunk\<rparr>, length chunk))"

definition CR :: char where "CR = CHR 0x0D"
definition LF :: char where "LF = CHR 0x0A"
definition TAB :: char where "TAB = CHR 0x09"

definition trim_back :: "(char \<Rightarrow> bool) \<Rightarrow> string \<Rightarrow> string" where
  "trim_back p s = rev (dropWhile p (rev s))"

definition blank :: "char \<Rightarrow> bool" where
  "blank ch \<longleftrightarrow> ch = CHR '' '' \<or> ch = TAB"

fun find_char :: "char \<Rightarrow> string \<Rightarrow> nat option" where
  "find_char ch [] = None"
| "find_char ch (x # xs) = (if x = ch then Some 0 else map_option Suc (find_char ch xs))"

definition Header :: "string \<Rightarrow> Transfer \<Rightarrow> Transfer \<times> nat" where
  "Header chunk t =
     (let line = trim_back (\<lambda>ch. ch = CR \<or> ch = LF) chunk in
      if take 5 line = ''HTTP/'' then (t\<lparr>response_headers := []\<rparr>, length chunk)
      else case find_char (CHR '':'') line of
        None \<Rightarrow> (t, length chunk)
      | Some colon \<Rightarrow>
          if colon = 0 then (t, length chunk)
          else
            let name = map Lower (take colon line);
                value = trim_back blank (dropWhile blank (drop (colon + 1) line))
            in (t\<lparr>response_headers := response_headers t @ [(name, value)]\<rparr>, length chunk))"

section \<open>Completed transfers\<close>

text \<open>
  The collecting loop of \<^verbatim>\<open>Pump\<close>: \<open>msgs\<close> are the transfers that libcurl reports as done,
  with their results. A report for a transfer that is not pending would dereference the
  end iterator of the table; the model then gives \<^verbatim>\<open>None\<close>.
\<close>

fun collect_done :: "(64 word \<times> nat) list \<Rightarrow> Http \<Rightarrow> (Http \<times> Transfer list) option" where
  "collect_done [] h = Some (h, [])"
| "collect_done ((n, code) # msgs) h =
     (case map_of (transfers h) n of
        None \<Rightarrow> None
      | Some t \<Rightarrow>
          (case collect_done msgs (h\<lparr>transfers := map_erase n (transfers h)\<rparr>) of
             None \<Rightarrow> None
           | Some (h', ts) \<Rightarrow> Some (h', t\<lparr>t_result := code, in_multi := False\<rparr> # ts)))"

text \<open>The headers table of the response: a repeated name has its values joined.\<close>

fun join_header :: "(string \<times> string) list \<Rightarrow> string \<times> string \<Rightarrow> (string \<times> string) list" where
  "join_header tab (name, value) =
     (case map_of tab name of
        Some old \<Rightarrow> AList.update name (old @ '', '' @ value) tab
      | None \<Rightarrow> AList.update name value tab)"

definition headers_table :: "(string \<times> string) list \<Rightarrow> (string \<times> string) list" where
  "headers_table hs = foldl join_header [] hs"

datatype reply =
    Response int string string "(string \<times> string) list"   \<comment> \<open>status, url, body, headers\<close>
  | Failure string

definition Complete_reply :: "Curl \<Rightarrow> int \<Rightarrow> string option \<Rightarrow> Transfer \<Rightarrow> reply" where
  "Complete_reply c status effective_url t =
     (if t_result t \<noteq> 0 then
        Failure (if too_large t then ''the response body is larger than '' @ show_nat kMaxBody @ '' bytes''
                 else if t_error t \<noteq> [] then t_error t
                 else easy_strerror c (t_result t))
      else Response status (case effective_url of Some u \<Rightarrow> u | None \<Rightarrow> []) (t_body t)
             (headers_table (response_headers t)))"

definition Clear :: "Http \<Rightarrow> Http" where
  "Clear h = h\<lparr>transfers := []\<rparr>"

definition Pending :: "Http \<Rightarrow> nat" where
  "Pending h = length (transfers h)"

section \<open>Reading a script's request\<close>

text \<open>
  A Lua table is given by its pairs in the order of \<^verbatim>\<open>lua_next\<close>; the fields are read raw.
  \<open>num2str\<close> and \<open>tolstring\<close> are Lua's conversions to a string, \<open>to_double\<close> its conversion of
  an integer, and \<open>times1000\<close> the multiplication of a double by 1000.
\<close>

type_synonym ltables = "nat \<Rightarrow> (lval \<times> lval) list"

record LuaConv =
  num2str :: "lval \<Rightarrow> string"
  tolstring :: "lval \<Rightarrow> string"
  to_double :: "int \<Rightarrow> lua_float"
  times1000 :: "rat \<Rightarrow> rat"

definition kFields :: "string list" where
  "kFields = [''url'', ''method'', ''headers'', ''body'', ''timeout'', ''redirects'']"

definition kMaxTimeout :: rat where "kMaxTimeout = 3600"

definition TokenChar :: "char \<Rightarrow> bool" where
  "TokenChar ch \<longleftrightarrow> isalnum ch \<or> ch \<in> set (''!#$%&'' @ [CHR 0x27] @ ''*+-.^_'' @ [CHR 0x60] @ ''|~'')"

definition Upper :: "char \<Rightarrow> char" where
  "Upper ch = (let n = (of_char ch :: nat) in if 97 \<le> n \<and> n \<le> 122 then char_of (n - 32) else ch)"

definition capital :: "char \<Rightarrow> bool" where
  "capital ch \<longleftrightarrow> 65 \<le> (of_char ch :: nat) \<and> (of_char ch :: nat) \<le> 90"

definition Field :: "(lval \<times> lval) list \<Rightarrow> string \<Rightarrow> lval" where
  "Field tab field = (case map_of tab (LStr field) of Some v \<Rightarrow> v | None \<Rightarrow> LNil)"

definition FieldError :: "lua_Debug option \<Rightarrow> string \<Rightarrow> string \<Rightarrow> lval \<Rightarrow> cxx" where
  "FieldError dbg field expected v =
     ArgError dbg 1 (''field '' @ quoted field @ '' must be '' @ expected @ '' (got ''
        @ TypeName (Some v) @ '')'')"

fun find_str :: "string \<Rightarrow> string \<Rightarrow> nat option" where
  "find_str pat [] = (if pat = [] then Some 0 else None)"
| "find_str pat (x # xs) =
     (if take (length pat) (x # xs) = pat then Some 0 else map_option Suc (find_str pat xs))"

definition CheckUrl :: "lua_Debug option \<Rightarrow> string \<Rightarrow> unit res" where
  "CheckUrl dbg u =
     (let scheme = map Lower (case find_str ''://'' u of Some n \<Rightarrow> take n u | None \<Rightarrow> u) in
      if find_str ''://'' u = None \<or> (scheme \<noteq> ''http'' \<and> scheme \<noteq> ''https'')
      then Inl (ArgError dbg 1 ''the URL must start with http:// or https://'')
      else Inr ())"

definition header_value :: "LuaConv \<Rightarrow> lval \<Rightarrow> string option" where
  "header_value cv v =
     (case v of
        LStr text \<Rightarrow> Some text
      | LInt i \<Rightarrow> Some (num2str cv (LInt i))
      | LFloat f \<Rightarrow> Some (num2str cv (LFloat f))
      | _ \<Rightarrow> None)"

text \<open>One header; the line for libcurl, \<^verbatim>\<open>Name;\<close> for an empty value.\<close>

definition ReadHeader :: "LuaConv \<Rightarrow> lua_Debug option \<Rightarrow> lval \<times> lval \<Rightarrow> string res" where
  "ReadHeader cv dbg kv =
     (case fst kv of
        LStr name \<Rightarrow>
          if name = [] \<or> \<not> list_all TokenChar name
          then Inl (ArgError dbg 1 (''invalid header name '' @ quoted name))
          else
            (case header_value cv (snd kv) of
               None \<Rightarrow> Inl (ArgError dbg 1 (''header '' @ quoted name @ '' must be a string (got ''
                         @ TypeName (Some (snd kv)) @ '')''))
             | Some v \<Rightarrow>
                 if list_ex (\<lambda>ch. ch = CR \<or> ch = LF \<or> ch = NUL) v
                 then Inl (ArgError dbg 1 (''header '' @ quoted name @ '' contains a line break or NUL''))
                 else Inr (if v = [] then name @ '';'' else name @ '': '' @ v))
      | _ \<Rightarrow> Inl (ArgError dbg 1 ''header names must be strings''))"

fun ReadHeaders :: "LuaConv \<Rightarrow> lua_Debug option \<Rightarrow> (lval \<times> lval) list \<Rightarrow> string list res" where
  "ReadHeaders cv dbg [] = Inr []"
| "ReadHeaders cv dbg (kv # kvs) =
     (case ReadHeader cv dbg kv of
        Inl e \<Rightarrow> Inl e
      | Inr h \<Rightarrow> map_sum id (Cons h) (ReadHeaders cv dbg kvs))"

fun check_fields :: "LuaConv \<Rightarrow> lua_Debug option \<Rightarrow> (lval \<times> lval) list \<Rightarrow> unit res" where
  "check_fields cv dbg [] = Inr ()"
| "check_fields cv dbg ((k, _) # kvs) =
     (if (case k of LStr f \<Rightarrow> f \<in> set kFields | _ \<Rightarrow> False) then check_fields cv dbg kvs
      else Inl (ArgError dbg 1 (''unknown field '' @ quoted (tolstring cv k))))"

definition read_body :: "lua_Debug option \<Rightarrow> (lval \<times> lval) list \<Rightarrow> string option res" where
  "read_body dbg tab =
     (case Field tab ''body'' of
        LNil \<Rightarrow> Inr None
      | LStr b \<Rightarrow> Inr (Some b)
      | v \<Rightarrow> Inl (FieldError dbg ''body'' ''a string'' v))"

definition read_method :: "lua_Debug option \<Rightarrow> (lval \<times> lval) list \<Rightarrow> bool \<Rightarrow> string res" where
  "read_method dbg tab body =
     (case (case Field tab ''method'' of
              LNil \<Rightarrow> Inr (if body then ''POST'' else ''GET'')
            | LStr m \<Rightarrow> Inr m
            | v \<Rightarrow> Inl (FieldError dbg ''method'' ''a string'' v)) of
        Inl e \<Rightarrow> Inl e
      | Inr m0 \<Rightarrow>
          let m = map Upper m0 in
          if m = [] \<or> length m > 16 \<or> \<not> list_all capital m
          then Inl (ArgError dbg 1 (''invalid method '' @ quoted m))
          else if body \<and> (m = ''GET'' \<or> m = ''HEAD'')
          then Inl (ArgError dbg 1 (''a '' @ m @ '' request has no body''))
          else Inr m)"

definition read_headers :: "LuaConv \<Rightarrow> ltables \<Rightarrow> lua_Debug option \<Rightarrow> (lval \<times> lval) list \<Rightarrow> string list res" where
  "read_headers cv tables dbg tab =
     (case Field tab ''headers'' of
        LNil \<Rightarrow> Inr []
      | LTab t \<Rightarrow> ReadHeaders cv dbg (tables t)
      | v \<Rightarrow> Inl (FieldError dbg ''headers'' ''a table'' v))"

definition number_of :: "LuaConv \<Rightarrow> lval \<Rightarrow> lua_float option" where
  "number_of cv v = (case v of LInt i \<Rightarrow> Some (to_double cv i) | LFloat f \<Rightarrow> Some f | _ \<Rightarrow> None)"

definition read_timeout :: "LuaConv \<Rightarrow> lua_Debug option \<Rightarrow> (lval \<times> lval) list \<Rightarrow> int res" where
  "read_timeout cv dbg tab =
     (let v = Field tab ''timeout'' in
      if v = LNil then Inr (timeout_ms new_request)
      else case number_of cv v of
        None \<Rightarrow> Inl (FieldError dbg ''timeout'' ''a number of seconds'' v)
      | Some (Fin q) \<Rightarrow>
          if 0 < q \<and> q \<le> kMaxTimeout then Inr (max 1 \<lfloor>times1000 cv q\<rfloor>)
          else Inl (ArgError dbg 1 (''field '' @ quoted ''timeout'' @ '' must be between 0 and 3600 seconds''))
      | Some _ \<Rightarrow>
          Inl (ArgError dbg 1 (''field '' @ quoted ''timeout'' @ '' must be between 0 and 3600 seconds'')))"

definition read_redirects :: "LuaConv \<Rightarrow> lua_Debug option \<Rightarrow> (lval \<times> lval) list \<Rightarrow> int res" where
  "read_redirects cv dbg tab =
     (let v = Field tab ''redirects'' in
      if v = LNil then Inr (max_redirects new_request)
      else case number_of cv v of
        None \<Rightarrow> Inl (FieldError dbg ''redirects'' ''an integer'' v)
      | Some (Fin q) \<Rightarrow>
          if 0 \<le> q \<and> q \<le> 20 \<and> of_int \<lfloor>q\<rfloor> = q then Inr \<lfloor>q\<rfloor>
          else Inl (ArgError dbg 1 (''field '' @ quoted ''redirects'' @ '' must be an integer between 0 and 20''))
      | Some _ \<Rightarrow>
          Inl (ArgError dbg 1 (''field '' @ quoted ''redirects'' @ '' must be an integer between 0 and 20'')))"

definition res_bind :: "'a res \<Rightarrow> ('a \<Rightarrow> 'b res) \<Rightarrow> 'b res" where
  "res_bind r k = (case r of Inl e \<Rightarrow> Inl e | Inr x \<Rightarrow> k x)"

definition read_url :: "lua_Debug option \<Rightarrow> (lval \<times> lval) list \<Rightarrow> string res" where
  "read_url dbg tab =
     (case Field tab ''url'' of
        LStr u \<Rightarrow> res_bind (CheckUrl dbg u) (\<lambda>_. Inr u)
      | v \<Rightarrow> Inl (FieldError dbg ''url'' ''a string'' v))"

definition ReadRequest :: "LuaConv \<Rightarrow> ltables \<Rightarrow> lua_Debug option \<Rightarrow> lval option \<Rightarrow> Request res" where
  "ReadRequest cv tables dbg arg =
     (case arg of
        Some (LStr u) \<Rightarrow>
          res_bind (CheckUrl dbg u) (\<lambda>_. Inr (new_request\<lparr>url := u, req_method := ''GET''\<rparr>))
      | Some (LTab t) \<Rightarrow>
          (let tab = tables t in
           res_bind (check_fields cv dbg tab) (\<lambda>_.
           res_bind (read_url dbg tab) (\<lambda>u.
           res_bind (read_body dbg tab) (\<lambda>b.
           res_bind (read_method dbg tab (b \<noteq> None)) (\<lambda>m.
           res_bind (read_headers cv tables dbg tab) (\<lambda>hs.
           res_bind (read_timeout cv dbg tab) (\<lambda>ms.
           res_bind (read_redirects cv dbg tab) (\<lambda>n.
             Inr \<lparr>url = u, req_method = m, req_headers = hs,
                  req_body = (case b of Some text \<Rightarrow> text | None \<Rightarrow> []), has_body = (b \<noteq> None),
                  timeout_ms = ms, max_redirects = n\<rparr>))))))))
      | _ \<Rightarrow> Inl (TypeError dbg 1 ''table or URL'' arg))"

text \<open>
  \<^verbatim>\<open>http.request\<close>, after \<^verbatim>\<open>Runtime::Require\<close>: the request, the callback, the start.
\<close>

definition http_request ::
  "LuaConv \<Rightarrow> ltables \<Rightarrow> lua_Debug option \<Rightarrow> Curl \<Rightarrow> Http \<Rightarrow> lval option \<Rightarrow> lval \<Rightarrow> Http \<times> unit res" where
  "http_request cv tables dbg c h options_arg callback_arg =
     (case ReadRequest cv tables dbg options_arg of
        Inl e \<Rightarrow> (h, Inl e)
      | Inr r \<Rightarrow>
          (case RequireFunction callback_arg ''http.request'' 2 of
             Inl e \<Rightarrow> (h, Inl e)
           | Inr callback \<Rightarrow> Start c h r callback))"

section \<open>Safety of the accepted requests\<close>

lemma res_bind_Inr: "res_bind r k = Inr y \<longleftrightarrow> (\<exists>x. r = Inr x \<and> k x = Inr y)"
  by (cases r) (simp_all add: res_bind_def)

lemma TokenChar_printable: "TokenChar ch \<Longrightarrow> ch \<noteq> CR \<and> ch \<noteq> LF \<and> ch \<noteq> NUL"
  by (auto simp: TokenChar_def isalnum_def CR_def LF_def NUL_def Let_def)

definition one_line :: "string \<Rightarrow> bool" where
  "one_line s \<longleftrightarrow> \<not> list_ex (\<lambda>ch. ch = CR \<or> ch = LF \<or> ch = NUL) s"

lemma one_line_append [simp]: "one_line (s @ t) \<longleftrightarrow> one_line s \<and> one_line t"
  by (auto simp: one_line_def)

lemma one_line_token: "list_all TokenChar s \<Longrightarrow> one_line s"
  by (auto simp: one_line_def list_all_iff list_ex_iff dest: TokenChar_printable)

lemma one_line_separators [simp]: "one_line '';''" "one_line '': ''"
  by (simp_all add: one_line_def CR_def LF_def NUL_def)

lemma ReadHeader_one_line:
  assumes "ReadHeader cv dbg kv = Inr h"
  shows "one_line h"
proof -
  obtain name where name: "fst kv = LStr name"
    using assms by (cases "fst kv") (simp_all add: ReadHeader_def)
  obtain v where v: "header_value cv (snd kv) = Some v"
    using assms name by (cases "header_value cv (snd kv)") (auto simp: ReadHeader_def split: if_splits)
  have "list_all TokenChar name" "one_line v" "h = (if v = [] then name @ '';'' else name @ '': '' @ v)"
    using assms by (auto simp: ReadHeader_def name v one_line_def split: if_splits)
  then show ?thesis
    using one_line_append [of "'': ''" v] by (simp add: one_line_token)
qed

lemma ReadHeaders_one_line: "ReadHeaders cv dbg kvs = Inr hs \<Longrightarrow> \<forall>h \<in> set hs. one_line h"
proof (induction kvs arbitrary: hs)
  case (Cons kv kvs)
  then obtain h hs' where "ReadHeader cv dbg kv = Inr h" "ReadHeaders cv dbg kvs = Inr hs'" "hs = h # hs'"
    by (cases "ReadHeaders cv dbg kvs") (auto split: sum.splits)
  with Cons.IH show ?case
    by (auto dest: ReadHeader_one_line)
qed simp

definition http_url :: "string \<Rightarrow> bool" where
  "http_url u \<longleftrightarrow> (\<exists>scheme rest. u = scheme @ ''://'' @ rest \<and>
     (map Lower scheme = ''http'' \<or> map Lower scheme = ''https''))"

lemma find_str_split:
  "find_str pat s = Some n \<Longrightarrow> s = take n s @ pat @ drop (n + length pat) s"
proof (induction s arbitrary: n)
  case (Cons x xs)
  show ?case
  proof (cases "take (length pat) (x # xs) = pat")
    case True
    with Cons.prems have "n = 0"
      by simp
    then show ?thesis
      using append_take_drop_id [of "length pat" "x # xs"] True by simp
  next
    case False
    with Cons.prems obtain m where "find_str pat xs = Some m" "n = Suc m"
      by auto
    with Cons.IH show ?thesis
      by simp
  qed
qed (simp split: if_splits)

lemma CheckUrl_http: "CheckUrl dbg u = Inr () \<Longrightarrow> http_url u"
proof -
  assume ok: "CheckUrl dbg u = Inr ()"
  then obtain n where n: "find_str ''://'' u = Some n"
    by (cases "find_str ''://'' u") (simp_all add: CheckUrl_def)
  have "map Lower (take n u) = ''http'' \<or> map Lower (take n u) = ''https''"
    using ok by (simp add: CheckUrl_def n Let_def split: if_splits)
  then show ?thesis
    unfolding http_url_def by (intro exI conjI) (rule find_str_split [OF n])
qed

lemma read_url_http: "read_url dbg tab = Inr u \<Longrightarrow> http_url u"
  by (cases "Field tab ''url''") (auto simp: read_url_def res_bind_Inr CheckUrl_http)

lemma read_method_ok:
  "read_method dbg tab b = Inr m \<Longrightarrow>
     m \<noteq> [] \<and> length m \<le> 16 \<and> list_all capital m \<and> \<not> (b \<and> (m = ''GET'' \<or> m = ''HEAD''))"
  by (auto simp: read_method_def Let_def split: sum.splits if_splits)

lemma read_headers_ok: "read_headers cv tables dbg tab = Inr hs \<Longrightarrow> \<forall>h \<in> set hs. one_line h"
  by (cases "Field tab ''headers''") (auto simp: read_headers_def dest: ReadHeaders_one_line)

lemma read_redirects_ok: "read_redirects cv dbg tab = Inr n \<Longrightarrow> 0 \<le> n \<and> n \<le> 20"
  by (auto simp: read_redirects_def new_request_def Let_def floor_le_iff
           split: if_splits option.splits lua_float.splits)

lemma read_timeout_ok:
  assumes "read_timeout cv dbg tab = Inr n" "\<And>q. q \<le> 3600 \<Longrightarrow> times1000 cv q \<le> 3600000"
  shows "1 \<le> n \<and> n \<le> 3600000"
proof -
  have "\<lfloor>times1000 cv q\<rfloor> \<le> 3600000" if "q \<le> 3600" for q
    using floor_mono [OF assms(2) [OF that]] by simp
  then show ?thesis
    using assms(1)
    by (auto simp: read_timeout_def new_request_def kMaxTimeout_def Let_def
             split: if_splits option.splits lua_float.splits)
qed

text \<open>
  C25. Every request that \<^verbatim>\<open>http.request\<close> accepts is safe to hand to libcurl: its URL has the
  scheme http or https, its method is one to sixteen capital letters, no header line
  contains a line break or a NUL (so a script cannot be made to inject a header or a
  second request through a header), a GET or HEAD has no body, the timeout is between
  one millisecond and one hour, and at most twenty redirects are followed. The
  hypothesis is that the multiplication of doubles rounds monotonically.
\<close>

theorem request_is_safe:
  assumes "ReadRequest cv tables dbg arg = Inr r"
    and times1000_mono: "\<And>q. q \<le> 3600 \<Longrightarrow> times1000 cv q \<le> 3600000"
  shows "http_url (url r) \<and> req_method r \<noteq> [] \<and> length (req_method r) \<le> 16
    \<and> list_all capital (req_method r) \<and> list_all one_line (req_headers r)
    \<and> \<not> (has_body r \<and> (req_method r = ''GET'' \<or> req_method r = ''HEAD''))
    \<and> 1 \<le> timeout_ms r \<and> timeout_ms r \<le> 3600000
    \<and> 0 \<le> max_redirects r \<and> max_redirects r \<le> 20"
proof (cases arg)
  case (Some v)
  show ?thesis
  proof (cases v)
    case (LStr u)
    then show ?thesis
      using assms(1) Some
      by (auto simp: ReadRequest_def res_bind_Inr new_request_def CheckUrl_http capital_def)
  next
    case (LTab t)
    then obtain u b m hs ms n where
      u: "read_url dbg (tables t) = Inr u" and m: "read_method dbg (tables t) (b \<noteq> None) = Inr m"
      and hs: "read_headers cv tables dbg (tables t) = Inr hs"
      and ms: "read_timeout cv dbg (tables t) = Inr ms"
      and n: "read_redirects cv dbg (tables t) = Inr n"
      and r: "r = \<lparr>url = u, req_method = m, req_headers = hs,
                  req_body = (case b of Some text \<Rightarrow> text | None \<Rightarrow> []), has_body = (b \<noteq> None),
                  timeout_ms = ms, max_redirects = n\<rparr>"
      using assms(1) Some by (simp add: ReadRequest_def res_bind_Inr Let_def) blast
    show ?thesis
      using read_url_http [OF u] read_method_ok [OF m] read_headers_ok [OF hs]
        read_timeout_ok [OF ms times1000_mono] read_redirects_ok [OF n]
      by (auto simp: r list_all_iff)
  qed (use assms(1) Some in \<open>simp_all add: ReadRequest_def\<close>)
qed (use assms(1) in \<open>simp add: ReadRequest_def\<close>)

definition demo_conv :: LuaConv where
  "demo_conv = \<lparr>num2str = (\<lambda>_. []), tolstring = (\<lambda>_. []), to_double = (\<lambda>i. Fin (of_int i)),
     times1000 = (\<lambda>q. q * 1000)\<rparr>"

text \<open>A table with a header whose value has a line break is refused; without it the request is read.\<close>

definition demo_tables :: ltables where
  "demo_tables t = (if t = 0 then [(LStr ''url'', LStr ''HTTPS://a''), (LStr ''headers'', LTab 1),
       (LStr ''timeout'', LInt 2)]
     else [(LStr ''X-Id'', LStr ''7'')])"

theorem request_is_safe_witness:
  "ReadRequest demo_conv demo_tables None (Some (LTab 0))
     = Inr \<lparr>url = ''HTTPS://a'', req_method = ''GET'', req_headers = [''X-Id: 7''], req_body = [],
            has_body = False, timeout_ms = 2000, max_redirects = 5\<rparr>
   \<and> http_url ''HTTPS://a'' \<and> list_all one_line [''X-Id: 7'']"
proof -
  have req: "ReadRequest demo_conv demo_tables None (Some (LTab 0))
     = Inr \<lparr>url = ''HTTPS://a'', req_method = ''GET'', req_headers = [''X-Id: 7''], req_body = [],
            has_body = False, timeout_ms = 2000, max_redirects = 5\<rparr>"
    by code_simp
  have "times1000 demo_conv q \<le> 3600000" if "q \<le> 3600" for q
    using that by (simp add: demo_conv_def)
  from request_is_safe [OF req this] req show ?thesis
    by simp
qed

section \<open>Invariant of the transfers\<close>

text \<open>
  The settings of a transfer that decide whom it talks to: peer and host are verified, only
  http and https are spoken, and the certificate directory compiled into libcurl is unset.
\<close>

definition tls_ok :: "curl_option list \<Rightarrow> bool" where
  "tls_ok opts \<longleftrightarrow>
     [v. SSL_VERIFYPEER v \<leftarrow> opts] = [1] \<and> [v. SSL_VERIFYHOST v \<leftarrow> opts] = [2] \<and>
     [p. PROTOCOLS_STR p \<leftarrow> opts] = [''http,https''] \<and>
     [p. REDIR_PROTOCOLS_STR p \<leftarrow> opts] = [''http,https''] \<and>
     [p. CAPATH p \<leftarrow> opts] = [None]"

definition transfer_ok :: "64 word \<times> Transfer \<Rightarrow> bool" where
  "transfer_ok nt \<longleftrightarrow>
     t_id (snd nt) = fst nt \<and> in_multi (snd nt) \<and> tls_ok (options (snd nt)) \<and>
     length (t_body (snd nt)) \<le> kMaxBody \<and>
     list_all (\<lambda>(name, _). name \<noteq> [] \<and> map Lower name = name) (response_headers (snd nt))"

datatype http_op =
    OpStart Curl Request nat
  | OpWrite "64 word" string
  | OpHeader "64 word" string
  | OpDone "(64 word \<times> nat) list"
  | OpClear

definition on_transfer :: "64 word \<Rightarrow> (Transfer \<Rightarrow> Transfer) \<Rightarrow> Http \<Rightarrow> Http" where
  "on_transfer n f h = h\<lparr>transfers := map (\<lambda>(k, t). (k, if k = n then f t else t)) (transfers h)\<rparr>"

fun http_step :: "http_op \<Rightarrow> Http \<Rightarrow> Http" where
  "http_step (OpStart c r callback) h = fst (Start c h r callback)"
| "http_step (OpWrite n chunk) h = on_transfer n (\<lambda>t. fst (Write chunk t)) h"
| "http_step (OpHeader n chunk) h = on_transfer n (\<lambda>t. fst (Header chunk t)) h"
| "http_step (OpDone msgs) h = (case collect_done msgs h of None \<Rightarrow> h | Some (h', _) \<Rightarrow> h')"
| "http_step OpClear h = Clear h"

definition http_wf :: "Http \<Rightarrow> bool" where
  "http_wf h \<longleftrightarrow> map_ordered (transfers h) \<and> length (transfers h) \<le> kMaxPending
     \<and> list_all transfer_ok (transfers h)"

lemma comp_simps [simp]:
  "[v. SSL_VERIFYPEER v \<leftarrow> body_options r] = []" "[v. SSL_VERIFYHOST v \<leftarrow> body_options r] = []"
  "[v. PROTOCOLS_STR v \<leftarrow> body_options r] = []" "[v. REDIR_PROTOCOLS_STR v \<leftarrow> body_options r] = []"
  "[v. CAPATH v \<leftarrow> body_options r] = []"
  by (auto simp: body_options_def)

lemma request_options_tls: "tls_ok (request_options c ca r)"
  by (simp add: tls_ok_def request_options_def tls_options_def split: option.splits)

lemma Write_ok: "transfer_ok (n, t) \<Longrightarrow> transfer_ok (n, fst (Write chunk t))"
  by (simp add: transfer_ok_def Write_def)

lemma find_char_bound: "find_char ch s = Some n \<Longrightarrow> n < length s"
  by (induction s arbitrary: n) (auto split: if_splits)

lemma Header_ok: "transfer_ok (n, t) \<Longrightarrow> transfer_ok (n, fst (Header chunk t))"
  by (auto simp: transfer_ok_def Header_def Let_def dest: find_char_bound split: option.splits)

lemma length_map_put: "length (map_put k v m) \<le> Suc (length m)"
  by (induction k v m rule: map_put.induct) auto

lemma set_map_put: "set (map_put k v m) \<subseteq> insert (k, v) (set m)"
  by (induction k v m rule: map_put.induct) auto

lemma Start_wf:
  assumes "http_wf h"
  shows "http_wf (fst (Start c h r callback))"
proof (cases "Start c h r callback")
  case (Pair h' res)
  show ?thesis
  proof (cases "transfers h' = transfers h")
    case True
    with assms Pair show ?thesis
      by (simp add: http_wf_def)
  next
    case False
    let ?t = "\<lparr>t_id = next_transfer h, options = request_options c (cafile h) r, in_multi = True,
               t_callback = callback, t_result = 0, t_error = [], too_large = False,
               response_headers = [], t_body = []\<rparr>"
    from False Pair have new: "transfers h' = map_put (next_transfer h) ?t (transfers h)"
      and room: "length (transfers h) < kMaxPending"
      by (auto simp: Start_def Let_def split: if_splits sum.splits)
    have "transfer_ok (next_transfer h, ?t)"
      by (simp add: transfer_ok_def request_options_tls)
    then show ?thesis
      using assms room length_map_put [of "next_transfer h" ?t "transfers h"]
        set_map_put [of "next_transfer h" ?t "transfers h"]
      by (auto simp: Pair http_wf_def new map_ordered_put list_all_iff simp del: map_put.simps)
  qed
qed

lemma on_transfer_wf:
  assumes "http_wf h" "\<And>t. transfer_ok (n, t) \<Longrightarrow> transfer_ok (n, f t)"
  shows "http_wf (on_transfer n f h)"
proof -
  have "map fst (transfers (on_transfer n f h)) = map fst (transfers h)"
    by (simp add: on_transfer_def comp_def case_prod_beta)
  then have "map_ordered (transfers (on_transfer n f h))"
    using assms(1) by (simp only: http_wf_def map_ordered_def)
  then show ?thesis
    using assms by (auto simp: http_wf_def on_transfer_def list_all_iff)
qed

lemma erase_wf: "http_wf h \<Longrightarrow> http_wf (h\<lparr>transfers := map_erase n (transfers h)\<rparr>)"
  using map_ordered_erase [of "transfers h" n] length_filter_le [of "\<lambda>e. fst e \<noteq> n" "transfers h"]
  by (auto simp: http_wf_def map_erase_def list_all_iff simp del: length_filter_le)

lemma collect_done_wf: "\<lbrakk>http_wf h; collect_done msgs h = Some (h', ts)\<rbrakk> \<Longrightarrow> http_wf h'"
  by (induction msgs h arbitrary: h' ts rule: collect_done.induct)
     (auto split: option.splits intro: erase_wf)

lemma http_step_wf: "http_wf h \<Longrightarrow> http_wf (http_step op h)"
  by (cases op)
     (auto simp: Start_wf Write_ok Header_ok Clear_def http_wf_def [of "h\<lparr>transfers := []\<rparr>"] collect_done_wf
           intro!: on_transfer_wf split: option.splits)

interpretation client: machine "\<lambda>h op. http_step op h" http_wf
  by unfold_locales (rule http_step_wf)

lemma http_run_wf: "http_wf h \<Longrightarrow> http_wf (fold http_step ops h)"
  by (rule client.wf_fold)

text \<open>
  C26. However scripts start requests and whatever the servers answer, every pending
  transfer verifies the peer and the host name, speaks only http and https (also after a
  redirect), never uses the certificate directory libcurl was built with, has received
  at most \<^verbatim>\<open>kMaxBody\<close> bytes, and holds header names in lower case; and there are at most
  \<^verbatim>\<open>kMaxPending\<close> of them.
\<close>

theorem transfers_stay_safe:
  "let h = fold http_step ops (new_http ca) in
     Pending h \<le> kMaxPending \<and> list_all transfer_ok (transfers h)"
proof -
  have "http_wf (fold http_step ops (new_http ca))"
    by (rule http_run_wf) (simp add: http_wf_def new_http_def)
  then show ?thesis
    by (simp add: http_wf_def Pending_def Let_def)
qed

section \<open>The headers of a response\<close>

definition values_of :: "string \<Rightarrow> (string \<times> string) list \<Rightarrow> string list" where
  "values_of name hs = map snd (filter (\<lambda>(n, _). n = name) hs)"

fun joined :: "string list \<Rightarrow> string option" where
  "joined [] = None"
| "joined (v # vs) = Some (foldl (\<lambda>acc w. acc @ '', '' @ w) v vs)"

lemma joined_snoc:
  "joined (vs @ [w]) = Some (case joined vs of None \<Rightarrow> w | Some v \<Rightarrow> v @ '', '' @ w)"
  by (cases vs) simp_all

text \<open>
  The headers table of a response has an entry exactly for the names that occur, and
  its value is the values of that name in the order they arrived, joined with a comma.
\<close>

theorem headers_table_joined:
  "map_of (headers_table hs) name = joined (values_of name hs)"
  unfolding headers_table_def
  by (induction hs rule: rev_induct)
     (auto simp: values_of_def joined_snoc update_conv' split: option.splits)

end
