(* ===== verification/Config.thy ===== *)
theory Config
  imports Http
begin

text \<open>
  The settings of \<^verbatim>\<open>luaconfig.lua\<close> (\<^verbatim>\<open>src/runtime/config.cpp\<close>): the validation of the table that
  the file returns, and \<^verbatim>\<open>LoadConfig\<close>. Running the file in its sandbox is a parameter. The
  warnings that the reader logs are collected in a list.
\<close>

datatype level = Trace | Debug | Info | Warn | Err | Critical | Off

record Config =
  scripts :: "string list"
  package_path :: string
  log_level :: level
  log_file :: string
  log_daily :: bool
  http_cafile :: string

definition default_config :: Config where
  "default_config = \<lparr>scripts = [], package_path = ''lua/?.lua;lua/?/init.lua'', log_level = Info,
     log_file = [], log_daily = False, http_cafile = []\<rparr>"

section \<open>Reader\<close>

text \<open>The file name and the tables that the returned value refers to, with their border.\<close>

record Reader =
  r_file :: string
  r_tables :: ltables
  r_rawlen :: "nat \<Rightarrow> nat"

definition Fail :: "Reader \<Rightarrow> string \<Rightarrow> string \<Rightarrow> lval \<Rightarrow> cxx" where
  "Fail r field expected v =
     Config_error (r_file r @ '': '' @ field @ '' must be '' @ expected @ '' (got '' @ lua_typename v @ '')'')"

definition read_String :: "Reader \<Rightarrow> string \<Rightarrow> lval \<Rightarrow> string res" where
  "read_String r field v = (case v of LStr s \<Rightarrow> Inr s | _ \<Rightarrow> Inl (Fail r field ''a string'' v))"

definition read_Boolean :: "Reader \<Rightarrow> string \<Rightarrow> lval \<Rightarrow> bool res" where
  "read_Boolean r field v = (case v of LBool b \<Rightarrow> Inr b | _ \<Rightarrow> Inl (Fail r field ''a boolean'' v))"

definition rawgeti :: "(lval \<times> lval) list \<Rightarrow> int \<Rightarrow> lval" where
  "rawgeti tab i = (case map_of tab (LInt i) of Some v \<Rightarrow> v | None \<Rightarrow> LNil)"

fun read_items :: "Reader \<Rightarrow> string \<Rightarrow> (lval \<times> lval) list \<Rightarrow> nat list \<Rightarrow> string list res" where
  "read_items r field tab [] = Inr []"
| "read_items r field tab (i # is) =
     res_bind (read_String r (field @ ''['' @ show_nat i @ '']'') (rawgeti tab (int i)))
       (\<lambda>s. map_sum id (Cons s) (read_items r field tab is))"

definition StringList :: "Reader \<Rightarrow> string \<Rightarrow> lval \<Rightarrow> string list res" where
  "StringList r field v =
     (case v of
        LTab t \<Rightarrow> read_items r field (r_tables r t) [1..<r_rawlen r t + 1]
      | _ \<Rightarrow> Inl (Fail r field ''a list of strings'' v))"

text \<open>
  A key reaches the visitor as a C string (\<^verbatim>\<open>lua_tostring\<close> into a \<^verbatim>\<open>string_view\<close>), so it ends at
  its first NUL.
\<close>

type_synonym reading = "Config \<times> string list"

fun visit_fields ::
  "Reader \<Rightarrow> string \<Rightarrow> (string \<Rightarrow> lval \<Rightarrow> reading \<Rightarrow> reading res) \<Rightarrow> (lval \<times> lval) list \<Rightarrow> reading \<Rightarrow> reading res" where
  "visit_fields r field visit [] st = Inr st"
| "visit_fields r field visit ((k, v) # kvs) st =
     (case k of
        LStr key \<Rightarrow> res_bind (visit (cstr key) v st) (visit_fields r field visit kvs)
      | _ \<Rightarrow> visit_fields r field visit kvs
              (fst st, snd st @ [r_file r @ '': '' @ field @ '' has a key that is not a string; it is ignored'']))"

definition Fields ::
  "Reader \<Rightarrow> string \<Rightarrow> (string \<Rightarrow> lval \<Rightarrow> reading \<Rightarrow> reading res) \<Rightarrow> lval \<Rightarrow> reading \<Rightarrow> reading res" where
  "Fields r field visit v st =
     (case v of
        LTab t \<Rightarrow> visit_fields r field visit (r_tables r t) st
      | _ \<Rightarrow> Inl (Fail r field ''a table'' v))"

definition Unknown :: "Reader \<Rightarrow> string \<Rightarrow> reading \<Rightarrow> reading" where
  "Unknown r field st =
     (fst st, snd st @ [r_file r @ '': unknown setting '' @ quoted field @ '' is ignored''])"

section \<open>The settings\<close>

definition kLevels :: "(string \<times> level) list" where
  "kLevels = [(''trace'', Trace), (''debug'', Debug), (''info'', Info), (''warn'', Warn),
     (''error'', Err), (''critical'', Critical), (''off'', Off)]"

definition ParseLevel :: "Reader \<Rightarrow> lval \<Rightarrow> level res" where
  "ParseLevel r v =
     res_bind (read_String r ''log.level'' v) (\<lambda>name.
       case map_of kLevels name of
         Some level \<Rightarrow> Inr level
       | None \<Rightarrow> Inl (Config_error (r_file r
           @ '': log.level must be one of trace, debug, info, warn, error, critical, off (got ''
           @ dquoted name @ '')'')))"

definition set_field :: "reading \<Rightarrow> (Config \<Rightarrow> Config) \<Rightarrow> reading" where
  "set_field st f = (f (fst st), snd st)"

definition visit_log :: "Reader \<Rightarrow> string \<Rightarrow> lval \<Rightarrow> reading \<Rightarrow> reading res" where
  "visit_log r key v st =
     (if key = ''level'' then res_bind (ParseLevel r v) (\<lambda>l. Inr (set_field st (log_level_update (\<lambda>_. l))))
      else if key = ''file'' then
        res_bind (read_String r ''log.file'' v) (\<lambda>s. Inr (set_field st (log_file_update (\<lambda>_. s))))
      else if key = ''daily'' then
        res_bind (read_Boolean r ''log.daily'' v) (\<lambda>b. Inr (set_field st (log_daily_update (\<lambda>_. b))))
      else Inr (Unknown r (''log.'' @ key) st))"

definition visit_http :: "Reader \<Rightarrow> string \<Rightarrow> lval \<Rightarrow> reading \<Rightarrow> reading res" where
  "visit_http r key v st =
     (if key = ''cafile'' then
        res_bind (read_String r ''http.cafile'' v) (\<lambda>s. Inr (set_field st (http_cafile_update (\<lambda>_. s))))
      else Inr (Unknown r (''http.'' @ key) st))"

definition visit_top :: "Reader \<Rightarrow> string \<Rightarrow> lval \<Rightarrow> reading \<Rightarrow> reading res" where
  "visit_top r key v st =
     (if key = ''scripts'' then
        res_bind (StringList r ''scripts'' v) (\<lambda>l. Inr (set_field st (scripts_update (\<lambda>_. l))))
      else if key = ''package_path'' then
        res_bind (read_String r ''package_path'' v) (\<lambda>s. Inr (set_field st (package_path_update (\<lambda>_. s))))
      else if key = ''log'' then Fields r ''log'' (visit_log r) v st
      else if key = ''http'' then Fields r ''http'' (visit_http r) v st
      else Inr (Unknown r key st))"

definition ReadConfig :: "Reader \<Rightarrow> lval \<Rightarrow> reading res" where
  "ReadConfig r v = Fields r ''the returned table'' (visit_top r) v (default_config, [])"

text \<open>
  What running the file in the sandbox does: there is no state for it, a panic, an error of the sandbox or of the file,
  or the returned value.
\<close>

datatype sandbox = No_state | Panicked string | Setup_failed string | Run_failed string | Returned lval

definition LoadConfig :: "Reader \<Rightarrow> sandbox \<Rightarrow> reading res" where
  "LoadConfig r run =
     (case run of
        No_state \<Rightarrow> Inl (Config_error ''cannot create a Lua state for the config file'')
      | Panicked msg \<Rightarrow> Inl (Config_error (r_file r @ '': '' @ msg))
      | Setup_failed msg \<Rightarrow> Inl (Config_error (''cannot set up the config sandbox: '' @ msg))
      | Run_failed msg \<Rightarrow> Inl (Config_error msg)
      | Returned (LTab t) \<Rightarrow> ReadConfig r (LTab t)
      | Returned v \<Rightarrow> Inl (Config_error (r_file r @ '' must return a table (got '' @ lua_typename v @ '')'')))"

section \<open>Properties\<close>

text \<open>The keys that the reader knows; every other key only gives a warning.\<close>

definition known_key :: "lval \<times> lval \<Rightarrow> bool" where
  "known_key kv \<longleftrightarrow>
     (case fst kv of
        LStr key \<Rightarrow> cstr key \<in> {''scripts'', ''package_path'', ''log'', ''http''}
      | _ \<Rightarrow> False)"

text \<open>The configuration read, without the warnings.\<close>

definition config_of :: "reading res \<Rightarrow> Config res" where
  "config_of r = map_sum id fst r"

lemma res_bind_simps [simp]: "res_bind (Inl e) k = Inl e" "res_bind (Inr x) k = k x"
  by (simp_all add: res_bind_def)

lemma config_of_simps [simp]: "config_of (Inl e) = Inl e" "config_of (Inr st) = Inr (fst st)"
  by (simp_all add: config_of_def)

text \<open>The reading of a setting does not depend on the warnings so far.\<close>

definition warning_blind :: "(reading \<Rightarrow> reading res) \<Rightarrow> bool" where
  "warning_blind f \<longleftrightarrow> (\<forall>c ws ws'. config_of (f (c, ws)) = config_of (f (c, ws')))"

lemma config_of_bind:
  assumes "config_of a = config_of b" "warning_blind k"
  shows "config_of (res_bind a k) = config_of (res_bind b k)"
  using assms by (cases a; cases b) (auto simp: warning_blind_def)

lemma warning_blind_visit_fields:
  assumes "\<And>key v. warning_blind (visit key v)"
  shows "warning_blind (visit_fields r field visit kvs)"
proof (induction kvs)
  case (Cons kv kvs)
  have "config_of (visit_fields r field visit (kv # kvs) (c, ws))
          = config_of (visit_fields r field visit (kv # kvs) (c, ws'))" for c ws ws'
  proof (cases "fst kv")
    case (LStr key)
    then show ?thesis
      using assms [of "cstr key" "snd kv"] Cons.IH
      by (cases kv) (auto intro!: config_of_bind simp: warning_blind_def)
  qed (use Cons.IH in \<open>cases kv; simp add: warning_blind_def\<close>)+
  then show ?case
    by (simp add: warning_blind_def)
qed (simp add: warning_blind_def)

lemma warning_blind_bind: "warning_blind (\<lambda>st. res_bind x (\<lambda>y. Inr (set_field st (f y))))"
  by (cases x) (simp_all add: warning_blind_def set_field_def)

lemma warning_blind_Unknown: "warning_blind (\<lambda>st. Inr (Unknown r field st))"
  by (simp add: warning_blind_def Unknown_def)

lemma warning_blind_log: "warning_blind (visit_log r key v)"
proof -
  have "warning_blind (\<lambda>st. visit_log r key v st)"
    unfolding visit_log_def
    by (cases "key = ''level''"; cases "key = ''file''"; cases "key = ''daily''")
       (simp_all add: warning_blind_bind warning_blind_Unknown)
  then show ?thesis
    by simp
qed

lemma warning_blind_http: "warning_blind (visit_http r key v)"
proof -
  have "warning_blind (\<lambda>st. visit_http r key v st)"
    unfolding visit_http_def
    by (cases "key = ''cafile''") (simp_all add: warning_blind_bind warning_blind_Unknown)
  then show ?thesis
    by simp
qed

lemma warning_blind_Fields:
  assumes "\<And>key v. warning_blind (visit key v)"
  shows "warning_blind (Fields r field visit v)"
proof -
  have "warning_blind (\<lambda>st. Fields r field visit v st)"
    unfolding Fields_def using warning_blind_visit_fields [of visit r field, OF assms]
    by (cases v) (simp_all add: warning_blind_def)
  then show ?thesis
    by simp
qed

lemma warning_blind_top: "warning_blind (visit_top r key v)"
proof -
  have "warning_blind (\<lambda>st. visit_top r key v st)"
    unfolding visit_top_def
    using warning_blind_Fields [OF warning_blind_log] warning_blind_Fields [OF warning_blind_http]
    by (cases "key = ''scripts''"; cases "key = ''package_path''"; cases "key = ''log''";
        cases "key = ''http''") (simp_all add: warning_blind_bind warning_blind_Unknown)
  then show ?thesis
    by simp
qed

lemma top_blind:
  "config_of (visit_fields r field (visit_top r) kvs (c, ws))
     = config_of (visit_fields r field (visit_top r) kvs (c, ws'))"
  using warning_blind_visit_fields [of "visit_top r", OF warning_blind_top]
  unfolding warning_blind_def by blast

text \<open>
  A setting that the program does not know, or a key that is not a string, has no effect
  on the configuration: reading the table without these entries gives the same
  configuration, and fails exactly when reading the whole table fails.
\<close>

theorem unknown_settings_ignored:
  "config_of (visit_fields r field (visit_top r) kvs st)
     = config_of (visit_fields r field (visit_top r) (filter known_key kvs) st)"
proof (induction kvs arbitrary: st)
  case (Cons kv kvs)
  show ?case
  proof (cases "known_key kv")
    case True
    then obtain key v where kv: "kv = (LStr key, v)"
      by (cases kv; cases "fst kv") (simp_all add: known_key_def)
    show ?thesis
      using True Cons.IH by (cases "visit_top r (cstr key) v st") (simp_all add: kv)
  next
    case False
    have skip: "\<exists>ws. visit_fields r field (visit_top r) (kv # kvs) st
                      = visit_fields r field (visit_top r) kvs (fst st, ws)"
      using False
      by (cases kv; cases "fst kv") (auto simp: known_key_def visit_top_def Unknown_def)
    then obtain ws where
      "visit_fields r field (visit_top r) (kv # kvs) st
         = visit_fields r field (visit_top r) kvs (fst st, ws)" ..
    also have "config_of \<dots> = config_of (visit_fields r field (visit_top r) kvs (fst st, snd st))"
      by (rule top_blind)
    finally show ?thesis
      using False Cons.IH [of st] by simp
  qed
qed simp

section \<open>Errors\<close>

definition names_file :: "Reader \<Rightarrow> 'a res \<Rightarrow> bool" where
  "names_file r x \<longleftrightarrow> (case x of Inl e \<Rightarrow> \<exists>msg. e = Config_error (r_file r @ msg) | Inr _ \<Rightarrow> True)"

lemma names_file_simps [simp]:
  "names_file r (Inr x)" "names_file r (Inl (Fail r field expected v))"
  "names_file r (map_sum id f y) = names_file r y"
  by (auto simp: names_file_def Fail_def split: sum.splits; cases y; simp)+

lemma names_file_bind:
  "\<lbrakk>names_file r x; \<And>y. names_file r (k y)\<rbrakk> \<Longrightarrow> names_file r (res_bind x k)"
  by (cases x) (simp_all add: names_file_def)

lemma names_file_String: "names_file r (read_String r field v)"
  by (cases v) (simp_all add: read_String_def)

lemma names_file_Boolean: "names_file r (read_Boolean r field v)"
  by (cases v) (simp_all add: read_Boolean_def)

lemma names_file_items: "names_file r (read_items r field tab is)"
  by (induction "is") (simp_all add: names_file_bind names_file_String)

lemma names_file_StringList: "names_file r (StringList r field v)"
  by (cases v) (simp_all add: StringList_def names_file_items)

lemma names_file_ParseLevel: "names_file r (ParseLevel r v)"
  unfolding ParseLevel_def
  by (rule names_file_bind [OF names_file_String]) (simp add: names_file_def split: option.splits)

lemma names_file_visit_fields:
  assumes "\<And>key v st. names_file r (visit key v st)"
  shows "names_file r (visit_fields r field visit kvs st)"
proof (induction kvs arbitrary: st)
  case (Cons kv kvs)
  then show ?case
    using assms by (cases kv; cases "fst kv") (simp_all add: names_file_bind)
qed simp

lemma names_file_Fields:
  assumes "\<And>key v st. names_file r (visit key v st)"
  shows "names_file r (Fields r field visit v st)"
  using names_file_visit_fields [of r visit, OF assms] by (cases v) (simp_all add: Fields_def)

lemmas names_file_readers =
  names_file_String names_file_Boolean names_file_StringList names_file_ParseLevel

lemma names_file_log: "names_file r (visit_log r key v st)"
  by (simp add: visit_log_def names_file_bind names_file_readers)

lemma names_file_http: "names_file r (visit_http r key v st)"
  by (simp add: visit_http_def names_file_bind names_file_readers)

lemma names_file_top: "names_file r (visit_top r key v st)"
  by (simp add: visit_top_def names_file_bind names_file_readers names_file_Fields names_file_log
      names_file_http)

text \<open>
  C37. Loading the configuration never raises anything but a \<^verbatim>\<open>ConfigError\<close>, however the run of the file
  ends, and the message of an error that the validation raises starts with the name of the file.
\<close>

theorem config_errors_name_the_file:
  "names_file r (ReadConfig r v) \<and>
   (case LoadConfig r run of Inl e \<Rightarrow> \<exists>msg. e = Config_error msg | Inr _ \<Rightarrow> True)"
proof
  have read: "names_file r (ReadConfig r v)" for v
    unfolding ReadConfig_def by (rule names_file_Fields [OF names_file_top])
  then show "names_file r (ReadConfig r v)" .
  show "case LoadConfig r run of Inl e \<Rightarrow> \<exists>msg. e = Config_error msg | Inr _ \<Rightarrow> True"
  proof (cases run)
    case (Returned v)
    then show ?thesis
      using read [of v] by (cases v) (auto simp: LoadConfig_def names_file_def split: sum.splits)
  qed (simp_all add: LoadConfig_def)
qed

text \<open>
  A key with a NUL in it is read up to the NUL, so it is taken for a known setting instead of
  being reported as an unknown one.
\<close>

lemma key_ends_at_NUL:
  "visit_fields r field (visit_top r) ((LStr (''scripts'' @ NUL # rest), v) # kvs) st
     = visit_fields r field (visit_top r) ((LStr ''scripts'', v) # kvs) st"
  by (simp add: cstr_def NUL_def)

end
