(* ===== verification/Client_Stream.thy ===== *)
theory Client_Stream
  imports Args Entity_Pools
begin

text \<open>
  The Stream class of \<^verbatim>\<open>src/src/bindings/stream.hpp\<close> and \<^verbatim>\<open>stream.cpp\<close>: bounds-checked reads and
  writes of client script data. Floats are their 32-bit patterns (the code copies the bits).
\<close>

section \<open>Data and helpers\<close>

definition kMaxSize :: nat where "kMaxSize = 4096"

record Stream =
  bytes :: "u8 list"
  pos :: nat

definition new_stream :: Stream where
  "new_stream = \<lparr>bytes = [], pos = 0\<rparr>"

text \<open>\<^verbatim>\<open>bytes.size() - read\<close> in 64-bit unsigned arithmetic.\<close>

definition left :: "Stream \<Rightarrow> nat" where
  "left s = nat ((int (length (bytes s)) - int (pos s)) mod 2 ^ 64)"

definition Need :: "Stream \<Rightarrow> nat \<Rightarrow> string \<Rightarrow> unit res" where
  "Need s n thing =
     (if left s < n
      then Inl (Out_of_range (''Stream: not enough data to read '' @ thing @ '' ('' @ show_nat (left s)
                @ '' of '' @ show_nat n @ '' bytes left)''))
      else Inr ())"

definition Room :: "Stream \<Rightarrow> nat \<Rightarrow> string \<Rightarrow> unit res" where
  "Room s n thing =
     (if length (bytes s) > kMaxSize \<or> kMaxSize - length (bytes s) < n
      then Inl (Length_error (''Stream: no room to write '' @ thing @ '' ('' @ show_nat (length (bytes s))
                @ '' of '' @ show_nat kMaxSize @ '' bytes used)''))
      else Inr ())"

definition u32_of_bytes :: "u8 \<Rightarrow> u8 \<Rightarrow> u8 \<Rightarrow> u8 \<Rightarrow> u32" where
  "u32_of_bytes a b c d =
     or (or (or (ucast a) (push_bit 8 (ucast b))) (push_bit 16 (ucast c))) (push_bit 24 (ucast d))"

definition bytes_of_u32 :: "u32 \<Rightarrow> u8 list" where
  "bytes_of_u32 v = map (\<lambda>shift. ucast (drop_bit shift v)) [0, 8, 16, 24]"

definition ReadU32 :: "Stream \<Rightarrow> string \<Rightarrow> Stream \<times> u32 res" where
  "ReadU32 s thing =
     (case Need s 4 thing of
        Inl e \<Rightarrow> (s, Inl e)
      | Inr _ \<Rightarrow>
          let p = drop (pos s) (bytes s)
          in (s\<lparr>pos := pos s + 4\<rparr>, Inr (u32_of_bytes (p ! 0) (p ! 1) (p ! 2) (p ! 3))))"

definition WriteU32 :: "Stream \<Rightarrow> u32 \<Rightarrow> string \<Rightarrow> Stream \<times> unit res" where
  "WriteU32 s v thing =
     (case Room s 4 thing of
        Inl e \<Rightarrow> (s, Inl e)
      | Inr _ \<Rightarrow> (s\<lparr>bytes := bytes s @ bytes_of_u32 v\<rparr>, Inr ()))"

section \<open>Members of the class\<close>

definition readByte :: "Stream \<Rightarrow> Stream \<times> int res" where
  "readByte s =
     (case Need s 1 ''a byte'' of
        Inl e \<Rightarrow> (s, Inl e)
      | Inr _ \<Rightarrow> (s\<lparr>pos := pos s + 1\<rparr>, Inr (uint (bytes s ! pos s))))"

definition readNumber :: "Stream \<Rightarrow> Stream \<times> int res" where
  "readNumber s = (case ReadU32 s ''a number'' of (s', r) \<Rightarrow> (s', map_sum id sint r))"

definition readFloat :: "Stream \<Rightarrow> Stream \<times> u32 res" where
  "readFloat s = ReadU32 s ''a float''"

definition char_of_byte :: "u8 \<Rightarrow> char" where
  "char_of_byte b = char_of (unat b)"

definition byte_of_char :: "char \<Rightarrow> u8" where
  "byte_of_char c = of_nat (of_char c)"

definition readString :: "Stream \<Rightarrow> Stream \<times> string res" where
  "readString s =
     (case Need s 2 ''a string length'' of
        Inl e \<Rightarrow> (s, Inl e)
      | Inr _ \<Rightarrow>
          let n = or (push_bit 8 (unat (bytes s ! pos s))) (unat (bytes s ! (pos s + 1))) in
          if left s - 2 < n
          then (s, Inl (Out_of_range (''Stream: not enough data to read a string of '' @ show_nat n
                        @ '' bytes'')))
          else (s\<lparr>pos := pos s + 2 + n\<rparr>,
                Inr (map char_of_byte (take n (drop (pos s + 2) (bytes s))))))"

definition writeByte :: "lua_Debug option \<Rightarrow> Stream \<Rightarrow> lval option \<Rightarrow> Stream \<times> unit res" where
  "writeByte dbg s v =
     (case CheckInteger dbg 2 v (-128) 255 of
        Inl e \<Rightarrow> (s, Inl e)
      | Inr i \<Rightarrow>
          (case Room s 1 ''a byte'' of
             Inl e \<Rightarrow> (s, Inl e)
           | Inr _ \<Rightarrow> (s\<lparr>bytes := bytes s @ [word_of_int i]\<rparr>, Inr ())))"

definition writeNumber :: "lua_Debug option \<Rightarrow> Stream \<Rightarrow> lval option \<Rightarrow> Stream \<times> unit res" where
  "writeNumber dbg s v =
     (case CheckInteger dbg 2 v (-2147483648) 4294967295 of
        Inl e \<Rightarrow> (s, Inl e)
      | Inr i \<Rightarrow> WriteU32 s (word_of_int i) ''a number'')"

definition writeFloat :: "Stream \<Rightarrow> u32 \<Rightarrow> Stream \<times> unit res" where
  "writeFloat s bits = WriteU32 s bits ''a float''"

definition writeString :: "Stream \<Rightarrow> string \<Rightarrow> Stream \<times> unit res" where
  "writeString s v =
     (if length v > 0xFFFF then (s, Inl (Length_error ''Stream: a string is at most 65535 bytes''))
      else case Room s (2 + length v) ''a string'' of
        Inl e \<Rightarrow> (s, Inl e)
      | Inr _ \<Rightarrow>
          (s\<lparr>bytes := bytes s @ [of_nat (drop_bit 8 (length v)), of_nat (and (length v) 0xFF)]
                      @ map byte_of_char v\<rparr>, Inr ()))"

definition clear_stream :: "Stream \<Rightarrow> Stream" where
  "clear_stream s = s\<lparr>bytes := [], pos := 0\<rparr>"

definition stream_size :: "Stream \<Rightarrow> nat" where
  "stream_size s = length (bytes s)"

definition stream_remaining :: "Stream \<Rightarrow> nat" where
  "stream_remaining s = left s"

text \<open>
  send: to one player (\<open>Some id\<close>, already checked to be live) or to every live player; the
  second component lists the players the server function is called for, in order.
\<close>

definition send :: "lua_Debug option \<Rightarrow> ServerApi \<Rightarrow> EntityPool \<Rightarrow> Stream \<Rightarrow> int option \<Rightarrow> bool res \<times> int list" where
  "send dbg api players s player =
     (case require_SendClientScriptData api of
        Inl e \<Rightarrow> (Inl e, [])
      | Inr f \<Rightarrow>
          (case player of
             Some i \<Rightarrow> (Check dbg (f i (bytes s)), [i])
           | None \<Rightarrow> (Inr True, AliveIds players)))"

section \<open>Invariant\<close>

text \<open>The read position never passes the end, so the subtraction of \<^verbatim>\<open>Need\<close> cannot wrap.\<close>

definition stream_wf :: "Stream \<Rightarrow> bool" where
  "stream_wf s \<longleftrightarrow> pos s \<le> length (bytes s) \<and> length (bytes s) < 2 ^ 64"

lemma left_eq: "stream_wf s \<Longrightarrow> left s = length (bytes s) - pos s"
  by (auto simp: left_def stream_wf_def nat_eq_iff)

datatype stream_op =
  OpReadByte | OpReadNumber | OpReadFloat | OpReadString
| OpWriteByte "lua_Debug option" "lval option" | OpWriteNumber "lua_Debug option" "lval option"
| OpWriteFloat u32 | OpWriteString string | OpClear

definition failed :: "'a res \<Rightarrow> cxx option" where
  "failed r = (case r of Inl e \<Rightarrow> Some e | Inr _ \<Rightarrow> None)"

fun stream_step :: "stream_op \<Rightarrow> Stream \<Rightarrow> Stream \<times> cxx option" where
  "stream_step OpReadByte s = map_prod id failed (readByte s)"
| "stream_step OpReadNumber s = map_prod id failed (readNumber s)"
| "stream_step OpReadFloat s = map_prod id failed (readFloat s)"
| "stream_step OpReadString s = map_prod id failed (readString s)"
| "stream_step (OpWriteByte dbg v) s = map_prod id failed (writeByte dbg s v)"
| "stream_step (OpWriteNumber dbg v) s = map_prod id failed (writeNumber dbg s v)"
| "stream_step (OpWriteFloat b) s = map_prod id failed (writeFloat s b)"
| "stream_step (OpWriteString v) s = map_prod id failed (writeString s v)"
| "stream_step OpClear s = (clear_stream s, None)"

definition step_safe :: "Stream \<Rightarrow> Stream \<times> 'a res \<Rightarrow> bool" where
  "step_safe s r \<longleftrightarrow>
     stream_wf (fst r) \<and> (failed (snd r) \<noteq> None \<longrightarrow> fst r = s) \<and>
     length (bytes (fst r)) \<le> max (length (bytes s)) kMaxSize"

lemma failed_simps [simp]: "failed (Inl e) = Some e" "failed (Inr x) = None"
  by (simp_all add: failed_def)

lemma failed_map_sum [simp]: "failed (map_sum id f r) = failed r"
  by (cases r) simp_all

lemma step_safe_err: "stream_wf s \<Longrightarrow> step_safe s (s, Inl e)"
  by (simp add: step_safe_def)

lemma step_safe_read:
  "\<lbrakk>stream_wf s; p \<le> length (bytes s)\<rbrakk> \<Longrightarrow> step_safe s (s\<lparr>pos := p\<rparr>, Inr x)"
  by (simp add: step_safe_def stream_wf_def)

lemma step_safe_write:
  "\<lbrakk>stream_wf s; length (bytes s) + length bs \<le> kMaxSize\<rbrakk>
     \<Longrightarrow> step_safe s (s\<lparr>bytes := bytes s @ bs\<rparr>, Inr x)"
  by (auto simp: step_safe_def stream_wf_def kMaxSize_def)

lemma Need_Inr: "stream_wf s \<Longrightarrow> Need s n w = Inr u \<longleftrightarrow> pos s + n \<le> length (bytes s)"
  by (auto simp: Need_def left_eq stream_wf_def)

lemma Room_Inr: "Room s n w = Inr u \<longleftrightarrow> length (bytes s) + n \<le> kMaxSize"
  by (auto simp: Room_def)

lemma ReadU32_safe: "stream_wf s \<Longrightarrow> step_safe s (ReadU32 s w)"
  by (auto simp: ReadU32_def Let_def step_safe_err Need_Inr intro!: step_safe_read split: sum.splits)

lemma WriteU32_safe: "stream_wf s \<Longrightarrow> step_safe s (WriteU32 s v w)"
  by (auto simp: WriteU32_def step_safe_err bytes_of_u32_def Room_Inr
           intro!: step_safe_write split: sum.splits)

lemma readByte_safe: "stream_wf s \<Longrightarrow> step_safe s (readByte s)"
  by (auto simp: readByte_def step_safe_err Need_Inr intro!: step_safe_read split: sum.splits)

lemma readNumber_safe: "stream_wf s \<Longrightarrow> step_safe s (readNumber s)"
  using ReadU32_safe [of s "''a number''"]
  by (cases "ReadU32 s ''a number''") (simp add: readNumber_def step_safe_def)

lemma readString_safe: "stream_wf s \<Longrightarrow> step_safe s (readString s)"
  by (auto simp: readString_def Let_def step_safe_err Need_Inr left_eq
           intro!: step_safe_read split: sum.splits)

lemma writeByte_safe: "stream_wf s \<Longrightarrow> step_safe s (writeByte dbg s v)"
  by (auto simp: writeByte_def step_safe_err Room_Inr intro!: step_safe_write split: sum.splits)

lemma writeNumber_safe: "stream_wf s \<Longrightarrow> step_safe s (writeNumber dbg s v)"
  by (auto simp: writeNumber_def step_safe_err WriteU32_safe split: sum.splits)

lemma writeString_safe: "stream_wf s \<Longrightarrow> step_safe s (writeString s v)"
  by (auto simp: writeString_def step_safe_err Room_Inr intro!: step_safe_write split: sum.splits)

lemmas stream_safe =
  readByte_safe readNumber_safe ReadU32_safe readString_safe
  writeByte_safe writeNumber_safe WriteU32_safe writeString_safe

definition op_safe :: "Stream \<Rightarrow> Stream \<times> cxx option \<Rightarrow> bool" where
  "op_safe s r \<longleftrightarrow>
     stream_wf (fst r) \<and> (snd r = None \<or> fst r = s) \<and>
     length (bytes (fst r)) \<le> max (length (bytes s)) kMaxSize"

lemma op_safe_of_step: "step_safe s r \<Longrightarrow> op_safe s (map_prod id failed r)"
  by (auto simp: step_safe_def op_safe_def)

lemma stream_step_safe:
  assumes "stream_wf s"
  shows "op_safe s (stream_step op s)"
proof (cases op)
  case OpClear
  then show ?thesis
    by (simp add: op_safe_def clear_stream_def stream_wf_def)
qed (simp_all add: readFloat_def writeFloat_def op_safe_of_step stream_safe assms)

fun stream_run :: "stream_op list \<Rightarrow> Stream \<Rightarrow> Stream" where
  "stream_run [] s = s"
| "stream_run (op # ops) s = stream_run ops (fst (stream_step op s))"

definition stream_ok :: "Stream \<Rightarrow> bool" where
  "stream_ok s \<longleftrightarrow> stream_wf s \<and> length (bytes s) \<le> kMaxSize"

interpretation stream: machine "\<lambda>s op. fst (stream_step op s)" stream_ok
proof
  show "stream_ok (fst (stream_step op s))" if "stream_ok s" for s op
    using that stream_step_safe [of s op] by (auto simp: stream_ok_def op_safe_def)
qed

lemma stream_run_foldl: "stream_run ops s = foldl (\<lambda>s op. fst (stream_step op s)) s ops"
  by (induction ops arbitrary: s) simp_all

lemma stream_run_ok: "stream_ok s \<Longrightarrow> stream_ok (stream_run ops s)"
  unfolding stream_run_foldl by (rule stream.wf_run)

text \<open>
  C29. A stream that a script builds with any sequence of calls never reads past its end
  and never holds more than \<^verbatim>\<open>kMaxSize\<close> bytes, and a call that raises an error leaves
  the stream as it was.
\<close>

theorem script_stream_safe:
  "let s = stream_run ops new_stream; (s', err) = stream_step op s in
     pos s \<le> stream_size s \<and> stream_size s \<le> kMaxSize \<and> stream_remaining s = stream_size s - pos s
     \<and> (if err = None then stream_size s' \<le> kMaxSize else s' = s)"
proof -
  have wf: "stream_wf (stream_run ops new_stream)"
    and len: "length (bytes (stream_run ops new_stream)) \<le> kMaxSize"
    using stream_run_ok [of new_stream ops] by (auto simp: new_stream_def stream_wf_def stream_ok_def)
  then show ?thesis
    using stream_step_safe [OF wf, of op] left_eq [OF wf]
    by (auto simp: Let_def op_safe_def stream_size_def stream_remaining_def stream_wf_def
             split: prod.splits)
qed

section \<open>Round trip\<close>

text \<open>A script that writes the values one after the other, and one that reads fields of the
  given kinds, both ending at the first error.\<close>

fun puts :: "('a \<Rightarrow> Stream \<Rightarrow> Stream \<times> unit res) \<Rightarrow> 'a list \<Rightarrow> Stream \<Rightarrow> Stream \<times> unit res" where
  "puts put [] s = (s, Inr ())"
| "puts put (v # vs) s =
     (case put v s of (s', Inl e) \<Rightarrow> (s', Inl e) | (s', Inr _) \<Rightarrow> puts put vs s')"

fun gets :: "('k \<Rightarrow> Stream \<Rightarrow> Stream \<times> 'b res) \<Rightarrow> 'k list \<Rightarrow> Stream \<Rightarrow> Stream \<times> 'b list res" where
  "gets get [] s = (s, Inr [])"
| "gets get (k # ks) s =
     (case get k s of
        (s', Inl e) \<Rightarrow> (s', Inl e)
      | (s', Inr x) \<Rightarrow> (case gets get ks s' of (s'', r) \<Rightarrow> (s'', map_sum id (Cons x) r)))"

text \<open>
  What a writer and the reader of the same kind of field promise each other: the writer
  appends the field's wire form, and the reader takes that wire form off again.
\<close>

locale codec =
  fixes ok :: "'a \<Rightarrow> bool"
    and wire :: "'a \<Rightarrow> u8 list"
    and norm :: "'a \<Rightarrow> 'b"
    and kind :: "'a \<Rightarrow> 'k"
    and put :: "'a \<Rightarrow> Stream \<Rightarrow> Stream \<times> unit res"
    and get :: "'k \<Rightarrow> Stream \<Rightarrow> Stream \<times> 'b res"
  assumes put_ok:
      "\<lbrakk>ok v; length (bytes s) + length (wire v) \<le> kMaxSize\<rbrakk>
         \<Longrightarrow> put v s = (s\<lparr>bytes := bytes s @ wire v\<rparr>, Inr ())"
    and get_ok:
      "\<lbrakk>ok v; stream_wf s; bytes s = pre @ wire v @ post; pos s = length pre\<rbrakk>
         \<Longrightarrow> get (kind v) s = (s\<lparr>pos := pos s + length (wire v)\<rparr>, Inr (norm v))"
begin

lemma puts_ok:
  "\<lbrakk>\<forall>v \<in> set vs. ok v; length (bytes s) + length (concat (map wire vs)) \<le> kMaxSize\<rbrakk>
     \<Longrightarrow> puts put vs s = (s\<lparr>bytes := bytes s @ concat (map wire vs)\<rparr>, Inr ())"
proof (induction vs arbitrary: s)
  case (Cons v vs)
  then have "put v s = (s\<lparr>bytes := bytes s @ wire v\<rparr>, Inr ())"
    by (intro put_ok) simp_all
  with Cons.prems show ?case
    by (simp add: Cons.IH)
qed simp

lemma gets_ok:
  "\<lbrakk>\<forall>v \<in> set vs. ok v; stream_wf s; bytes s = pre @ concat (map wire vs) @ post; pos s = length pre\<rbrakk>
     \<Longrightarrow> gets get (map kind vs) s
           = (s\<lparr>pos := pos s + length (concat (map wire vs))\<rparr>, Inr (map norm vs))"
proof (induction vs arbitrary: s pre)
  case (Cons v vs)
  then have get: "get (kind v) s = (s\<lparr>pos := pos s + length (wire v)\<rparr>, Inr (norm v))"
    by (intro get_ok [of _ _ pre "concat (map wire vs) @ post"]) simp_all
  have "gets get (map kind vs) (s\<lparr>pos := pos s + length (wire v)\<rparr>)
          = (s\<lparr>pos := pos s + length (wire v) + length (concat (map wire vs))\<rparr>, Inr (map norm vs))"
    using Cons.prems
    by (subst Cons.IH [of _ "pre @ wire v"]) (simp_all add: stream_wf_def)
  with get show ?case
    by (simp add: add.assoc)
qed simp

lemma round_trip:
  assumes "\<forall>v \<in> set vs. ok v" "length (concat (map wire vs)) \<le> kMaxSize"
  shows "\<exists>s s'. puts put vs new_stream = (s, Inr ()) \<and> gets get (map kind vs) s = (s', Inr (map norm vs))
           \<and> stream_remaining s' = 0"
proof -
  let ?w = "concat (map wire vs)"
  let ?s = "\<lparr>bytes = ?w, pos = 0\<rparr>"
  let ?s' = "\<lparr>bytes = ?w, pos = length ?w\<rparr>"
  have small: "length ?w < 2 ^ 64"
    using assms(2) by (simp add: kMaxSize_def)
  have "puts put vs new_stream = (?s, Inr ())"
    using puts_ok [of vs new_stream] assms by (simp add: new_stream_def)
  moreover have "gets get (map kind vs) ?s = (?s', Inr (map norm vs))"
    using gets_ok [of vs ?s "[]" "[]"] assms(1) small by (simp add: stream_wf_def)
  moreover have "stream_remaining ?s' = 0"
    by (simp add: stream_remaining_def left_def)
  ultimately show ?thesis
    by blast
qed

end

subsection \<open>The fields of the class\<close>

lemma u32_bytes:
  "u32_of_bytes (ucast v) (ucast (drop_bit 8 v)) (ucast (drop_bit 16 v)) (ucast (drop_bit 24 v)) = v"
proof (rule bit_word_eqI)
  fix n assume "n < LENGTH(32)"
  then have "n < 8 \<or> (8 \<le> n \<and> n < 16) \<or> (16 \<le> n \<and> n < 24) \<or> (24 \<le> n \<and> n < 32)"
    by auto
  then show "bit (u32_of_bytes (ucast v) (ucast (drop_bit 8 v)) (ucast (drop_bit 16 v))
               (ucast (drop_bit 24 v))) n = bit v n"
    by (elim disjE) (auto simp: u32_of_bytes_def bit_simps)
qed

lemma and_255_eq: "and (n :: nat) 0xFF = take_bit 8 n"
  by (simp add: take_bit_eq_mask mask_eq_exp_minus_1)

lemma or_hi_lo: "or (push_bit 8 (drop_bit 8 (n :: nat))) (and n 0xFF) = n"
  by (rule bit_eqI) (auto simp: and_255_eq bit_simps)

lemma unat_hi: "n \<le> 65535 \<Longrightarrow> unat (of_nat (drop_bit 8 n) :: u8) = drop_bit 8 n"
  by (simp add: unat_of_nat drop_bit_eq_div)

lemma unat_lo: "unat (of_nat (and n 0xFF) :: u8) = and n 0xFF"
  by (simp add: and_255_eq unat_of_nat take_bit_eq_mod)

lemma char_byte [simp]: "char_of_byte (byte_of_char c) = c"
  by (simp add: char_of_byte_def byte_of_char_def unat_of_nat)

lemma map_char_byte [simp]: "map (char_of_byte \<circ> byte_of_char) t = t"
  by (simp add: map_idI)

lemma WriteU32_ok:
  "length (bytes s) + 4 \<le> kMaxSize \<Longrightarrow> WriteU32 s v w = (s\<lparr>bytes := bytes s @ bytes_of_u32 v\<rparr>, Inr ())"
  by (simp add: WriteU32_def Room_def)

lemma Need_ok: "\<lbrakk>stream_wf s; pos s + n \<le> length (bytes s)\<rbrakk> \<Longrightarrow> Need s n w = Inr ()"
  by (simp add: Need_Inr)

lemma ReadU32_ok:
  "\<lbrakk>stream_wf s; bytes s = pre @ bytes_of_u32 v @ post; pos s = length pre\<rbrakk>
     \<Longrightarrow> ReadU32 s w = (s\<lparr>pos := pos s + 4\<rparr>, Inr v)"
  by (simp add: ReadU32_def Need_ok bytes_of_u32_def Let_def u32_bytes)

datatype field = Byte int | Number int | Float u32 | Text string
datatype field_kind = KByte | KNumber | KFloat | KText
datatype field_value = VInt int | VBits u32 | VText string

fun kind_of :: "field \<Rightarrow> field_kind" where
  "kind_of (Byte _) = KByte"
| "kind_of (Number _) = KNumber"
| "kind_of (Float _) = KFloat"
| "kind_of (Text _) = KText"

text \<open>The values a script may write, what the reader gets back for them, and their bytes.\<close>

fun field_ok :: "field \<Rightarrow> bool" where
  "field_ok (Byte i) \<longleftrightarrow> -128 \<le> i \<and> i \<le> 255"
| "field_ok (Number i) \<longleftrightarrow> - (2 ^ 31) \<le> i \<and> i < 2 ^ 32"
| "field_ok (Float _) \<longleftrightarrow> True"
| "field_ok (Text t) \<longleftrightarrow> length t \<le> 65535"

fun read_back :: "field \<Rightarrow> field_value" where
  "read_back (Byte i) = VInt (i mod 256)"
| "read_back (Number i) = VInt (if i < 2 ^ 31 then i else i - 2 ^ 32)"
| "read_back (Float b) = VBits b"
| "read_back (Text t) = VText t"

fun wire :: "field \<Rightarrow> u8 list" where
  "wire (Byte i) = [word_of_int i]"
| "wire (Number i) = bytes_of_u32 (word_of_int i)"
| "wire (Float b) = bytes_of_u32 b"
| "wire (Text t) = [of_nat (drop_bit 8 (length t)), of_nat (and (length t) 0xFF)] @ map byte_of_char t"

fun put_field :: "field \<Rightarrow> Stream \<Rightarrow> Stream \<times> unit res" where
  "put_field (Byte i) s = writeByte None s (Some (LInt i))"
| "put_field (Number i) s = writeNumber None s (Some (LInt i))"
| "put_field (Float b) s = writeFloat s b"
| "put_field (Text t) s = writeString s t"

fun get_field :: "field_kind \<Rightarrow> Stream \<Rightarrow> Stream \<times> field_value res" where
  "get_field KByte s = map_prod id (map_sum id VInt) (readByte s)"
| "get_field KNumber s = map_prod id (map_sum id VInt) (readNumber s)"
| "get_field KFloat s = map_prod id (map_sum id VBits) (readFloat s)"
| "get_field KText s = map_prod id (map_sum id VText) (readString s)"

lemma sint_of_number:
  assumes "- (2 ^ 31) \<le> i" "i < 2 ^ 32"
  shows "sint (word_of_int i :: u32) = (if i < 2 ^ 31 then i else i - 2 ^ 32)"
proof -
  have "(i + 2 ^ 31) mod 2 ^ 32 = (if i < 2 ^ 31 then i + 2 ^ 31 else i + 2 ^ 31 - 2 ^ 32)"
  proof (cases "i < 2 ^ 31")
    case False
    have "(i + 2 ^ 31) mod 2 ^ 32 = (i + 2 ^ 31 - 2 ^ 32) mod 2 ^ 32"
      by (simp only: minus_mod_self2)
    also have "\<dots> = i + 2 ^ 31 - 2 ^ 32"
      using False assms by (intro mod_pos_pos_trivial) simp_all
    finally show ?thesis
      using False by simp
  qed (use assms in simp)
  then show ?thesis
    by (simp add: sint_sbintrunc' signed_take_bit_eq_take_bit_shift take_bit_eq_mod)
qed

lemma put_field_ok:
  "\<lbrakk>field_ok v; length (bytes s) + length (wire v) \<le> kMaxSize\<rbrakk>
     \<Longrightarrow> put_field v s = (s\<lparr>bytes := bytes s @ wire v\<rparr>, Inr ())"
  by (cases v)
     (simp_all add: writeByte_def writeNumber_def writeFloat_def writeString_def Room_def WriteU32_ok
        bytes_of_u32_def CheckInteger_def in_range_def)

lemma get_field_ok:
  assumes "field_ok v" "stream_wf s" "bytes s = pre @ wire v @ post" "pos s = length pre"
  shows "get_field (kind_of v) s = (s\<lparr>pos := pos s + length (wire v)\<rparr>, Inr (read_back v))"
proof (cases v)
  case (Byte i)
  with assms show ?thesis
    by (simp add: readByte_def Need_ok uint_word_of_int)
next
  case (Number i)
  with assms show ?thesis
    by (simp add: readNumber_def ReadU32_ok [of s pre _ post] sint_of_number bytes_of_u32_def)
next
  case (Float b)
  with assms show ?thesis
    by (simp add: readFloat_def ReadU32_ok [of s pre _ post] bytes_of_u32_def)
next
  case (Text t)
  with assms show ?thesis
    by (simp add: readString_def Need_ok unat_hi unat_lo or_hi_lo left_eq nth_append Let_def)
qed

interpretation fields: codec field_ok wire read_back kind_of put_field get_field
  by unfold_locales (simp_all add: put_field_ok get_field_ok)

text \<open>
  C28. Round trip of the client stream: any sequence of bytes, numbers, floats and strings
  that fits into \<^verbatim>\<open>kMaxSize\<close> bytes is written without error, and reading fields of the
  same kinds gives the values back, a byte as its value modulo 256 and a number as the
  signed 32-bit value of its bits, and leaves nothing unread.
\<close>

theorem stream_round_trip:
  assumes "\<forall>v \<in> set fs. field_ok v" "length (concat (map wire fs)) \<le> kMaxSize"
  shows "\<exists>s s'. puts put_field fs new_stream = (s, Inr ())
           \<and> gets get_field (map kind_of fs) s = (s', Inr (map read_back fs))
           \<and> stream_remaining s' = 0"
  by (rule fields.round_trip [OF assms])

theorem stream_round_trip_witness:
  "\<exists>s s'. puts put_field [Byte (- 1), Number 4294967295, Text ''ab''] new_stream = (s, Inr ())
     \<and> gets get_field [KByte, KNumber, KText] s = (s', Inr [VInt 255, VInt (- 1), VText ''ab''])
     \<and> stream_remaining s' = 0"
  using stream_round_trip [of "[Byte (- 1), Number 4294967295, Text ''ab'']"]
  by (simp add: kMaxSize_def bytes_of_u32_def)

end
