(* ===== verification/Runtime.thy ===== *)
theory Runtime
  imports Entity_Pools Scheduler Config Client_Stream
begin

text \<open>
  The runtime (\<^verbatim>\<open>src/runtime/runtime.cpp\<close>) and the parts of the core that call into Lua: the
  invoker, event dispatch, the timer tick, the HTTP pump and the frame pump.

  The model is a state monad over the state of the plugin. A computation returns, throws a C++
  exception, or reaches undefined behaviour (\<open>UB\<close>): the use of a runtime that has been
  deleted, of a subsystem that has been destroyed, of a handler or a timer that no longer
  exists. C++ objects that hold a reference to a runtime hold its number \<open>r\<close> here; every access
  goes through \<open>get\<close>, \<open>sub\<close> or \<open>put\<close>, which give \<open>UB\<close> when the plugin's runtime is not the
  one referred to. Running a Lua function is the parameter \<open>pcall\<close> of the world; what it may do
  in between includes every server callback.
\<close>

datatype 'a outcome = Ret 'a | Throw cxx | UB

datatype pump_step = TimersTick | HttpPump | CopasStep

record Runtime =
  rid :: nat
  lua_open :: bool                 \<comment> \<open>\<^verbatim>\<open>lua_.has_value()\<close>; the subsystems exist exactly then\<close>
  depth :: int
  dead :: bool
  closing :: bool
  reload_requested :: bool
  events :: EventBus
  sched :: Scheduler
  entities :: EntityPools
  http :: Http
  pump :: "pump_step list"
  this_timer :: lval               \<comment> \<open>the Lua global \<^verbatim>\<open>thisTimer\<close>\<close>
  config :: Config

text \<open>The flags of \<^verbatim>\<open>libraries.cpp\<close>: which C libraries the plugin has initialised.\<close>

record Libraries =
  ini_openssl :: bool
  ini_curl :: bool
  ini_mysql :: bool

record State =
  runtime :: "Runtime option"
  shutdown_deferred :: bool
  api :: ServerApi
  next_rid :: nat
  next_obj :: objref
  calls :: "(luafn \<times> lval list) list"   \<comment> \<open>history: the Lua functions that C++ has called\<close>
  deleted :: "(EntityKind \<times> int) list"  \<comment> \<open>history: the entities deleted on the server\<close>
  errors :: "string list"               \<comment> \<open>the error lines of the log\<close>
  arrays :: "objref \<rightharpoonup> lval list"    \<comment> \<open>the Lua arrays that C++ made, as it made them\<close>
  streams :: "objref \<rightharpoonup> Stream"       \<comment> \<open>the Stream objects\<close>
  libs :: Libraries

type_synonym 'a host = "State \<Rightarrow> 'a outcome \<times> State"

text \<open>What the plugin calls and does not contain.\<close>

record World =
  pcall :: "luafn \<Rightarrow> lval list \<Rightarrow> State \<Rightarrow> string option outcome \<times> State"
  panics :: "State \<Rightarrow> bool"          \<comment> \<open>a Lua error outside a protected call\<close>
  stack_full :: "State \<Rightarrow> bool"      \<comment> \<open>\<^verbatim>\<open>lua_checkstack\<close> fails\<close>
  clock :: "State \<Rightarrow> int"
  curl :: Curl
  curl_traffic :: "State \<Rightarrow> http_op list"  \<comment> \<open>data and header lines received\<close>
  curl_done :: "State \<Rightarrow> (64 word \<times> nat) list"
  curl_info :: "State \<Rightarrow> Transfer \<Rightarrow> int \<times> string option"
  response_table :: "State \<Rightarrow> reply \<Rightarrow> lval"
  copas_step :: luafn
  load_file :: "State \<Rightarrow> string \<Rightarrow> string + luafn"
  config_reader :: "State \<Rightarrow> Reader"   \<comment> \<open>the tables of \<^verbatim>\<open>luaconfig.lua\<close>, as it is now\<close>
  config_run :: "State \<Rightarrow> sandbox"
  setup_state :: "State \<Rightarrow> unit res"
  openssl_ok :: "State \<Rightarrow> bool"
  curl_ok :: "State \<Rightarrow> bool"
  mysql_ok :: "State \<Rightarrow> bool"
  digest_ok :: "State \<Rightarrow> bool"

section \<open>The monad\<close>

definition ret :: "'a \<Rightarrow> 'a host" where
  "ret x s = (Ret x, s)"

definition throw :: "cxx \<Rightarrow> 'a host" where
  "throw e s = (Throw e, s)"

definition bind :: "'a host \<Rightarrow> ('a \<Rightarrow> 'b host) \<Rightarrow> 'b host" where
  "bind m k s = (case m s of (Ret x, s') \<Rightarrow> k x s' | (Throw e, s') \<Rightarrow> (Throw e, s') | (UB, s') \<Rightarrow> (UB, s'))"

definition change :: "(State \<Rightarrow> State) \<Rightarrow> unit host" where
  "change f s = (Ret (), f s)"

definition query :: "(State \<Rightarrow> 'a) \<Rightarrow> 'a host" where
  "query f s = (Ret (f s), s)"

definition of_res :: "'a res \<Rightarrow> 'a host" where
  "of_res x = (case x of Inl e \<Rightarrow> throw e | Inr y \<Rightarrow> ret y)"

text \<open>A destructor: runs when the scope is left, also by an exception.\<close>

definition on_exit :: "'a host \<Rightarrow> unit host \<Rightarrow> 'a host" where
  "on_exit m d s =
     (case m s of
        (UB, s') \<Rightarrow> (UB, s')
      | (out, s') \<Rightarrow> (case d s' of (UB, s'') \<Rightarrow> (UB, s'') | (_, s'') \<Rightarrow> (out, s'')))"

definition log_error :: "string \<Rightarrow> unit host" where
  "log_error text = change (\<lambda>s. s\<lparr>errors := errors s @ [text]\<rparr>)"

text \<open>Access through a pointer to the runtime numbered \<open>r\<close>.\<close>

definition get :: "nat \<Rightarrow> (Runtime \<Rightarrow> 'a) \<Rightarrow> 'a host" where
  "get r f s =
     (case runtime s of
        Some rt \<Rightarrow> if rid rt = r then (Ret (f rt), s) else (UB, s)
      | None \<Rightarrow> (UB, s))"

definition put :: "nat \<Rightarrow> (Runtime \<Rightarrow> Runtime) \<Rightarrow> unit host" where
  "put r f s =
     (case runtime s of
        Some rt \<Rightarrow> if rid rt = r then (Ret (), s\<lparr>runtime := Some (f rt)\<rparr>) else (UB, s)
      | None \<Rightarrow> (UB, s))"

text \<open>Access to a subsystem: a null pointer once the Lua state is closed.\<close>

definition sub :: "nat \<Rightarrow> (Runtime \<Rightarrow> 'a) \<Rightarrow> 'a host" where
  "sub r f = bind (get r id) (\<lambda>rt s. if lua_open rt then (Ret (f rt), s) else (UB, s))"

definition put_sub :: "nat \<Rightarrow> (Runtime \<Rightarrow> Runtime) \<Rightarrow> unit host" where
  "put_sub r f = bind (sub r id) (\<lambda>_. put r f)"

section \<open>Runtime: state queries\<close>

definition Usable :: "Runtime \<Rightarrow> bool" where
  "Usable rt \<longleftrightarrow> lua_open rt \<and> \<not> closing rt \<and> \<not> dead rt"

definition InLuaCall :: "Runtime \<Rightarrow> bool" where
  "InLuaCall rt \<longleftrightarrow> lua_open rt \<and> depth rt > 0"

definition MarkDead :: "nat \<Rightarrow> unit host" where
  "MarkDead r = put r (\<lambda>rt. rt\<lparr>dead := True\<rparr>)"

text \<open>\<^verbatim>\<open>Runtime::Require\<close>, which every binding calls first, on the runtime that owns the state.\<close>

definition Require_runtime :: "nat host" where
  "Require_runtime s =
     (case runtime s of
        Some rt \<Rightarrow> if Usable rt then (Ret (rid rt), s) else (Throw (Runtime_error ''runtime shutting down''), s)
      | None \<Rightarrow> (Throw (Runtime_error ''runtime shutting down''), s))"

section \<open>Invoker\<close>

definition Scope :: "nat \<Rightarrow> 'a host \<Rightarrow> 'a host" where
  "Scope r m =
     bind (put_sub r (\<lambda>rt. rt\<lparr>depth := depth rt + 1\<rparr>)) (\<lambda>_.
     on_exit m (put_sub r (\<lambda>rt. rt\<lparr>depth := depth rt - 1\<rparr>)))"

text \<open>
  A call of the Lua API outside a protected call (pushing the function or an argument) may
  panic: \<^verbatim>\<open>Panic\<close> marks the runtime dead and throws.
\<close>

definition unprotected :: "World \<Rightarrow> nat \<Rightarrow> unit host" where
  "unprotected w r =
     bind (query (panics w)) (\<lambda>p.
       if p then bind (MarkDead r) (\<lambda>_. throw (Lua_panic ''Lua error outside a protected call''))
       else ret ())"

definition call_body :: "World \<Rightarrow> nat \<Rightarrow> luafn \<Rightarrow> string \<Rightarrow> lval list host \<Rightarrow> bool host" where
  "call_body w r f name push =
     bind (query (stack_full w)) (\<lambda>full.
       if full then throw (Runtime_error ''Lua stack overflow'')
       else
         bind (unprotected w r) (\<lambda>_.
         bind push (\<lambda>args.
         bind (change (\<lambda>s. s\<lparr>calls := calls s @ [(f, args)]\<rparr>)) (\<lambda>_.
         bind (pcall w f args) (\<lambda>err.
           case err of
             Some e \<Rightarrow> bind (log_error (name @ '': '' @ e)) (\<lambda>_. ret False)
           | None \<Rightarrow> ret True)))))"

definition Call :: "World \<Rightarrow> nat \<Rightarrow> luafn \<Rightarrow> string \<Rightarrow> lval list host \<Rightarrow> bool host" where
  "Call w r f name push =
     bind (sub r dead) (\<lambda>d. if d then ret False else Scope r (call_body w r f name push))"

section \<open>Dispatch of an event\<close>

text \<open>The loop over the handlers that existed at the start, by index.\<close>

fun dispatch_loop :: "World \<Rightarrow> nat \<Rightarrow> nat \<Rightarrow> lval list host \<Rightarrow> nat \<Rightarrow> nat list \<Rightarrow> unit host" where
  "dispatch_loop w r event push frame [] = ret ()"
| "dispatch_loop w r event push frame (i # is) =
     bind (sub r events) (\<lambda>b s.
       if event < length (lists b) \<and> i < length (lists b ! event)
       then
         (if \<not> h_alive (lists b ! event ! i) then dispatch_loop w r event push frame is s
          else
            bind (Call w r (fn (lists b ! event ! i)) (names b ! event) push) (\<lambda>_.
            bind (sub r events) (\<lambda>b' s'.
              if frame < length (cancelled b')
              then (if frame_cancelled frame b' then ret () s'
                    else dispatch_loop w r event push frame is s')
              else (UB, s'))) s)
       else (UB, s))"

definition Finish :: "nat \<Rightarrow> nat \<Rightarrow> bool host" where
  "Finish r frame =
     bind (sub r events) (\<lambda>b s.
       if frame < length (cancelled b)
       then bind (put_sub r (\<lambda>rt. rt\<lparr>events := fst (frame_finish frame (events rt))\<rparr>))
              (\<lambda>_. ret (snd (frame_finish frame b))) s
       else (UB, s))"

text \<open>
  The frame is popped by \<^verbatim>\<open>Finish\<close>, or by its destructor when a handler call threw: the
  destructor does nothing after \<^verbatim>\<open>Finish\<close>.
\<close>

definition on_throw :: "'a host \<Rightarrow> unit host \<Rightarrow> 'a host" where
  "on_throw m d s =
     (case m s of
        (Throw e, s') \<Rightarrow> (case d s' of (UB, s'') \<Rightarrow> (UB, s'') | (_, s'') \<Rightarrow> (Throw e, s''))
      | other \<Rightarrow> other)"

definition Dispatch :: "World \<Rightarrow> nat \<Rightarrow> nat \<Rightarrow> lval list host \<Rightarrow> bool host" where
  "Dispatch w r event push =
     bind (sub r events) (\<lambda>b.
       if \<not> HasHandlers b event then ret False
       else Scope r (
         bind (sub r (\<lambda>rt. length (cancelled (events rt)))) (\<lambda>frame.
         bind (put_sub r (\<lambda>rt. rt\<lparr>events := frame_push (events rt)\<rparr>)) (\<lambda>_.
           on_throw
             (bind (dispatch_loop w r event push frame [0..<length (lists b ! event)]) (\<lambda>_. Finish r frame))
             (put_sub r (\<lambda>rt. rt\<lparr>events := frame_drop frame (events rt)\<rparr>))))))"

text \<open>The arguments of an event: plain values, and references to entities.\<close>

datatype arg = Val lval | Ent EntityKind EntityRef

definition PushEntity :: "nat \<Rightarrow> EntityKind \<Rightarrow> EntityRef \<Rightarrow> lval host" where
  "PushEntity r k ref =
     (if er_id ref < 0 then ret LNil
      else
        bind (query next_obj) (\<lambda>fresh.
        bind (sub r (\<lambda>rt. Push fresh (entities rt k) (er_id ref) (er_generation ref))) (\<lambda>(pool, h).
        bind (put_sub r (\<lambda>rt. rt\<lparr>entities := (entities rt)(k := pool)\<rparr>)) (\<lambda>_.
        bind (change (\<lambda>s. s\<lparr>next_obj := next_obj s + 1\<rparr>)) (\<lambda>_.
          ret (case h of Some hh \<Rightarrow> LHandle hh | None \<Rightarrow> LNil))))))"

fun push_args :: "nat \<Rightarrow> arg list \<Rightarrow> lval list host" where
  "push_args r [] = ret []"
| "push_args r (a # as) =
     bind (case a of Val v \<Rightarrow> ret v | Ent k ref \<Rightarrow> PushEntity r k ref) (\<lambda>v.
     bind (push_args r as) (\<lambda>vs. ret (v # vs)))"

definition Emit :: "World \<Rightarrow> nat \<Rightarrow> Event \<Rightarrow> arg list \<Rightarrow> bool host" where
  "Emit w r e args = Dispatch w r (Index e) (push_args r args)"

section \<open>Timers\<close>

definition get_timer :: "nat \<Rightarrow> u64 \<Rightarrow> Timer host" where
  "get_timer r i = bind (sub r (\<lambda>rt. map_of (timers (sched rt)) i)) (\<lambda>t s.
     case t of Some tm \<Rightarrow> (Ret tm, s) | None \<Rightarrow> (UB, s))"

definition set_timer :: "nat \<Rightarrow> u64 \<Rightarrow> (Timer \<Rightarrow> Timer) \<Rightarrow> unit host" where
  "set_timer r i f = bind (get_timer r i) (\<lambda>t.
     put_sub r (\<lambda>rt. rt\<lparr>sched := put_timer i (f t) (sched rt)\<rparr>))"

definition timer_args :: "World \<Rightarrow> nat \<Rightarrow> u64 \<Rightarrow> lval list host" where
  "timer_args w r i = bind (get_timer r i) (\<lambda>t.
     bind (query (stack_full w)) (\<lambda>full.
       if full then throw (Runtime_error ''Lua stack overflow'') else ret (t_args t)))"

text \<open>The destructor of \<^verbatim>\<open>RunningScope\<close>.\<close>

definition running_exit :: "nat \<Rightarrow> u64 \<Rightarrow> lval \<Rightarrow> unit host" where
  "running_exit r i saved =
     bind (set_timer r i (\<lambda>t. t\<lparr>running := False\<rparr>)) (\<lambda>_.
     bind (sub r dead) (\<lambda>d.
       if d then ret () else put_sub r (\<lambda>rt. rt\<lparr>this_timer := saved\<rparr>)))"

definition Run :: "World \<Rightarrow> nat \<Rightarrow> u64 \<Rightarrow> int \<Rightarrow> unit host" where
  "Run w r i now =
     bind (set_timer r i (run_begin now)) (\<lambda>_.
     bind (query (stack_full w)) (\<lambda>full.
       if full then throw (Runtime_error ''Lua stack overflow'')
       else
         bind (unprotected w r) (\<lambda>_.
         bind (sub r this_timer) (\<lambda>saved.
         bind (get_timer r i) (\<lambda>t.
         bind (put_sub r (\<lambda>rt. rt\<lparr>this_timer :=
                 (case t_handle t of Some h \<Rightarrow> LUser h | None \<Rightarrow> LNil)\<rparr>)) (\<lambda>_.
         bind (set_timer r i (\<lambda>t. t\<lparr>running := True\<rparr>)) (\<lambda>_.
         bind (on_exit (Call w r (callback t) ''Timer callback'' (timer_args w r i))
                       (running_exit r i saved)) (\<lambda>_.
         bind (get_timer r i) (\<lambda>t'.
           put_sub r (\<lambda>rt. rt\<lparr>sched := run_end i t' (sched rt)\<rparr>))))))))))"

fun tick_loop :: "World \<Rightarrow> nat \<Rightarrow> int \<Rightarrow> u64 list \<Rightarrow> unit host" where
  "tick_loop w r now [] = ret ()"
| "tick_loop w r now (i # is) =
     bind (sub r (\<lambda>rt. Exists (sched rt) i)) (\<lambda>e.
     bind (if e then Run w r i now else ret ()) (\<lambda>_. tick_loop w r now is))"

definition Tick :: "World \<Rightarrow> nat \<Rightarrow> unit host" where
  "Tick w r =
     bind (sub r sched) (\<lambda>sc.
       if timers sc = [] then ret ()
       else Scope r (
         bind (query (clock w)) (\<lambda>now.
           let ids = sort_due sc (collect_due now sc) in
           bind (put_sub r (\<lambda>rt. rt\<lparr>sched := (sched rt)\<lparr>due_ids := []\<rparr>\<rparr>)) (\<lambda>_.
           bind (tick_loop w r now ids) (\<lambda>_.
             put_sub r (\<lambda>rt. rt\<lparr>sched := (sched rt)\<lparr>due_ids := ids\<rparr>\<rparr>))))))"

section \<open>HTTP\<close>

definition Complete :: "World \<Rightarrow> nat \<Rightarrow> Transfer \<Rightarrow> bool host" where
  "Complete w r t =
     Call w r (t_callback t) ''http.request callback''
       (bind (query (stack_full w)) (\<lambda>full.
          if full then throw (Runtime_error ''Lua stack overflow'')
          else
            bind (query (\<lambda>s. curl_info w s t)) (\<lambda>(status, effective).
              case Complete_reply (curl w) status effective t of
                Failure e \<Rightarrow> ret [LNil, LStr e]
              | reply \<Rightarrow> bind (query (\<lambda>s. response_table w s reply)) (\<lambda>tab. ret [tab, LNil]))))"

fun complete_loop :: "World \<Rightarrow> nat \<Rightarrow> Transfer list \<Rightarrow> unit host" where
  "complete_loop w r [] = ret ()"
| "complete_loop w r (t # ts) = bind (Complete w r t) (\<lambda>_. complete_loop w r ts)"

fun is_traffic :: "http_op \<Rightarrow> bool" where
  "is_traffic (OpWrite _ _) = True"
| "is_traffic (OpHeader _ _) = True"
| "is_traffic _ = False"

definition Pump :: "World \<Rightarrow> nat \<Rightarrow> unit host" where
  "Pump w r =
     bind (sub r http) (\<lambda>h0.
       if transfers h0 = [] then ret ()
       else
         bind (query (curl_traffic w)) (\<lambda>ops.
         bind (query (curl_done w)) (\<lambda>msgs s.
           case collect_done msgs (fold http_step (filter is_traffic ops) h0) of
             None \<Rightarrow> (UB, s)
           | Some (h, ts) \<Rightarrow>
               bind (put_sub r (\<lambda>rt. rt\<lparr>http := h\<rparr>)) (\<lambda>_.
                 if ts = [] then ret () else Scope r (complete_loop w r ts)) s)))"

section \<open>The frame\<close>

fun run_step :: "World \<Rightarrow> nat \<Rightarrow> pump_step \<Rightarrow> unit host" where
  "run_step w r TimersTick = Tick w r"
| "run_step w r HttpPump = Pump w r"
| "run_step w r CopasStep = bind (Call w r (copas_step w) ''copas.step'' (ret [])) (\<lambda>_. ret ())"

fun pump_loop :: "World \<Rightarrow> nat \<Rightarrow> pump_step list \<Rightarrow> unit host" where
  "pump_loop w r [] = ret ()"
| "pump_loop w r (p # ps) = bind (sub r pump) (\<lambda>_. bind (run_step w r p) (\<lambda>_. pump_loop w r ps))"

definition PumpRun :: "World \<Rightarrow> nat \<Rightarrow> unit host" where
  "PumpRun w r = bind (sub r pump) (\<lambda>steps. pump_loop w r steps)"

definition when_usable :: "nat \<Rightarrow> unit host \<Rightarrow> unit host" where
  "when_usable r m = bind (get r Usable) (\<lambda>u. if u then m else ret ())"

definition Frame :: "World \<Rightarrow> nat \<Rightarrow> lua_float \<Rightarrow> unit host" where
  "Frame w r elapsed =
     when_usable r (
       bind (PumpRun w r) (\<lambda>_.
         when_usable r (bind (Emit w r ServerFrame [Val (LFloat elapsed)]) (\<lambda>_. ret ()))))"

section \<open>Loading the scripts\<close>

definition load_script :: "World \<Rightarrow> nat \<Rightarrow> string \<Rightarrow> unit host" where
  "load_script w r script =
     Scope r (
       bind (query (\<lambda>s. load_file w s script)) (\<lambda>chunk.
         case chunk of
           Inl e \<Rightarrow> log_error e
         | Inr f \<Rightarrow>
             bind (change (\<lambda>s. s\<lparr>calls := calls s @ [(f, [])]\<rparr>)) (\<lambda>_.
             bind (pcall w f []) (\<lambda>err.
               case err of Some e \<Rightarrow> log_error e | None \<Rightarrow> ret ()))))"

fun load_loop :: "World \<Rightarrow> nat \<Rightarrow> string list \<Rightarrow> unit host \<Rightarrow> unit host" where
  "load_loop w r [] after = after"
| "load_loop w r (script # rest) after =
     when_usable r (bind (load_script w r script) (\<lambda>_. load_loop w r rest after))"

definition LoadScripts :: "World \<Rightarrow> nat \<Rightarrow> unit host" where
  "LoadScripts w r =
     when_usable r (
       bind (query api) (\<lambda>a.
       bind (put_sub r (\<lambda>rt. rt\<lparr>entities := Enumerate a (entities rt)\<rparr>)) (\<lambda>_.
       bind (get r config) (\<lambda>c.
         load_loop w r (scripts c)
           (when_usable r (bind (Emit w r ServerInit []) (\<lambda>_. ret ())))))))"

section \<open>Shutdown\<close>

definition kDisconnectTimeout :: int where "kDisconnectTimeout = 0"

fun notify_loop :: "World \<Rightarrow> nat \<Rightarrow> int list \<Rightarrow> unit host" where
  "notify_loop w r [] = ret ()"
| "notify_loop w r (i # is) =
     when_usable r (
       bind (sub r (\<lambda>rt. entities rt Player)) (\<lambda>players.
         if \<not> Alive players i then notify_loop w r is
         else
           bind (Emit w r PlayerDisconnect [Ent Player (Ref players i), Val (LInt kDisconnectTimeout)]) (\<lambda>_.
           bind (put_sub r (\<lambda>rt. rt\<lparr>entities := (entities rt)(Player := Release (entities rt Player) i)\<rparr>)) (\<lambda>_.
             notify_loop w r is))))"

definition NotifyServerShutdown :: "World \<Rightarrow> nat \<Rightarrow> unit host" where
  "NotifyServerShutdown w r =
     when_usable r (
       bind (Emit w r ServerShutdown []) (\<lambda>_.
       bind (sub r (\<lambda>rt. AliveIds (entities rt Player))) (\<lambda>ids. notify_loop w r ids)))"

datatype ShutdownReason = ShutdownServer | ShutdownReload

text \<open>
  \<^verbatim>\<open>Shutdown\<close> works on a runtime that the plugin no longer refers to. The result holds the
  runtime, the deletions on the server and the error lines.
\<close>

definition Shutdown :: "ServerApi \<Rightarrow> ShutdownReason \<Rightarrow> Runtime \<Rightarrow> Runtime \<times> (EntityKind \<times> int) list \<times> string list" where
  "Shutdown a reason rt =
     (if \<not> lua_open rt then (rt, [], [])
      else if InLuaCall rt then (rt, [], [''Runtime::Shutdown during a call into Lua; ignored''])
      else
        let rt1 = rt\<lparr>closing := True\<rparr> in
        if dead rt then (rt1\<lparr>lua_open := False\<rparr>, [], [])
        else
          let closed = CloseAll (entities rt1);
              (pools, dels) = (if reason = ShutdownReload then DeleteCreated a closed else (closed, []))
          in (rt1\<lparr>entities := ReleaseAllRefs pools, pump := [], sched := Scheduler.Clear (sched rt1),
                  http := Http.Clear (http rt1), events := Event_Bus.Clear (events rt1),
                  lua_open := False\<rparr>, dels, []))"

section \<open>Construction\<close>

definition new_runtime :: "nat \<Rightarrow> Config \<Rightarrow> Runtime" where
  "new_runtime n c =
     \<lparr>rid = n, lua_open = True, depth = 0, dead = False, closing = False, reload_requested = False,
      events = new_bus, sched = new_scheduler, entities = new_pools, http = new_http (http_cafile c),
      pump = [TimersTick, HttpPump, CopasStep], this_timer = LNil, config = c\<rparr>"

definition make_runtime :: "World \<Rightarrow> Config \<Rightarrow> Runtime host" where
  "make_runtime w c =
     bind (query (setup_state w)) (\<lambda>ok.
     bind (of_res ok) (\<lambda>_.
     bind (query next_rid) (\<lambda>n.
     bind (change (\<lambda>s. s\<lparr>next_rid := n + 1\<rparr>)) (\<lambda>_. ret (new_runtime n c)))))"

end
