(* ===== verification/Runtime_Safety.thy ===== *)
theory Runtime_Safety
  imports Runtime
begin

text \<open>
  What every operation of the runtime keeps, whatever the Lua functions do that it calls. The
  method is a weakest precondition \<open>wp\<close> over the monad, which is false when a computation
  reaches undefined behaviour, and a relation \<open>step_ok\<close> between the states before and after:
  the invariant holds, the runtime is still there and is the same one, the nesting depth, the
  dispatch frames and the running timers are those of before, and handler lists have at most
  grown while a dispatch is active.

  The interface to Lua is the locale \<open>lua_host\<close>: a Lua function that is called while the
  nesting depth is positive behaves like one more such operation, and libcurl reports as
  finished only transfers that were added and not yet removed. The theory Scripts interprets
  it for scripts that use the bindings, start events and receive server callbacks to any depth.
\<close>

section \<open>Weakest preconditions\<close>

definition wp :: "'a host \<Rightarrow> ('a outcome \<Rightarrow> State \<Rightarrow> bool) \<Rightarrow> State \<Rightarrow> bool" where
  "wp m Q s \<longleftrightarrow> fst (m s) \<noteq> UB \<and> Q (fst (m s)) (snd (m s))"

lemma wp_mono: "\<lbrakk>wp m Q s; \<And>out s'. \<lbrakk>out \<noteq> UB; Q out s'\<rbrakk> \<Longrightarrow> Q' out s'\<rbrakk> \<Longrightarrow> wp m Q' s"
  by (simp add: wp_def)

lemma wp_ret [simp]: "wp (ret x) Q s \<longleftrightarrow> Q (Ret x) s"
  by (simp add: wp_def ret_def)

lemma wp_throw [simp]: "wp (throw e) Q s \<longleftrightarrow> Q (Throw e) s"
  by (simp add: wp_def throw_def)

lemma wp_bind [simp]:
  "wp (bind m k) Q s \<longleftrightarrow>
     wp m (\<lambda>out s'. case out of Ret x \<Rightarrow> wp (k x) Q s' | Throw e \<Rightarrow> Q (Throw e) s' | UB \<Rightarrow> False) s"
  by (auto simp: wp_def bind_def split: prod.splits outcome.splits)

lemma wp_change [simp]: "wp (change f) Q s \<longleftrightarrow> Q (Ret ()) (f s)"
  by (simp add: wp_def change_def)

lemma wp_query [simp]: "wp (query f) Q s \<longleftrightarrow> Q (Ret (f s)) s"
  by (simp add: wp_def query_def)

lemma wp_of_res [simp]:
  "wp (of_res x) Q s \<longleftrightarrow> (case x of Inl e \<Rightarrow> Q (Throw e) s | Inr y \<Rightarrow> Q (Ret y) s)"
  by (simp add: of_res_def split: sum.split)

lemma wp_log [simp]: "wp (log_error text) Q s \<longleftrightarrow> Q (Ret ()) (s\<lparr>errors := errors s @ [text]\<rparr>)"
  by (simp add: log_error_def)

lemma wp_on_exit [simp]:
  "wp (on_exit m d) Q s \<longleftrightarrow> wp m (\<lambda>out s'. wp d (\<lambda>_ s''. Q out s'') s') s"
  by (auto simp: wp_def on_exit_def split: prod.splits outcome.splits)

lemma wp_on_throw [simp]:
  "wp (on_throw m d) Q s \<longleftrightarrow>
     wp m (\<lambda>out s'. case out of Throw e \<Rightarrow> wp d (\<lambda>_ s''. Q (Throw e) s'') s' | _ \<Rightarrow> Q out s') s"
  by (auto simp: wp_def on_throw_def split: prod.splits outcome.splits)

lemma wp_get [simp]:
  "\<lbrakk>runtime s = Some rt; rid rt = r\<rbrakk> \<Longrightarrow> wp (get r f) Q s \<longleftrightarrow> Q (Ret (f rt)) s"
  by (simp add: wp_def get_def)

lemma wp_put [simp]:
  "\<lbrakk>runtime s = Some rt; rid rt = r\<rbrakk>
     \<Longrightarrow> wp (put r f) Q s \<longleftrightarrow> Q (Ret ()) (s\<lparr>runtime := Some (f rt)\<rparr>)"
  by (simp add: wp_def put_def)

lemma wp_sub [simp]:
  "\<lbrakk>runtime s = Some rt; rid rt = r; lua_open rt\<rbrakk> \<Longrightarrow> wp (sub r f) Q s \<longleftrightarrow> Q (Ret (f rt)) s"
  by (simp add: sub_def) (simp add: wp_def)

lemma wp_put_sub [simp]:
  "\<lbrakk>runtime s = Some rt; rid rt = r; lua_open rt\<rbrakk>
     \<Longrightarrow> wp (put_sub r f) Q s \<longleftrightarrow> Q (Ret ()) (s\<lparr>runtime := Some (f rt)\<rparr>)"
  by (simp add: put_sub_def)

lemma wp_if_state [simp]:
  "wp (\<lambda>s. if c then m s else n s) Q s \<longleftrightarrow> (if c then wp m Q s else wp n Q s)"
  by (simp add: wp_def)

lemma wp_UB [simp]: "\<not> wp (\<lambda>s. (UB, s)) Q s"
  by (simp add: wp_def)

section \<open>Invariant\<close>

definition idle :: "Runtime \<Rightarrow> bool" where
  "idle rt \<longleftrightarrow> (\<forall>i t. map_of (timers (sched rt)) i = Some t \<longrightarrow> \<not> running t)"

definition rt_wf :: "Runtime \<Rightarrow> bool" where
  "rt_wf rt \<longleftrightarrow>
     lua_open rt \<and> \<not> closing rt \<and> 0 \<le> depth rt \<and>
     bus_wf (events rt) \<and> sched_wf (sched rt) \<and> pools_wf (entities rt) \<and> http_wf (http rt) \<and>
     (depth rt = 0 \<longrightarrow> idle rt \<and> cancelled (events rt) = [])"

definition host_inv :: "State \<Rightarrow> bool" where
  "host_inv s \<longleftrightarrow> (case runtime s of None \<Rightarrow> True | Some rt \<Rightarrow> rt_wf rt \<and> rid rt < next_rid s)"

definition rt_ext :: "Runtime \<Rightarrow> Runtime \<Rightarrow> bool" where
  "rt_ext rt rt' \<longleftrightarrow>
     rid rt' = rid rt \<and> depth rt' = depth rt \<and> (dead rt \<longrightarrow> dead rt') \<and>
     bus_ext (events rt) (events rt') \<and> sched_ext (sched rt) (sched rt') \<and>
     pump rt' = pump rt \<and> config rt' = config rt \<and> (reload_requested rt \<longrightarrow> reload_requested rt')"

definition ext :: "State \<Rightarrow> State \<Rightarrow> bool" where
  "ext s s' \<longleftrightarrow>
     (\<forall>rt. runtime s = Some rt \<longrightarrow> (\<exists>rt'. runtime s' = Some rt' \<and> rt_ext rt rt')) \<and>
     (shutdown_deferred s \<longrightarrow> shutdown_deferred s') \<and> next_rid s \<le> next_rid s'"

lemma rt_ext_refl [simp]: "rt_ext rt rt"
  by (simp add: rt_ext_def)

lemma rt_ext_trans: "\<lbrakk>rt_ext a b; rt_ext b c\<rbrakk> \<Longrightarrow> rt_ext a c"
  unfolding rt_ext_def by (auto intro: bus_ext_trans sched_ext_trans)

lemma ext_refl [simp]: "ext s s"
  by (simp add: ext_def)

lemma ext_trans: "\<lbrakk>ext a b; ext b c\<rbrakk> \<Longrightarrow> ext a c"
  unfolding ext_def by (force intro: rt_ext_trans)

definition step_ok :: "State \<Rightarrow> State \<Rightarrow> bool" where
  "step_ok s s' \<longleftrightarrow> host_inv s' \<and> ext s s'"

lemma step_ok_trans: "\<lbrakk>step_ok a b; step_ok b c\<rbrakk> \<Longrightarrow> step_ok a c"
  by (auto simp: step_ok_def intro: ext_trans)

lemma idle_ext: "rt_ext rt rt' \<Longrightarrow> idle rt' \<longleftrightarrow> idle rt"
  by (auto simp: rt_ext_def sched_ext_def idle_def)

text \<open>At a state where the runtime is \<open>rt\<close>, numbered \<open>r\<close>.\<close>

definition standing :: "nat \<Rightarrow> (Runtime \<Rightarrow> bool) \<Rightarrow> State \<Rightarrow> bool" where
  "standing r P s \<longleftrightarrow> host_inv s \<and> (\<exists>rt. runtime s = Some rt \<and> rid rt = r \<and> P rt)"

definition good :: "(Runtime \<Rightarrow> bool) \<Rightarrow> nat \<Rightarrow> 'a host \<Rightarrow> bool" where
  "good P r m \<longleftrightarrow> (\<forall>s. standing r P s \<longrightarrow> wp m (\<lambda>_ s'. step_ok s s') s)"

text \<open>The conditions that survive whatever a nested computation does.\<close>

definition lasting :: "(Runtime \<Rightarrow> bool) \<Rightarrow> bool" where
  "lasting P \<longleftrightarrow> (\<forall>rt rt'. P rt \<longrightarrow> rt_ext rt rt' \<longrightarrow> P rt')"

lemma standing_step: "\<lbrakk>standing r P s; step_ok s s'; lasting P\<rbrakk> \<Longrightarrow> standing r P s'"
  unfolding standing_def step_ok_def ext_def lasting_def by (metis rt_ext_def)

lemma goodI:
  "(\<And>s rt. \<lbrakk>host_inv s; runtime s = Some rt; rid rt = r; P rt; rt_wf rt; lua_open rt\<rbrakk>
      \<Longrightarrow> wp m (\<lambda>_ s'. step_ok s s') s) \<Longrightarrow> good P r m"
  by (force simp: good_def standing_def host_inv_def rt_wf_def)

lemma goodD:
  "\<lbrakk>good P r m; host_inv s; runtime s = Some rt; rid rt = r; P rt\<rbrakk> \<Longrightarrow> wp m (\<lambda>_ s'. step_ok s s') s"
  by (auto simp: good_def standing_def)

lemma wp_bind_good:
  assumes "wp m (\<lambda>_ s'. step_ok s s') s" "\<And>x. good P r (k x)" "standing r P s" "lasting P"
  shows "wp (bind m k) (\<lambda>_ s'. step_ok s s') s"
proof -
  have "wp (k x) (\<lambda>_ s''. step_ok s s'') s'" if "step_ok s s'" for x s'
  proof -
    have "wp (k x) (\<lambda>_ s''. step_ok s' s'') s'"
      using assms(2) standing_step [OF assms(3) that assms(4)] by (simp add: good_def)
    then show ?thesis
      by (rule wp_mono) (rule step_ok_trans [OF that])
  qed
  with assms(1) show ?thesis
    unfolding wp_bind by (elim wp_mono) (simp split: outcome.split)
qed

lemma good_bind: "\<lbrakk>good P r m; \<And>x. good P r (k x); lasting P\<rbrakk> \<Longrightarrow> good P r (bind m k)"
  unfolding good_def by (intro allI impI wp_bind_good) (auto simp: good_def)

lemma good_ret: "good P r (ret x)" and good_throw: "good P r (throw e)" and good_query: "good P r (query f)"
  by (auto intro!: goodI simp: step_ok_def)

lemma good_if: "\<lbrakk>c \<Longrightarrow> good P r a; \<not> c \<Longrightarrow> good P r b\<rbrakk> \<Longrightarrow> good P r (if c then a else b)"
  by simp

lemma good_weaken: "\<lbrakk>good P r m; \<And>rt. \<lbrakk>rt_wf rt; Q rt\<rbrakk> \<Longrightarrow> P rt\<rbrakk> \<Longrightarrow> good Q r m"
  by (auto intro!: goodI elim: goodD)

lemma good_get: "good P r (get r f)" and good_sub: "good P r (sub r f)"
  by (auto intro!: goodI simp: step_ok_def)

text \<open>A change that does not concern the runtime.\<close>

lemma good_change:
  assumes "\<And>s. runtime (f s) = runtime s" "\<And>s. shutdown_deferred s \<Longrightarrow> shutdown_deferred (f s)"
    "\<And>s. next_rid s \<le> next_rid (f s)"
  shows "good P r (change f)"
  by (rule goodI) (use assms in \<open>force simp: step_ok_def host_inv_def ext_def intro: less_le_trans\<close>)

lemma step_ok_put:
  "\<lbrakk>host_inv s; runtime s = Some rt; rt_wf rt'; rt_ext rt rt'\<rbrakk> \<Longrightarrow> step_ok s (s\<lparr>runtime := Some rt'\<rparr>)"
  by (auto simp: step_ok_def host_inv_def ext_def rt_ext_def)

lemma good_put_sub:
  assumes "\<And>rt. \<lbrakk>rt_wf rt; P rt\<rbrakk> \<Longrightarrow> rt_wf (f rt) \<and> rt_ext rt (f rt)"
  shows "good P r (put_sub r f)" "good P r (put r f)"
  by (rule goodI; use assms in \<open>simp add: step_ok_put\<close>)+

lemma good_log: "good P r (log_error text)"
  unfolding log_error_def by (rule good_change) simp_all

definition in_lua :: "Runtime \<Rightarrow> bool" where
  "in_lua rt \<longleftrightarrow> 0 < depth rt"

definition any_depth :: "Runtime \<Rightarrow> bool" where
  "any_depth rt \<longleftrightarrow> True"

lemma lasting_depth [simp]: "lasting in_lua" "lasting any_depth"
  by (simp_all add: lasting_def in_lua_def any_depth_def rt_ext_def)

lemma rt_ext_depth_iff:
  "rt_ext (rt\<lparr>depth := d\<rparr>) rt' \<Longrightarrow> rt_ext rt (rt'\<lparr>depth := depth rt\<rparr>)"
  by (simp add: rt_ext_def)

lemma rt_wf_enter: "rt_wf rt \<Longrightarrow> rt_wf (rt\<lparr>depth := depth rt + 1\<rparr>)"
  by (simp add: rt_wf_def)

lemma rt_wf_leave:
  "\<lbrakk>rt_wf rt; rt_wf rt'; rt_ext (rt\<lparr>depth := depth rt + 1\<rparr>) rt'\<rbrakk> \<Longrightarrow> rt_wf (rt'\<lparr>depth := depth rt' - 1\<rparr>)"
  using idle_ext [of "rt\<lparr>depth := depth rt + 1\<rparr>" rt'] bus_ext_idle [of "events rt" "events rt'"]
  by (simp add: rt_wf_def rt_ext_def idle_def)

lemma host_inv_Some: "runtime s = Some rt \<Longrightarrow> host_inv s \<longleftrightarrow> rt_wf rt \<and> rid rt < next_rid s"
  by (simp add: host_inv_def)

lemma wp_Scope:
  assumes s: "host_inv s" "runtime s = Some rt" "rid rt = r"
    and m: "wp m (\<lambda>_ s'. step_ok (s\<lparr>runtime := Some (rt\<lparr>depth := depth rt + 1\<rparr>)\<rparr>) s')
              (s\<lparr>runtime := Some (rt\<lparr>depth := depth rt + 1\<rparr>)\<rparr>)"
  shows "wp (Scope r m) (\<lambda>_ s'. step_ok s s') s"
proof -
  let ?rt1 = "rt\<lparr>depth := depth rt + 1\<rparr>"
  let ?s1 = "s\<lparr>runtime := Some ?rt1\<rparr>"
  have wf: "rt_wf rt" "lua_open rt"
    using s by (simp_all add: host_inv_Some rt_wf_def)
  have leave: "wp (put_sub r (\<lambda>rt. rt\<lparr>depth := depth rt - 1\<rparr>)) (\<lambda>_ s''. step_ok s s'') s'"
    if ok: "step_ok ?s1 s'" for s'
  proof -
    from ok obtain rt' where rt': "runtime s' = Some rt'" "rt_ext ?rt1 rt'" "host_inv s'"
      and flags: "shutdown_deferred s \<longrightarrow> shutdown_deferred s'" "next_rid s \<le> next_rid s'"
      by (auto simp: step_ok_def ext_def)
    then have "rt_wf rt'"
      by (simp add: host_inv_Some)
    then have "rt_wf (rt'\<lparr>depth := depth rt' - 1\<rparr>)" "lua_open rt'"
      using rt_wf_leave [OF wf(1) _ rt'(2)] by (simp_all add: rt_wf_def)
    moreover have "rid rt' = r" "depth rt' - 1 = depth rt"
      using rt'(2) s(3) by (simp_all add: rt_ext_def)
    ultimately show ?thesis
      using rt' flags rt_ext_depth_iff [OF rt'(2)] s
      by (simp add: step_ok_def host_inv_Some ext_def)
  qed
  have "wp m (\<lambda>_ s'. wp (put_sub r (\<lambda>rt. rt\<lparr>depth := depth rt - 1\<rparr>)) (\<lambda>_ s''. step_ok s s'') s') ?s1"
    using m by (rule wp_mono) (rule leave)
  then show ?thesis
    using s wf by (simp add: Scope_def)
qed

lemma good_Scope:
  assumes "good Q r m" "\<And>rt. \<lbrakk>rt_wf rt; P rt\<rbrakk> \<Longrightarrow> Q (rt\<lparr>depth := depth rt + 1\<rparr>)"
  shows "good P r (Scope r m)"
proof (rule goodI)
  fix s rt
  assume s: "host_inv s" "runtime s = Some rt" "rid rt = r" "P rt" "rt_wf rt"
  have "wp m (\<lambda>_ s'. step_ok (s\<lparr>runtime := Some (rt\<lparr>depth := depth rt + 1\<rparr>)\<rparr>) s')
          (s\<lparr>runtime := Some (rt\<lparr>depth := depth rt + 1\<rparr>)\<rparr>)"
    using s rt_wf_enter [OF s(5)] by (intro goodD [OF assms(1), where rt = "rt\<lparr>depth := depth rt + 1\<rparr>"]) (simp_all add: host_inv_Some assms(2))
  then show "wp (Scope r m) (\<lambda>_ s'. step_ok s s') s"
    by (rule wp_Scope [OF s(1-3)])
qed

lemma good_MarkDead: "good P r (MarkDead r)"
  unfolding MarkDead_def
  by (rule good_put_sub(2)) (auto simp: rt_wf_def rt_ext_def idle_def)

lemma good_unprotected: "lasting P \<Longrightarrow> good P r (unprotected w r)"
  unfolding unprotected_def
  by (intro good_bind good_if good_query good_throw good_ret good_MarkDead) simp_all

text \<open>Closing a dispatch frame brings back the frames of before, and extends the lists.\<close>

lemma frame_take:
  assumes "bus_ext (frame_push b) b1"
  shows "take (length (cancelled b)) (cancelled b1) = cancelled b"
    and "length (cancelled b1) = Suc (length (cancelled b))"
proof -
  have len: "length (cancelled b1) = Suc (length (cancelled b))" and "butlast (cancelled b1) = cancelled b"
    using bus_ext_frames [OF assms] by (simp_all add: frame_push_def)
  then show "take (length (cancelled b)) (cancelled b1) = cancelled b"
    by (simp add: butlast_conv_take)
  show "length (cancelled b1) = Suc (length (cancelled b))"
    by (rule len)
qed

lemma bus_ext_frame_drop:
  assumes "bus_ext (frame_push b) b1"
  shows "bus_ext b (frame_drop (length (cancelled b)) b1)"
proof (rule bus_extI)
  show "length (lists b) \<le> length (lists (frame_drop (length (cancelled b)) b1))"
    using bus_ext_lists [OF assms] by (simp add: frame_push_def frame_drop_def)
  show "list_ext (lists b ! e) (lists (frame_drop (length (cancelled b)) b1) ! e)"
    if "e < length (lists b)" for e
    using bus_ext_nth [OF assms, of e] that by (simp add: frame_push_def frame_drop_def)
qed (simp_all add: frame_drop_def frame_take [OF assms])

lemma bus_ext_frame_finish:
  assumes "bus_ext (frame_push b) b1"
  shows "bus_ext b (fst (frame_finish (length (cancelled b)) b1))"
  using bus_ext_frame_drop [OF assms] bus_ext_Compact [of "frame_drop (length (cancelled b)) b1"]
  by (auto simp: frame_finish_def Let_def intro: bus_ext_trans)

lemma close_frame:
  assumes s: "host_inv s" "runtime s = Some rt" "in_lua rt"
    and ok: "step_ok (s\<lparr>runtime := Some (rt\<lparr>events := frame_push (events rt)\<rparr>)\<rparr>) s'"
  obtains rt' where "runtime s' = Some rt'" "rid rt' = rid rt" "lua_open rt'"
    "length (cancelled (events rt')) = Suc (length (cancelled (events rt)))"
    "\<And>f. \<lbrakk>\<And>b. bus_wf b \<Longrightarrow> bus_wf (f b);
           \<And>b. bus_ext (frame_push (events rt)) b \<Longrightarrow> bus_ext (events rt) (f b)\<rbrakk>
        \<Longrightarrow> step_ok s (s'\<lparr>runtime := Some (rt'\<lparr>events := f (events rt')\<rparr>)\<rparr>)"
proof -
  let ?rt = "rt\<lparr>events := frame_push (events rt)\<rparr>"
  from ok obtain rt' where rt': "runtime s' = Some rt'" "rt_ext ?rt rt'" "host_inv s'"
    and flags: "shutdown_deferred s \<longrightarrow> shutdown_deferred s'" "next_rid s \<le> next_rid s'"
    by (auto simp: step_ok_def ext_def)
  have wf: "rt_wf rt'"
    using rt' by (simp add: host_inv_Some)
  have bus: "bus_ext (frame_push (events rt)) (events rt')"
    using rt'(2) by (simp add: rt_ext_def)
  show ?thesis
  proof (rule that [OF rt'(1)])
    fix f :: "EventBus \<Rightarrow> EventBus"
    assume f: "\<And>b. bus_wf b \<Longrightarrow> bus_wf (f b)"
      "\<And>b. bus_ext (frame_push (events rt)) b \<Longrightarrow> bus_ext (events rt) (f b)"
    have "rt_ext rt (rt'\<lparr>events := f (events rt')\<rparr>)"
      using rt'(2) f(2) [OF bus] by (simp add: rt_ext_def)
    moreover have "rt_wf (rt'\<lparr>events := f (events rt')\<rparr>)"
      using wf f(1) rt'(2) s(3) by (simp add: rt_wf_def rt_ext_def in_lua_def)
    ultimately show "step_ok s (s'\<lparr>runtime := Some (rt'\<lparr>events := f (events rt')\<rparr>)\<rparr>)"
      using rt' flags s(2) by (simp add: step_ok_def host_inv_Some ext_def)
  qed (use rt'(2) wf frame_take(2) [OF bus] in \<open>simp_all add: rt_ext_def rt_wf_def\<close>)
qed

text \<open>Arguments of events.\<close>

lemma Push_kind [simp]: "pool_kind (fst (Push a p i g)) = pool_kind p"
  by (auto simp: Push_def Let_def put_slot_def split: option.split)

lemma rt_wf_entities:
  "rt_wf rt \<Longrightarrow> rt_wf (rt\<lparr>entities := ps\<rparr>) \<longleftrightarrow> pools_wf ps" "rt_ext rt (rt\<lparr>entities := ps\<rparr>)"
  by (auto simp: rt_wf_def rt_ext_def idle_def)

lemma rt_wf_pools: "rt_wf rt \<Longrightarrow> pools_wf (entities rt)"
  by (simp add: rt_wf_def)

lemma good_entities:
  assumes "\<And>ps. pools_wf ps \<Longrightarrow> pools_wf (f ps)"
  shows "good P r (put_sub r (\<lambda>rt. rt\<lparr>entities := f (entities rt)\<rparr>))"
  by (rule good_put_sub(1)) (simp add: rt_wf_entities rt_wf_pools assms)

lemma good_pool:
  assumes "\<And>p. pool_wf p \<Longrightarrow> pool_wf (f p)" "\<And>p. pool_kind (f p) = pool_kind p"
  shows "good P r (put_sub r (\<lambda>rt. rt\<lparr>entities := (entities rt)(k := f (entities rt k))\<rparr>))"
  by (rule good_entities [where f = "\<lambda>ps. ps(k := f (ps k))"])
     (auto intro!: pools_wf_upd simp: pools_wfD assms)

lemma good_PushEntity: "good P r (PushEntity r k ref)"
proof (rule goodI)
  fix s rt
  assume s: "host_inv s" "runtime s = Some rt" "rid rt = r" "rt_wf rt" "lua_open rt"
  let ?p = "fst (Push (next_obj s) (entities rt k) (er_id ref) (er_generation ref))"
  have "pools_wf (entities rt)"
    using s(4) by (simp add: rt_wf_def)
  then have "pools_wf ((entities rt)(k := ?p))"
    by (intro pools_wf_upd) (simp_all add: pool_wf_Push pools_wfD)
  then have "step_ok s (s\<lparr>runtime := Some (rt\<lparr>entities := (entities rt)(k := ?p)\<rparr>),
                        next_obj := next_obj s + 1\<rparr>)"
    using s by (simp add: step_ok_def host_inv_Some rt_wf_entities ext_def)
  then show "wp (PushEntity r k ref) (\<lambda>_ s'. step_ok s s') s"
    using s by (simp add: PushEntity_def case_prod_beta step_ok_def)
qed

lemma good_push_args: "lasting P \<Longrightarrow> good P r (push_args r as)"
  by (induction "as")
     (auto intro!: good_bind good_ret good_PushEntity split: arg.split)

text \<open>Timers.\<close>

lemma wp_unprotected:
  "\<lbrakk>runtime s = Some rt; rid rt = r\<rbrakk> \<Longrightarrow>
     wp (unprotected w r) Q s \<longleftrightarrow>
       (if panics w s
        then Q (Throw (Lua_panic ''Lua error outside a protected call'')) (s\<lparr>runtime := Some (rt\<lparr>dead := True\<rparr>)\<rparr>)
        else Q (Ret ()) s)"
  by (simp add: unprotected_def MarkDead_def)

lemma wp_get_timer:
  "\<lbrakk>runtime s = Some rt; rid rt = r; lua_open rt; map_of (timers (sched rt)) i = Some t\<rbrakk>
     \<Longrightarrow> wp (get_timer r i) Q s \<longleftrightarrow> Q (Ret t) s"
  by (simp add: get_timer_def) (simp add: wp_def)

lemma wp_set_timer:
  "\<lbrakk>runtime s = Some rt; rid rt = r; lua_open rt; map_of (timers (sched rt)) i = Some t\<rbrakk>
     \<Longrightarrow> wp (set_timer r i f) Q s
       \<longleftrightarrow> Q (Ret ()) (s\<lparr>runtime := Some (rt\<lparr>sched := put_timer i (f t) (sched rt)\<rparr>)\<rparr>)"
  by (simp add: set_timer_def wp_get_timer)

lemma good_timer_args:
  assumes "\<And>rt. P rt \<Longrightarrow> map_of (timers (sched rt)) i \<noteq> None"
  shows "good P r (timer_args w r i)"
proof (rule goodI)
  fix s rt
  assume s: "host_inv s" "runtime s = Some rt" "rid rt = r" "P rt" "lua_open rt"
  then obtain t where "map_of (timers (sched rt)) i = Some t"
    using assms by blast
  with s show "wp (timer_args w r i) (\<lambda>_ s'. step_ok s s') s"
    by (simp add: timer_args_def wp_get_timer step_ok_def)
qed

definition running_timer :: "u64 \<Rightarrow> Runtime \<Rightarrow> bool" where
  "running_timer i rt \<longleftrightarrow> in_lua rt \<and> (\<exists>t. map_of (timers (sched rt)) i = Some t \<and> running t)"

lemma lasting_running [simp]: "lasting (running_timer i)"
  by (auto simp: lasting_def running_timer_def rt_ext_def sched_ext_def in_lua_def)

lemma map_of_put_timer:
  "sched_wf sc \<Longrightarrow> map_of (timers (put_timer i t sc)) = (map_of (timers sc))(i \<mapsto> t)"
  by (simp add: put_timer_def map_of_map_put sched_wf_ordered)

lemma sched_wf_put_timer: "\<lbrakk>sched_wf sc; timer_wf t\<rbrakk> \<Longrightarrow> sched_wf (put_timer i t sc)"
  by (simp add: put_timer_def sched_wf_put)

lemma timer_wf_running: "timer_wf t \<Longrightarrow> timer_wf (t\<lparr>running := b\<rparr>)"
  by (simp add: timer_wf_def)

lemma timer_wf_at: "\<lbrakk>rt_wf rt; map_of (timers (sched rt)) i = Some t\<rbrakk> \<Longrightarrow> timer_wf t"
  using sched_wf_get by (auto simp: rt_wf_def)

lemma rt_wf_sched:
  "\<lbrakk>rt_wf rt; in_lua rt; sched_wf sc\<rbrakk> \<Longrightarrow> rt_wf (rt\<lparr>sched := sc\<rparr>)"
  "\<lbrakk>rt_wf rt; in_lua rt; sched_wf sc\<rbrakk> \<Longrightarrow> rt_wf (rt\<lparr>sched := sc, this_timer := v\<rparr>)"
  "\<lbrakk>rt_wf rt; in_lua rt; sched_wf sc\<rbrakk> \<Longrightarrow> rt_wf (rt\<lparr>this_timer := v, sched := sc\<rparr>)"
  by (simp_all add: rt_wf_def in_lua_def)

lemma rt_ext_sched: "sched_ext (sched rt) sc \<Longrightarrow> rt_ext rt (rt\<lparr>sched := sc\<rparr>)"
  by (simp add: rt_ext_def)

text \<open>What a timer callback leaves behind, seen from the state before the timer ran.\<close>

lemma idle_after_run:
  assumes idle: "idle rt" and wf: "sched_wf (sched rt)" "sched_wf (sched rt')"
    and ext: "sched_ext (put_timer i t1 (sched rt)) (sched rt')" and t1: "running t1"
    and t': "map_of (timers (sched rt')) i = Some t'"
  shows "sched_ext (sched rt) (put_timer i (t'\<lparr>running := False\<rparr>) (sched rt'))"
proof -
  have "\<not> running u" if "map_of (timers (sched rt')) j = Some u" "j \<noteq> i" for j u
    using ext that idle unfolding sched_ext_def idle_def
    by (metis fun_upd_apply map_of_put_timer [OF wf(1)])
  moreover have "\<not> running u" if "map_of (timers (sched rt)) j = Some u" for j u
    using idle that by (simp add: idle_def)
  ultimately show ?thesis
    unfolding sched_ext_def map_of_put_timer [OF wf(2)] by auto
qed

definition quiet :: "Runtime \<Rightarrow> bool" where
  "quiet rt \<longleftrightarrow> in_lua rt \<and> idle rt"

definition outside :: "Runtime \<Rightarrow> bool" where
  "outside rt \<longleftrightarrow> depth rt = 0"

lemma lasting_quiet [simp]: "lasting quiet" "lasting outside"
  using idle_ext by (auto simp: lasting_def quiet_def outside_def in_lua_def rt_ext_def)

lemma quiet_enter: "\<lbrakk>rt_wf rt; outside rt\<rbrakk> \<Longrightarrow> quiet (rt\<lparr>depth := depth rt + 1\<rparr>)"
  by (simp add: rt_wf_def outside_def quiet_def in_lua_def idle_def)

lemma in_lua_enter: "rt_wf rt \<Longrightarrow> in_lua (rt\<lparr>depth := depth rt + 1\<rparr>)"
  by (simp add: rt_wf_def in_lua_def)

lemma good_due_ids: "good P r (put_sub r (\<lambda>rt. rt\<lparr>sched := (sched rt)\<lparr>due_ids := d\<rparr>\<rparr>))"
  by (rule good_put_sub(1)) (simp add: rt_wf_def rt_ext_def sched_ext_def idle_def)

lemma collect_done_total:
  "\<lbrakk>distinct (map fst msgs); fst ` set msgs \<subseteq> fst ` set (transfers h)\<rbrakk>
     \<Longrightarrow> \<exists>h' ts. collect_done msgs h = Some (h', ts)"
proof (induction msgs h rule: collect_done.induct)
  case (2 n code msgs h)
  then obtain t where t: "map_of (transfers h) n = Some t"
    by (metis insert_subset list.simps(15) map_of_eq_None_iff not_None_eq fst_conv image_insert)
  have "fst ` set msgs \<subseteq> fst ` set (transfers (h\<lparr>transfers := map_erase n (transfers h)\<rparr>))"
    using 2(2,3) by (force simp: map_erase_def)
  then show ?case
    using 2(1) [OF t] 2(2) t by auto
qed simp

lemma traffic_keys:
  "fst ` set (transfers (fold http_step (filter is_traffic ops) h)) = fst ` set (transfers h)"
proof (induction ops arbitrary: h)
  case (Cons op ops)
  have "fst ` set (transfers (http_step op h)) = fst ` set (transfers h)" if "is_traffic op"
    using that by (cases op) (force simp: on_transfer_def image_image case_prod_beta)+
  then show ?case
    by (simp add: Cons.IH)
qed simp

lemma rt_wf_http: "rt_wf rt \<Longrightarrow> rt_wf (rt\<lparr>http := h\<rparr>) \<longleftrightarrow> http_wf h" "rt_ext rt (rt\<lparr>http := h\<rparr>)"
  by (auto simp: rt_wf_def rt_ext_def idle_def)

locale lua_host =
  fixes w :: World
  assumes pcall_good: "good in_lua r (pcall w f args)"
    and curl_honest: "\<lbrakk>runtime s = Some rt; http_wf (http rt)\<rbrakk>
      \<Longrightarrow> distinct (map fst (curl_done w s)) \<and> fst ` set (curl_done w s) \<subseteq> fst ` set (transfers (http rt))"
begin

lemma good_Call_if:
  assumes push: "good Q r push" and Q: "lasting Q" "\<And>rt. Q rt \<Longrightarrow> in_lua rt"
    and P: "lasting P" "\<And>rt. \<lbrakk>rt_wf rt; P rt\<rbrakk> \<Longrightarrow> Q (rt\<lparr>depth := depth rt + 1\<rparr>)"
  shows "good P r (Call w r f name push)"
proof -
  have pc: "good Q r (pcall w f args)" for args
    using pcall_good by (rule good_weaken) (rule Q)
  have "good Q r (call_body w r f name push)"
    unfolding call_body_def
    by (intro good_bind good_if good_query good_throw good_ret good_unprotected push pc
          good_change good_log Q) (simp_all add: good_bind good_log good_ret Q split: option.split)
  then have "good P r (Scope r (call_body w r f name push))"
    by (rule good_Scope) (rule P)
  then show ?thesis
    unfolding Call_def by (intro good_bind good_sub good_if good_ret P)
qed

lemma good_Call:
  assumes "good in_lua r push" "lasting P"
  shows "good P r (Call w r f name push)"
  by (rule good_Call_if [OF assms(1) _ _ assms(2)]) (simp_all add: in_lua_def rt_wf_def)

lemma dispatch_loop_ok:
  assumes push: "good in_lua r push"
  shows "\<lbrakk>host_inv s; runtime s = Some rt; rid rt = r; in_lua rt; frame < length (cancelled (events rt));
           event < length (lists (events rt)); \<forall>i \<in> set is. i < length (lists (events rt) ! event)\<rbrakk>
         \<Longrightarrow> wp (dispatch_loop w r event push frame is) (\<lambda>_ s'. step_ok s s') s"
proof (induction "is" arbitrary: s rt)
  case Nil
  then show ?case
    by (simp add: step_ok_def)
next
  case (Cons i "is")
  let ?h = "lists (events rt) ! event ! i"
  have lopen: "lua_open rt"
    using Cons.prems by (simp add: host_inv_Some rt_wf_def)
  show ?case
  proof (cases "h_alive ?h")
    case False
    with Cons.prems Cons.IH [OF Cons.prems(1-6)] lopen show ?thesis
      by simp
  next
    case True
    have rest: "wp (dispatch_loop w r event push frame is) (\<lambda>_ s''. step_ok s s'') s'"
      and frame': "\<exists>rt'. runtime s' = Some rt' \<and> rid rt' = r \<and> lua_open rt' \<and> frame < length (cancelled (events rt'))"
      if ok: "step_ok s s'" for s'
    proof -
      from ok Cons.prems(2) obtain rt' where rt': "runtime s' = Some rt'" "rt_ext rt rt'" "host_inv s'"
        by (auto simp: step_ok_def ext_def)
      have bus: "bus_ext (events rt) (events rt')"
        using rt'(2) by (simp add: rt_ext_def)
      have ne: "cancelled (events rt) \<noteq> []"
        using Cons.prems(5) by auto
      have frame: "frame < length (cancelled (events rt'))"
        using bus_ext_frames(1) [OF bus] Cons.prems(5) by simp
      have "event < length (lists (events rt'))"
        using bus_ext_lists [OF bus] Cons.prems(6) by simp
      moreover have "\<forall>i \<in> set is. i < length (lists (events rt') ! event)"
        using bus_ext_nth [OF bus ne Cons.prems(6)] Cons.prems(7) by (fastforce simp: list_ext_def)
      moreover have "rid rt' = r" "in_lua rt'"
        using rt'(2) Cons.prems(3,4) by (simp_all add: rt_ext_def in_lua_def)
      ultimately show "wp (dispatch_loop w r event push frame is) (\<lambda>_ s''. step_ok s s'') s'"
        and "\<exists>rt'. runtime s' = Some rt' \<and> rid rt' = r \<and> lua_open rt' \<and> frame < length (cancelled (events rt'))"
        using Cons.IH [OF rt'(3,1) _ _ frame] rt' frame
        by (auto intro: wp_mono step_ok_trans [OF ok] simp: host_inv_Some rt_wf_def)
    qed
    have "wp (Call w r (fn ?h) (names (events rt) ! event) push) (\<lambda>_ s'. step_ok s s') s"
      using Cons.prems by (intro goodD [OF good_Call [OF push, of in_lua]]) simp_all
    then have "wp (Call w r (fn ?h) (names (events rt) ! event) push)
       (\<lambda>out s'. case out of
          Ret x \<Rightarrow> wp (bind (sub r events) (\<lambda>b' s'.
              if frame < length (cancelled b')
              then (if frame_cancelled frame b' then ret () s'
                    else dispatch_loop w r event push frame is s')
              else (UB, s'))) (\<lambda>_ s''. step_ok s s'') s'
        | Throw e \<Rightarrow> step_ok s s' | UB \<Rightarrow> False) s"
      by (rule wp_mono) (use frame' rest in \<open>fastforce split: outcome.split\<close>)
    then show ?thesis
      using Cons.prems True lopen by simp
  qed
qed

lemma good_Dispatch:
  assumes push: "good in_lua r push" and P: "lasting P"
  shows "good P r (Dispatch w r event push)"
proof (rule goodI)
  fix s rt
  assume s: "host_inv s" "runtime s = Some rt" "rid rt = r" "P rt" "rt_wf rt" "lua_open rt"
  let ?n = "length (cancelled (events rt))"
  let ?rt1 = "rt\<lparr>depth := depth rt + 1\<rparr>"
  let ?s1 = "s\<lparr>runtime := Some ?rt1\<rparr>"
  let ?rt2 = "?rt1\<lparr>events := frame_push (events ?rt1)\<rparr>"
  let ?s2 = "?s1\<lparr>runtime := Some ?rt2\<rparr>"
  let ?loop = "dispatch_loop w r event push ?n [0..<length (lists (events rt) ! event)]"
  have inv1: "host_inv ?s1" "in_lua ?rt1"
    using s rt_wf_enter [OF s(5)] by (simp_all add: host_inv_Some in_lua_def rt_wf_def)
  have inv2: "host_inv ?s2" "in_lua ?rt2" "?n < length (cancelled (events ?rt2))"
    using inv1 s(5) by (simp_all add: host_inv_Some in_lua_def rt_wf_def bus_wf_frames frame_push_def)
  have body: "wp (on_throw (bind ?loop (\<lambda>_. Finish r ?n))
               (put_sub r (\<lambda>rt. rt\<lparr>events := frame_drop ?n (events rt)\<rparr>))) (\<lambda>_ s'. step_ok ?s1 s') ?s2"
    if ev: "event < length (lists (events rt))"
  proof -
    have "wp ?loop (\<lambda>_ s'. step_ok ?s2 s') ?s2"
      using inv2 ev s(3) by (intro dispatch_loop_ok [OF push, where rt = ?rt2]) (simp_all add: frame_push_def)
    then show ?thesis
      unfolding wp_on_throw wp_bind
    proof (rule wp_mono)
      fix out :: "unit outcome" and s'
      assume ok: "out \<noteq> UB" "step_ok ?s2 s'"
      then have ok': "step_ok (?s1\<lparr>runtime := Some (?rt1\<lparr>events := frame_push (events ?rt1)\<rparr>)\<rparr>) s'"
        by simp
      obtain rt' where rt': "runtime s' = Some rt'" "rid rt' = r" "lua_open rt'" "?n < length (cancelled (events rt'))"
        "step_ok ?s1 (s'\<lparr>runtime := Some (rt'\<lparr>events := frame_drop ?n (events rt')\<rparr>)\<rparr>)"
        "step_ok ?s1 (s'\<lparr>runtime := Some (rt'\<lparr>events := fst (frame_finish ?n (events rt'))\<rparr>)\<rparr>)"
      proof (rule close_frame [OF inv1(1) _ inv1(2) ok'])
        fix rt'
        assume "runtime s' = Some rt'" "rid rt' = rid ?rt1" "lua_open rt'"
          "length (cancelled (events rt')) = Suc (length (cancelled (events ?rt1)))"
          and f: "\<And>f. \<lbrakk>\<And>b. bus_wf b \<Longrightarrow> bus_wf (f b);
             \<And>b. bus_ext (frame_push (events ?rt1)) b \<Longrightarrow> bus_ext (events ?rt1) (f b)\<rbrakk>
             \<Longrightarrow> step_ok ?s1 (s'\<lparr>runtime := Some (rt'\<lparr>events := f (events rt')\<rparr>)\<rparr>)"
        moreover have "step_ok ?s1 (s'\<lparr>runtime := Some (rt'\<lparr>events := frame_drop ?n (events rt')\<rparr>)\<rparr>)"
          by (rule f) (simp_all add: bus_wf_frames bus_ext_frame_drop)
        moreover have "step_ok ?s1 (s'\<lparr>runtime := Some (rt'\<lparr>events := fst (frame_finish ?n (events rt'))\<rparr>)\<rparr>)"
          by (rule f) (simp_all add: bus_wf_frames bus_ext_frame_finish)
        ultimately show thesis
          using that s(3) by simp
      qed simp
      then show "case out of
          Ret x \<Rightarrow> wp (Finish r ?n) (\<lambda>out s'. case out of Throw e \<Rightarrow>
              wp (put_sub r (\<lambda>rt. rt\<lparr>events := frame_drop ?n (events rt)\<rparr>)) (\<lambda>_ s''. step_ok ?s1 s'') s'
              | _ \<Rightarrow> step_ok ?s1 s') s'
        | Throw e \<Rightarrow> (case Throw e of Throw e \<Rightarrow>
              wp (put_sub r (\<lambda>rt. rt\<lparr>events := frame_drop ?n (events rt)\<rparr>)) (\<lambda>_ s''. step_ok ?s1 s'') s'
              | _ \<Rightarrow> step_ok ?s1 s')
        | UB \<Rightarrow> False"
        using ok(1) by (cases out) (simp_all add: Finish_def)
    qed
  qed
  show "wp (Dispatch w r event push) (\<lambda>_ s'. step_ok s s') s"
  proof (cases "HasHandlers (events rt) event")
    case True
    then have ev: "event < length (lists (events rt))"
      by (simp add: HasHandlers_def)
    have "wp (Scope r (bind (sub r (\<lambda>rt. length (cancelled (events rt)))) (\<lambda>frame.
         bind (put_sub r (\<lambda>rt. rt\<lparr>events := frame_push (events rt)\<rparr>)) (\<lambda>_.
           on_throw
             (bind (dispatch_loop w r event push frame [0..<length (lists (events rt) ! event)]) (\<lambda>_. Finish r frame))
             (put_sub r (\<lambda>rt. rt\<lparr>events := frame_drop frame (events rt)\<rparr>)))))) (\<lambda>_ s'. step_ok s s') s"
      by (rule wp_Scope [OF s(1-3)]) (use body [OF ev] s in simp)
    then show ?thesis
      using True s by (simp add: Dispatch_def)
  next
    case False
    then show ?thesis
      using s by (simp add: Dispatch_def step_ok_def)
  qed
qed

text \<open>One timer: the state after the call, in the two ways it can end.\<close>

lemma run_exit_ok:
  assumes s: "host_inv s" "runtime s = Some rt" "rid rt = r" "in_lua rt" "idle rt"
    and t1: "running t1" "timer_wf t1"
    and ok: "step_ok (s\<lparr>runtime := Some (rt\<lparr>this_timer := v, sched := put_timer i t1 (sched rt)\<rparr>)\<rparr>) s'"
  shows "wp (running_exit r i saved) (\<lambda>_ s''. step_ok s s'' \<and>
           (\<exists>rt'' t''. runtime s'' = Some rt'' \<and> rid rt'' = r \<and> lua_open rt'' \<and>
              map_of (timers (sched rt'')) i = Some t'' \<and> \<not> running t'')) s'"
proof -
  let ?rt1 = "rt\<lparr>this_timer := v, sched := put_timer i t1 (sched rt)\<rparr>"
  have wf: "rt_wf rt" "sched_wf (sched rt)"
    using s by (simp_all add: host_inv_Some rt_wf_def)
  from ok obtain rt' where rt': "runtime s' = Some rt'" "rt_ext ?rt1 rt'" "host_inv s'"
    and flags: "shutdown_deferred s \<longrightarrow> shutdown_deferred s'" "next_rid s \<le> next_rid s'"
    by (auto simp: step_ok_def ext_def)
  have "running_timer i ?rt1"
    using s(4) t1 wf by (simp add: running_timer_def map_of_put_timer in_lua_def)
  then have "running_timer i rt'"
    using lasting_running rt'(2) unfolding lasting_def by blast
  then obtain t' where t': "map_of (timers (sched rt')) i = Some t'" "in_lua rt'"
    by (auto simp: running_timer_def)
  have wf': "rt_wf rt'" "sched_wf (sched rt')" "lua_open rt'"
    using rt' by (simp_all add: host_inv_Some rt_wf_def)
  let ?sc = "put_timer i (t'\<lparr>running := False\<rparr>) (sched rt')"
  have sc: "sched_wf ?sc" "map_of (timers ?sc) i = Some (t'\<lparr>running := False\<rparr>)"
    using timer_wf_at [OF wf'(1) t'(1)] wf'(2)
    by (simp_all add: sched_wf_put_timer timer_wf_running map_of_put_timer)
  have "sched_ext (sched rt) ?sc"
    using rt'(2) by (intro idle_after_run [OF s(5) wf(2) wf'(2) _ t1(1) t'(1)]) (simp add: rt_ext_def)
  then have ext: "rt_ext rt (rt'\<lparr>sched := ?sc\<rparr>)" "rt_ext rt (rt'\<lparr>sched := ?sc, this_timer := u\<rparr>)" for u
    using rt'(2) by (simp_all add: rt_ext_def)
  have "rid rt' = r"
    using rt'(2) s(3) by (simp add: rt_ext_def)
  then show ?thesis
    using rt' flags s(2) wf' t' sc ext
    by (simp add: running_exit_def wp_set_timer step_ok_def host_inv_Some ext_def rt_wf_sched)
qed

lemma run_end_ok:
  assumes s: "step_ok s s'" "runtime s' = Some rt" "rid rt = r" "lua_open rt"
    and t: "map_of (timers (sched rt)) i = Some t" "\<not> running t" and lua: "in_lua rt"
  shows "wp (bind (get_timer r i) (\<lambda>t'. put_sub r (\<lambda>rt. rt\<lparr>sched := run_end i t' (sched rt)\<rparr>)))
           (\<lambda>_ s''. step_ok s s'') s'"
proof -
  have wf: "rt_wf rt" "sched_wf (sched rt)" "host_inv s'"
    using s by (simp_all add: step_ok_def host_inv_Some rt_wf_def)
  have "sched_wf (run_end i t (sched rt)) \<and> sched_ext (sched rt) (run_end i t (sched rt))"
    using wf(2) sched_ext_erase [OF t] by (simp add: run_end_def sched_wf_erase)
  then have "step_ok s' (s'\<lparr>runtime := Some (rt\<lparr>sched := run_end i t (sched rt)\<rparr>)\<rparr>)"
    using wf lua by (intro step_ok_put [OF wf(3) s(2)] rt_ext_sched rt_wf_sched) simp_all
  then show ?thesis
    using s t by (simp add: wp_get_timer step_ok_trans [OF s(1)])
qed

lemma Run_ok:
  assumes s: "host_inv s" "runtime s = Some rt" "rid rt = r" "in_lua rt" "idle rt"
    and t: "map_of (timers (sched rt)) i = Some t"
  shows "wp (Run w r i now) (\<lambda>_ s'. step_ok s s') s"
proof -
  have wf: "rt_wf rt" "sched_wf (sched rt)" "lua_open rt"
    using s by (simp_all add: host_inv_Some rt_wf_def)
  define t0 where "t0 = run_begin now t"
  define rt0 where "rt0 = rt\<lparr>sched := put_timer i t0 (sched rt)\<rparr>"
  define s0 where "s0 = s\<lparr>runtime := Some rt0\<rparr>"
  have t0: "timer_wf t0" "\<not> running t0"
    using timer_wf_at [OF wf(1) t] s(5) t by (simp_all add: t0_def timer_wf_run_begin idle_def)
  have sc0: "sched_wf (sched rt0)" "map_of (timers (sched rt0)) = (map_of (timers (sched rt)))(i \<mapsto> t0)"
    using wf(2) t0 by (simp_all add: rt0_def sched_wf_put_timer map_of_put_timer)
  have "sched_ext (sched rt) (sched rt0)"
    using s(5) t0 t sc0 by (auto simp: sched_ext_def idle_def)
  then have ok0: "step_ok s s0"
    unfolding s0_def rt0_def using s wf sc0
    by (intro step_ok_put [OF s(1,2)] rt_ext_sched rt_wf_sched) (simp_all add: rt0_def)
  have at0: "host_inv s0" "runtime s0 = Some rt0" "rid rt0 = r" "in_lua rt0" "idle rt0" "lua_open rt0"
    using ok0 s wf sc0 t0 by (auto simp: step_ok_def s0_def rt0_def in_lua_def idle_def)
  have dead0: "step_ok s (s0\<lparr>runtime := Some (rt0\<lparr>dead := True\<rparr>)\<rparr>)"
    using at0 by (intro step_ok_trans [OF ok0] step_ok_put) (auto simp: host_inv_Some rt_wf_def rt_ext_def idle_def)
  define v where "v = (case t_handle t0 of Some h \<Rightarrow> LUser h | None \<Rightarrow> LNil)"
  let ?t1 = "t0\<lparr>running := True\<rparr>"
  let ?rt1 = "rt0\<lparr>this_timer := v, sched := put_timer i ?t1 (sched rt0)\<rparr>"
  let ?s1 = "s0\<lparr>runtime := Some ?rt1\<rparr>"
  have rt1: "rt_wf ?rt1" "running_timer i ?rt1"
    using at0 sc0 t0
    by (auto simp: host_inv_Some running_timer_def map_of_put_timer in_lua_def
             intro!: rt_wf_sched sched_wf_put_timer timer_wf_running)
  have "good (running_timer i) r (timer_args w r i)"
    by (rule good_timer_args) (auto simp: running_timer_def)
  then have "good (running_timer i) r (Call w r (callback t0) ''Timer callback'' (timer_args w r i))"
    by (rule good_Call_if) (auto simp: running_timer_def in_lua_def rt_wf_def)
  then have "wp (Call w r (callback t0) ''Timer callback'' (timer_args w r i)) (\<lambda>_ s'. step_ok ?s1 s') ?s1"
    by (rule goodD [where rt = ?rt1]) (use at0 rt1 in \<open>simp_all add: host_inv_Some\<close>)
  then have call: "wp (Call w r (callback t0) ''Timer callback'' (timer_args w r i))
     (\<lambda>out s'. wp (running_exit r i (this_timer rt0)) (\<lambda>_ s''. step_ok s0 s'' \<and>
           (\<exists>rt'' t''. runtime s'' = Some rt'' \<and> rid rt'' = r \<and> lua_open rt'' \<and>
              map_of (timers (sched rt'')) i = Some t'' \<and> \<not> running t'')) s') ?s1"
    by (rule wp_mono)
       (rule run_exit_ok [OF at0(1-5), where ?t1.0 = ?t1 and v = v], use t0 in \<open>simp_all add: timer_wf_running\<close>)
  have fin: "wp (bind (get_timer r i) (\<lambda>t'. put_sub r (\<lambda>rt. rt\<lparr>sched := run_end i t' (sched rt)\<rparr>)))
           (\<lambda>_ s''. step_ok s s'') s'' \<and> step_ok s s''"
    if ok: "step_ok s0 s''" and ex: "\<exists>rt'' t''. runtime s'' = Some rt'' \<and> rid rt'' = r \<and> lua_open rt'' \<and>
              map_of (timers (sched rt'')) i = Some t'' \<and> \<not> running t''" for s''
  proof -
    have "step_ok s s''"
      using ok0 ok by (rule step_ok_trans)
    moreover obtain rt'' t'' where rt'': "runtime s'' = Some rt''" "rid rt'' = r" "lua_open rt''"
      "map_of (timers (sched rt'')) i = Some t''" "\<not> running t''"
      using ex by blast
    moreover have "in_lua rt''"
      using ok rt''(1) at0(2,4) by (auto simp: step_ok_def ext_def rt_ext_def in_lua_def)
    ultimately show ?thesis
      using run_end_ok by blast
  qed
  have "wp (on_exit (Call w r (callback t0) ''Timer callback'' (timer_args w r i))
                    (running_exit r i (this_timer rt0)))
     (\<lambda>out s''. case out of
        Ret x \<Rightarrow> wp (bind (get_timer r i) (\<lambda>t'. put_sub r (\<lambda>rt. rt\<lparr>sched := run_end i t' (sched rt)\<rparr>)))
                  (\<lambda>_ s''. step_ok s s'') s''
      | Throw e \<Rightarrow> step_ok s s'' | UB \<Rightarrow> False) ?s1"
    unfolding wp_on_exit using call
  proof (rule wp_mono)
    fix out :: "bool outcome" and s'
    assume "out \<noteq> UB" and e: "wp (running_exit r i (this_timer rt0)) (\<lambda>_ s''. step_ok s0 s'' \<and>
           (\<exists>rt'' t''. runtime s'' = Some rt'' \<and> rid rt'' = r \<and> lua_open rt'' \<and>
              map_of (timers (sched rt'')) i = Some t'' \<and> \<not> running t'')) s'"
    show "wp (running_exit r i (this_timer rt0)) (\<lambda>_ s''. case out of
        Ret x \<Rightarrow> wp (bind (get_timer r i) (\<lambda>t'. put_sub r (\<lambda>rt. rt\<lparr>sched := run_end i t' (sched rt)\<rparr>)))
                  (\<lambda>_ s''. step_ok s s'') s''
      | Throw e \<Rightarrow> step_ok s s'' | UB \<Rightarrow> False) s'"
      using e by (rule wp_mono) (use \<open>out \<noteq> UB\<close> fin in \<open>simp split: outcome.split\<close>)
  qed
  then show ?thesis
    using s wf t ok0 dead0 at0 sc0
    by (simp add: Run_def wp_set_timer wp_unprotected wp_get_timer flip: t0_def rt0_def s0_def v_def)
qed

lemma good_tick_loop: "good quiet r (tick_loop w r now is)"
proof (induction "is")
  case (Cons i "is")
  show ?case
  proof (rule goodI)
    fix s rt
    assume s: "host_inv s" "runtime s = Some rt" "rid rt = r" "quiet rt" "rt_wf rt" "lua_open rt"
    have "wp (if Exists (sched rt) i then Run w r i now else ret ()) (\<lambda>_ s'. step_ok s s') s"
      using s Run_ok [OF s(1-3), of i] by (auto simp: Exists_def quiet_def step_ok_def split: option.splits)
    then have "wp (bind (if Exists (sched rt) i then Run w r i now else ret ()) (\<lambda>_. tick_loop w r now is))
        (\<lambda>_ s'. step_ok s s') s"
      by (rule wp_bind_good [OF _ Cons.IH]) (use s in \<open>auto simp: standing_def\<close>)
    then show "wp (tick_loop w r now (i # is)) (\<lambda>_ s'. step_ok s s') s"
      using s by simp
  qed
qed (simp add: good_ret)

lemma good_Tick: "good outside r (Tick w r)"
  unfolding Tick_def Let_def
  by (intro good_bind good_sub good_if good_ret good_Scope [where Q = quiet] good_query good_due_ids
        good_tick_loop quiet_enter) simp_all

lemma good_Complete: "lasting P \<Longrightarrow> good P r (Complete w r t)"
  unfolding Complete_def
  by (intro good_Call good_bind good_query good_if good_throw)
     (auto intro!: good_ret good_bind good_query split: prod.split reply.split)

lemma good_complete_loop: "good in_lua r (complete_loop w r ts)"
  by (induction ts) (auto intro!: good_ret good_bind good_Complete)

lemma good_Pump:
  assumes P: "lasting P"
  shows "good P r (Pump w r)"
proof (rule goodI)
  fix s rt
  assume s: "host_inv s" "runtime s = Some rt" "rid rt = r" "P rt" "rt_wf rt" "lua_open rt"
  let ?h = "fold http_step (filter is_traffic (curl_traffic w s)) (http rt)"
  have wf: "http_wf (http rt)" "http_wf ?h"
    using s(5) http_run_wf by (simp_all add: rt_wf_def)
  obtain h ts where fin: "collect_done (curl_done w s) ?h = Some (h, ts)"
    using collect_done_total [of "curl_done w s" ?h] curl_honest [OF s(2) wf(1)] by (auto simp: traffic_keys)
  then have ok: "step_ok s (s\<lparr>runtime := Some (rt\<lparr>http := h\<rparr>)\<rparr>)"
    using s collect_done_wf [OF wf(2) fin] by (intro step_ok_put [OF s(1,2)]) (simp_all add: rt_wf_http)
  have "wp (Scope r (complete_loop w r ts)) (\<lambda>_ s'. step_ok s s') (s\<lparr>runtime := Some (rt\<lparr>http := h\<rparr>)\<rparr>)"
  proof -
    have "good any_depth r (Scope r (complete_loop w r ts))"
      by (rule good_Scope [OF good_complete_loop in_lua_enter])
    then have "wp (Scope r (complete_loop w r ts)) (\<lambda>_ s'. step_ok (s\<lparr>runtime := Some (rt\<lparr>http := h\<rparr>)\<rparr>) s')
        (s\<lparr>runtime := Some (rt\<lparr>http := h\<rparr>)\<rparr>)"
      by (rule goodD [where rt = "rt\<lparr>http := h\<rparr>"]) (use s ok in \<open>simp_all add: step_ok_def any_depth_def\<close>)
    then show ?thesis
      by (rule wp_mono) (rule step_ok_trans [OF ok])
  qed
  then show "wp (Pump w r) (\<lambda>_ s'. step_ok s s') s"
    using s ok fin by (simp add: Pump_def step_ok_def)
qed

lemma good_run_step: "good outside r (run_step w r p)"
  by (cases p) (auto intro!: good_Tick good_Pump good_bind good_Call good_ret)

lemma good_pump_loop: "good outside r (pump_loop w r ps)"
  by (induction ps) (auto intro!: good_ret good_bind good_sub good_run_step)

lemma good_Emit: "lasting P \<Longrightarrow> good P r (Emit w r e args)"
  unfolding Emit_def by (intro good_Dispatch good_push_args) simp_all

lemma good_when_usable: "\<lbrakk>lasting P; good P r m\<rbrakk> \<Longrightarrow> good P r (when_usable r m)"
  unfolding when_usable_def by (intro good_bind good_get good_if good_ret)

lemma good_Frame: "good outside r (Frame w r elapsed)"
  unfolding Frame_def PumpRun_def
  by (intro good_when_usable good_bind good_sub good_pump_loop good_Emit good_ret) simp_all

lemma good_load_script: "lasting P \<Longrightarrow> good P r (load_script w r script)"
  unfolding load_script_def
  by (intro good_Scope [where Q = in_lua] good_bind good_query in_lua_enter)
     (auto intro!: good_log good_bind good_change pcall_good good_ret split: sum.split option.split)

lemma good_load_loop: "\<lbrakk>lasting P; good P r after\<rbrakk> \<Longrightarrow> good P r (load_loop w r ss after)"
  by (induction ss) (auto intro!: good_when_usable good_bind good_load_script)

lemma good_LoadScripts: "lasting P \<Longrightarrow> good P r (LoadScripts w r)"
  unfolding LoadScripts_def
  by (intro good_when_usable good_bind good_query good_entities good_get good_load_loop good_Emit good_ret)
     (simp_all add: pools_wf_Enumerate)

lemma good_Release: "good P r (put_sub r (\<lambda>rt. rt\<lparr>entities := (entities rt)(k := Release (entities rt k) i)\<rparr>))"
  by (rule good_pool) (simp_all add: pool_wf_Release)

lemma good_notify_loop: "lasting P \<Longrightarrow> good P r (notify_loop w r is)"
  by (induction "is") (auto intro!: good_ret good_when_usable good_bind good_sub good_if good_Emit good_Release)

lemma good_NotifyServerShutdown: "lasting P \<Longrightarrow> good P r (NotifyServerShutdown w r)"
  unfolding NotifyServerShutdown_def
  by (intro good_when_usable good_bind good_Emit good_sub good_notify_loop)


end

end
