(* ===== verification/Plugin.thy ===== *)
theory Plugin
  imports Runtime_Safety
begin

text \<open>
  The plugin (\<^verbatim>\<open>src/plugin/callbacks.cpp\<close>, \<^verbatim>\<open>entry.cpp\<close>): the noexcept boundary, the server
  callbacks, deferred shutdown, reload and initialisation, and the C libraries of
  \<^verbatim>\<open>runtime/libraries.cpp\<close>. The plugin's State is the record State of the theory Runtime. The
  options that only tests use (a fixed configuration, a clock, \<^verbatim>\<open>on_runtime\<close>) are left out; the
  clock is a parameter of the world.

  C++ leaves the order open in which the arguments of a call are evaluated. They are
  evaluated from left to right here; their only effect is the adoption of entities, and
  adoptions commute.
\<close>

section \<open>The boundary\<close>

definition ReportException :: "string \<Rightarrow> cxx \<Rightarrow> unit host" where
  "ReportException site e = log_error (site @ '': '' @ what e)"

definition try_catch :: "'a host \<Rightarrow> (cxx \<Rightarrow> 'a host) \<Rightarrow> 'a host" where
  "try_catch m h s = (case m s of (Throw e, s') \<Rightarrow> h e s' | other \<Rightarrow> other)"

text \<open>
  The body of a callback may assign a local variable of the callback: it keeps its initial
  value \<open>x\<close> when the body throws.
\<close>

definition Guarded :: "string \<Rightarrow> 'a \<Rightarrow> 'a host \<Rightarrow> 'a host" where
  "Guarded site x body = try_catch body (\<lambda>e. bind (ReportException site e) (\<lambda>_. ret x))"

definition Live :: "nat option host" where
  "Live = query (\<lambda>s. case runtime s of
      Some rt \<Rightarrow> if dead rt then None else Some (rid rt)
    | None \<Rightarrow> None)"

definition with_live :: "nat option \<Rightarrow> 'a \<Rightarrow> (nat \<Rightarrow> 'a host) \<Rightarrow> 'a host" where
  "with_live live x body = (case live of Some r \<Rightarrow> body r | None \<Rightarrow> ret x)"

section \<open>The C libraries\<close>

definition init_library ::
  "(State \<Rightarrow> bool) \<Rightarrow> (Libraries \<Rightarrow> bool) \<Rightarrow> (Libraries \<Rightarrow> Libraries) \<Rightarrow> string \<Rightarrow> unit host" where
  "init_library ok flag set_flag name =
     bind (query libs) (\<lambda>l.
       if flag l then ret ()
       else
         bind (query ok) (\<lambda>b.
           if b then change (\<lambda>s. s\<lparr>libs := set_flag (libs s)\<rparr>)
           else throw (Runtime_error (name @ '' initialisation failed''))))"

definition libraries_Init :: "World \<Rightarrow> unit host" where
  "libraries_Init w =
     bind (init_library (openssl_ok w) ini_openssl (\<lambda>l. l\<lparr>ini_openssl := True\<rparr>) ''OpenSSL'') (\<lambda>_.
     bind (init_library (curl_ok w) ini_curl (\<lambda>l. l\<lparr>ini_curl := True\<rparr>) ''libcurl'') (\<lambda>_.
     bind (init_library (mysql_ok w) ini_mysql (\<lambda>l. l\<lparr>ini_mysql := True\<rparr>) ''MariaDB Connector/C'') (\<lambda>_.
     bind (query (digest_ok w)) (\<lambda>ok.
       if ok then ret () else throw (Runtime_error ''digestpp self-test failed'')))))"

definition libraries_Cleanup :: "unit host" where
  "libraries_Cleanup =
     change (\<lambda>s. s\<lparr>libs := \<lparr>ini_openssl = False, ini_curl = False, ini_mysql = False\<rparr>\<rparr>)"

section \<open>Shutdown and reload\<close>

definition ReadConfig_file :: "World \<Rightarrow> Config host" where
  "ReadConfig_file w =
     bind (query (\<lambda>s. LoadConfig (config_reader w s) (config_run w s))) (\<lambda>reading.
     bind (of_res reading) (\<lambda>(c, _). ret c))"

text \<open>
  \<^verbatim>\<open>std::exchange(plugin.runtime, nullptr)\<close>, \<^verbatim>\<open>Shutdown\<close> and \<^verbatim>\<open>delete\<close>. Deleting a runtime whose
  Lua state is still open destroys it under the feet of the Lua code that is running.
\<close>

definition take_down :: "ShutdownReason \<Rightarrow> unit host" where
  "take_down reason s =
     (case runtime s of
        None \<Rightarrow> (UB, s)
      | Some rt \<Rightarrow>
          (case Shutdown (api s) reason rt of
             (rt', dels, errs) \<Rightarrow>
               let s' = s\<lparr>runtime := None, deleted := deleted s @ dels, errors := errors s @ errs\<rparr>
               in if lua_open rt' then (UB, s') else (Ret (), s')))"

definition FinishShutdown :: "World \<Rightarrow> unit host" where
  "FinishShutdown w =
     bind (change (\<lambda>s. s\<lparr>shutdown_deferred := False\<rparr>)) (\<lambda>_.
     bind (query (\<lambda>s. map_option rid (runtime s))) (\<lambda>rt.
       case rt of
         None \<Rightarrow> ret ()
       | Some r \<Rightarrow>
           bind (Guarded ''OnServerShutdown'' () (NotifyServerShutdown w r)) (\<lambda>_.
           bind (take_down ShutdownServer) (\<lambda>_.
           bind (change (\<lambda>s. s\<lparr>shutdown_deferred := False\<rparr>)) (\<lambda>_.
             libraries_Cleanup)))))"

text \<open>The part of \<^verbatim>\<open>Reload\<close> in its try block: the new runtime, or an exception.\<close>

definition make_fresh :: "World \<Rightarrow> Runtime res host" where
  "make_fresh w =
     try_catch (bind (ReadConfig_file w) (\<lambda>c. bind (make_runtime w c) (\<lambda>rt. ret (Inr rt))))
       (\<lambda>e. ret (Inl e))"

definition Reload :: "World \<Rightarrow> nat \<Rightarrow> unit host" where
  "Reload w r =
     bind (make_fresh w) (\<lambda>fresh.
       case fresh of
         Inl e \<Rightarrow>
           bind (ReportException ''Server.reload'' e) (\<lambda>_.
           bind (log_error ''Server.reload: the scripts keep running unchanged'') (\<lambda>_.
             put r (\<lambda>rt. rt\<lparr>reload_requested := False\<rparr>)))
       | Inr rt \<Rightarrow>
           bind (take_down ShutdownReload) (\<lambda>_.
           bind (change (\<lambda>s. s\<lparr>runtime := Some rt\<rparr>)) (\<lambda>_.
             LoadScripts w (rid rt))))"

definition AfterCallback :: "World \<Rightarrow> unit host" where
  "AfterCallback w =
     bind (query (\<lambda>s. shutdown_deferred s \<and>
             (case runtime s of Some rt \<Rightarrow> \<not> InLuaCall rt | None \<Rightarrow> False))) (\<lambda>due.
       if due then FinishShutdown w else ret ())"

section \<open>Callbacks with their own body\<close>

definition OnServerInitialise :: "World \<Rightarrow> u8 host" where
  "OnServerInitialise w =
     bind (Guarded ''OnServerInitialise'' ()
       (bind Live (\<lambda>live. with_live live () (LoadScripts w)))) (\<lambda>_.
     bind (AfterCallback w) (\<lambda>_. ret 1))"

definition OnServerFrame :: "World \<Rightarrow> lua_float \<Rightarrow> unit host" where
  "OnServerFrame w elapsed =
     bind (Guarded ''OnServerFrame'' ()
       (bind Live (\<lambda>live. with_live live () (\<lambda>r. Frame w r elapsed)))) (\<lambda>_.
     bind (AfterCallback w) (\<lambda>_.
     bind (Guarded ''Server.reload'' ()
       (bind Live (\<lambda>live. with_live live () (\<lambda>r.
          bind (get r reload_requested) (\<lambda>requested.
          bind (get r InLuaCall) (\<lambda>busy.
          bind (query shutdown_deferred) (\<lambda>deferred.
            if requested \<and> \<not> busy \<and> \<not> deferred then Reload w r else ret ()))))))) (\<lambda>_.
       AfterCallback w)))"

definition OnServerShutdown :: "World \<Rightarrow> unit host" where
  "OnServerShutdown w =
     bind (query runtime) (\<lambda>rt.
       case rt of
         None \<Rightarrow> ret ()
       | Some rt \<Rightarrow>
           if InLuaCall rt then change (\<lambda>s. s\<lparr>shutdown_deferred := True\<rparr>)
           else FinishShutdown w)"

text \<open>\<^verbatim>\<open>EntityPool::Seen\<close> on the pool of a kind: adopt on first sight, then refer to it.\<close>

definition seen_in :: "nat \<Rightarrow> EntityKind \<Rightarrow> int \<Rightarrow> EntityRef host" where
  "seen_in r k i =
     bind (sub r (\<lambda>rt. Seen (entities rt k) i)) (\<lambda>(pool, ref).
     bind (put_sub r (\<lambda>rt. rt\<lparr>entities := (entities rt)(k := pool)\<rparr>)) (\<lambda>_. ret ref))"

definition update_pool :: "nat \<Rightarrow> EntityKind \<Rightarrow> (EntityPool \<Rightarrow> EntityPool) \<Rightarrow> unit host" where
  "update_pool r k f = put_sub r (\<lambda>rt. rt\<lparr>entities := (entities rt)(k := f (entities rt k))\<rparr>)"

definition emit_usable :: "World \<Rightarrow> nat \<Rightarrow> Event \<Rightarrow> arg list \<Rightarrow> unit host" where
  "emit_usable w r e args = when_usable r (bind (Emit w r e args) (\<lambda>_. ret ()))"

definition OnPlayerConnect :: "World \<Rightarrow> int \<Rightarrow> unit host" where
  "OnPlayerConnect w player_id =
     bind (Guarded ''OnPlayerConnect'' ()
       (bind Live (\<lambda>live. with_live live () (\<lambda>r.
          bind (seen_in r Player player_id) (\<lambda>player.
            emit_usable w r PlayerConnect [Ent Player player]))))) (\<lambda>_.
     AfterCallback w)"

definition OnPlayerDisconnect :: "World \<Rightarrow> int \<Rightarrow> int \<Rightarrow> unit host" where
  "OnPlayerDisconnect w player_id reason =
     bind (Guarded ''OnPlayerDisconnect'' ()
       (bind Live (\<lambda>live. with_live live () (\<lambda>r.
          bind (seen_in r Player player_id) (\<lambda>player.
          bind (emit_usable w r PlayerDisconnect [Ent Player player, Val (LInt reason)]) (\<lambda>_.
          bind Live (\<lambda>still. with_live still () (\<lambda>r'.
            update_pool r' Player (\<lambda>p. Release p player_id)))))))) ) (\<lambda>_.
     AfterCallback w)"

fun pool_number :: "vcmpEntityPool \<Rightarrow> int" where
  "pool_number vcmpEntityPoolVehicle = 1"
| "pool_number vcmpEntityPoolObject = 2"
| "pool_number vcmpEntityPoolPickup = 3"
| "pool_number vcmpEntityPoolRadio = 4"
| "pool_number vcmpEntityPoolPlayer = 5"
| "pool_number vcmpEntityReserved1 = 6"
| "pool_number vcmpEntityPoolBlip = 7"
| "pool_number vcmpEntityPoolCheckPoint = 8"

definition in_server_pool :: "nat \<Rightarrow> vcmpEntityPool \<Rightarrow> bool \<Rightarrow> (EntityPool \<Rightarrow> EntityPool) \<Rightarrow> unit host" where
  "in_server_pool r type c f =
     (case FromServerPool type of
        Some k \<Rightarrow> if c then update_pool r k f else ret ()
      | None \<Rightarrow> ret ())"

definition OnEntityPoolChange :: "World \<Rightarrow> vcmpEntityPool \<Rightarrow> int \<Rightarrow> u8 \<Rightarrow> unit host" where
  "OnEntityPoolChange w type entity_id is_deleted =
     (let gone = (is_deleted \<noteq> 0) in
      bind (Guarded ''OnEntityPoolChange'' ()
        (bind Live (\<lambda>live. with_live live () (\<lambda>r.
           bind (in_server_pool r type (\<not> gone) (\<lambda>p. Adopt p entity_id)) (\<lambda>_.
           bind (emit_usable w r EntityPoolChange
                   [Val (LInt (pool_number type)), Val (LInt entity_id), Val (LBool gone)]) (\<lambda>_.
           bind Live (\<lambda>still. with_live still () (\<lambda>r'.
             in_server_pool r' type gone (\<lambda>p. Release p entity_id)))))))) ) (\<lambda>_.
      AfterCallback w))"

section \<open>Event callbacks\<close>

definition Dispatchable :: "nat option host" where
  "Dispatchable =
     bind Live (\<lambda>live. with_live live None (\<lambda>r.
       bind (get r Usable) (\<lambda>u. ret (if u then Some r else None))))"

definition OnEvent :: "World \<Rightarrow> string \<Rightarrow> (nat \<Rightarrow> bool host) \<Rightarrow> u8 host" where
  "OnEvent w site body =
     bind (Guarded site False (bind Dispatchable (\<lambda>d. with_live d False body))) (\<lambda>cancelled.
     bind (AfterCallback w) (\<lambda>_. ret (if cancelled then 0 else 1)))"

definition SeenRef :: "nat \<Rightarrow> EntityKind \<Rightarrow> int \<Rightarrow> EntityRef host" where
  "SeenRef r k i =
     bind (sub r (\<lambda>rt. InRange (entities rt k) i)) (\<lambda>ok. if ok then seen_in r k i else ret no_ref)"

text \<open>The arguments of \<^verbatim>\<open>Emit\<close>: an entity that the server names, or a value.\<close>

datatype event_arg = Sees EntityKind int | Value lval | Known EntityKind EntityRef

fun eval_args :: "nat \<Rightarrow> event_arg list \<Rightarrow> arg list host" where
  "eval_args r [] = ret []"
| "eval_args r (a # as) =
     bind (case a of
             Sees k i \<Rightarrow> bind (SeenRef r k i) (\<lambda>ref. ret (Ent k ref))
           | Value v \<Rightarrow> ret (Val v)
           | Known k ref \<Rightarrow> ret (Ent k ref)) (\<lambda>x.
     bind (eval_args r as) (\<lambda>xs. ret (x # xs)))"

definition EmitEvent :: "World \<Rightarrow> nat \<Rightarrow> Event \<Rightarrow> event_arg list \<Rightarrow> bool host" where
  "EmitEvent w r e as = bind (eval_args r as) (\<lambda>args. Emit w r e args)"

definition event :: "World \<Rightarrow> string \<Rightarrow> Event \<Rightarrow> event_arg list \<Rightarrow> u8 host" where
  "event w site e as = OnEvent w site (\<lambda>r. EmitEvent w r e as)"

definition void :: "'a host \<Rightarrow> unit host" where
  "void m = bind m (\<lambda>_. ret ())"

text \<open>A C string, pushed as nil when the pointer is null.\<close>

definition cstring :: "string option \<Rightarrow> event_arg" where
  "cstring p = Value (case p of Some text \<Rightarrow> LStr text | None \<Rightarrow> LNil)"

definition integer :: "int \<Rightarrow> event_arg" where
  "integer i = Value (LInt i)"

definition flag :: "u8 \<Rightarrow> event_arg" where
  "flag b = Value (LBool (b \<noteq> 0))"

definition OnIncomingConnection :: "World \<Rightarrow> string option \<Rightarrow> nat \<Rightarrow> string option \<Rightarrow> string option \<Rightarrow> u8 host" where
  "OnIncomingConnection w name name_size password ip =
     event w ''OnIncomingConnection'' PlayerConnection
       [cstring name, integer (int name_size), cstring password, cstring ip]"

definition OnPlayerModuleList :: "World \<Rightarrow> int \<Rightarrow> string option \<Rightarrow> unit host" where
  "OnPlayerModuleList w player_id list =
     void (event w ''OnPlayerModuleList'' PlayerModuleList [Sees Player player_id, cstring list])"

definition OnPlayerRequestClass :: "World \<Rightarrow> int \<Rightarrow> int \<Rightarrow> u8 host" where
  "OnPlayerRequestClass w player_id offset =
     event w ''OnPlayerRequestClass'' PlayerRequestClass [Sees Player player_id, integer offset]"

definition OnPlayerRequestSpawn :: "World \<Rightarrow> int \<Rightarrow> u8 host" where
  "OnPlayerRequestSpawn w player_id =
     event w ''OnPlayerRequestSpawn'' PlayerRequestSpawn [Sees Player player_id]"

definition OnPlayerSpawn :: "World \<Rightarrow> int \<Rightarrow> unit host" where
  "OnPlayerSpawn w player_id = void (event w ''OnPlayerSpawn'' PlayerSpawn [Sees Player player_id])"

definition vcmpBodyPartInVehicle :: int where "vcmpBodyPartInVehicle = 7"

definition wasted_reason :: "int \<Rightarrow> int \<Rightarrow> int" where
  "wasted_reason reason body_part =
     (if reason = 43 \<or> reason = 50 then 43
      else if reason = 39 \<and> body_part = vcmpBodyPartInVehicle then 39
      else if reason = 39 \<or> reason = 40 \<or> reason = 44 then 44
      else reason)"

definition OnPlayerDeath :: "World \<Rightarrow> int \<Rightarrow> int \<Rightarrow> int \<Rightarrow> int \<Rightarrow> unit host" where
  "OnPlayerDeath w player_id killer_id reason body_part =
     void (OnEvent w ''OnPlayerDeath'' (\<lambda>r.
       bind (SeenRef r Player player_id) (\<lambda>player.
       bind (query (\<lambda>s. find_IsPlayerConnected (api s))) (\<lambda>connected.
         if killer_id \<ge> 0 \<and> (case connected of Some f \<Rightarrow> f killer_id | None \<Rightarrow> False)
         then EmitEvent w r PlayerKill
                [Sees Player killer_id, Known Player player, integer reason, integer body_part]
         else EmitEvent w r PlayerWasted
                [Known Player player, integer (wasted_reason reason body_part)]))))"

definition if_handled :: "nat \<Rightarrow> Event \<Rightarrow> bool host \<Rightarrow> bool host" where
  "if_handled r e m = bind (sub r (\<lambda>rt. HasHandlers (events rt) (Index e))) (\<lambda>h. if h then m else ret False)"

definition OnPlayerUpdate :: "World \<Rightarrow> int \<Rightarrow> int \<Rightarrow> unit host" where
  "OnPlayerUpdate w player_id update =
     void (OnEvent w ''OnPlayerUpdate'' (\<lambda>r.
       if_handled r PlayerUpdate
         (EmitEvent w r PlayerUpdate [Sees Player player_id, integer update])))"

definition OnPlayerRequestEnterVehicle :: "World \<Rightarrow> int \<Rightarrow> int \<Rightarrow> int \<Rightarrow> u8 host" where
  "OnPlayerRequestEnterVehicle w player_id vehicle_id slot =
     event w ''OnPlayerRequestEnterVehicle'' PlayerRequestEnterVehicle
       [Sees Player player_id, Sees Vehicle vehicle_id, integer slot]"

definition OnPlayerEnterVehicle :: "World \<Rightarrow> int \<Rightarrow> int \<Rightarrow> int \<Rightarrow> unit host" where
  "OnPlayerEnterVehicle w player_id vehicle_id slot =
     void (event w ''OnPlayerEnterVehicle'' PlayerEnterVehicle
       [Sees Player player_id, Sees Vehicle vehicle_id, integer slot])"

definition OnPlayerExitVehicle :: "World \<Rightarrow> int \<Rightarrow> int \<Rightarrow> unit host" where
  "OnPlayerExitVehicle w player_id vehicle_id =
     void (event w ''OnPlayerExitVehicle'' PlayerExitVehicle [Sees Player player_id, Sees Vehicle vehicle_id])"

definition OnPlayerNameChange :: "World \<Rightarrow> int \<Rightarrow> string option \<Rightarrow> string option \<Rightarrow> unit host" where
  "OnPlayerNameChange w player_id old_name new_name =
     void (event w ''OnPlayerNameChange'' PlayerNameChange
       [Sees Player player_id, cstring old_name, cstring new_name])"

definition OnPlayerStateChange :: "World \<Rightarrow> int \<Rightarrow> int \<Rightarrow> int \<Rightarrow> unit host" where
  "OnPlayerStateChange w player_id old_state new_state =
     void (event w ''OnPlayerStateChange'' PlayerStateChange
       [Sees Player player_id, integer old_state, integer new_state])"

definition OnPlayerActionChange :: "World \<Rightarrow> int \<Rightarrow> int \<Rightarrow> int \<Rightarrow> unit host" where
  "OnPlayerActionChange w player_id old_action new_action =
     void (event w ''OnPlayerActionChange'' PlayerActionChange
       [Sees Player player_id, integer old_action, integer new_action])"

definition OnPlayerOnFireChange :: "World \<Rightarrow> int \<Rightarrow> u8 \<Rightarrow> unit host" where
  "OnPlayerOnFireChange w player_id on_fire =
     void (event w ''OnPlayerOnFireChange'' PlayerFireChange [Sees Player player_id, flag on_fire])"

definition OnPlayerCrouchChange :: "World \<Rightarrow> int \<Rightarrow> u8 \<Rightarrow> unit host" where
  "OnPlayerCrouchChange w player_id crouching =
     void (event w ''OnPlayerCrouchChange'' PlayerCrouchChange [Sees Player player_id, flag crouching])"

definition OnPlayerGameKeysChange :: "World \<Rightarrow> int \<Rightarrow> u32 \<Rightarrow> u32 \<Rightarrow> unit host" where
  "OnPlayerGameKeysChange w player_id old_keys new_keys =
     void (event w ''OnPlayerGameKeysChange'' PlayerGameKeysChange
       [Sees Player player_id, integer (uint old_keys), integer (uint new_keys)])"

definition OnPlayerBeginTyping :: "World \<Rightarrow> int \<Rightarrow> unit host" where
  "OnPlayerBeginTyping w player_id =
     void (event w ''OnPlayerBeginTyping'' PlayerBeginTyping [Sees Player player_id])"

definition OnPlayerEndTyping :: "World \<Rightarrow> int \<Rightarrow> unit host" where
  "OnPlayerEndTyping w player_id =
     void (event w ''OnPlayerEndTyping'' PlayerFinishTyping [Sees Player player_id])"

definition OnPlayerAwayChange :: "World \<Rightarrow> int \<Rightarrow> u8 \<Rightarrow> unit host" where
  "OnPlayerAwayChange w player_id away =
     void (event w ''OnPlayerAwayChange'' PlayerAwayChange [Sees Player player_id, flag away])"

definition OnPlayerMessage :: "World \<Rightarrow> int \<Rightarrow> string option \<Rightarrow> u8 host" where
  "OnPlayerMessage w player_id message =
     event w ''OnPlayerMessage'' PlayerMessage [Sees Player player_id, cstring message]"

subsection \<open>Commands\<close>

text \<open>\<^verbatim>\<open>find\<close> and \<^verbatim>\<open>find_first_not_of\<close>: the first position from \<open>i\<close> on that satisfies \<open>P\<close>.\<close>

definition find_from :: "(char \<Rightarrow> bool) \<Rightarrow> string \<Rightarrow> nat \<Rightarrow> nat option" where
  "find_from P text i =
     (let n = i + length (takeWhile (\<lambda>c. \<not> P c) (drop i text))
      in if n < length text then Some n else None)"

definition word_end :: "string \<Rightarrow> nat \<Rightarrow> nat" where
  "word_end text start =
     min (case find_from (\<lambda>c. c = CHR '' '') text start of Some n \<Rightarrow> n | None \<Rightarrow> length text) (length text)"

lemma word_end_after:
  assumes "find_from (\<lambda>c. c \<noteq> CHR '' '') text i = Some start"
  shows "i < word_end text start" "start < word_end text start" "i \<le> start" "start < length text"
proof -
  have start: "i \<le> start" "start < length text"
    using assms by (auto simp: find_from_def Let_def split: if_splits)
  have "text ! start \<noteq> CHR '' ''"
    using assms nth_length_takeWhile [of "\<lambda>c. c = CHR '' ''" "drop i text"]
    by (auto simp: find_from_def Let_def split: if_splits)
  then have "0 < length (takeWhile (\<lambda>c. c \<noteq> CHR '' '') (drop start text))"
    using start(2) by (simp add: Cons_nth_drop_Suc [symmetric])
  then show "start < word_end text start"
    using start by (auto simp: word_end_def find_from_def Let_def split: option.split if_splits)
  then show "i < word_end text start" "i \<le> start" "start < length text"
    using start by auto
qed

function command_words :: "string \<Rightarrow> nat \<Rightarrow> string list \<Rightarrow> nat \<Rightarrow> string list \<times> nat" where
  "command_words text i words rest =
     (if length text \<le> i then (words, rest)
      else case find_from (\<lambda>c. c \<noteq> CHR '' '') text i of
        None \<Rightarrow> (words, rest)
      | Some start \<Rightarrow>
          command_words text (word_end text start)
            (words @ [take (word_end text start - start) (drop start text)])
            (if length words = 1 then start else rest))"
  by pat_completeness auto
termination
  by (relation "measure (\<lambda>(text, i, _, _). length text - i)")
     (auto dest!: word_end_after(1) intro!: diff_less_mono2)

declare command_words.simps [simp del]

text \<open>A Lua array that C++ fills; making it is a Lua call outside a protected call.\<close>

definition make_array :: "World \<Rightarrow> nat \<Rightarrow> lval list \<Rightarrow> lval host" where
  "make_array w r vs =
     bind (unprotected w r) (\<lambda>_.
     bind (query next_obj) (\<lambda>n.
     bind (change (\<lambda>s. s\<lparr>next_obj := n + 1, arrays := (arrays s)(n \<mapsto> vs)\<rparr>)) (\<lambda>_. ret (LTab n))))"

definition OnPlayerCommand :: "World \<Rightarrow> int \<Rightarrow> string option \<Rightarrow> u8 host" where
  "OnPlayerCommand w player_id message =
     OnEvent w ''OnPlayerCommand'' (\<lambda>r.
       let text = (case message of Some t \<Rightarrow> t | None \<Rightarrow> []);
           (words, rest) = command_words text 0 [] (length text);
           arguments = drop (min rest (length text)) text
       in bind (SeenRef r Player player_id) (\<lambda>player.
            case words of
              [] \<Rightarrow> EmitEvent w r PlayerCommand
                      [Known Player player, Value LNil, Value LNil, Value (LStr [])]
            | [command] \<Rightarrow> EmitEvent w r PlayerCommand
                      [Known Player player, Value (LStr command), Value LNil, Value (LStr arguments)]
            | command # params \<Rightarrow>
                bind (make_array w r (map LStr params)) (\<lambda>args.
                  EmitEvent w r PlayerCommand
                      [Known Player player, Value (LStr command), Value args, Value (LStr arguments)])))"

subsection \<open>The other events\<close>

definition OnPlayerPrivateMessage :: "World \<Rightarrow> int \<Rightarrow> int \<Rightarrow> string option \<Rightarrow> u8 host" where
  "OnPlayerPrivateMessage w player_id target_id message =
     event w ''OnPlayerPrivateMessage'' PlayerPM
       [Sees Player player_id, Sees Player target_id, cstring message]"

definition OnPlayerSpectate :: "World \<Rightarrow> int \<Rightarrow> int \<Rightarrow> unit host" where
  "OnPlayerSpectate w player_id target_id =
     void (event w ''OnPlayerSpectate'' PlayerSpectate [Sees Player player_id, Sees Player target_id])"

definition OnPlayerCrashReport :: "World \<Rightarrow> int \<Rightarrow> string option \<Rightarrow> unit host" where
  "OnPlayerCrashReport w player_id report =
     void (event w ''OnPlayerCrashReport'' PlayerCrashReport [Sees Player player_id, cstring report])"

definition OnVehicleUpdate :: "World \<Rightarrow> int \<Rightarrow> int \<Rightarrow> unit host" where
  "OnVehicleUpdate w vehicle_id update =
     void (OnEvent w ''OnVehicleUpdate'' (\<lambda>r.
       if_handled r VehicleUpdate
         (EmitEvent w r VehicleUpdate [Sees Vehicle vehicle_id, integer update])))"

definition OnVehicleExplode :: "World \<Rightarrow> int \<Rightarrow> unit host" where
  "OnVehicleExplode w vehicle_id =
     void (event w ''OnVehicleExplode'' VehicleExplode [Sees Vehicle vehicle_id])"

definition OnVehicleRespawn :: "World \<Rightarrow> int \<Rightarrow> unit host" where
  "OnVehicleRespawn w vehicle_id =
     void (event w ''OnVehicleRespawn'' VehicleRespawn [Sees Vehicle vehicle_id])"

definition OnObjectShot :: "World \<Rightarrow> int \<Rightarrow> int \<Rightarrow> int \<Rightarrow> unit host" where
  "OnObjectShot w object_id player_id weapon =
     void (event w ''OnObjectShot'' ObjectShot
       [Sees Object object_id, Sees Player player_id, integer weapon])"

definition OnObjectTouched :: "World \<Rightarrow> int \<Rightarrow> int \<Rightarrow> unit host" where
  "OnObjectTouched w object_id player_id =
     void (event w ''OnObjectTouched'' ObjectTouch [Sees Object object_id, Sees Player player_id])"

definition OnPickupPickAttempt :: "World \<Rightarrow> int \<Rightarrow> int \<Rightarrow> u8 host" where
  "OnPickupPickAttempt w pickup_id player_id =
     event w ''OnPickupPickAttempt'' PickupPickAttempt [Sees Pickup pickup_id, Sees Player player_id]"

definition OnPickupPicked :: "World \<Rightarrow> int \<Rightarrow> int \<Rightarrow> unit host" where
  "OnPickupPicked w pickup_id player_id =
     void (event w ''OnPickupPicked'' PickupPicked [Sees Pickup pickup_id, Sees Player player_id])"

definition OnPickupRespawn :: "World \<Rightarrow> int \<Rightarrow> unit host" where
  "OnPickupRespawn w pickup_id = void (event w ''OnPickupRespawn'' PickupRespawn [Sees Pickup pickup_id])"

definition OnCheckpointEntered :: "World \<Rightarrow> int \<Rightarrow> int \<Rightarrow> unit host" where
  "OnCheckpointEntered w checkpoint_id player_id =
     void (event w ''OnCheckpointEntered'' CheckpointEnter
       [Sees Checkpoint checkpoint_id, Sees Player player_id])"

definition OnCheckpointExited :: "World \<Rightarrow> int \<Rightarrow> int \<Rightarrow> unit host" where
  "OnCheckpointExited w checkpoint_id player_id =
     void (event w ''OnCheckpointExited'' CheckpointExit
       [Sees Checkpoint checkpoint_id, Sees Player player_id])"

definition OnPlayerKeyBindDown :: "World \<Rightarrow> int \<Rightarrow> int \<Rightarrow> unit host" where
  "OnPlayerKeyBindDown w player_id bind_id =
     void (event w ''OnPlayerKeyBindDown'' PlayerKeyDown [Sees Player player_id, Sees EntityKind.Bind bind_id])"

definition OnPlayerKeyBindUp :: "World \<Rightarrow> int \<Rightarrow> int \<Rightarrow> unit host" where
  "OnPlayerKeyBindUp w player_id bind_id =
     void (event w ''OnPlayerKeyBindUp'' PlayerKeyUp [Sees Player player_id, Sees EntityKind.Bind bind_id])"

text \<open>\<open>content\<close> is None for a null pointer, else the bytes by their index.\<close>

definition OnClientScriptData :: "World \<Rightarrow> int \<Rightarrow> (nat \<Rightarrow> u8) option \<Rightarrow> nat \<Rightarrow> unit host" where
  "OnClientScriptData w player_id content count =
     void (OnEvent w ''OnClientScriptData'' (\<lambda>r.
       if_handled r ClientData
         (let received = (case content of Some d \<Rightarrow> map d [0..<count] | None \<Rightarrow> [])
          in bind (unprotected w r) (\<lambda>_.
             bind (query next_obj) (\<lambda>n.
             bind (change (\<lambda>s. s\<lparr>next_obj := n + 1,
                     streams := (streams s)(n \<mapsto> \<lparr>bytes = received, pos = 0\<rparr>)\<rparr>)) (\<lambda>_.
               EmitEvent w r ClientData
                 [Sees Player player_id, Value (LUser n), integer (int count)]))))))"

definition OnPluginCommand :: "World \<Rightarrow> u32 \<Rightarrow> string option \<Rightarrow> u8 host" where
  "OnPluginCommand w command message =
     event w ''OnPluginCommand'' PluginCommand [integer (uint command), cstring message]"

text \<open>The C arrays hold \<open>count\<close> entries: functions from the index to the entry, or a null pointer.\<close>

definition OnServerPerformanceReport ::
  "World \<Rightarrow> nat \<Rightarrow> (nat \<Rightarrow> string option) option \<Rightarrow> (nat \<Rightarrow> u64) option \<Rightarrow> unit host" where
  "OnServerPerformanceReport w count descriptions ts_p =
     void (OnEvent w ''OnServerPerformanceReport'' (\<lambda>r.
       if_handled r ServerPerformanceReport
         (let rows = (case (descriptions, ts_p) of
                        (Some ds, Some ts) \<Rightarrow>
                          map (\<lambda>i. (case ds i of Some d \<Rightarrow> d | None \<Rightarrow> [], sint (ts i))) [0..<count]
                      | _ \<Rightarrow> [])
          in bind (make_array w r (map (LStr \<circ> fst) rows)) (\<lambda>names.
             bind (make_array w r (map (LInt \<circ> snd) rows)) (\<lambda>durations.
               EmitEvent w r ServerPerformanceReport
                 [integer (int count), Value names, Value durations])))))"

definition OnEntityStreamingChange :: "World \<Rightarrow> int \<Rightarrow> int \<Rightarrow> vcmpEntityPool \<Rightarrow> u8 \<Rightarrow> unit host" where
  "OnEntityStreamingChange w player_id entity_id type is_deleted =
     void (event w ''OnEntityStreamingChange'' EntityStreamingChange
       [Sees Player player_id, integer (pool_number type), integer entity_id, flag is_deleted])"

section \<open>Initialisation\<close>

record PluginInfo =
  info_structSize :: u32
  info_name :: string
  pluginVersion :: u32
  apiMajorVersion :: u16
  apiMinorVersion :: u16

text \<open>The callbacks struct: its size, and the fields that have been set.\<close>

record PluginCallbacks =
  cb_structSize :: u32
  cb_set :: "string list"

definition kPluginName :: string where "kPluginName = ''VCMP-Lua''"
definition kApiMinorVersion :: u16 where "kApiMinorVersion = 0"
definition kVersionNumber :: u32 where "kVersionNumber = 0x030000"
definition PLUGIN_API_MAJOR :: u16 where "PLUGIN_API_MAJOR = 2"

definition SetPluginName :: "PluginInfo \<Rightarrow> PluginInfo" where
  "SetPluginName info = info\<lparr>info_name := take (min (length kPluginName) 31) kPluginName\<rparr>"

text \<open>The fields of the struct in their order, one pointer of 8 bytes each after the size.\<close>

definition callback_fields :: "string list" where
  "callback_fields =
    [''OnServerInitialise'', ''OnServerShutdown'', ''OnServerFrame'', ''OnPluginCommand'',
     ''OnIncomingConnection'', ''OnClientScriptData'', ''OnPlayerConnect'', ''OnPlayerDisconnect'',
     ''OnPlayerRequestClass'', ''OnPlayerRequestSpawn'', ''OnPlayerSpawn'', ''OnPlayerDeath'',
     ''OnPlayerUpdate'', ''OnPlayerRequestEnterVehicle'', ''OnPlayerEnterVehicle'',
     ''OnPlayerExitVehicle'', ''OnPlayerNameChange'', ''OnPlayerStateChange'',
     ''OnPlayerActionChange'', ''OnPlayerOnFireChange'', ''OnPlayerCrouchChange'',
     ''OnPlayerGameKeysChange'', ''OnPlayerBeginTyping'', ''OnPlayerEndTyping'',
     ''OnPlayerAwayChange'', ''OnPlayerMessage'', ''OnPlayerCommand'', ''OnPlayerPrivateMessage'',
     ''OnPlayerKeyBindDown'', ''OnPlayerKeyBindUp'', ''OnPlayerSpectate'', ''OnPlayerCrashReport'',
     ''OnVehicleUpdate'', ''OnVehicleExplode'', ''OnVehicleRespawn'', ''OnObjectShot'',
     ''OnObjectTouched'', ''OnPickupPickAttempt'', ''OnPickupPicked'', ''OnPickupRespawn'',
     ''OnCheckpointEntered'', ''OnCheckpointExited'', ''OnEntityPoolChange'',
     ''OnServerPerformanceReport'', ''OnPlayerModuleList'', ''OnEntityStreamingChange'']"

definition callback_offset :: "string \<Rightarrow> u64" where
  "callback_offset field = of_nat (8 * (position field callback_fields + 1))"

definition has_callback :: "PluginCallbacks \<Rightarrow> string \<Rightarrow> bool" where
  "has_callback cbs field \<longleftrightarrow> FieldFits (cb_structSize cbs) (callback_offset field) 8"

definition write_callback :: "PluginCallbacks \<Rightarrow> string \<Rightarrow> PluginCallbacks" where
  "write_callback cbs field = cbs\<lparr>cb_set := cb_set cbs @ [field]\<rparr>"

text \<open>The macro VCMP\_LUA\_SET\_CALLBACK.\<close>

definition set_callback :: "PluginCallbacks \<Rightarrow> string \<Rightarrow> PluginCallbacks" where
  "set_callback cbs field = (if has_callback cbs field then write_callback cbs field else cbs)"

definition required_callbacks :: "string list" where
  "required_callbacks = [''OnServerInitialise'', ''OnServerShutdown'', ''OnServerFrame'']"

definition optional_callbacks :: "string list" where
  "optional_callbacks =
    [''OnPlayerConnect'', ''OnPlayerDisconnect'', ''OnEntityPoolChange'', ''OnIncomingConnection'',
     ''OnPlayerModuleList'', ''OnPlayerRequestClass'', ''OnPlayerRequestSpawn'', ''OnPlayerSpawn'',
     ''OnPlayerDeath'', ''OnPlayerUpdate'', ''OnPlayerRequestEnterVehicle'',
     ''OnPlayerEnterVehicle'', ''OnPlayerExitVehicle'', ''OnPlayerNameChange'',
     ''OnPlayerStateChange'', ''OnPlayerActionChange'', ''OnPlayerOnFireChange'',
     ''OnPlayerCrouchChange'', ''OnPlayerGameKeysChange'', ''OnPlayerBeginTyping'',
     ''OnPlayerEndTyping'', ''OnPlayerAwayChange'', ''OnPlayerMessage'', ''OnPlayerCommand'',
     ''OnPlayerPrivateMessage'', ''OnPlayerSpectate'', ''OnPlayerCrashReport'',
     ''OnClientScriptData'', ''OnPlayerKeyBindDown'', ''OnPlayerKeyBindUp'', ''OnVehicleUpdate'',
     ''OnVehicleExplode'', ''OnVehicleRespawn'', ''OnObjectShot'', ''OnObjectTouched'',
     ''OnPickupPickAttempt'', ''OnPickupPicked'', ''OnPickupRespawn'', ''OnCheckpointEntered'',
     ''OnCheckpointExited'', ''OnPluginCommand'', ''OnServerPerformanceReport'',
     ''OnEntityStreamingChange'']"

definition install :: "PluginCallbacks \<Rightarrow> PluginCallbacks" where
  "install cbs = foldl set_callback (foldl write_callback cbs required_callbacks) optional_callbacks"

definition fill_info :: "PluginInfo \<Rightarrow> PluginInfo" where
  "fill_info info =
     (let n = info_structSize info;
          i1 = (if FieldFits n 8 32 then SetPluginName info else info);
          i2 = (if FieldFits n 40 4 then i1\<lparr>pluginVersion := kVersionNumber\<rparr> else i1);
          i3 = (if FieldFits n 44 2 then i2\<lparr>apiMajorVersion := PLUGIN_API_MAJOR\<rparr> else i2)
      in if FieldFits n 46 2 then i3\<lparr>apiMinorVersion := kApiMinorVersion\<rparr> else i3)"

type_synonym init_result = "nat \<times> PluginCallbacks option \<times> PluginInfo option"

definition init_failed :: "init_result \<Rightarrow> cxx \<Rightarrow> init_result host" where
  "init_failed result e =
     bind (ReportException ''VcmpPluginInit'' e) (\<lambda>_. bind libraries_Cleanup (\<lambda>_. ret result))"

text \<open>From the configuration on, with the plugin's description written.\<close>

definition init_runtime :: "World \<Rightarrow> PluginFuncs \<Rightarrow> PluginCallbacks \<Rightarrow> PluginInfo \<Rightarrow> init_result host" where
  "init_runtime w funcs cbs info =
     bind (ReadConfig_file w) (\<lambda>c.
     bind (change (\<lambda>s. s\<lparr>api := Some funcs, shutdown_deferred := False\<rparr>)) (\<lambda>_.
     bind (make_runtime w c) (\<lambda>rt.
     bind (change (\<lambda>s. s\<lparr>runtime := Some rt\<rparr>)) (\<lambda>_.
       ret (1, Some (install cbs), Some info)))))"

text \<open>With the C libraries initialised. The plugin's description is written before the checks.\<close>

definition init_checked :: "World \<Rightarrow> PluginFuncs \<Rightarrow> PluginCallbacks \<Rightarrow> PluginInfo \<Rightarrow> init_result host" where
  "init_checked w funcs cbs info =
     (if \<not> list_all (has_callback cbs) required_callbacks
      then
        bind (log_error ''VcmpPluginInit: this server version has no OnServerFrame callback'') (\<lambda>_.
        bind libraries_Cleanup (\<lambda>_. ret (0, Some cbs, Some (fill_info info))))
      else
        try_catch (init_runtime w funcs cbs (fill_info info))
          (init_failed (0, Some cbs, Some (fill_info info))))"

definition Init :: "World \<Rightarrow> PluginFuncs option \<Rightarrow> PluginCallbacks option \<Rightarrow> PluginInfo option \<Rightarrow> init_result host" where
  "Init w funcs_p cbs_p info_p =
     (case (funcs_p, cbs_p, info_p) of
        (Some funcs, Some cbs, Some info) \<Rightarrow>
          bind (query (\<lambda>s. runtime s \<noteq> None)) (\<lambda>running.
            if running
            then bind (log_error ''VcmpPluginInit: already initialised'') (\<lambda>_. ret (0, cbs_p, info_p))
            else
              try_catch (bind (libraries_Init w) (\<lambda>_. init_checked w funcs cbs info))
                (init_failed (0, cbs_p, info_p)))
      | _ \<Rightarrow> bind (log_error ''VcmpPluginInit: the server passed a null pointer'') (\<lambda>_.
               ret (0, cbs_p, info_p)))"

definition VcmpPluginInit :: "World \<Rightarrow> PluginFuncs option \<Rightarrow> PluginCallbacks option \<Rightarrow> PluginInfo option \<Rightarrow> init_result host" where
  "VcmpPluginInit w funcs cbs info = Init w funcs cbs info"

section \<open>The callbacks as one interface\<close>

text \<open>What the server may call, with the arguments it passes.\<close>

datatype (plugins del: transfer lifting "quickcheck") server_call =
    ServerInitialise
  | ServerFrameTick lua_float
  | ServerShutdownNow
  | Plugin_Command u32 "string option"
  | IncomingConnection "string option" nat "string option" "string option"
  | ClientScriptData int "(nat \<Rightarrow> u8) option" nat
  | Connect int
  | Disconnect int int
  | RequestClass int int
  | RequestSpawn int
  | Spawn int
  | Death int int int int
  | Update int int
  | RequestEnterVehicle int int int
  | EnterVehicle int int int
  | ExitVehicle int int
  | NameChange int "string option" "string option"
  | StateChange int int int
  | ActionChange int int int
  | OnFireChange int u8
  | CrouchChange int u8
  | GameKeysChange int u32 u32
  | BeginTyping int
  | EndTyping int
  | AwayChange int u8
  | Message int "string option"
  | Command int "string option"
  | PrivateMessage int int "string option"
  | KeyBindDown int int
  | KeyBindUp int int
  | Spectate int int
  | CrashReport int "string option"
  | Vehicle_Update int int
  | Vehicle_Explode int
  | Vehicle_Respawn int
  | Object_Shot int int int
  | Object_Touched int int
  | PickAttempt int int
  | Picked int int
  | Pickup_Respawn int
  | CheckpointEntered int int
  | CheckpointExited int int
  | PoolChange vcmpEntityPool int u8
  | PerformanceReport nat "(nat \<Rightarrow> string option) option" "(nat \<Rightarrow> u64) option"
  | ModuleList int "string option"
  | StreamingChange int int vcmpEntityPool u8

definition answer :: "u8 host \<Rightarrow> u8 option host" where
  "answer m = bind m (\<lambda>b. ret (Some b))"

definition no_answer :: "unit host \<Rightarrow> u8 option host" where
  "no_answer m = bind m (\<lambda>_. ret None)"

primrec server_callback :: "World \<Rightarrow> server_call \<Rightarrow> u8 option host" where
  "server_callback w ServerInitialise = answer (OnServerInitialise w)"
| "server_callback w (ServerFrameTick t) = no_answer (OnServerFrame w t)"
| "server_callback w ServerShutdownNow = no_answer (OnServerShutdown w)"
| "server_callback w (Plugin_Command c m) = answer (OnPluginCommand w c m)"
| "server_callback w (IncomingConnection n k p ip) = answer (OnIncomingConnection w n k p ip)"
| "server_callback w (ClientScriptData i d k) = no_answer (OnClientScriptData w i d k)"
| "server_callback w (Connect i) = no_answer (OnPlayerConnect w i)"
| "server_callback w (Disconnect i c) = no_answer (OnPlayerDisconnect w i c)"
| "server_callback w (RequestClass i c) = answer (OnPlayerRequestClass w i c)"
| "server_callback w (RequestSpawn i) = answer (OnPlayerRequestSpawn w i)"
| "server_callback w (Spawn i) = no_answer (OnPlayerSpawn w i)"
| "server_callback w (Death i k c b) = no_answer (OnPlayerDeath w i k c b)"
| "server_callback w (Update i u) = no_answer (OnPlayerUpdate w i u)"
| "server_callback w (RequestEnterVehicle i v sl) = answer (OnPlayerRequestEnterVehicle w i v sl)"
| "server_callback w (EnterVehicle i v sl) = no_answer (OnPlayerEnterVehicle w i v sl)"
| "server_callback w (ExitVehicle i v) = no_answer (OnPlayerExitVehicle w i v)"
| "server_callback w (NameChange i a b) = no_answer (OnPlayerNameChange w i a b)"
| "server_callback w (StateChange i a b) = no_answer (OnPlayerStateChange w i a b)"
| "server_callback w (ActionChange i a b) = no_answer (OnPlayerActionChange w i a b)"
| "server_callback w (OnFireChange i b) = no_answer (OnPlayerOnFireChange w i b)"
| "server_callback w (CrouchChange i b) = no_answer (OnPlayerCrouchChange w i b)"
| "server_callback w (GameKeysChange i a b) = no_answer (OnPlayerGameKeysChange w i a b)"
| "server_callback w (BeginTyping i) = no_answer (OnPlayerBeginTyping w i)"
| "server_callback w (EndTyping i) = no_answer (OnPlayerEndTyping w i)"
| "server_callback w (AwayChange i b) = no_answer (OnPlayerAwayChange w i b)"
| "server_callback w (Message i m) = answer (OnPlayerMessage w i m)"
| "server_callback w (Command i m) = answer (OnPlayerCommand w i m)"
| "server_callback w (PrivateMessage i j m) = answer (OnPlayerPrivateMessage w i j m)"
| "server_callback w (KeyBindDown i b) = no_answer (OnPlayerKeyBindDown w i b)"
| "server_callback w (KeyBindUp i b) = no_answer (OnPlayerKeyBindUp w i b)"
| "server_callback w (Spectate i j) = no_answer (OnPlayerSpectate w i j)"
| "server_callback w (CrashReport i m) = no_answer (OnPlayerCrashReport w i m)"
| "server_callback w (Vehicle_Update v u) = no_answer (OnVehicleUpdate w v u)"
| "server_callback w (Vehicle_Explode v) = no_answer (OnVehicleExplode w v)"
| "server_callback w (Vehicle_Respawn v) = no_answer (OnVehicleRespawn w v)"
| "server_callback w (Object_Shot x i c) = no_answer (OnObjectShot w x i c)"
| "server_callback w (Object_Touched x i) = no_answer (OnObjectTouched w x i)"
| "server_callback w (PickAttempt x i) = answer (OnPickupPickAttempt w x i)"
| "server_callback w (Picked x i) = no_answer (OnPickupPicked w x i)"
| "server_callback w (Pickup_Respawn x) = no_answer (OnPickupRespawn w x)"
| "server_callback w (CheckpointEntered x i) = no_answer (OnCheckpointEntered w x i)"
| "server_callback w (CheckpointExited x i) = no_answer (OnCheckpointExited w x i)"
| "server_callback w (PoolChange ty i d) = no_answer (OnEntityPoolChange w ty i d)"
| "server_callback w (PerformanceReport n ds ts) = no_answer (OnServerPerformanceReport w n ds ts)"
| "server_callback w (ModuleList i m) = no_answer (OnPlayerModuleList w i m)"
| "server_callback w (StreamingChange i x ty d) = no_answer (OnEntityStreamingChange w i x ty d)"

primrec callbacks_run :: "World \<Rightarrow> server_call list \<Rightarrow> unit host" where
  "callbacks_run w [] = ret ()"
| "callbacks_run w (c # cs) = bind (server_callback w c) (\<lambda>_. callbacks_run w cs)"

end
