(* ===== verification/Plugin_Safety.thy ===== *)
theory Plugin_Safety
  imports Plugin
begin

text \<open>
  The server callbacks keep the invariant of the theory Runtime\_Safety. A callback that
  arrives from the server's main loop finds no Lua function running and leaves none running;
  one that arrives while a Lua function runs leaves the runtime in place for that function's
  caller. All of it is proved in the locale \<open>lua_host\<close>, for whatever the Lua functions do.
\<close>

section \<open>Rules for the boundary\<close>

lemma wp_try_catch [simp]:
  "wp (try_catch m h) Q s \<longleftrightarrow>
     wp m (\<lambda>out s'. case out of Throw e \<Rightarrow> wp (h e) Q s' | _ \<Rightarrow> Q out s') s"
  by (auto simp: wp_def try_catch_def split: prod.splits outcome.splits)

lemma good_try_catch:
  assumes "good P r m" "\<And>e. good P r (h e)" "lasting P"
  shows "good P r (try_catch m h)"
  unfolding good_def wp_try_catch
proof (intro allI impI)
  fix s assume s: "standing r P s"
  have h: "wp (h e) (\<lambda>_ s''. step_ok s s'') s'" if "step_ok s s'" for e s'
  proof -
    have "wp (h e) (\<lambda>_ s''. step_ok s' s'') s'"
      using assms(2) standing_step [OF s that assms(3)] by (simp add: good_def)
    then show ?thesis
      by (rule wp_mono) (rule step_ok_trans [OF that])
  qed
  have "wp m (\<lambda>_ s'. step_ok s s') s"
    using assms(1) s by (simp add: good_def)
  then show "wp m (\<lambda>out s'. case out of Throw e \<Rightarrow> wp (h e) (\<lambda>_ s''. step_ok s s'') s' | _ \<Rightarrow> step_ok s s') s"
    by (rule wp_mono) (simp add: h split: outcome.split)
qed

lemma good_Guarded: "\<lbrakk>good P r m; lasting P\<rbrakk> \<Longrightarrow> good P r (Guarded site x m)"
  unfolding Guarded_def ReportException_def
  by (intro good_try_catch good_bind good_log good_ret)

lemma good_at_live:
  assumes "good P r (body r)"
  shows "good P r (bind Live (\<lambda>live. with_live live x body))"
proof (rule goodI)
  fix s rt
  assume s: "host_inv s" "runtime s = Some rt" "rid rt = r" "P rt"
  then have "wp (body r) (\<lambda>_ s'. step_ok s s') s"
    by (intro goodD [OF assms])
  then show "wp (bind Live (\<lambda>live. with_live live x body)) (\<lambda>_ s'. step_ok s s') s"
    using s by (auto simp: Live_def with_live_def step_ok_def)
qed

lemma good_AfterCallback_in_lua:
  assumes "\<And>rt. P rt \<Longrightarrow> in_lua rt"
  shows "good P r (AfterCallback w)"
  by (rule goodI) (use assms in \<open>auto simp: AfterCallback_def InLuaCall_def in_lua_def step_ok_def\<close>)

lemma good_seen_in: "good P r (seen_in r k i)"
proof (rule goodI)
  fix s rt
  assume s: "host_inv s" "runtime s = Some rt" "rid rt = r" "rt_wf rt" "lua_open rt"
  let ?p = "fst (Seen (entities rt k) i)"
  have "pools_wf ((entities rt)(k := ?p))"
    using rt_wf_pools [OF s(4)] by (intro pools_wf_upd) (simp_all add: Seen_def Let_def pool_wf_Adopt pools_wfD)
  then have "step_ok s (s\<lparr>runtime := Some (rt\<lparr>entities := (entities rt)(k := ?p)\<rparr>)\<rparr>)"
    using s by (intro step_ok_put [OF s(1,2)]) (simp_all add: rt_wf_entities)
  then show "wp (seen_in r k i) (\<lambda>_ s'. step_ok s s') s"
    using s by (simp add: seen_in_def case_prod_beta)
qed

lemma good_SeenRef: "lasting P \<Longrightarrow> good P r (SeenRef r k i)"
  unfolding SeenRef_def by (intro good_bind good_sub good_if good_seen_in good_ret)

lemma good_eval_args: "lasting P \<Longrightarrow> good P r (eval_args r as)"
  by (induction "as") (auto intro!: good_bind good_ret good_SeenRef split: event_arg.split)

lemma good_update_pool:
  assumes "\<And>p. pool_wf p \<Longrightarrow> pool_wf (f p)" "\<And>p. pool_kind (f p) = pool_kind p"
  shows "good P r (update_pool r k f)"
  unfolding update_pool_def using assms by (rule good_pool)

lemma good_in_server_pool:
  assumes "\<And>p. pool_wf p \<Longrightarrow> pool_wf (f p)" "\<And>p. pool_kind (f p) = pool_kind p"
  shows "good P r (in_server_pool r type c f)"
  unfolding in_server_pool_def using good_update_pool [OF assms] good_ret by (auto split: option.split)

lemma good_make_array: "lasting P \<Longrightarrow> good P r (make_array w r vs)"
  unfolding make_array_def
  by (intro good_bind good_unprotected good_query good_change good_ret) simp_all

lemma good_void: "\<lbrakk>good P r m; lasting P\<rbrakk> \<Longrightarrow> good P r (void m)"
  unfolding void_def by (intro good_bind good_ret)

lemma good_if_handled: "\<lbrakk>good P r m; lasting P\<rbrakk> \<Longrightarrow> good P r (if_handled r e m)"
  unfolding if_handled_def by (intro good_bind good_sub good_if good_ret)

section \<open>Callbacks, seen from the runtime they find\<close>

text \<open>What a callback does before \<^verbatim>\<open>AfterCallback\<close>, whatever the depth.\<close>

context lua_host
begin

lemma good_EmitEvent: "lasting P \<Longrightarrow> good P r (EmitEvent w r e as)"
  unfolding EmitEvent_def by (intro good_bind good_eval_args good_Emit)

lemma good_emit_usable: "lasting P \<Longrightarrow> good P r (emit_usable w r e as)"
  unfolding emit_usable_def by (intro good_when_usable good_bind good_Emit good_ret)

lemma good_dispatchable:
  assumes "good P r (body r)" "lasting P"
  shows "good P r (bind Dispatchable (\<lambda>d. with_live d x body))"
proof (rule goodI)
  fix s rt
  assume s: "host_inv s" "runtime s = Some rt" "rid rt = r" "P rt"
  then have "wp (body r) (\<lambda>_ s'. step_ok s s') s"
    by (intro goodD [OF assms(1)])
  then show "wp (bind Dispatchable (\<lambda>d. with_live d x body)) (\<lambda>_ s'. step_ok s s') s"
    using s by (auto simp: Dispatchable_def Live_def with_live_def step_ok_def)
qed

end

section \<open>Callbacks from the server's main loop\<close>

text \<open>
  Between callbacks no Lua function is running. A computation keeps this, and callbacks that a
  Lua function provokes leave everything as that function's caller needs it.
\<close>

definition resting :: "State \<Rightarrow> bool" where
  "resting s \<longleftrightarrow> host_inv s \<and> (\<forall>rt. runtime s = Some rt \<longrightarrow> outside rt)"

definition keeps :: "'a host \<Rightarrow> bool" where
  "keeps m \<longleftrightarrow> (\<forall>s. resting s \<longrightarrow> wp m (\<lambda>_ s'. resting s') s)"

lemma resting_None: "runtime s = None \<Longrightarrow> resting s"
  by (simp add: resting_def host_inv_def)

lemma resting_Some: "runtime s = Some rt \<Longrightarrow> resting s \<longleftrightarrow> rt_wf rt \<and> rid rt < next_rid s \<and> outside rt"
  by (auto simp: resting_def host_inv_def)

lemma keeps_ret: "keeps (ret x)" and keeps_throw: "keeps (throw e)" and keeps_query: "keeps (query f)"
  by (simp_all add: keeps_def)

lemma keeps_change:
  assumes "\<And>s. runtime (f s) = runtime s" "\<And>s. next_rid s \<le> next_rid (f s)"
  shows "keeps (change f)"
  unfolding keeps_def by (auto simp: resting_def host_inv_def assms split: option.splits intro: less_le_trans)

lemma keeps_bind: "\<lbrakk>keeps m; \<And>x. keeps (k x)\<rbrakk> \<Longrightarrow> keeps (bind m k)"
  unfolding keeps_def wp_bind by (auto elim!: wp_mono split: outcome.split)

lemma keeps_try_catch: "\<lbrakk>keeps m; \<And>e. keeps (h e)\<rbrakk> \<Longrightarrow> keeps (try_catch m h)"
  unfolding keeps_def wp_try_catch by (auto elim!: wp_mono split: outcome.split)

lemma keeps_log: "keeps (log_error text)"
  unfolding log_error_def by (rule keeps_change) simp_all

lemma keeps_if: "\<lbrakk>c \<Longrightarrow> keeps a; \<not> c \<Longrightarrow> keeps b\<rbrakk> \<Longrightarrow> keeps (if c then a else b)"
  by simp

lemma keeps_Guarded: "keeps m \<Longrightarrow> keeps (Guarded site x m)"
  unfolding Guarded_def ReportException_def by (intro keeps_try_catch keeps_bind keeps_log keeps_ret)

lemma resting_step:
  assumes "resting s" "step_ok s s'" "runtime s = Some rt"
  shows "resting s'"
  using assms by (auto simp: resting_def step_ok_def ext_def outside_def rt_ext_def)

lemma wp_resting:
  assumes "good outside r m" "resting s" "runtime s = Some rt" "rid rt = r"
  shows "wp m (\<lambda>_ s'. resting s' \<and> step_ok s s') s"
proof -
  have "wp m (\<lambda>_ s'. step_ok s s') s"
    by (rule goodD [OF assms(1), where rt = rt]) (use assms in \<open>auto simp: resting_def\<close>)
  then show ?thesis
    by (rule wp_mono) (simp add: resting_step [OF assms(2) _ assms(3)])
qed

lemma keeps_at_live:
  assumes "\<And>r. good outside r (body r)"
  shows "keeps (bind Live (\<lambda>live. with_live live x body))"
  unfolding keeps_def
proof (intro allI impI)
  fix s assume s: "resting s"
  show "wp (bind Live (\<lambda>live. with_live live x body)) (\<lambda>_ s'. resting s') s"
  proof (cases "runtime s")
    case (Some rt)
    have "wp (body (rid rt)) (\<lambda>_ s'. resting s') s"
      using wp_resting [OF assms s Some refl] by (rule wp_mono) simp
    then show ?thesis
      using s Some by (simp add: Live_def with_live_def)
  qed (use s in \<open>simp add: Live_def with_live_def\<close>)
qed

lemma keeps_dispatchable:
  assumes "\<And>r. good outside r (body r)"
  shows "keeps (bind Dispatchable (\<lambda>d. with_live d x body))"
  unfolding keeps_def
proof (intro allI impI)
  fix s assume s: "resting s"
  show "wp (bind Dispatchable (\<lambda>d. with_live d x body)) (\<lambda>_ s'. resting s') s"
  proof (cases "runtime s")
    case (Some rt)
    have "wp (body (rid rt)) (\<lambda>_ s'. resting s') s"
      using wp_resting [OF assms s Some refl] by (rule wp_mono) simp
    then show ?thesis
      using s Some by (simp add: Dispatchable_def Live_def with_live_def)
  qed (use s in \<open>simp add: Dispatchable_def Live_def with_live_def\<close>)
qed

text \<open>Taking a runtime down while no Lua function runs.\<close>

lemma wp_take_down:
  assumes "resting s" "runtime s = Some rt"
  shows "wp (take_down reason) Q s \<longleftrightarrow>
     Q (Ret ()) (s\<lparr>runtime := None, deleted := deleted s @ fst (snd (Shutdown (api s) reason rt)),
                   errors := errors s @ snd (snd (Shutdown (api s) reason rt))\<rparr>)"
proof -
  have "\<not> InLuaCall rt" "lua_open rt"
    using assms by (simp_all add: resting_Some outside_def InLuaCall_def rt_wf_def)
  then have "\<not> lua_open (fst (Shutdown (api s) reason rt))"
    by (simp add: Shutdown_def Let_def case_prod_beta)
  then show ?thesis
    using assms(2) by (simp add: wp_def take_down_def case_prod_beta Let_def)
qed

lemma bind_assoc: "bind (bind m k) l = bind m (\<lambda>x. bind (k x) l)"
  by (auto simp: bind_def fun_eq_iff split: prod.split outcome.split)

lemma http_wf_new: "http_wf (new_http ca)"
  by (simp add: http_wf_def new_http_def)

lemma cancelled_new: "cancelled new_bus = []"
proof -
  have "cancelled (foldl (\<lambda>b name. fst (Event_Bus.Create b name)) b ns) = cancelled b" for b ns
    by (induction ns arbitrary: b) (simp_all add: Event_Bus.Create_def)
  then show ?thesis
    by (simp add: new_bus_def empty_bus_def)
qed

lemma rt_wf_new: "rt_wf (new_runtime n c)"
  by (simp add: rt_wf_def new_runtime_def idle_def bus_wf_new sched_wf_new http_wf_new cancelled_new)
     (simp add: new_scheduler_def)

lemma new_runtime_frame [simp]: "rid (new_runtime n c) = n" "depth (new_runtime n c) = 0"
  by (simp_all add: new_runtime_def)

lemmas plain_event_defs =
  OnPluginCommand_def OnIncomingConnection_def OnPlayerRequestClass_def OnPlayerRequestSpawn_def
  OnPlayerSpawn_def OnPlayerRequestEnterVehicle_def OnPlayerEnterVehicle_def OnPlayerExitVehicle_def
  OnPlayerNameChange_def OnPlayerStateChange_def OnPlayerActionChange_def OnPlayerOnFireChange_def
  OnPlayerCrouchChange_def OnPlayerGameKeysChange_def OnPlayerBeginTyping_def OnPlayerEndTyping_def
  OnPlayerAwayChange_def OnPlayerMessage_def OnPlayerPrivateMessage_def OnPlayerKeyBindDown_def
  OnPlayerKeyBindUp_def OnPlayerSpectate_def OnPlayerCrashReport_def OnVehicleExplode_def
  OnVehicleRespawn_def OnObjectShot_def OnObjectTouched_def OnPickupPickAttempt_def
  OnPickupPicked_def OnPickupRespawn_def OnCheckpointEntered_def OnCheckpointExited_def
  OnPlayerModuleList_def OnEntityStreamingChange_def

section \<open>No exception leaves the plugin\<close>

definition nothrow :: "'a host \<Rightarrow> bool" where
  "nothrow m \<longleftrightarrow> (\<forall>s e. fst (m s) \<noteq> Throw e)"

lemma nothrow_ret: "nothrow (ret x)" and nothrow_query: "nothrow (query f)" and nothrow_change: "nothrow (change g)"
  by (simp_all add: nothrow_def ret_def query_def change_def)

lemma nothrow_bind: "\<lbrakk>nothrow m; \<And>x. nothrow (k x)\<rbrakk> \<Longrightarrow> nothrow (bind m k)"
  by (auto simp: nothrow_def bind_def split: prod.split outcome.split) (metis fst_conv)

lemma nothrow_if: "\<lbrakk>nothrow a; nothrow b\<rbrakk> \<Longrightarrow> nothrow (if c then a else b)"
  by simp

lemma nothrow_log: "nothrow (log_error text)"
  by (simp add: log_error_def nothrow_change)

lemma nothrow_try_catch: "(\<And>e. nothrow (h e)) \<Longrightarrow> nothrow (try_catch m h)"
  by (auto simp: nothrow_def try_catch_def split: prod.split outcome.split)

lemma nothrow_Guarded: "nothrow (Guarded site x m)"
  unfolding Guarded_def ReportException_def by (intro nothrow_try_catch nothrow_bind nothrow_log nothrow_ret)

lemma nothrow_take_down: "nothrow (take_down reason)"
  by (simp add: nothrow_def take_down_def Let_def split: option.split prod.split)

lemma nothrow_FinishShutdown: "nothrow (FinishShutdown w)"
  unfolding FinishShutdown_def libraries_Cleanup_def
  by (intro nothrow_bind nothrow_change nothrow_query)
     (auto intro!: nothrow_ret nothrow_bind nothrow_Guarded nothrow_take_down nothrow_change split: option.split)

lemma nothrow_AfterCallback: "nothrow (AfterCallback w)"
  unfolding AfterCallback_def by (intro nothrow_bind nothrow_query nothrow_if nothrow_FinishShutdown nothrow_ret)

lemma nothrow_OnEvent: "nothrow (OnEvent w site body)"
  unfolding OnEvent_def by (intro nothrow_bind nothrow_Guarded nothrow_AfterCallback nothrow_ret)

lemma nothrow_event: "nothrow (event w site e as)"
  unfolding event_def by (rule nothrow_OnEvent)

lemma nothrow_void: "nothrow m \<Longrightarrow> nothrow (void m)"
  unfolding void_def by (intro nothrow_bind nothrow_ret)

lemmas special_event_defs =
  OnPlayerDeath_def OnPlayerUpdate_def OnVehicleUpdate_def OnPlayerCommand_def OnClientScriptData_def
  OnServerPerformanceReport_def

lemmas direct_callback_defs =
  OnServerInitialise_def OnServerFrame_def OnPlayerConnect_def OnPlayerDisconnect_def OnEntityPoolChange_def

lemma nothrow_OnServerShutdown: "nothrow (OnServerShutdown w)"
  unfolding OnServerShutdown_def
  by (intro nothrow_bind nothrow_query)
     (auto intro!: nothrow_ret nothrow_change nothrow_FinishShutdown split: option.split)

lemma nothrow_server_callback: "nothrow (server_callback w c)"
  by (cases c)
     (auto simp: answer_def no_answer_def plain_event_defs special_event_defs direct_callback_defs Let_def
       intro!: nothrow_bind nothrow_ret nothrow_event nothrow_void nothrow_OnEvent nothrow_Guarded
         nothrow_AfterCallback nothrow_OnServerShutdown)

lemma nothrow_Init: "nothrow (Init w f c i)"
  unfolding Init_def init_failed_def ReportException_def libraries_Cleanup_def
  by (auto intro!: nothrow_bind nothrow_log nothrow_ret nothrow_try_catch nothrow_query nothrow_change
      split: option.split)

section \<open>Pending shutdowns\<close>

definition settled :: "State \<Rightarrow> bool" where
  "settled s \<longleftrightarrow> resting s \<and> \<not> (shutdown_deferred s \<and> runtime s \<noteq> None)"

definition settles :: "'a host \<Rightarrow> bool" where
  "settles m \<longleftrightarrow> (\<forall>s. resting s \<longrightarrow> wp m (\<lambda>_ s'. settled s') s)"

lemma settles_bind:
  assumes "keeps m" "nothrow m" "\<And>x. settles (k x)"
  shows "settles (bind m k)"
  unfolding settles_def wp_bind
proof (intro allI impI)
  fix s assume "resting s"
  then have "wp m (\<lambda>_ s'. resting s') s"
    using assms(1) by (simp add: keeps_def)
  then show "wp m (\<lambda>out s'. case out of Ret x \<Rightarrow> wp (k x) (\<lambda>_ s''. settled s'') s' | Throw e \<Rightarrow> settled s' | UB \<Rightarrow> False) s"
    using assms(2,3) by (auto simp: wp_def nothrow_def settles_def split: outcome.split)
qed

lemma settles_then_ret: "settles m \<Longrightarrow> settles (bind m (\<lambda>x. ret (f x)))"
  unfolding settles_def wp_bind by (auto elim!: wp_mono split: outcome.split)

definition safe_call :: "'a host \<Rightarrow> bool" where
  "safe_call m \<longleftrightarrow> (\<forall>r. good in_lua r m) \<and> settles m"

lemma settles_keeps: "settles m \<Longrightarrow> keeps m"
  unfolding settles_def keeps_def by (auto elim!: wp_mono simp: settled_def)

context lua_host
begin

lemma wp_FinishShutdown:
  assumes "resting s" "runtime s \<noteq> None"
  shows "wp (FinishShutdown w) (\<lambda>out s'. out = Ret () \<and> runtime s' = None \<and> \<not> shutdown_deferred s' \<and>
           libs s' = \<lparr>ini_openssl = False, ini_curl = False, ini_mysql = False\<rparr>) s"
proof -
  obtain rt where rt: "runtime s = Some rt"
    using assms(2) by blast
  let ?s = "s\<lparr>shutdown_deferred := False\<rparr>"
  let ?note = "Guarded ''OnServerShutdown'' () (NotifyServerShutdown w (rid rt))"
  have s: "resting ?s"
    using assms(1) rt by (simp add: resting_Some)
  have "good outside (rid rt) ?note"
    by (intro good_Guarded good_NotifyServerShutdown) simp_all
  then have "wp ?note (\<lambda>_ s'. resting s' \<and> step_ok ?s s') ?s"
    by (rule wp_resting) (use s rt in simp_all)
  then have "wp ?note (\<lambda>out s'. out = Ret () \<and> resting s' \<and> (\<exists>rt'. runtime s' = Some rt')) ?s"
    using rt by (auto simp: wp_def Guarded_def try_catch_def ReportException_def log_error_def bind_def
        change_def ret_def step_ok_def ext_def split: prod.splits outcome.splits)
  then have "wp ?note (\<lambda>out s'. case out of
      Ret x \<Rightarrow> wp (bind (take_down ShutdownServer) (\<lambda>_.
           bind (change (\<lambda>s. s\<lparr>shutdown_deferred := False\<rparr>)) (\<lambda>_. libraries_Cleanup)))
         (\<lambda>out s'. out = Ret () \<and> runtime s' = None \<and> \<not> shutdown_deferred s' \<and>
           libs s' = \<lparr>ini_openssl = False, ini_curl = False, ini_mysql = False\<rparr>) s'
    | _ \<Rightarrow> False) ?s"
    by (rule wp_mono) (auto simp: wp_take_down libraries_Cleanup_def)
  then show ?thesis
    using rt by (simp add: FinishShutdown_def) (erule wp_mono, simp split: outcome.splits)
qed

lemma keeps_FinishShutdown: "keeps (FinishShutdown w)"
  unfolding keeps_def
proof (intro allI impI)
  fix s assume s: "resting s"
  show "wp (FinishShutdown w) (\<lambda>_ s'. resting s') s"
  proof (cases "runtime s")
    case None
    then show ?thesis
      by (simp add: FinishShutdown_def resting_None)
  next
    case (Some rt)
    then show ?thesis
      using wp_FinishShutdown [OF s] by (auto elim!: wp_mono intro: resting_None)
  qed
qed

lemma keeps_AfterCallback: "keeps (AfterCallback w)"
  unfolding AfterCallback_def by (intro keeps_bind keeps_query keeps_if keeps_FinishShutdown keeps_ret)

lemma settles_AfterCallback: "settles (AfterCallback w)"
  unfolding settles_def
proof (intro allI impI)
  fix s assume s: "resting s"
  show "wp (AfterCallback w) (\<lambda>_ s'. settled s') s"
  proof (cases "shutdown_deferred s \<and> runtime s \<noteq> None")
    case True
    then obtain rt where rt: "runtime s = Some rt"
      by blast
    then have "\<not> InLuaCall rt"
      using s by (simp add: resting_Some outside_def InLuaCall_def)
    moreover have "wp (FinishShutdown w) (\<lambda>_ s'. settled s') s"
      using wp_FinishShutdown [OF s] rt by (auto elim!: wp_mono simp: settled_def resting_None)
    ultimately show ?thesis
      using True rt by (simp add: AfterCallback_def)
  next
    case False
    then show ?thesis
      using s by (auto simp: AfterCallback_def settled_def)
  qed
qed

lemma safe_guarded_callback:
  assumes "\<And>P r. lasting P \<Longrightarrow> good P r (body r)"
  shows "safe_call (bind (Guarded site x (bind Live (\<lambda>live. with_live live x body))) (\<lambda>_. AfterCallback w))"
  unfolding safe_call_def
  by (intro conjI allI good_bind good_Guarded good_at_live good_AfterCallback_in_lua good_ret assms
        settles_bind keeps_Guarded keeps_at_live settles_AfterCallback nothrow_Guarded) simp_all

lemma safe_OnEvent:
  assumes "\<And>P r. lasting P \<Longrightarrow> good P r (body r)"
  shows "safe_call (OnEvent w site body)"
  unfolding safe_call_def OnEvent_def
  by (intro conjI allI good_bind good_Guarded good_dispatchable good_AfterCallback_in_lua good_ret assms
        settles_bind settles_then_ret keeps_Guarded keeps_dispatchable settles_AfterCallback nothrow_Guarded)
     simp_all

lemma safe_map: "safe_call m \<Longrightarrow> safe_call (bind m (\<lambda>x. ret (f x)))"
  unfolding safe_call_def by (auto intro!: good_bind good_ret settles_then_ret)

lemma safe_bind_ret: "safe_call (bind m k) \<Longrightarrow> safe_call (bind m (\<lambda>x. bind (k x) (\<lambda>y. ret z)))"
  using safe_map [of "bind m k" "\<lambda>_. z"] by (simp add: bind_assoc)

lemma safe_OnServerInitialise: "safe_call (OnServerInitialise w)"
  unfolding OnServerInitialise_def by (intro safe_bind_ret safe_guarded_callback good_LoadScripts)

lemma safe_OnServerShutdown: "safe_call (OnServerShutdown w)"
proof -
  have "good in_lua r (OnServerShutdown w)" for r
    by (rule goodI) (auto simp: OnServerShutdown_def InLuaCall_def in_lua_def step_ok_def host_inv_def ext_def)
  moreover have "wp (OnServerShutdown w) (\<lambda>_ s'. settled s') s" if s: "resting s" for s
  proof (cases "runtime s")
    case (Some rt)
    have "wp (FinishShutdown w) (\<lambda>_ s'. settled s') s"
      using wp_FinishShutdown [OF s] Some by (auto elim!: wp_mono simp: settled_def resting_None)
    moreover have "\<not> InLuaCall rt"
      using s Some by (simp add: resting_Some outside_def InLuaCall_def)
    ultimately show ?thesis
      using Some by (simp add: OnServerShutdown_def)
  qed (use s in \<open>simp add: OnServerShutdown_def settled_def\<close>)
  then have "settles (OnServerShutdown w)"
    by (simp add: settles_def)
  ultimately show ?thesis
    by (simp add: safe_call_def)
qed

lemma safe_OnPlayerConnect: "safe_call (OnPlayerConnect w i)"
  unfolding OnPlayerConnect_def
  by (intro safe_guarded_callback good_bind good_seen_in good_emit_usable)

lemma safe_OnPlayerDisconnect: "safe_call (OnPlayerDisconnect w i c)"
  unfolding OnPlayerDisconnect_def
  by (intro safe_guarded_callback good_bind good_seen_in good_emit_usable good_at_live good_update_pool)
     (simp_all add: pool_wf_Release)

lemma safe_OnEntityPoolChange: "safe_call (OnEntityPoolChange w type i d)"
  unfolding OnEntityPoolChange_def Let_def
  by (intro safe_guarded_callback good_bind good_emit_usable good_at_live good_in_server_pool)
     (simp_all add: pool_wf_Release pool_wf_Adopt)

lemma safe_event: "safe_call (event w site e as)"
  unfolding event_def by (intro safe_OnEvent good_EmitEvent)

lemma safe_void: "safe_call m \<Longrightarrow> safe_call (void m)"
  unfolding void_def by (rule safe_map)

lemma safe_OnPlayerDeath: "safe_call (OnPlayerDeath w i k c b)"
  unfolding OnPlayerDeath_def
  by (intro safe_void safe_OnEvent good_bind good_SeenRef good_query good_if good_EmitEvent)

lemma safe_OnPlayerUpdate: "safe_call (OnPlayerUpdate w i u)"
  and safe_OnVehicleUpdate: "safe_call (OnVehicleUpdate w i u)"
  unfolding OnPlayerUpdate_def OnVehicleUpdate_def
  by (intro safe_void safe_OnEvent good_if_handled good_EmitEvent; assumption)+

lemma safe_OnPlayerCommand: "safe_call (OnPlayerCommand w i m)"
  unfolding OnPlayerCommand_def Let_def case_prod_beta
  by (intro safe_OnEvent good_bind good_SeenRef)
     (auto intro!: good_EmitEvent good_bind good_make_array split: list.split)

lemma safe_OnClientScriptData: "safe_call (OnClientScriptData w i content n)"
  unfolding OnClientScriptData_def Let_def
  by (intro safe_void safe_OnEvent good_if_handled good_bind good_unprotected good_query good_change good_EmitEvent)
     simp_all

lemma safe_OnServerPerformanceReport: "safe_call (OnServerPerformanceReport w n ds ts)"
  unfolding OnServerPerformanceReport_def Let_def
  by (intro safe_void safe_OnEvent good_if_handled good_bind good_make_array good_EmitEvent)

lemmas safe_callbacks =
  safe_OnServerInitialise safe_OnServerShutdown safe_OnPlayerConnect safe_OnPlayerDisconnect
  safe_OnEntityPoolChange safe_OnPlayerDeath safe_OnPlayerUpdate safe_OnVehicleUpdate
  safe_OnPlayerCommand safe_OnClientScriptData safe_OnServerPerformanceReport

lemma safe_callback: "(\<forall>t. c \<noteq> ServerFrameTick t) \<Longrightarrow> safe_call (server_callback w c)"
  by (cases c)
     (simp_all add: answer_def no_answer_def safe_map safe_callbacks safe_event safe_void plain_event_defs)

lemma wp_make_fresh:
  assumes "resting s"
  shows "wp (make_fresh w) (\<lambda>out s'. runtime s' = runtime s \<and> resting s' \<and>
           (case out of Ret (Inr rt) \<Rightarrow> rt_wf rt \<and> rid rt < next_rid s' \<and> outside rt | Ret (Inl e) \<Rightarrow> True | _ \<Rightarrow> False)) s"
proof -
  have up: "resting (s\<lparr>next_rid := next_rid s + 1\<rparr>)"
    using assms by (simp add: resting_def host_inv_def split: option.splits)
  show ?thesis
    using assms up
    by (auto simp: make_fresh_def ReadConfig_file_def make_runtime_def rt_wf_new outside_def
        split: sum.splits prod.splits)
qed

lemma keeps_Reload:
  assumes s: "resting s" "runtime s = Some rt"
  shows "wp (Reload w (rid rt)) (\<lambda>_ s'. resting s') s"
proof -
  have load: "wp (LoadScripts w (rid rt')) (\<lambda>_ s'. resting s') s'"
    if "runtime s' = Some rt'" "resting s'" for s' rt'
  proof -
    have "good outside (rid rt') (LoadScripts w (rid rt'))"
      by (rule good_LoadScripts) simp
    then have "wp (LoadScripts w (rid rt')) (\<lambda>_ s''. resting s'' \<and> step_ok s' s'') s'"
      by (rule wp_resting [OF _ that(2,1) refl])
    then show ?thesis
      by (rule wp_mono) simp
  qed
  show ?thesis
    unfolding Reload_def wp_bind using wp_make_fresh [OF s(1)]
    by (rule wp_mono)
       (use s in \<open>auto simp: ReportException_def wp_take_down resting_Some rt_wf_def outside_def idle_def
          intro!: load split: outcome.splits sum.splits\<close>)
qed

lemma keeps_reload_at_end:
  "keeps (bind Live (\<lambda>live. with_live live () (\<lambda>r.
      bind (get r reload_requested) (\<lambda>requested.
      bind (get r InLuaCall) (\<lambda>busy.
      bind (query shutdown_deferred) (\<lambda>deferred.
        if requested \<and> \<not> busy \<and> \<not> deferred then Reload w r else ret ()))))))"
  unfolding keeps_def
proof (intro allI impI)
  fix s assume s: "resting s"
  show "wp (bind Live (\<lambda>live. with_live live () (\<lambda>r.
      bind (get r reload_requested) (\<lambda>requested.
      bind (get r InLuaCall) (\<lambda>busy.
      bind (query shutdown_deferred) (\<lambda>deferred.
        if requested \<and> \<not> busy \<and> \<not> deferred then Reload w r else ret ())))))) (\<lambda>_ s'. resting s') s"
    using s keeps_Reload [OF s] by (cases "runtime s") (auto simp: Live_def with_live_def)
qed

lemma settles_OnServerFrame: "settles (OnServerFrame w t)"
  unfolding OnServerFrame_def
  by (intro settles_bind keeps_Guarded keeps_at_live good_Frame keeps_AfterCallback nothrow_AfterCallback
        keeps_reload_at_end nothrow_Guarded settles_AfterCallback)

lemma settles_callback: "settles (server_callback w c)"
proof (cases "\<exists>t. c = ServerFrameTick t")
  case True
  then show ?thesis
    by (auto simp: no_answer_def intro!: settles_then_ret settles_OnServerFrame)
next
  case False
  then show ?thesis
    using safe_callback by (simp add: safe_call_def)
qed

lemma settled_callback: "settled s \<Longrightarrow> wp (server_callback w c) (\<lambda>_ s'. settled s') s"
  using settles_callback by (simp add: settles_def settled_def)

lemma settled_callbacks_run: "settled s \<Longrightarrow> wp (callbacks_run w cs) (\<lambda>_ s'. settled s') s"
proof (induction cs arbitrary: s)
  case (Cons c cs)
  show ?case
    using settled_callback [OF Cons.prems, of c] unfolding callbacks_run.simps wp_bind
    by (rule wp_mono) (auto simp: Cons.IH split: outcome.split)
qed simp

lemma nested_callback: "(\<forall>t. c \<noteq> ServerFrameTick t) \<Longrightarrow> good in_lua r (server_callback w c)"
  using safe_callback by (simp add: safe_call_def)

end

section \<open>Initialisation\<close>

text \<open>A computation that changes at most the flags of the C libraries.\<close>

definition only_libs :: "'a host \<Rightarrow> bool" where
  "only_libs m \<longleftrightarrow> (\<forall>s. wp m (\<lambda>_ s'. \<exists>l. s' = s\<lparr>libs := l\<rparr>) s)"

lemma same_libs: "\<exists>l. s = s\<lparr>libs := l\<rparr>"
  by (rule exI [of _ "libs s"]) simp

lemma only_libs_bind: "\<lbrakk>only_libs m; \<And>x. only_libs (k x)\<rbrakk> \<Longrightarrow> only_libs (bind m k)"
  unfolding only_libs_def wp_bind
  by (fastforce elim!: wp_mono split: outcome.split simp: same_libs)

lemma only_libs_init: "only_libs (init_library ok g h name)"
  by (auto simp: only_libs_def init_library_def same_libs)

lemma only_libs_Init: "only_libs (libraries_Init w)"
  unfolding libraries_Init_def
  by (intro only_libs_bind only_libs_init) (auto simp: only_libs_def same_libs)

text \<open>
  What \<^verbatim>\<open>VcmpPluginInit\<close> leaves behind: on failure no callback is set and there is no new
  runtime; on success a new runtime, and the callbacks that the server's struct has.
\<close>

definition init_result_ok :: "PluginCallbacks option \<Rightarrow> State \<Rightarrow> init_result outcome \<Rightarrow> State \<Rightarrow> bool" where
  "init_result_ok cbs_p s out s' \<longleftrightarrow>
     (\<exists>info. out = Ret (0, cbs_p, info) \<and> runtime s' = runtime s) \<or>
     (\<exists>cbs info c. out = Ret (1, Some (install cbs), info) \<and> cbs_p = Some cbs \<and>
        list_all (has_callback cbs) required_callbacks \<and> runtime s = None \<and>
        \<not> shutdown_deferred s' \<and> runtime s' = Some (new_runtime (next_rid s) c) \<and>
        next_rid s' = next_rid s + 1)"

lemma has_callback_set [simp]: "has_callback (c\<lparr>cb_set := fs\<rparr>) = has_callback c"
  by (simp add: has_callback_def fun_eq_iff)

lemma wp_init_runtime:
  assumes "list_all (has_callback cbs) required_callbacks" "runtime s = None"
  shows "wp (init_runtime w funcs cbs info) (\<lambda>out s'. case out of
       Throw e \<Rightarrow> runtime s' = None
     | out \<Rightarrow> init_result_ok (Some cbs) s out s') s"
  using assms
  by (auto simp: init_runtime_def ReadConfig_file_def make_runtime_def init_result_ok_def split: sum.split prod.split)

lemma wp_init_checked:
  assumes "runtime s = None"
  shows "wp (init_checked w funcs cbs info) (init_result_ok (Some cbs) s) s"
proof (cases "list_all (has_callback cbs) required_callbacks")
  case True
  have "wp (init_runtime w funcs cbs (fill_info info)) (\<lambda>out s'. case out of
       Throw e \<Rightarrow> wp (init_failed (0, Some cbs, Some (fill_info info)) e) (init_result_ok (Some cbs) s) s'
     | out \<Rightarrow> init_result_ok (Some cbs) s out s') s"
    using wp_init_runtime [OF True assms]
    by (rule wp_mono)
       (auto simp: init_failed_def ReportException_def libraries_Cleanup_def init_result_ok_def assms split: outcome.splits)
  then show ?thesis
    using True by (simp add: init_checked_def) (erule wp_mono, auto split: outcome.splits)
next
  case False
  then show ?thesis
    using assms by (simp add: init_checked_def libraries_Cleanup_def init_result_ok_def)
qed

lemma init_result_ok_libs [simp]: "init_result_ok cbs_p (s\<lparr>libs := l\<rparr>) = init_result_ok cbs_p s"
  by (simp add: init_result_ok_def fun_eq_iff)

lemma wp_Init: "wp (Init w funcs_p cbs_p info_p) (init_result_ok cbs_p s) s"
proof (cases "runtime s = None \<and> funcs_p \<noteq> None \<and> cbs_p \<noteq> None \<and> info_p \<noteq> None")
  case False
  then show ?thesis
    by (auto simp: Init_def init_result_ok_def split: option.split)
next
  case True
  then obtain funcs cbs info where p: "funcs_p = Some funcs" "cbs_p = Some cbs" "info_p = Some info"
    by blast
  let ?Q = "\<lambda>out s'. case out of Throw e \<Rightarrow> runtime s' = None | out \<Rightarrow> init_result_ok (Some cbs) s out s'"
  have "wp (init_checked w funcs cbs info) ?Q (s\<lparr>libs := l\<rparr>)" for l
  proof -
    have "wp (init_checked w funcs cbs info) (init_result_ok (Some cbs) (s\<lparr>libs := l\<rparr>)) (s\<lparr>libs := l\<rparr>)"
      using True by (intro wp_init_checked) simp
    then show ?thesis
      by (rule wp_mono) (auto simp: init_result_ok_def split: outcome.splits)
  qed
  moreover have "wp (libraries_Init w) (\<lambda>_ s'. \<exists>l. s' = s\<lparr>libs := l\<rparr>) s"
    using only_libs_Init by (simp add: only_libs_def)
  ultimately have "wp (bind (libraries_Init w) (\<lambda>_. init_checked w funcs cbs info)) ?Q s"
    unfolding wp_bind
    by (elim wp_mono [where Q = "\<lambda>_ s'. \<exists>l. s' = s\<lparr>libs := l\<rparr>"], case_tac out) (use True in auto)
  then have "wp (try_catch (bind (libraries_Init w) (\<lambda>_. init_checked w funcs cbs info))
      (init_failed (0, Some cbs, Some info))) (init_result_ok (Some cbs) s) s"
    unfolding wp_try_catch
    by (rule wp_mono, case_tac out)
       (use True in \<open>auto simp: init_failed_def ReportException_def libraries_Cleanup_def init_result_ok_def\<close>)
  then show ?thesis
    using True by (simp add: Init_def p del: wp_try_catch)
qed

lemma settled_Init:
  assumes "runtime s = None"
  shows "wp (Init w f c i) (\<lambda>_ s'. settled s') s"
  using wp_Init
  by (rule wp_mono)
     (use assms in \<open>auto simp: init_result_ok_def settled_def resting_None resting_Some rt_wf_new outside_def
        split: outcome.splits\<close>)

text \<open>The callbacks that are set are those of the struct.\<close>

lemma foldl_write: "foldl write_callback c fs = c\<lparr>cb_set := cb_set c @ fs\<rparr>"
  by (induction fs arbitrary: c) (simp_all add: write_callback_def)

lemma foldl_set: "foldl set_callback c fs = c\<lparr>cb_set := cb_set c @ filter (has_callback c) fs\<rparr>"
  by (induction fs arbitrary: c) (auto simp: set_callback_def write_callback_def)

lemma cb_set_install:
  "cb_set (install c) = cb_set c @ required_callbacks @ filter (has_callback c) optional_callbacks"
  by (simp add: install_def foldl_write foldl_set)

end
