(* ===== verification/Bindings.thy ===== *)
theory Bindings
  imports Plugin
begin

text \<open>
  The bindings that change the state of the runtime: \<^verbatim>\<open>bindings/event.cpp\<close>, \<^verbatim>\<open>timer.cpp\<close>,
  \<^verbatim>\<open>entities.cpp\<close>, \<^verbatim>\<open>bind.cpp\<close>, the helpers of \<^verbatim>\<open>entity_type.hpp\<close> and \<^verbatim>\<open>args.hpp\<close>, \<^verbatim>\<open>Server.reload\<close>
  and \<^verbatim>\<open>http.request\<close>. A C++ exception that a binding throws becomes a Lua error there. The
  arguments are the Lua values of the call; a handle's contents stand for the handle.
\<close>

text \<open>A call of a subsystem that returns a result or throws.\<close>

definition on_events :: "nat \<Rightarrow> (EventBus \<Rightarrow> EventBus \<times> 'a res) \<Rightarrow> 'a host" where
  "on_events r f =
     bind (sub r (\<lambda>rt. f (events rt))) (\<lambda>(b, x).
     bind (put_sub r (\<lambda>rt. rt\<lparr>events := b\<rparr>)) (\<lambda>_. of_res x))"

definition on_timers :: "nat \<Rightarrow> (Scheduler \<Rightarrow> Scheduler \<times> 'a res) \<Rightarrow> 'a host" where
  "on_timers r f =
     bind (sub r (\<lambda>rt. f (sched rt))) (\<lambda>(sc, x).
     bind (put_sub r (\<lambda>rt. rt\<lparr>sched := sc\<rparr>)) (\<lambda>_. of_res x))"

definition on_pool :: "nat \<Rightarrow> EntityKind \<Rightarrow> (EntityPool \<Rightarrow> EntityPool \<times> 'a res) \<Rightarrow> 'a host" where
  "on_pool r k f =
     bind (sub r (\<lambda>rt. f (entities rt k))) (\<lambda>(p, x).
     bind (put_sub r (\<lambda>rt. rt\<lparr>entities := (entities rt)(k := p)\<rparr>)) (\<lambda>_. of_res x))"

definition on_http :: "nat \<Rightarrow> (Http \<Rightarrow> Http \<times> 'a res) \<Rightarrow> 'a host" where
  "on_http r f =
     bind (sub r (\<lambda>rt. f (http rt))) (\<lambda>(h, x).
     bind (put_sub r (\<lambda>rt. rt\<lparr>http := h\<rparr>)) (\<lambda>_. of_res x))"

text \<open>A new Lua object.\<close>

definition new_object :: "objref host" where
  "new_object = bind (query next_obj) (\<lambda>n. bind (change (\<lambda>s. s\<lparr>next_obj := n + 1\<rparr>)) (\<lambda>_. ret n))"

section \<open>Event\<close>

definition RequireEvent :: "EventBus \<Rightarrow> string \<Rightarrow> nat res" where
  "RequireEvent b name =
     (case Find b name of
        None \<Rightarrow> Inl (Invalid_argument (''unknown event '' @ quoted name))
      | Some i \<Rightarrow> Inr i)"

definition Event_bind :: "string \<Rightarrow> lval \<Rightarrow> bool host" where
  "Event_bind name func =
     bind Require_runtime (\<lambda>r.
     bind (sub r events) (\<lambda>b.
     bind (of_res (RequireEvent b name)) (\<lambda>i.
     bind (of_res (RequireFunction func ''Event.bind'' 2)) (\<lambda>f.
       on_events r (\<lambda>b. Event_Bus.Bind b i f)))))"

definition Event_unbind :: "string \<Rightarrow> lval \<Rightarrow> bool host" where
  "Event_unbind name func =
     bind Require_runtime (\<lambda>r.
     bind (sub r events) (\<lambda>b.
     bind (of_res (RequireEvent b name)) (\<lambda>i.
     bind (of_res (RequireFunction func ''Event.unbind'' 2)) (\<lambda>f.
       on_events r (\<lambda>b. Unbind b i f)))))"

definition Event_cancel :: "unit host" where
  "Event_cancel = bind Require_runtime (\<lambda>r. on_events r Cancel)"

definition Event_create :: "string \<Rightarrow> bool host" where
  "Event_create name = bind Require_runtime (\<lambda>r. on_events r (\<lambda>b. map_prod id Inr (Event_Bus.Create b name)))"

definition Event_trigger :: "World \<Rightarrow> string \<Rightarrow> lval list \<Rightarrow> bool host" where
  "Event_trigger w name args =
     bind Require_runtime (\<lambda>r.
     bind (sub r events) (\<lambda>b.
     bind (of_res (RequireEvent b name)) (\<lambda>i.
     bind (Dispatch w r i
             (bind (query (stack_full w)) (\<lambda>full.
                if full then throw (Runtime_error ''Lua stack overflow'') else ret args))) (\<lambda>cancelled.
       ret (\<not> cancelled)))))"

section \<open>Timer\<close>

text \<open>The handle that scripts hold is a userdata with the timer's id; the id stands for it.\<close>

definition Timer_create :: "World \<Rightarrow> (lua_float \<Rightarrow> string) \<Rightarrow> lval \<Rightarrow> lval \<Rightarrow> lval \<Rightarrow> lval list \<Rightarrow> u64 host" where
  "Timer_create w show_float func interval_v repeats_v args =
     bind Require_runtime (\<lambda>r.
     bind (of_res (RequireFunction func ''Timer.create'' 1)) (\<lambda>f.
     bind (of_res (ToInteger show_float ''Timer.create: argument 2 (interval)'' interval_v)) (\<lambda>ms.
     bind (of_res (ToInteger show_float ''Timer.create: argument 3 (repeat count)'' repeats_v)) (\<lambda>n.
     bind (query (clock w)) (\<lambda>now.
     bind (on_timers r (\<lambda>sc. Scheduler.Create now sc f ms n args)) (\<lambda>i.
     bind new_object (\<lambda>handle.
     bind (on_timers r (\<lambda>sc. (SetHandle sc i handle, Inr ()))) (\<lambda>_. ret i))))))))"

definition Timer_destroy :: "u64 \<Rightarrow> bool host" where
  "Timer_destroy i = bind Require_runtime (\<lambda>r. on_timers r (\<lambda>sc. map_prod id Inr (Destroy sc i)))"

definition Timer_active :: "u64 \<Rightarrow> bool host" where
  "Timer_active i = bind Require_runtime (\<lambda>r. sub r (\<lambda>rt. Exists (sched rt) i))"

section \<open>Server.reload and http.request\<close>

definition Server_reload :: "unit host" where
  "Server_reload = bind Require_runtime (\<lambda>r. put r (\<lambda>rt. rt\<lparr>reload_requested := True\<rparr>))"

definition Request_binding ::
  "World \<Rightarrow> LuaConv \<Rightarrow> ltables \<Rightarrow> lua_Debug option \<Rightarrow> lval option \<Rightarrow> lval \<Rightarrow> unit host" where
  "Request_binding w cv tables dbg options_arg callback_arg =
     bind Require_runtime (\<lambda>r. on_http r (\<lambda>h. http_request cv tables dbg (curl w) h options_arg callback_arg))"

section \<open>Entities\<close>

definition RequireBindExists :: "nat \<Rightarrow> int \<Rightarrow> unit host" where
  "RequireBindExists r i =
     bind (query (\<lambda>s. KeyBindExists (api s) i)) (\<lambda>ok.
       if ok then ret ()
       else
         bind (update_pool r EntityKind.Bind (\<lambda>p. Release p i)) (\<lambda>_.
           throw (Runtime_error ''bind no longer exists'')))"

definition CheckLive :: "lua_Debug option \<Rightarrow> EntityKind \<Rightarrow> int \<Rightarrow> lval option \<Rightarrow> (nat \<times> EntityRef) host" where
  "CheckLive dbg k index v =
     bind Require_runtime (\<lambda>r.
       case v of
         Some (LHandle h) \<Rightarrow>
           if eh_kind h \<noteq> k then throw (TypeError dbg index (type_name (Traits k)) v)
           else
             bind (sub r (\<lambda>rt. Require (entities rt k) (eh_id h) (eh_generation h))) (\<lambda>ok.
             bind (of_res ok) (\<lambda>_.
             bind (if k = EntityKind.Bind then RequireBindExists r (eh_id h) else ret ()) (\<lambda>_.
               ret (r, \<lparr>er_id = eh_id h, er_generation = eh_generation h\<rparr>))))
       | _ \<Rightarrow> throw (TypeError dbg index (type_name (Traits k)) v))"

definition IsAlive :: "EntityHandle \<Rightarrow> bool host" where
  "IsAlive h =
     query (\<lambda>s. case runtime s of
        Some rt \<Rightarrow> Usable rt \<and> Valid (entities rt (eh_kind h)) (eh_id h) (eh_generation h)
      | None \<Rightarrow> False)"

definition entity_id_prop :: "lua_Debug option \<Rightarrow> EntityKind \<Rightarrow> lval option \<Rightarrow> int host" where
  "entity_id_prop dbg k v = bind (CheckLive dbg k 1 v) (\<lambda>(_, ref). ret (er_id ref))"

definition entity_data :: "EntityHandle \<Rightarrow> objref host" where
  "entity_data h =
     bind Require_runtime (\<lambda>r.
     bind (query next_obj) (\<lambda>fresh.
     bind (on_pool r (eh_kind h) (\<lambda>p. Data fresh p (eh_id h) (eh_generation h))) (\<lambda>d.
     bind (change (\<lambda>s. s\<lparr>next_obj := next_obj s + 1\<rparr>)) (\<lambda>_. ret d))))"

definition set_entity_data :: "EntityHandle \<Rightarrow> objref \<Rightarrow> unit host" where
  "set_entity_data h d =
     bind Require_runtime (\<lambda>r. on_pool r (eh_kind h) (\<lambda>p. SetData p (eh_id h) (eh_generation h) d))"

definition findByID :: "EntityKind \<Rightarrow> int \<Rightarrow> EntityRef host" where
  "findByID k i = bind Require_runtime (\<lambda>r. sub r (\<lambda>rt. Ref (entities rt k) i))"

definition entity_count :: "EntityKind \<Rightarrow> nat host" where
  "entity_count k = bind Require_runtime (\<lambda>r. sub r (\<lambda>rt. length (AliveIds (entities rt k))))"

text \<open>The table of \<^verbatim>\<open>getActive\<close>: each id with the handle that is pushed for it.\<close>

fun active_loop :: "nat \<Rightarrow> EntityKind \<Rightarrow> int list \<Rightarrow> (int \<times> lval) list host" where
  "active_loop r k [] = ret []"
| "active_loop r k (i # is) =
     bind (sub r (\<lambda>rt. Ref (entities rt k) i)) (\<lambda>ref.
     bind (PushEntity r k ref) (\<lambda>v.
     bind (active_loop r k is) (\<lambda>rest. ret ((i, v) # rest))))"

definition getActive :: "EntityKind \<Rightarrow> (int \<times> lval) list host" where
  "getActive k =
     bind Require_runtime (\<lambda>r.
     bind (sub r (\<lambda>rt. AliveIds (entities rt k))) (\<lambda>ids. active_loop r k ids))"

definition entity_tostring :: "EntityHandle \<Rightarrow> string host" where
  "entity_tostring h =
     bind (IsAlive h) (\<lambda>a.
       ret (type_name (Traits (eh_kind h)) @ ''('' @ show_int (eh_id h)
            @ (if a then [] else '', no longer exists'') @ '')''))"

definition RefOf :: "nat \<Rightarrow> EntityKind \<Rightarrow> int \<Rightarrow> EntityRef host" where
  "RefOf r k i = sub r (\<lambda>rt. Ref (entities rt k) i)"

text \<open>After a \<^verbatim>\<open>Create*\<close> call of the server.\<close>

definition Created :: "lua_Debug option \<Rightarrow> nat \<Rightarrow> EntityKind \<Rightarrow> int \<Rightarrow> EntityRef host" where
  "Created dbg r k i =
     (if i < 0 then
        bind (query (\<lambda>s. case find_GetLastError (api s) of Some e \<Rightarrow> e | None \<Rightarrow> vcmpErrorNone)) (\<lambda>err.
        bind (if err \<noteq> vcmpErrorNone then of_res (Check dbg err) else ret True) (\<lambda>_.
          throw (Runtime_error (quoted (CurrentFunction dbg) @ '' failed: the server refused''))))
      else
        bind (seen_in r k i) (\<lambda>ref.
        bind (update_pool r k (\<lambda>p. MarkCreatedByUs p i)) (\<lambda>_. ret ref)))"

section \<open>Bind\<close>

definition ReadBind :: "ServerApi \<Rightarrow> int \<Rightarrow> (bool \<times> u8 \<times> int \<times> int \<times> int) res" where
  "ReadBind a i =
     (case require_GetKeyBindData a of
        Inl e \<Rightarrow> Inl e
      | Inr f \<Rightarrow> (case f i of (err, d) \<Rightarrow> Inr (err = vcmpErrorNone, d)))"

definition Bind_create :: "lua_Debug option \<Rightarrow> bool \<Rightarrow> int \<Rightarrow> int option \<Rightarrow> int option \<Rightarrow> EntityRef host" where
  "Bind_create dbg on_release key1 key2 key3 =
     bind Require_runtime (\<lambda>r.
     bind (query api) (\<lambda>a.
     bind (of_res (require_GetKeyBindUnusedSlot a)) (\<lambda>slot.
       if slot < 0
       then throw (Runtime_error (quoted (CurrentFunction dbg) @ '' failed: no free key bind slot''))
       else
         bind (of_res (require_RegisterKeyBind a)) (\<lambda>f.
         bind (of_res (Check dbg (f slot (if on_release then 1 else 0) key1
                   (case key2 of Some k \<Rightarrow> k | None \<Rightarrow> 0) (case key3 of Some k \<Rightarrow> k | None \<Rightarrow> 0)))) (\<lambda>ok.
           if ok then Created dbg r EntityKind.Bind slot
           else throw (Runtime_error (quoted (CurrentFunction dbg) @ '' failed: request denied'')))))))"

definition Bind_remove :: "lua_Debug option \<Rightarrow> nat \<Rightarrow> int \<Rightarrow> bool host" where
  "Bind_remove dbg r i =
     bind (query api) (\<lambda>a.
     bind (of_res (require_RemoveKeyBind a)) (\<lambda>f.
       if f i = vcmpErrorNone \<or> f i = vcmpErrorNoSuchEntity
       then bind (update_pool r EntityKind.Bind (\<lambda>p. Release p i)) (\<lambda>_. ret True)
       else of_res (Check dbg (f i))))"

definition Bind_destroy :: "lua_Debug option \<Rightarrow> lval option \<Rightarrow> bool host" where
  "Bind_destroy dbg v =
     bind (CheckLive dbg EntityKind.Bind 1 v) (\<lambda>(r, ref). Bind_remove dbg r (er_id ref))"

text \<open>\<^verbatim>\<open>pool.Tag\<close> throws for an entity that is gone; the ids are live ones here.\<close>

fun tag_loop :: "EntityPool \<Rightarrow> string \<Rightarrow> int list \<Rightarrow> EntityRef res" where
  "tag_loop p t [] = Inr no_ref"
| "tag_loop p t (i # is) =
     (case Tag p (er_id (Ref p i)) (er_generation (Ref p i)) of
        Inl e \<Rightarrow> Inl e
      | Inr t' \<Rightarrow> if t' = t then Inr (Ref p i) else tag_loop p t is)"

definition findByTag :: "string \<Rightarrow> EntityRef host" where
  "findByTag t =
     bind Require_runtime (\<lambda>r.
     bind (sub r (\<lambda>rt. tag_loop (entities rt EntityKind.Bind) t (AliveIds (entities rt EntityKind.Bind)))) of_res)"

fun clear_loop :: "lua_Debug option \<Rightarrow> nat \<Rightarrow> int list \<Rightarrow> unit host" where
  "clear_loop dbg r [] = ret ()"
| "clear_loop dbg r (i # is) =
     bind (sub r (\<lambda>rt. Ref (entities rt EntityKind.Bind) i)) (\<lambda>ref.
     bind (Bind_remove dbg r (er_id ref)) (\<lambda>_. clear_loop dbg r is))"

definition clearAllBinds :: "lua_Debug option \<Rightarrow> unit host" where
  "clearAllBinds dbg =
     bind Require_runtime (\<lambda>r.
     bind (sub r (\<lambda>rt. CreatedByUs (entities rt EntityKind.Bind))) (\<lambda>ids. clear_loop dbg r ids))"

definition Bind_getData :: "lua_Debug option \<Rightarrow> lval option \<Rightarrow> (u8 \<times> int \<times> int \<times> int) host" where
  "Bind_getData dbg v =
     bind (CheckLive dbg EntityKind.Bind 1 v) (\<lambda>(r, ref).
     bind (query (\<lambda>s. ReadBind (api s) (er_id ref))) (\<lambda>d.
     bind (of_res d) (\<lambda>(ok, d).
       if ok then ret d else throw (Runtime_error ''bind no longer exists''))))"

definition Bind_tag :: "lua_Debug option \<Rightarrow> lval option \<Rightarrow> string host" where
  "Bind_tag dbg v =
     bind (CheckLive dbg EntityKind.Bind 1 v) (\<lambda>(r, ref).
     bind (sub r (\<lambda>rt. Tag (entities rt EntityKind.Bind) (er_id ref) (er_generation ref))) of_res)"

definition set_Bind_tag :: "lua_Debug option \<Rightarrow> lval option \<Rightarrow> string \<Rightarrow> unit host" where
  "set_Bind_tag dbg v t =
     bind (CheckLive dbg EntityKind.Bind 1 v) (\<lambda>(r, ref).
       on_pool r EntityKind.Bind (\<lambda>p. SetTag p (er_id ref) (er_generation ref) t))"

end
