(* ===== verification/Binding_Safety.thy ===== *)
theory Binding_Safety
  imports Plugin_Safety Bindings
begin

text \<open>
  The bindings of the theory Bindings keep the invariant: each is an operation in the sense of
  \<open>good\<close>, and with its result pushed to Lua too.
\<close>

text \<open>A reference that a binding returns is pushed as the entity's handle.\<close>

definition push_result :: "EntityKind \<Rightarrow> EntityRef host \<Rightarrow> lval host" where
  "push_result k m =
     bind m (\<lambda>ref.
     bind (query runtime) (\<lambda>rt. case rt of Some rt \<Rightarrow> PushEntity (rid rt) k ref | None \<Rightarrow> ret LNil))"

definition returning :: "('a \<Rightarrow> lval) \<Rightarrow> 'a host \<Rightarrow> lval host" where
  "returning f m = bind m (\<lambda>x. ret (f x))"

section \<open>The bindings keep the invariant\<close>

lemma bind_ret: "bind (ret x) k = k x" and bind_throw: "bind (throw e) k = throw e"
  by (simp_all add: bind_def ret_def throw_def fun_eq_iff)

lemma data_ops_kind [simp]:
  "pool_kind (fst (Data n p i g)) = pool_kind p" "pool_kind (fst (SetData p i g d)) = pool_kind p"
  "pool_kind (fst (SetTag p i g t)) = pool_kind p"
  by (simp_all add: Data_def SetData_def SetTag_def Let_def split: sum.split option.split)

lemma good_Require:
  assumes "good P r (k r)"
  shows "good P r (bind Require_runtime k)"
proof (rule goodI)
  fix s rt
  assume s: "host_inv s" "runtime s = Some rt" "rid rt = r" "P rt"
  then have "wp (k r) (\<lambda>_ s'. step_ok s s') s"
    by (intro goodD [OF assms])
  then show "wp (bind Require_runtime k) (\<lambda>_ s'. step_ok s s') s"
    using s by (auto simp: bind_def Require_runtime_def wp_def step_ok_def)
qed

lemma good_of_res: "good P r (of_res x)"
  by (auto simp: of_res_def good_ret good_throw split: sum.split)

lemma good_apply:
  assumes "\<And>rt. \<lbrakk>rt_wf rt; P rt\<rbrakk> \<Longrightarrow> rt_wf (g (fst (f rt)) rt) \<and> rt_ext rt (g (fst (f rt)) rt)"
  shows "good P r (bind (sub r f) (\<lambda>(x, y). bind (put_sub r (g x)) (\<lambda>_. of_res y)))"
proof (rule goodI)
  fix s rt
  assume s: "host_inv s" "runtime s = Some rt" "rid rt = r" "P rt" "rt_wf rt" "lua_open rt"
  then have "step_ok s (s\<lparr>runtime := Some (g (fst (f rt)) rt)\<rparr>)"
    using assms by (intro step_ok_put) auto
  then show "wp (bind (sub r f) (\<lambda>(x, y). bind (put_sub r (g x)) (\<lambda>_. of_res y))) (\<lambda>_ s'. step_ok s s') s"
    using s by (simp add: case_prod_beta split: sum.split)
qed

lemma rt_wf_events:
  assumes "rt_wf rt" "bus_wf b" "bus_ext (events rt) b"
  shows "rt_wf (rt\<lparr>events := b\<rparr>)" "rt_ext rt (rt\<lparr>events := b\<rparr>)"
  using assms bus_ext_idle [OF assms(3)] by (simp_all add: rt_wf_def rt_ext_def idle_def)

lemma rt_wf_bus: "rt_wf rt \<Longrightarrow> bus_wf (events rt)"
  by (simp add: rt_wf_def)

lemma good_on_events:
  assumes "\<And>b. bus_wf b \<Longrightarrow> bus_wf (fst (f b))" "\<And>b. bus_ext b (fst (f b))"
  shows "good P r (on_events r f)"
  unfolding on_events_def
  by (rule good_apply) (use assms rt_wf_bus in \<open>blast intro: rt_wf_events\<close>)

lemma good_on_timers:
  assumes "\<And>sc. sched_wf sc \<Longrightarrow> sched_wf (fst (f sc)) \<and> sched_ext sc (fst (f sc))"
  shows "good P r (on_timers r f)"
  unfolding on_timers_def
proof (rule good_apply)
  fix rt assume wf: "rt_wf rt"
  let ?rt = "rt\<lparr>sched := fst (f (sched rt))\<rparr>"
  have sc: "sched_wf (fst (f (sched rt)))" "sched_ext (sched rt) (fst (f (sched rt)))"
    using assms [of "sched rt"] wf by (simp_all add: rt_wf_def)
  then have "rt_ext rt ?rt"
    by (simp add: rt_ext_sched)
  then show "rt_wf ?rt \<and> rt_ext rt ?rt"
    using wf sc(1) idle_ext [of rt ?rt] by (simp add: rt_wf_def)
qed

lemma good_on_pool:
  assumes "\<And>p. pool_wf p \<Longrightarrow> pool_wf (fst (f p))" "\<And>p. pool_kind (fst (f p)) = pool_kind p"
  shows "good P r (on_pool r k f)"
  unfolding on_pool_def
  by (rule good_apply)
     (use assms in \<open>auto simp: rt_wf_entities pools_wfD dest!: rt_wf_pools intro!: pools_wf_upd\<close>)

lemma good_on_http:
  assumes "\<And>h. http_wf h \<Longrightarrow> http_wf (fst (f h))"
  shows "good P r (on_http r f)"
  unfolding on_http_def
  by (rule good_apply) (use assms in \<open>auto simp: rt_wf_http rt_wf_def idle_def rt_ext_def\<close>)

lemma good_new_object: "lasting P \<Longrightarrow> good P r new_object"
  unfolding new_object_def by (intro good_bind good_query good_change good_ret) simp_all

lemma good_RequireBindExists: "lasting P \<Longrightarrow> good P r (RequireBindExists r i)"
  unfolding RequireBindExists_def
  by (intro good_bind good_query good_if good_ret good_throw good_update_pool) (simp_all add: pool_wf_Release)

lemma good_CheckLive:
  assumes "\<And>ref. good P r (c (r, ref))" "lasting P"
  shows "good P r (bind (CheckLive dbg k i v) c)"
proof -
  have "good P r (bind (case v of
         Some (LHandle h) \<Rightarrow>
           if eh_kind h \<noteq> k then throw (TypeError dbg i (type_name (Traits k)) v)
           else
             bind (sub r (\<lambda>rt. Require (entities rt k) (eh_id h) (eh_generation h))) (\<lambda>ok.
             bind (of_res ok) (\<lambda>_.
             bind (if k = EntityKind.Bind then RequireBindExists r (eh_id h) else ret ()) (\<lambda>_.
               ret (r, \<lparr>er_id = eh_id h, er_generation = eh_generation h\<rparr>))))
       | _ \<Rightarrow> throw (TypeError dbg i (type_name (Traits k)) v)) c)"
    using assms
    by (auto simp: bind_assoc bind_throw bind_ret good_throw split: option.split lval.split if_split
        intro!: good_bind [of P r "sub r _"] good_bind [of P r "of_res _"] good_bind [of P r "RequireBindExists r _"]
          good_sub good_of_res good_RequireBindExists)
  then show ?thesis
    unfolding CheckLive_def bind_assoc by (rule good_Require)
qed

lemma good_push_result: "\<lbrakk>good P r m; lasting P\<rbrakk> \<Longrightarrow> good P r (push_result k m)"
  unfolding push_result_def
proof (rule good_bind)
  fix ref
  assume "lasting P"
  show "good P r (bind (query runtime) (\<lambda>rt. case rt of Some rt \<Rightarrow> PushEntity (rid rt) k ref | None \<Rightarrow> ret LNil))"
  proof (rule goodI)
    fix s rt
    assume s: "host_inv s" "runtime s = Some rt" "rid rt = r" "P rt"
    then show "wp (bind (query runtime) (\<lambda>rt. case rt of Some rt \<Rightarrow> PushEntity (rid rt) k ref | None \<Rightarrow> ret LNil))
        (\<lambda>_ s'. step_ok s s') s"
      using goodD [OF good_PushEntity [of P r k ref] s] by simp
  qed
qed

lemma good_returning: "\<lbrakk>good P r m; lasting P\<rbrakk> \<Longrightarrow> good P r (returning f m)"
  unfolding returning_def by (intro good_bind good_ret)

lemma good_active_loop: "lasting P \<Longrightarrow> good P r (active_loop r k is)"
  by (induction "is") (auto intro!: good_bind good_ret good_sub good_PushEntity)

lemma good_Created: "lasting P \<Longrightarrow> good P r (Created dbg r k i)"
  unfolding Created_def
  by (intro good_if good_bind good_query good_of_res good_throw good_ret good_seen_in good_update_pool)
     (simp_all add: pool_wf_MarkCreatedByUs)

lemma good_Bind_remove: "lasting P \<Longrightarrow> good P r (Bind_remove dbg r i)"
  unfolding Bind_remove_def
  by (intro good_if good_bind good_query good_of_res good_ret good_update_pool) (simp_all add: pool_wf_Release)

lemma good_clear_loop: "lasting P \<Longrightarrow> good P r (clear_loop dbg r is)"
  by (induction "is") (auto intro!: good_bind good_ret good_sub good_Bind_remove)

lemmas good_parts =
  good_Require good_bind good_sub good_of_res good_ret good_throw good_query good_if good_new_object

lemma good_Event_ops:
  assumes "lasting P"
  shows "good P r (Event_bind name f)" "good P r (Event_unbind name f)"
    "good P r Event_cancel" "good P r (Event_create name)"
  unfolding Event_bind_def Event_unbind_def Event_cancel_def Event_create_def
  by (intro good_parts good_on_events assms;
      simp add: bus_wf_ops bus_ext_ops)+

lemma good_Timer_ops:
  assumes "lasting P"
  shows "good P r (Timer_create w sf f ms n args)" "good P r (Timer_destroy i)" "good P r (Timer_active i)"
  unfolding Timer_create_def Timer_destroy_def Timer_active_def
  by (intro good_parts good_on_timers assms;
      simp add: sched_wf_Create sched_ext_Create sched_wf_SetHandle sched_ext_SetHandle sched_wf_Destroy
        sched_ext_Destroy)+

lemma good_Server_reload: "good P r Server_reload"
  unfolding Server_reload_def
  by (intro good_Require good_put_sub(2)) (simp add: rt_wf_def rt_ext_def idle_def)

lemma http_request_wf: "http_wf h \<Longrightarrow> http_wf (fst (http_request cv ts dbg c h o_arg c_arg))"
  by (simp add: http_request_def Start_wf split: sum.split)

lemma good_Request: "good P r (Request_binding w cv ts dbg o_arg c_arg)"
  unfolding Request_binding_def by (intro good_Require good_on_http http_request_wf)

lemma good_entity_ops:
  assumes "lasting P"
  shows "good P r (entity_data h)" "good P r (set_entity_data h d)" "good P r (IsAlive h)"
    "good P r (findByID k i)" "good P r (entity_count k)" "good P r (getActive k)"
  unfolding entity_data_def set_entity_data_def IsAlive_def findByID_def entity_count_def getActive_def
  by (intro good_parts good_on_pool good_active_loop good_change assms;
      simp add: pool_wf_Data pool_wf_SetData)+

lemma good_Bind_ops:
  assumes "lasting P"
  shows "good P r (Bind_create dbg b k1 k2 k3)" "good P r (Bind_destroy dbg v)" "good P r (findByTag t)"
    "good P r (clearAllBinds dbg)" "good P r (Bind_getData dbg v)" "good P r (Bind_tag dbg v)"
    "good P r (set_Bind_tag dbg v t)"
  unfolding Bind_create_def Bind_destroy_def findByTag_def clearAllBinds_def Bind_getData_def Bind_tag_def
    set_Bind_tag_def
  by (auto intro!: good_CheckLive good_parts good_Created good_Bind_remove good_clear_loop good_on_pool assms
      simp: pool_wf_SetTag case_prod_beta)

lemmas good_bindings =
  good_Event_ops good_Timer_ops good_Server_reload good_Request good_entity_ops good_Bind_ops

end
