(* ===== verification/Server_Api.thy ===== *)
theory Server_Api
  imports Args Chars
begin

text \<open>
  The server functions that the bindings call, as \<^verbatim>\<open>third_party/vcmp/vcmp.h\<close> declares them: the
  name, the position in the struct \<^verbatim>\<open>PluginFuncs\<close> (which gives the offset), the C types of the
  parameters and the C types of what comes back, the return value first unless it is an error
  code, then the out parameters. The functions themselves belong to the server; a call is a
  request that the server answers.

  A parameter that names an entity has the type \<open>Id\<close> with the entity's kind, \<open>OptId\<close> where
  -1 stands for no entity, or \<open>AnyId\<close> where scripts may pass a number of their own. The format of a message and its text are two strings.
\<close>

datatype ctype =
    I32 | U32 | I16 | U16 | U8 | F32 | F64 | Str
  | Id EntityKind | OptId EntityKind | AnyId EntityKind

datatype sval = I int | F lua_float | S string

datatype sfn = Fn (sfn_name: string) (sfn_index: nat) (ins: "ctype list") (outs: "ctype list")

definition sfn_offset :: "sfn \<Rightarrow> u64" where
  "sfn_offset f = 8 + 8 * of_nat (sfn_index f)"

fun c_min :: "ctype \<Rightarrow> int" where
  "c_min I32 = -2147483648" | "c_min I16 = -32768" | "c_min _ = 0"

fun c_max :: "ctype \<Rightarrow> int" where
  "c_max I32 = 2147483647" | "c_max U32 = 4294967295" | "c_max I16 = 32767"
| "c_max U16 = 65535" | "c_max U8 = 255" | "c_max _ = 0"

definition integral :: "ctype \<Rightarrow> bool" where
  "integral t \<longleftrightarrow> t \<in> {I32, U32, I16, U16, U8}"

text \<open>
  A value that a parameter of type \<open>t\<close> takes without conversion, where \<open>ids\<close> are the
  entities known to be alive.
\<close>

fun fits :: "(EntityKind \<times> int) list \<Rightarrow> ctype \<Rightarrow> sval \<Rightarrow> bool" where
  "fits ids (Id k) (I n) = ((k, n) \<in> set ids)"
| "fits ids (OptId k) (I n) = ((k, n) \<in> set ids \<or> n = -1)"
| "fits ids (AnyId k) (I n) = ((k, n) \<in> set ids \<or> -2147483648 \<le> n \<and> n \<le> 2147483647)"
| "fits ids F32 (F x) = True"
| "fits ids F64 (F x) = True"
| "fits ids Str (S x) = True"
| "fits ids I32 (I n) = (-2147483648 \<le> n \<and> n \<le> 2147483647)"
| "fits ids U32 (I n) = (0 \<le> n \<and> n \<le> 4294967295)"
| "fits ids I16 (I n) = (-32768 \<le> n \<and> n \<le> 32767)"
| "fits ids U16 (I n) = (0 \<le> n \<and> n \<le> 65535)"
| "fits ids U8 (I n) = (0 \<le> n \<and> n \<le> 255)"
| "fits ids _ _ = False"

text \<open>What a C function of result type \<open>t\<close> can return: the value taken to the type.\<close>

definition wrap :: "ctype \<Rightarrow> int \<Rightarrow> int" where
  "wrap t n = (n - c_min t) mod (c_max t - c_min t + 1) + c_min t"

fun coerce :: "ctype \<Rightarrow> sval \<Rightarrow> sval" where
  "coerce F32 v = (case v of F x \<Rightarrow> F x | _ \<Rightarrow> F (Fin 0))"
| "coerce F64 v = (case v of F x \<Rightarrow> F x | _ \<Rightarrow> F (Fin 0))"
| "coerce Str v = (case v of S x \<Rightarrow> S x | _ \<Rightarrow> S [])"
| "coerce t v = (case v of I n \<Rightarrow> I (wrap t n) | _ \<Rightarrow> I 0)"

named_theorems server_fn

section \<open>The functions\<close>

definition GetServerSettings :: sfn where [server_fn]:
  "GetServerSettings = Fn ''GetServerSettings'' 1 [] [Str, U32, U32, U32]"
definition SendClientMessage :: sfn where [server_fn]:
  "SendClientMessage = Fn ''SendClientMessage'' 12 [OptId Player, U32, Str, Str] []"
definition SendGameMessage :: sfn where [server_fn]:
  "SendGameMessage = Fn ''SendGameMessage'' 13 [OptId Player, I32, Str, Str] []"
definition SetServerName :: sfn where [server_fn]:
  "SetServerName = Fn ''SetServerName'' 14 [Str] []"
definition GetServerName :: sfn where [server_fn]:
  "GetServerName = Fn ''GetServerName'' 15 [] [Str]"
definition SetMaxPlayers :: sfn where [server_fn]:
  "SetMaxPlayers = Fn ''SetMaxPlayers'' 16 [U32] []"
definition GetMaxPlayers :: sfn where [server_fn]:
  "GetMaxPlayers = Fn ''GetMaxPlayers'' 17 [] [U32]"
definition SetServerPassword :: sfn where [server_fn]:
  "SetServerPassword = Fn ''SetServerPassword'' 18 [Str] []"
definition GetServerPassword :: sfn where [server_fn]:
  "GetServerPassword = Fn ''GetServerPassword'' 19 [] [Str]"
definition SetGameModeText :: sfn where [server_fn]:
  "SetGameModeText = Fn ''SetGameModeText'' 20 [Str] []"
definition GetGameModeText :: sfn where [server_fn]:
  "GetGameModeText = Fn ''GetGameModeText'' 21 [] [Str]"
definition ShutdownServer :: sfn where [server_fn]:
  "ShutdownServer = Fn ''ShutdownServer'' 22 [] []"
definition SetServerOption :: sfn where [server_fn]:
  "SetServerOption = Fn ''SetServerOption'' 23 [I32, U8] []"
definition GetServerOption :: sfn where [server_fn]:
  "GetServerOption = Fn ''GetServerOption'' 24 [I32] [U8]"
definition SetWorldBounds :: sfn where [server_fn]:
  "SetWorldBounds = Fn ''SetWorldBounds'' 25 [F32, F32, F32, F32] []"
definition GetWorldBounds :: sfn where [server_fn]:
  "GetWorldBounds = Fn ''GetWorldBounds'' 26 [] [F32, F32, F32, F32]"
definition SetWastedSettings :: sfn where [server_fn]:
  "SetWastedSettings = Fn ''SetWastedSettings'' 27 [U32, U32, F32, F32, U32, U32, U32] []"
definition GetWastedSettings :: sfn where [server_fn]:
  "GetWastedSettings = Fn ''GetWastedSettings'' 28 [] [U32, U32, F32, F32, U32, U32, U32]"
definition SetTimeRate :: sfn where [server_fn]:
  "SetTimeRate = Fn ''SetTimeRate'' 29 [I32] []"
definition GetTimeRate :: sfn where [server_fn]:
  "GetTimeRate = Fn ''GetTimeRate'' 30 [] [I32]"
definition SetHour :: sfn where [server_fn]:
  "SetHour = Fn ''SetHour'' 31 [I32] []"
definition GetHour :: sfn where [server_fn]:
  "GetHour = Fn ''GetHour'' 32 [] [I32]"
definition SetMinute :: sfn where [server_fn]:
  "SetMinute = Fn ''SetMinute'' 33 [I32] []"
definition GetMinute :: sfn where [server_fn]:
  "GetMinute = Fn ''GetMinute'' 34 [] [I32]"
definition SetWeather :: sfn where [server_fn]:
  "SetWeather = Fn ''SetWeather'' 35 [I32] []"
definition GetWeather :: sfn where [server_fn]:
  "GetWeather = Fn ''GetWeather'' 36 [] [I32]"
definition SetGravity :: sfn where [server_fn]:
  "SetGravity = Fn ''SetGravity'' 37 [F32] []"
definition GetGravity :: sfn where [server_fn]:
  "GetGravity = Fn ''GetGravity'' 38 [] [F32]"
definition SetGameSpeed :: sfn where [server_fn]:
  "SetGameSpeed = Fn ''SetGameSpeed'' 39 [F32] []"
definition GetGameSpeed :: sfn where [server_fn]:
  "GetGameSpeed = Fn ''GetGameSpeed'' 40 [] [F32]"
definition SetWaterLevel :: sfn where [server_fn]:
  "SetWaterLevel = Fn ''SetWaterLevel'' 41 [F32] []"
definition GetWaterLevel :: sfn where [server_fn]:
  "GetWaterLevel = Fn ''GetWaterLevel'' 42 [] [F32]"
definition SetMaximumFlightAltitude :: sfn where [server_fn]:
  "SetMaximumFlightAltitude = Fn ''SetMaximumFlightAltitude'' 43 [F32] []"
definition GetMaximumFlightAltitude :: sfn where [server_fn]:
  "GetMaximumFlightAltitude = Fn ''GetMaximumFlightAltitude'' 44 [] [F32]"
definition SetKillCommandDelay :: sfn where [server_fn]:
  "SetKillCommandDelay = Fn ''SetKillCommandDelay'' 45 [I32] []"
definition GetKillCommandDelay :: sfn where [server_fn]:
  "GetKillCommandDelay = Fn ''GetKillCommandDelay'' 46 [] [I32]"
definition SetVehiclesForcedRespawnHeight :: sfn where [server_fn]:
  "SetVehiclesForcedRespawnHeight = Fn ''SetVehiclesForcedRespawnHeight'' 47 [F32] []"
definition GetVehiclesForcedRespawnHeight :: sfn where [server_fn]:
  "GetVehiclesForcedRespawnHeight = Fn ''GetVehiclesForcedRespawnHeight'' 48 [] [F32]"
definition CreateExplosion :: sfn where [server_fn]:
  "CreateExplosion = Fn ''CreateExplosion'' 49 [I32, I32, F32, F32, F32, OptId Player, U8] []"
definition PlaySound :: sfn where [server_fn]:
  "PlaySound = Fn ''PlaySound'' 50 [I32, I32, F32, F32, F32] []"
definition HideMapObject :: sfn where [server_fn]:
  "HideMapObject = Fn ''HideMapObject'' 51 [I32, I16, I16, I16] []"
definition ShowMapObject :: sfn where [server_fn]:
  "ShowMapObject = Fn ''ShowMapObject'' 52 [I32, I16, I16, I16] []"
definition ShowAllMapObjects :: sfn where [server_fn]:
  "ShowAllMapObjects = Fn ''ShowAllMapObjects'' 53 [] []"
definition SetWeaponDataValue :: sfn where [server_fn]:
  "SetWeaponDataValue = Fn ''SetWeaponDataValue'' 54 [I32, I32, F64] []"
definition GetWeaponDataValue :: sfn where [server_fn]:
  "GetWeaponDataValue = Fn ''GetWeaponDataValue'' 55 [I32, I32] [F64]"
definition ResetWeaponDataValue :: sfn where [server_fn]:
  "ResetWeaponDataValue = Fn ''ResetWeaponDataValue'' 56 [I32, I32] []"
definition IsWeaponDataValueModified :: sfn where [server_fn]:
  "IsWeaponDataValueModified = Fn ''IsWeaponDataValueModified'' 57 [I32, I32] [U8]"
definition ResetWeaponData :: sfn where [server_fn]:
  "ResetWeaponData = Fn ''ResetWeaponData'' 58 [I32] []"
definition ResetAllWeaponData :: sfn where [server_fn]:
  "ResetAllWeaponData = Fn ''ResetAllWeaponData'' 59 [] []"
definition CreateCoordBlip :: sfn where [server_fn]:
  "CreateCoordBlip = Fn ''CreateCoordBlip'' 65 [I32, I32, F32, F32, F32, I32, U32, I32] [I32]"
definition DestroyCoordBlip :: sfn where [server_fn]:
  "DestroyCoordBlip = Fn ''DestroyCoordBlip'' 66 [AnyId Blip] []"
definition GetCoordBlipInfo :: sfn where [server_fn]:
  "GetCoordBlipInfo = Fn ''GetCoordBlipInfo'' 67 [AnyId Blip] [I32, F32, F32, F32, I32, U32, I32]"
definition AddRadioStream :: sfn where [server_fn]:
  "AddRadioStream = Fn ''AddRadioStream'' 68 [I32, Str, Str, U8] []"
definition RemoveRadioStream :: sfn where [server_fn]:
  "RemoveRadioStream = Fn ''RemoveRadioStream'' 69 [I32] []"
definition AddPlayerClass :: sfn where [server_fn]:
  "AddPlayerClass = Fn ''AddPlayerClass'' 70 [I32, U32, I32, F32, F32, F32, F32, I32, I32, I32, I32, I32, I32] [I32]"
definition SetSpawnPlayerPosition :: sfn where [server_fn]:
  "SetSpawnPlayerPosition = Fn ''SetSpawnPlayerPosition'' 71 [F32, F32, F32] []"
definition SetSpawnCameraPosition :: sfn where [server_fn]:
  "SetSpawnCameraPosition = Fn ''SetSpawnCameraPosition'' 72 [F32, F32, F32] []"
definition SetSpawnCameraLookAt :: sfn where [server_fn]:
  "SetSpawnCameraLookAt = Fn ''SetSpawnCameraLookAt'' 73 [F32, F32, F32] []"
definition IsPlayerAdmin :: sfn where [server_fn]:
  "IsPlayerAdmin = Fn ''IsPlayerAdmin'' 74 [Id Player] [U8]"
definition SetPlayerAdmin :: sfn where [server_fn]:
  "SetPlayerAdmin = Fn ''SetPlayerAdmin'' 75 [Id Player, U8] []"
definition GetPlayerIP :: sfn where [server_fn]:
  "GetPlayerIP = Fn ''GetPlayerIP'' 76 [Id Player] [Str]"
definition GetPlayerUID :: sfn where [server_fn]:
  "GetPlayerUID = Fn ''GetPlayerUID'' 77 [Id Player] [Str]"
definition GetPlayerUID2 :: sfn where [server_fn]:
  "GetPlayerUID2 = Fn ''GetPlayerUID2'' 78 [Id Player] [Str]"
definition KickPlayer :: sfn where [server_fn]:
  "KickPlayer = Fn ''KickPlayer'' 79 [Id Player] []"
definition BanPlayer :: sfn where [server_fn]:
  "BanPlayer = Fn ''BanPlayer'' 80 [Id Player] []"
definition BanIP :: sfn where [server_fn]:
  "BanIP = Fn ''BanIP'' 81 [Str] []"
definition UnbanIP :: sfn where [server_fn]:
  "UnbanIP = Fn ''UnbanIP'' 82 [Str] [U8]"
definition IsIPBanned :: sfn where [server_fn]:
  "IsIPBanned = Fn ''IsIPBanned'' 83 [Str] [U8]"
definition GetPlayerIdFromName :: sfn where [server_fn]:
  "GetPlayerIdFromName = Fn ''GetPlayerIdFromName'' 84 [Str] [I32]"
definition IsPlayerConnected :: sfn where [server_fn]:
  "IsPlayerConnected = Fn ''IsPlayerConnected'' 85 [Id Player] [U8]"
definition IsPlayerStreamedForPlayer :: sfn where [server_fn]:
  "IsPlayerStreamedForPlayer = Fn ''IsPlayerStreamedForPlayer'' 86 [Id Player, Id Player] [U8]"
definition GetPlayerKey :: sfn where [server_fn]:
  "GetPlayerKey = Fn ''GetPlayerKey'' 87 [Id Player] [U32]"
definition GetPlayerName :: sfn where [server_fn]:
  "GetPlayerName = Fn ''GetPlayerName'' 88 [Id Player] [Str]"
definition SetPlayerName :: sfn where [server_fn]:
  "SetPlayerName = Fn ''SetPlayerName'' 89 [Id Player, Str] []"
definition GetPlayerState :: sfn where [server_fn]:
  "GetPlayerState = Fn ''GetPlayerState'' 90 [Id Player] [I32]"
definition SetPlayerOption :: sfn where [server_fn]:
  "SetPlayerOption = Fn ''SetPlayerOption'' 91 [Id Player, I32, U8] []"
definition GetPlayerOption :: sfn where [server_fn]:
  "GetPlayerOption = Fn ''GetPlayerOption'' 92 [Id Player, I32] [U8]"
definition SetPlayerWorld :: sfn where [server_fn]:
  "SetPlayerWorld = Fn ''SetPlayerWorld'' 93 [Id Player, I32] []"
definition GetPlayerWorld :: sfn where [server_fn]:
  "GetPlayerWorld = Fn ''GetPlayerWorld'' 94 [Id Player] [I32]"
definition SetPlayerSecondaryWorld :: sfn where [server_fn]:
  "SetPlayerSecondaryWorld = Fn ''SetPlayerSecondaryWorld'' 95 [Id Player, I32] []"
definition GetPlayerSecondaryWorld :: sfn where [server_fn]:
  "GetPlayerSecondaryWorld = Fn ''GetPlayerSecondaryWorld'' 96 [Id Player] [I32]"
definition GetPlayerUniqueWorld :: sfn where [server_fn]:
  "GetPlayerUniqueWorld = Fn ''GetPlayerUniqueWorld'' 97 [Id Player] [I32]"
definition GetPlayerClass :: sfn where [server_fn]:
  "GetPlayerClass = Fn ''GetPlayerClass'' 99 [Id Player] [I32]"
definition SetPlayerTeam :: sfn where [server_fn]:
  "SetPlayerTeam = Fn ''SetPlayerTeam'' 100 [Id Player, I32] []"
definition GetPlayerTeam :: sfn where [server_fn]:
  "GetPlayerTeam = Fn ''GetPlayerTeam'' 101 [Id Player] [I32]"
definition SetPlayerSkin :: sfn where [server_fn]:
  "SetPlayerSkin = Fn ''SetPlayerSkin'' 102 [Id Player, I32] []"
definition GetPlayerSkin :: sfn where [server_fn]:
  "GetPlayerSkin = Fn ''GetPlayerSkin'' 103 [Id Player] [I32]"
definition SetPlayerColour :: sfn where [server_fn]:
  "SetPlayerColour = Fn ''SetPlayerColour'' 104 [Id Player, U32] []"
definition GetPlayerColour :: sfn where [server_fn]:
  "GetPlayerColour = Fn ''GetPlayerColour'' 105 [Id Player] [U32]"
definition IsPlayerSpawned :: sfn where [server_fn]:
  "IsPlayerSpawned = Fn ''IsPlayerSpawned'' 106 [Id Player] [U8]"
definition ForcePlayerSpawn :: sfn where [server_fn]:
  "ForcePlayerSpawn = Fn ''ForcePlayerSpawn'' 107 [Id Player] []"
definition ForcePlayerSelect :: sfn where [server_fn]:
  "ForcePlayerSelect = Fn ''ForcePlayerSelect'' 108 [Id Player] []"
definition IsPlayerTyping :: sfn where [server_fn]:
  "IsPlayerTyping = Fn ''IsPlayerTyping'' 110 [Id Player] [U8]"
definition GivePlayerMoney :: sfn where [server_fn]:
  "GivePlayerMoney = Fn ''GivePlayerMoney'' 111 [Id Player, I32] []"
definition SetPlayerMoney :: sfn where [server_fn]:
  "SetPlayerMoney = Fn ''SetPlayerMoney'' 112 [Id Player, I32] []"
definition GetPlayerMoney :: sfn where [server_fn]:
  "GetPlayerMoney = Fn ''GetPlayerMoney'' 113 [Id Player] [I32]"
definition SetPlayerScore :: sfn where [server_fn]:
  "SetPlayerScore = Fn ''SetPlayerScore'' 114 [Id Player, I32] []"
definition GetPlayerScore :: sfn where [server_fn]:
  "GetPlayerScore = Fn ''GetPlayerScore'' 115 [Id Player] [I32]"
definition SetPlayerWantedLevel :: sfn where [server_fn]:
  "SetPlayerWantedLevel = Fn ''SetPlayerWantedLevel'' 116 [Id Player, I32] []"
definition GetPlayerWantedLevel :: sfn where [server_fn]:
  "GetPlayerWantedLevel = Fn ''GetPlayerWantedLevel'' 117 [Id Player] [I32]"
definition GetPlayerPing :: sfn where [server_fn]:
  "GetPlayerPing = Fn ''GetPlayerPing'' 118 [Id Player] [I32]"
definition GetPlayerFPS :: sfn where [server_fn]:
  "GetPlayerFPS = Fn ''GetPlayerFPS'' 119 [Id Player] [F64]"
definition SetPlayerHealth :: sfn where [server_fn]:
  "SetPlayerHealth = Fn ''SetPlayerHealth'' 120 [Id Player, F32] []"
definition GetPlayerHealth :: sfn where [server_fn]:
  "GetPlayerHealth = Fn ''GetPlayerHealth'' 121 [Id Player] [F32]"
definition SetPlayerArmour :: sfn where [server_fn]:
  "SetPlayerArmour = Fn ''SetPlayerArmour'' 122 [Id Player, F32] []"
definition GetPlayerArmour :: sfn where [server_fn]:
  "GetPlayerArmour = Fn ''GetPlayerArmour'' 123 [Id Player] [F32]"
definition SetPlayerImmunityFlags :: sfn where [server_fn]:
  "SetPlayerImmunityFlags = Fn ''SetPlayerImmunityFlags'' 124 [Id Player, U32] []"
definition GetPlayerImmunityFlags :: sfn where [server_fn]:
  "GetPlayerImmunityFlags = Fn ''GetPlayerImmunityFlags'' 125 [Id Player] [U32]"
definition SetPlayerPosition :: sfn where [server_fn]:
  "SetPlayerPosition = Fn ''SetPlayerPosition'' 126 [Id Player, F32, F32, F32] []"
definition GetPlayerPosition :: sfn where [server_fn]:
  "GetPlayerPosition = Fn ''GetPlayerPosition'' 127 [Id Player] [F32, F32, F32]"
definition SetPlayerSpeed :: sfn where [server_fn]:
  "SetPlayerSpeed = Fn ''SetPlayerSpeed'' 128 [Id Player, F32, F32, F32] []"
definition GetPlayerSpeed :: sfn where [server_fn]:
  "GetPlayerSpeed = Fn ''GetPlayerSpeed'' 129 [Id Player] [F32, F32, F32]"
definition AddPlayerSpeed :: sfn where [server_fn]:
  "AddPlayerSpeed = Fn ''AddPlayerSpeed'' 130 [Id Player, F32, F32, F32] []"
definition SetPlayerHeading :: sfn where [server_fn]:
  "SetPlayerHeading = Fn ''SetPlayerHeading'' 131 [Id Player, F32] []"
definition GetPlayerHeading :: sfn where [server_fn]:
  "GetPlayerHeading = Fn ''GetPlayerHeading'' 132 [Id Player] [F32]"
definition SetPlayerAlpha :: sfn where [server_fn]:
  "SetPlayerAlpha = Fn ''SetPlayerAlpha'' 133 [Id Player, I32, U32] []"
definition GetPlayerAlpha :: sfn where [server_fn]:
  "GetPlayerAlpha = Fn ''GetPlayerAlpha'' 134 [Id Player] [I32]"
definition GetPlayerAimPosition :: sfn where [server_fn]:
  "GetPlayerAimPosition = Fn ''GetPlayerAimPosition'' 135 [Id Player] [F32, F32, F32]"
definition GetPlayerAimDirection :: sfn where [server_fn]:
  "GetPlayerAimDirection = Fn ''GetPlayerAimDirection'' 136 [Id Player] [F32, F32, F32]"
definition IsPlayerOnFire :: sfn where [server_fn]:
  "IsPlayerOnFire = Fn ''IsPlayerOnFire'' 137 [Id Player] [U8]"
definition IsPlayerCrouching :: sfn where [server_fn]:
  "IsPlayerCrouching = Fn ''IsPlayerCrouching'' 138 [Id Player] [U8]"
definition GetPlayerAction :: sfn where [server_fn]:
  "GetPlayerAction = Fn ''GetPlayerAction'' 139 [Id Player] [I32]"
definition GetPlayerGameKeys :: sfn where [server_fn]:
  "GetPlayerGameKeys = Fn ''GetPlayerGameKeys'' 140 [Id Player] [U32]"
definition PutPlayerInVehicle :: sfn where [server_fn]:
  "PutPlayerInVehicle = Fn ''PutPlayerInVehicle'' 141 [Id Player, Id Vehicle, I32, U8, U8] []"
definition RemovePlayerFromVehicle :: sfn where [server_fn]:
  "RemovePlayerFromVehicle = Fn ''RemovePlayerFromVehicle'' 142 [Id Player] []"
definition GetPlayerInVehicleStatus :: sfn where [server_fn]:
  "GetPlayerInVehicleStatus = Fn ''GetPlayerInVehicleStatus'' 143 [Id Player] [I32]"
definition GetPlayerInVehicleSlot :: sfn where [server_fn]:
  "GetPlayerInVehicleSlot = Fn ''GetPlayerInVehicleSlot'' 144 [Id Player] [I32]"
definition GetPlayerVehicleId :: sfn where [server_fn]:
  "GetPlayerVehicleId = Fn ''GetPlayerVehicleId'' 145 [Id Player] [I32]"
definition GivePlayerWeapon :: sfn where [server_fn]:
  "GivePlayerWeapon = Fn ''GivePlayerWeapon'' 146 [Id Player, I32, I32] []"
definition SetPlayerWeapon :: sfn where [server_fn]:
  "SetPlayerWeapon = Fn ''SetPlayerWeapon'' 147 [Id Player, I32, I32] []"
definition GetPlayerWeapon :: sfn where [server_fn]:
  "GetPlayerWeapon = Fn ''GetPlayerWeapon'' 148 [Id Player] [I32]"
definition GetPlayerWeaponAmmo :: sfn where [server_fn]:
  "GetPlayerWeaponAmmo = Fn ''GetPlayerWeaponAmmo'' 149 [Id Player] [I32]"
definition SetPlayerWeaponSlot :: sfn where [server_fn]:
  "SetPlayerWeaponSlot = Fn ''SetPlayerWeaponSlot'' 150 [Id Player, I32] []"
definition GetPlayerWeaponSlot :: sfn where [server_fn]:
  "GetPlayerWeaponSlot = Fn ''GetPlayerWeaponSlot'' 151 [Id Player] [I32]"
definition GetPlayerWeaponAtSlot :: sfn where [server_fn]:
  "GetPlayerWeaponAtSlot = Fn ''GetPlayerWeaponAtSlot'' 152 [Id Player, I32] [I32]"
definition GetPlayerAmmoAtSlot :: sfn where [server_fn]:
  "GetPlayerAmmoAtSlot = Fn ''GetPlayerAmmoAtSlot'' 153 [Id Player, I32] [I32]"
definition RemovePlayerWeapon :: sfn where [server_fn]:
  "RemovePlayerWeapon = Fn ''RemovePlayerWeapon'' 154 [Id Player, I32] []"
definition RemoveAllWeapons :: sfn where [server_fn]:
  "RemoveAllWeapons = Fn ''RemoveAllWeapons'' 155 [Id Player] []"
definition SetCameraPosition :: sfn where [server_fn]:
  "SetCameraPosition = Fn ''SetCameraPosition'' 156 [Id Player, F32, F32, F32, F32, F32, F32] []"
definition RestoreCamera :: sfn where [server_fn]:
  "RestoreCamera = Fn ''RestoreCamera'' 157 [Id Player] []"
definition IsCameraLocked :: sfn where [server_fn]:
  "IsCameraLocked = Fn ''IsCameraLocked'' 158 [Id Player] [U8]"
definition SetPlayerAnimation :: sfn where [server_fn]:
  "SetPlayerAnimation = Fn ''SetPlayerAnimation'' 159 [Id Player, I32, I32] []"
definition GetPlayerStandingOnVehicle :: sfn where [server_fn]:
  "GetPlayerStandingOnVehicle = Fn ''GetPlayerStandingOnVehicle'' 160 [Id Player] [I32]"
definition GetPlayerStandingOnObject :: sfn where [server_fn]:
  "GetPlayerStandingOnObject = Fn ''GetPlayerStandingOnObject'' 161 [Id Player] [I32]"
definition IsPlayerAway :: sfn where [server_fn]:
  "IsPlayerAway = Fn ''IsPlayerAway'' 162 [Id Player] [U8]"
definition GetPlayerSpectateTarget :: sfn where [server_fn]:
  "GetPlayerSpectateTarget = Fn ''GetPlayerSpectateTarget'' 163 [Id Player] [I32]"
definition SetPlayerSpectateTarget :: sfn where [server_fn]:
  "SetPlayerSpectateTarget = Fn ''SetPlayerSpectateTarget'' 164 [Id Player, OptId Player] []"
definition RedirectPlayerToServer :: sfn where [server_fn]:
  "RedirectPlayerToServer = Fn ''RedirectPlayerToServer'' 165 [Id Player, Str, U32, Str, Str, Str] []"
definition CreateVehicle :: sfn where [server_fn]:
  "CreateVehicle = Fn ''CreateVehicle'' 167 [I32, I32, F32, F32, F32, F32, I32, I32] [I32]"
definition DeleteVehicle :: sfn where [server_fn]:
  "DeleteVehicle = Fn ''DeleteVehicle'' 168 [Id Vehicle] []"
definition SetVehicleOption :: sfn where [server_fn]:
  "SetVehicleOption = Fn ''SetVehicleOption'' 169 [Id Vehicle, I32, U8] []"
definition GetVehicleOption :: sfn where [server_fn]:
  "GetVehicleOption = Fn ''GetVehicleOption'' 170 [Id Vehicle, I32] [U8]"
definition IsVehicleStreamedForPlayer :: sfn where [server_fn]:
  "IsVehicleStreamedForPlayer = Fn ''IsVehicleStreamedForPlayer'' 173 [Id Vehicle, Id Player] [U8]"
definition SetVehicleWorld :: sfn where [server_fn]:
  "SetVehicleWorld = Fn ''SetVehicleWorld'' 174 [Id Vehicle, I32] []"
definition GetVehicleWorld :: sfn where [server_fn]:
  "GetVehicleWorld = Fn ''GetVehicleWorld'' 175 [Id Vehicle] [I32]"
definition GetVehicleModel :: sfn where [server_fn]:
  "GetVehicleModel = Fn ''GetVehicleModel'' 176 [Id Vehicle] [I32]"
definition GetVehicleOccupant :: sfn where [server_fn]:
  "GetVehicleOccupant = Fn ''GetVehicleOccupant'' 177 [Id Vehicle, I32] [I32]"
definition RespawnVehicle :: sfn where [server_fn]:
  "RespawnVehicle = Fn ''RespawnVehicle'' 178 [Id Vehicle] []"
definition SetVehicleImmunityFlags :: sfn where [server_fn]:
  "SetVehicleImmunityFlags = Fn ''SetVehicleImmunityFlags'' 179 [Id Vehicle, U32] []"
definition GetVehicleImmunityFlags :: sfn where [server_fn]:
  "GetVehicleImmunityFlags = Fn ''GetVehicleImmunityFlags'' 180 [Id Vehicle] [U32]"
definition ExplodeVehicle :: sfn where [server_fn]:
  "ExplodeVehicle = Fn ''ExplodeVehicle'' 181 [Id Vehicle] []"
definition IsVehicleWrecked :: sfn where [server_fn]:
  "IsVehicleWrecked = Fn ''IsVehicleWrecked'' 182 [Id Vehicle] [U8]"
definition SetVehiclePosition :: sfn where [server_fn]:
  "SetVehiclePosition = Fn ''SetVehiclePosition'' 183 [Id Vehicle, F32, F32, F32, U8] []"
definition GetVehiclePosition :: sfn where [server_fn]:
  "GetVehiclePosition = Fn ''GetVehiclePosition'' 184 [Id Vehicle] [F32, F32, F32]"
definition SetVehicleRotation :: sfn where [server_fn]:
  "SetVehicleRotation = Fn ''SetVehicleRotation'' 185 [Id Vehicle, F32, F32, F32, F32] []"
definition SetVehicleRotationEuler :: sfn where [server_fn]:
  "SetVehicleRotationEuler = Fn ''SetVehicleRotationEuler'' 186 [Id Vehicle, F32, F32, F32] []"
definition GetVehicleRotation :: sfn where [server_fn]:
  "GetVehicleRotation = Fn ''GetVehicleRotation'' 187 [Id Vehicle] [F32, F32, F32, F32]"
definition GetVehicleRotationEuler :: sfn where [server_fn]:
  "GetVehicleRotationEuler = Fn ''GetVehicleRotationEuler'' 188 [Id Vehicle] [F32, F32, F32]"
definition SetVehicleSpeed :: sfn where [server_fn]:
  "SetVehicleSpeed = Fn ''SetVehicleSpeed'' 189 [Id Vehicle, F32, F32, F32, U8, U8] []"
definition GetVehicleSpeed :: sfn where [server_fn]:
  "GetVehicleSpeed = Fn ''GetVehicleSpeed'' 190 [Id Vehicle, U8] [F32, F32, F32]"
definition SetVehicleTurnSpeed :: sfn where [server_fn]:
  "SetVehicleTurnSpeed = Fn ''SetVehicleTurnSpeed'' 191 [Id Vehicle, F32, F32, F32, U8, U8] []"
definition GetVehicleTurnSpeed :: sfn where [server_fn]:
  "GetVehicleTurnSpeed = Fn ''GetVehicleTurnSpeed'' 192 [Id Vehicle, U8] [F32, F32, F32]"
definition SetVehicleSpawnPosition :: sfn where [server_fn]:
  "SetVehicleSpawnPosition = Fn ''SetVehicleSpawnPosition'' 193 [Id Vehicle, F32, F32, F32] []"
definition GetVehicleSpawnPosition :: sfn where [server_fn]:
  "GetVehicleSpawnPosition = Fn ''GetVehicleSpawnPosition'' 194 [Id Vehicle] [F32, F32, F32]"
definition SetVehicleSpawnRotation :: sfn where [server_fn]:
  "SetVehicleSpawnRotation = Fn ''SetVehicleSpawnRotation'' 195 [Id Vehicle, F32, F32, F32, F32] []"
definition SetVehicleSpawnRotationEuler :: sfn where [server_fn]:
  "SetVehicleSpawnRotationEuler = Fn ''SetVehicleSpawnRotationEuler'' 196 [Id Vehicle, F32, F32, F32] []"
definition GetVehicleSpawnRotationEuler :: sfn where [server_fn]:
  "GetVehicleSpawnRotationEuler = Fn ''GetVehicleSpawnRotationEuler'' 198 [Id Vehicle] [F32, F32, F32]"
definition SetVehicleIdleRespawnTimer :: sfn where [server_fn]:
  "SetVehicleIdleRespawnTimer = Fn ''SetVehicleIdleRespawnTimer'' 199 [Id Vehicle, U32] []"
definition GetVehicleIdleRespawnTimer :: sfn where [server_fn]:
  "GetVehicleIdleRespawnTimer = Fn ''GetVehicleIdleRespawnTimer'' 200 [Id Vehicle] [U32]"
definition SetVehicleHealth :: sfn where [server_fn]:
  "SetVehicleHealth = Fn ''SetVehicleHealth'' 201 [Id Vehicle, F32] []"
definition GetVehicleHealth :: sfn where [server_fn]:
  "GetVehicleHealth = Fn ''GetVehicleHealth'' 202 [Id Vehicle] [F32]"
definition SetVehicleColour :: sfn where [server_fn]:
  "SetVehicleColour = Fn ''SetVehicleColour'' 203 [Id Vehicle, I32, I32] []"
definition GetVehicleColour :: sfn where [server_fn]:
  "GetVehicleColour = Fn ''GetVehicleColour'' 204 [Id Vehicle] [I32, I32]"
definition SetVehiclePartStatus :: sfn where [server_fn]:
  "SetVehiclePartStatus = Fn ''SetVehiclePartStatus'' 205 [Id Vehicle, I32, I32] []"
definition GetVehiclePartStatus :: sfn where [server_fn]:
  "GetVehiclePartStatus = Fn ''GetVehiclePartStatus'' 206 [Id Vehicle, I32] [I32]"
definition SetVehicleTyreStatus :: sfn where [server_fn]:
  "SetVehicleTyreStatus = Fn ''SetVehicleTyreStatus'' 207 [Id Vehicle, I32, I32] []"
definition GetVehicleTyreStatus :: sfn where [server_fn]:
  "GetVehicleTyreStatus = Fn ''GetVehicleTyreStatus'' 208 [Id Vehicle, I32] [I32]"
definition SetVehicleDamageData :: sfn where [server_fn]:
  "SetVehicleDamageData = Fn ''SetVehicleDamageData'' 209 [Id Vehicle, U32] []"
definition GetVehicleDamageData :: sfn where [server_fn]:
  "GetVehicleDamageData = Fn ''GetVehicleDamageData'' 210 [Id Vehicle] [U32]"
definition SetVehicleRadio :: sfn where [server_fn]:
  "SetVehicleRadio = Fn ''SetVehicleRadio'' 211 [Id Vehicle, I32] []"
definition GetVehicleRadio :: sfn where [server_fn]:
  "GetVehicleRadio = Fn ''GetVehicleRadio'' 212 [Id Vehicle] [I32]"
definition GetVehicleTurretRotation :: sfn where [server_fn]:
  "GetVehicleTurretRotation = Fn ''GetVehicleTurretRotation'' 213 [Id Vehicle] [F32, F32]"
definition ResetAllVehicleHandlings :: sfn where [server_fn]:
  "ResetAllVehicleHandlings = Fn ''ResetAllVehicleHandlings'' 214 [] []"
definition ExistsHandlingRule :: sfn where [server_fn]:
  "ExistsHandlingRule = Fn ''ExistsHandlingRule'' 215 [I32, I32] [U8]"
definition SetHandlingRule :: sfn where [server_fn]:
  "SetHandlingRule = Fn ''SetHandlingRule'' 216 [I32, I32, F64] []"
definition GetHandlingRule :: sfn where [server_fn]:
  "GetHandlingRule = Fn ''GetHandlingRule'' 217 [I32, I32] [F64]"
definition ResetHandlingRule :: sfn where [server_fn]:
  "ResetHandlingRule = Fn ''ResetHandlingRule'' 218 [I32, I32] []"
definition ResetHandling :: sfn where [server_fn]:
  "ResetHandling = Fn ''ResetHandling'' 219 [I32] []"
definition ExistsInstHandlingRule :: sfn where [server_fn]:
  "ExistsInstHandlingRule = Fn ''ExistsInstHandlingRule'' 220 [Id Vehicle, I32] [U8]"
definition SetInstHandlingRule :: sfn where [server_fn]:
  "SetInstHandlingRule = Fn ''SetInstHandlingRule'' 221 [Id Vehicle, I32, F64] []"
definition GetInstHandlingRule :: sfn where [server_fn]:
  "GetInstHandlingRule = Fn ''GetInstHandlingRule'' 222 [Id Vehicle, I32] [F64]"
definition ResetInstHandlingRule :: sfn where [server_fn]:
  "ResetInstHandlingRule = Fn ''ResetInstHandlingRule'' 223 [Id Vehicle, I32] []"
definition ResetInstHandling :: sfn where [server_fn]:
  "ResetInstHandling = Fn ''ResetInstHandling'' 224 [Id Vehicle] []"
definition CreatePickup :: sfn where [server_fn]:
  "CreatePickup = Fn ''CreatePickup'' 225 [I32, I32, I32, F32, F32, F32, I32, U8] [I32]"
definition DeletePickup :: sfn where [server_fn]:
  "DeletePickup = Fn ''DeletePickup'' 226 [Id Pickup] []"
definition IsPickupStreamedForPlayer :: sfn where [server_fn]:
  "IsPickupStreamedForPlayer = Fn ''IsPickupStreamedForPlayer'' 227 [Id Pickup, Id Player] [U8]"
definition SetPickupWorld :: sfn where [server_fn]:
  "SetPickupWorld = Fn ''SetPickupWorld'' 228 [Id Pickup, I32] []"
definition GetPickupWorld :: sfn where [server_fn]:
  "GetPickupWorld = Fn ''GetPickupWorld'' 229 [Id Pickup] [I32]"
definition SetPickupAlpha :: sfn where [server_fn]:
  "SetPickupAlpha = Fn ''SetPickupAlpha'' 230 [Id Pickup, I32] []"
definition GetPickupAlpha :: sfn where [server_fn]:
  "GetPickupAlpha = Fn ''GetPickupAlpha'' 231 [Id Pickup] [I32]"
definition SetPickupIsAutomatic :: sfn where [server_fn]:
  "SetPickupIsAutomatic = Fn ''SetPickupIsAutomatic'' 232 [Id Pickup, U8] []"
definition IsPickupAutomatic :: sfn where [server_fn]:
  "IsPickupAutomatic = Fn ''IsPickupAutomatic'' 233 [Id Pickup] [U8]"
definition SetPickupAutoTimer :: sfn where [server_fn]:
  "SetPickupAutoTimer = Fn ''SetPickupAutoTimer'' 234 [Id Pickup, U32] []"
definition GetPickupAutoTimer :: sfn where [server_fn]:
  "GetPickupAutoTimer = Fn ''GetPickupAutoTimer'' 235 [Id Pickup] [U32]"
definition RefreshPickup :: sfn where [server_fn]:
  "RefreshPickup = Fn ''RefreshPickup'' 236 [Id Pickup] []"
definition SetPickupPosition :: sfn where [server_fn]:
  "SetPickupPosition = Fn ''SetPickupPosition'' 237 [Id Pickup, F32, F32, F32] []"
definition GetPickupPosition :: sfn where [server_fn]:
  "GetPickupPosition = Fn ''GetPickupPosition'' 238 [Id Pickup] [F32, F32, F32]"
definition GetPickupModel :: sfn where [server_fn]:
  "GetPickupModel = Fn ''GetPickupModel'' 239 [Id Pickup] [I32]"
definition GetPickupQuantity :: sfn where [server_fn]:
  "GetPickupQuantity = Fn ''GetPickupQuantity'' 240 [Id Pickup] [I32]"
definition CreateCheckPoint :: sfn where [server_fn]:
  "CreateCheckPoint = Fn ''CreateCheckPoint'' 241 [OptId Player, I32, U8, F32, F32, F32, I32, I32, I32, I32, F32] [I32]"
definition DeleteCheckPoint :: sfn where [server_fn]:
  "DeleteCheckPoint = Fn ''DeleteCheckPoint'' 242 [Id Checkpoint] []"
definition IsCheckPointStreamedForPlayer :: sfn where [server_fn]:
  "IsCheckPointStreamedForPlayer = Fn ''IsCheckPointStreamedForPlayer'' 243 [Id Checkpoint, Id Player] [U8]"
definition IsCheckPointSphere :: sfn where [server_fn]:
  "IsCheckPointSphere = Fn ''IsCheckPointSphere'' 244 [Id Checkpoint] [U8]"
definition SetCheckPointWorld :: sfn where [server_fn]:
  "SetCheckPointWorld = Fn ''SetCheckPointWorld'' 245 [Id Checkpoint, I32] []"
definition GetCheckPointWorld :: sfn where [server_fn]:
  "GetCheckPointWorld = Fn ''GetCheckPointWorld'' 246 [Id Checkpoint] [I32]"
definition SetCheckPointColour :: sfn where [server_fn]:
  "SetCheckPointColour = Fn ''SetCheckPointColour'' 247 [Id Checkpoint, I32, I32, I32, I32] []"
definition GetCheckPointColour :: sfn where [server_fn]:
  "GetCheckPointColour = Fn ''GetCheckPointColour'' 248 [Id Checkpoint] [I32, I32, I32, I32]"
definition SetCheckPointPosition :: sfn where [server_fn]:
  "SetCheckPointPosition = Fn ''SetCheckPointPosition'' 249 [Id Checkpoint, F32, F32, F32] []"
definition GetCheckPointPosition :: sfn where [server_fn]:
  "GetCheckPointPosition = Fn ''GetCheckPointPosition'' 250 [Id Checkpoint] [F32, F32, F32]"
definition SetCheckPointRadius :: sfn where [server_fn]:
  "SetCheckPointRadius = Fn ''SetCheckPointRadius'' 251 [Id Checkpoint, F32] []"
definition GetCheckPointRadius :: sfn where [server_fn]:
  "GetCheckPointRadius = Fn ''GetCheckPointRadius'' 252 [Id Checkpoint] [F32]"
definition GetCheckPointOwner :: sfn where [server_fn]:
  "GetCheckPointOwner = Fn ''GetCheckPointOwner'' 253 [Id Checkpoint] [I32]"
definition CreateObject :: sfn where [server_fn]:
  "CreateObject = Fn ''CreateObject'' 254 [I32, I32, F32, F32, F32, I32] [I32]"
definition DeleteObject :: sfn where [server_fn]:
  "DeleteObject = Fn ''DeleteObject'' 255 [Id Object] []"
definition IsObjectStreamedForPlayer :: sfn where [server_fn]:
  "IsObjectStreamedForPlayer = Fn ''IsObjectStreamedForPlayer'' 256 [Id Object, Id Player] [U8]"
definition GetObjectModel :: sfn where [server_fn]:
  "GetObjectModel = Fn ''GetObjectModel'' 257 [Id Object] [I32]"
definition SetObjectWorld :: sfn where [server_fn]:
  "SetObjectWorld = Fn ''SetObjectWorld'' 258 [Id Object, I32] []"
definition GetObjectWorld :: sfn where [server_fn]:
  "GetObjectWorld = Fn ''GetObjectWorld'' 259 [Id Object] [I32]"
definition SetObjectAlpha :: sfn where [server_fn]:
  "SetObjectAlpha = Fn ''SetObjectAlpha'' 260 [Id Object, I32, U32] []"
definition GetObjectAlpha :: sfn where [server_fn]:
  "GetObjectAlpha = Fn ''GetObjectAlpha'' 261 [Id Object] [I32]"
definition MoveObjectTo :: sfn where [server_fn]:
  "MoveObjectTo = Fn ''MoveObjectTo'' 262 [Id Object, F32, F32, F32, U32] []"
definition MoveObjectBy :: sfn where [server_fn]:
  "MoveObjectBy = Fn ''MoveObjectBy'' 263 [Id Object, F32, F32, F32, U32] []"
definition SetObjectPosition :: sfn where [server_fn]:
  "SetObjectPosition = Fn ''SetObjectPosition'' 264 [Id Object, F32, F32, F32] []"
definition GetObjectPosition :: sfn where [server_fn]:
  "GetObjectPosition = Fn ''GetObjectPosition'' 265 [Id Object] [F32, F32, F32]"
definition RotateObjectTo :: sfn where [server_fn]:
  "RotateObjectTo = Fn ''RotateObjectTo'' 266 [Id Object, F32, F32, F32, F32, U32] []"
definition RotateObjectToEuler :: sfn where [server_fn]:
  "RotateObjectToEuler = Fn ''RotateObjectToEuler'' 267 [Id Object, F32, F32, F32, U32] []"
definition RotateObjectBy :: sfn where [server_fn]:
  "RotateObjectBy = Fn ''RotateObjectBy'' 268 [Id Object, F32, F32, F32, F32, U32] []"
definition RotateObjectByEuler :: sfn where [server_fn]:
  "RotateObjectByEuler = Fn ''RotateObjectByEuler'' 269 [Id Object, F32, F32, F32, U32] []"
definition GetObjectRotationEuler :: sfn where [server_fn]:
  "GetObjectRotationEuler = Fn ''GetObjectRotationEuler'' 271 [Id Object] [F32, F32, F32]"
definition SetObjectShotReportEnabled :: sfn where [server_fn]:
  "SetObjectShotReportEnabled = Fn ''SetObjectShotReportEnabled'' 272 [Id Object, U8] []"
definition IsObjectShotReportEnabled :: sfn where [server_fn]:
  "IsObjectShotReportEnabled = Fn ''IsObjectShotReportEnabled'' 273 [Id Object] [U8]"
definition SetObjectTouchedReportEnabled :: sfn where [server_fn]:
  "SetObjectTouchedReportEnabled = Fn ''SetObjectTouchedReportEnabled'' 274 [Id Object, U8] []"
definition IsObjectTouchedReportEnabled :: sfn where [server_fn]:
  "IsObjectTouchedReportEnabled = Fn ''IsObjectTouchedReportEnabled'' 275 [Id Object] [U8]"
definition GetPlayerModuleList :: sfn where [server_fn]:
  "GetPlayerModuleList = Fn ''GetPlayerModuleList'' 276 [Id Player] []"
definition SetPickupOption :: sfn where [server_fn]:
  "SetPickupOption = Fn ''SetPickupOption'' 277 [Id Pickup, I32, U8] []"
definition GetPickupOption :: sfn where [server_fn]:
  "GetPickupOption = Fn ''GetPickupOption'' 278 [Id Pickup, I32] [U8]"
definition SetFallTimer :: sfn where [server_fn]:
  "SetFallTimer = Fn ''SetFallTimer'' 279 [U16] []"
definition GetFallTimer :: sfn where [server_fn]:
  "GetFallTimer = Fn ''GetFallTimer'' 280 [] [U16]"
definition SetVehicleLightsData :: sfn where [server_fn]:
  "SetVehicleLightsData = Fn ''SetVehicleLightsData'' 281 [Id Vehicle, U32] []"
definition GetVehicleLightsData :: sfn where [server_fn]:
  "GetVehicleLightsData = Fn ''GetVehicleLightsData'' 282 [Id Vehicle] [U32]"
definition KillPlayer :: sfn where [server_fn]:
  "KillPlayer = Fn ''KillPlayer'' 283 [Id Player] []"
definition SetVehicle3DArrowForPlayer :: sfn where [server_fn]:
  "SetVehicle3DArrowForPlayer = Fn ''SetVehicle3DArrowForPlayer'' 284 [Id Vehicle, Id Player, U8] []"
definition GetVehicle3DArrowForPlayer :: sfn where [server_fn]:
  "GetVehicle3DArrowForPlayer = Fn ''GetVehicle3DArrowForPlayer'' 285 [Id Vehicle, Id Player] [U8]"
definition SetPlayer3DArrowForPlayer :: sfn where [server_fn]:
  "SetPlayer3DArrowForPlayer = Fn ''SetPlayer3DArrowForPlayer'' 286 [Id Player, Id Player, U8] []"
definition GetPlayer3DArrowForPlayer :: sfn where [server_fn]:
  "GetPlayer3DArrowForPlayer = Fn ''GetPlayer3DArrowForPlayer'' 287 [Id Player, Id Player] [U8]"
definition SetPlayerDrunkHandling :: sfn where [server_fn]:
  "SetPlayerDrunkHandling = Fn ''SetPlayerDrunkHandling'' 288 [Id Player, U32] []"
definition GetPlayerDrunkHandling :: sfn where [server_fn]:
  "GetPlayerDrunkHandling = Fn ''GetPlayerDrunkHandling'' 289 [Id Player] [U32]"
definition SetPlayerDrunkVisuals :: sfn where [server_fn]:
  "SetPlayerDrunkVisuals = Fn ''SetPlayerDrunkVisuals'' 290 [Id Player, U8] []"
definition GetPlayerDrunkVisuals :: sfn where [server_fn]:
  "GetPlayerDrunkVisuals = Fn ''GetPlayerDrunkVisuals'' 291 [Id Player] [U8]"
definition InterpolateCameraLookAt :: sfn where [server_fn]:
  "InterpolateCameraLookAt = Fn ''InterpolateCameraLookAt'' 292 [Id Player, F32, F32, F32, U32] []"
definition GetNetworkStatistics :: sfn where [server_fn]:
  "GetNetworkStatistics = Fn ''GetNetworkStatistics'' 293 [Id Player, I32] [F64]"

section \<open>Results have their type\<close>

lemma wrap_range:
  assumes "integral t"
  shows "c_min t \<le> wrap t n \<and> wrap t n \<le> c_max t"
  using assms by (auto simp: wrap_def integral_def)

lemma wrap_same:
  assumes "integral t" "c_min t \<le> n" "n \<le> c_max t"
  shows "wrap t n = n"
  using assms by (auto simp: wrap_def integral_def)

definition plain :: "ctype \<Rightarrow> bool" where
  "plain t \<longleftrightarrow> integral t \<or> t = F32 \<or> t = F64 \<or> t = Str"

text \<open>A value that a function returns or writes: of the declared type.\<close>

definition result_fits :: "ctype \<Rightarrow> sval \<Rightarrow> bool" where
  "result_fits t v \<longleftrightarrow> plain t \<longrightarrow> fits [] t v"

lemma fits_coerce: "plain t \<Longrightarrow> fits ids t (coerce t v)"
  using wrap_range [of t] by (cases t; cases v) (auto simp: plain_def integral_def)

lemma result_fits_coerce: "result_fits t (coerce t v)"
  by (simp add: result_fits_def fits_coerce)

lemma coerce_fits: "\<lbrakk>plain t; fits ids t v\<rbrakk> \<Longrightarrow> coerce t v = v"
  using wrap_same [of t] by (cases t; cases v) (auto simp: plain_def integral_def)

end
