(* ===== verification/Server_Call.thy ===== *)
theory Server_Call
  imports Server_Api
begin

text \<open>
  The bindings of the entity classes and of \<^verbatim>\<open>Server\<close>, \<^verbatim>\<open>Map\<close>, \<^verbatim>\<open>Radio\<close>, \<^verbatim>\<open>Weapon\<close>, \<^verbatim>\<open>Blip\<close> and
  \<^verbatim>\<open>Sound\<close> read their arguments, ask the runtime and the server, and return a value or throw.
  A binding is modelled as a tree: a result, an exception, a question with a continuation
  for the answer, or undefined behaviour (\<open>Crash\<close>). The tree is the binding's behaviour for every server and every state, and
  the theory Scripts runs it in the plugin.

  Questions are \<^verbatim>\<open>Runtime::Require\<close> (the \<^verbatim>\<open>Ctx\<close> parameter), \<^verbatim>\<open>CheckLive\<close>, the look-up of a server
  function (\<^verbatim>\<open>VCMP_FN\<close>), a call of one, the server's last error, and the operations on the
  entity pools. A failing question ends the binding with its exception.
\<close>

section \<open>Trees\<close>

datatype ask =
    Require_ctx
  | Check_live EntityKind int "lval option"
  | Find_fn sfn
  | Call_fn sfn "sval list"
  | Last_error
  | Pool_ref EntityKind int
  | Pool_alive EntityKind
  | Pool_created EntityKind int
  | Pool_release EntityKind int

text \<open>
  The answer of a server function: its error code, and the values of the return value and of
  the variables it was given for its out parameters, after the call.
\<close>

datatype ans =
    Nothing
  | A_ref EntityRef
  | A_ids "int list"
  | A_res vcmpError "sval list"

datatype (plugins del: transfer lifting "quickcheck") 'a bnd =
    Done 'a | Raise cxx | Crash | Ask ask "ans \<Rightarrow> 'a bnd"

primrec tbind :: "'a bnd \<Rightarrow> ('a \<Rightarrow> 'b bnd) \<Rightarrow> 'b bnd" where
  "tbind (Done x) c = c x"
| "tbind (Raise e) c = Raise e"
| "tbind Crash c = Crash"
| "tbind (Ask a k) c = Ask a (\<lambda>x. tbind (k x) c)"

lemma tbind_assoc: "tbind (tbind t c) d = tbind t (\<lambda>x. tbind (c x) d)"
  by (induction t) auto

definition of_result :: "'a res \<Rightarrow> 'a bnd" where
  "of_result x = (case x of Inl e \<Rightarrow> Raise e | Inr y \<Rightarrow> Done y)"

definition require_ctx :: "unit bnd" where
  "require_ctx = Ask Require_ctx (\<lambda>_. Done ())"

definition live :: "EntityKind \<Rightarrow> int \<Rightarrow> lval option \<Rightarrow> EntityRef bnd" where
  "live k index v = Ask (Check_live k index v) (\<lambda>x. Done (case x of A_ref ref \<Rightarrow> ref | _ \<Rightarrow> no_ref))"

definition find_server_fn :: "sfn \<Rightarrow> unit bnd" where
  "find_server_fn f = Ask (Find_fn f) (\<lambda>_. Done ())"

definition server :: "sfn \<Rightarrow> sval list \<Rightarrow> (vcmpError \<times> sval list) bnd" where
  "server f args =
     Ask (Call_fn f args) (\<lambda>x. Done (case x of A_res e vs \<Rightarrow> (e, vs) | _ \<Rightarrow> (vcmpErrorNone, [])))"

text \<open>\<^verbatim>\<open>VCMP_FN(self, field)(...)\<close>: the function is looked up first.\<close>

definition call :: "sfn \<Rightarrow> sval list \<Rightarrow> (vcmpError \<times> sval list) bnd" where
  "call f args = tbind (find_server_fn f) (\<lambda>_. server f args)"

definition last_error :: "vcmpError bnd" where
  "last_error = Ask Last_error (\<lambda>x. Done (case x of A_res e vs \<Rightarrow> e | _ \<Rightarrow> vcmpErrorNone))"

definition pool_ref :: "EntityKind \<Rightarrow> int \<Rightarrow> EntityRef bnd" where
  "pool_ref k i = Ask (Pool_ref k i) (\<lambda>x. Done (case x of A_ref ref \<Rightarrow> ref | _ \<Rightarrow> no_ref))"

definition alive_ids :: "EntityKind \<Rightarrow> int list bnd" where
  "alive_ids k = Ask (Pool_alive k) (\<lambda>x. Done (case x of A_ids is \<Rightarrow> is | _ \<Rightarrow> []))"

definition created :: "EntityKind \<Rightarrow> int \<Rightarrow> EntityRef bnd" where
  "created k i = Ask (Pool_created k i) (\<lambda>x. Done (case x of A_ref ref \<Rightarrow> ref | _ \<Rightarrow> no_ref))"

definition release :: "EntityKind \<Rightarrow> int \<Rightarrow> unit bnd" where
  "release k i = Ask (Pool_release k i) (\<lambda>_. Done ())"

section \<open>The call frame and its arguments\<close>

text \<open>
  The arguments of the running function, from stack index 1 on, the tables they may refer to
  (elements by number, fields by name, raw length), what the debug interface says about the
  call, and the conversions of numbers that Lua and the C++ casts do.
\<close>

record Frame =
  stack :: "lval list"
  elems :: lheap
  raw_fields :: "nat \<Rightarrow> string \<Rightarrow> lval"
  raw_len :: "nat \<Rightarrow> nat"
  f_dbg :: "lua_Debug option"
  i2d :: "int \<Rightarrow> lua_float"
  narrow :: "lua_float \<Rightarrow> lua_float"
  n2s :: "lval \<Rightarrow> string"
  free_slots :: nat    \<comment> \<open>stack slots that may be pushed before the Lua stack overflows\<close>

definition at_index :: "Frame \<Rightarrow> int \<Rightarrow> lval option" where
  "at_index f i = (if 1 \<le> i \<and> i \<le> int (length (stack f)) then Some (stack f ! (nat i - 1)) else None)"

definition is_number :: "lval option \<Rightarrow> bool" where
  "is_number v \<longleftrightarrow> (case v of Some (LInt _) \<Rightarrow> True | Some (LFloat _) \<Rightarrow> True | _ \<Rightarrow> False)"

definition is_table :: "lval option \<Rightarrow> bool" where
  "is_table v \<longleftrightarrow> (case v of Some (LTab _) \<Rightarrow> True | _ \<Rightarrow> False)"

definition table_of :: "lval option \<Rightarrow> nat" where
  "table_of v = (case v of Some (LTab t) \<Rightarrow> t | _ \<Rightarrow> 0)"

text \<open>
  A parameter of a binding: reads at a stack index and says how many slots it uses. \<^verbatim>\<open>Ctx\<close>
  uses none, \<^verbatim>\<open>Vec3\<close> one or three.
\<close>

type_synonym vec = "lua_float \<times> lua_float \<times> lua_float"
type_synonym 'a param = "Frame \<Rightarrow> int \<Rightarrow> (int \<times> 'a) bnd"

definition simple :: "(Frame \<Rightarrow> int \<Rightarrow> lval option \<Rightarrow> 'a res) \<Rightarrow> 'a param" where
  "simple get f i = tbind (of_result (get f i (at_index f i))) (\<lambda>x. Done (1, x))"

definition p_int :: "int_type \<Rightarrow> int param" where
  "p_int T = simple (\<lambda>f. get_Int T (f_dbg f))"

definition get_Double :: "Frame \<Rightarrow> int \<Rightarrow> lval option \<Rightarrow> lua_float res" where
  "get_Double f i v = CheckNumber (i2d f) (f_dbg f) i v"

definition get_Float :: "Frame \<Rightarrow> int \<Rightarrow> lval option \<Rightarrow> lua_float res" where
  "get_Float f i v = map_sum id (narrow f) (CheckNumber (i2d f) (f_dbg f) i v)"

definition p_double :: "lua_float param" where "p_double = simple get_Double"
definition p_float :: "lua_float param" where "p_float = simple get_Float"
definition p_bool :: "bool param" where "p_bool = simple (\<lambda>f. CheckBoolean (f_dbg f))"
definition p_string :: "string param" where "p_string = simple (\<lambda>f. CheckString (n2s f) (f_dbg f))"
definition p_colour :: "int param" where
  "p_colour = simple (\<lambda>f i v. map_sum id uint (CheckColour (f_dbg f) i v))"

definition p_vec3 :: "vec param" where
  "p_vec3 f i =
     (case get_Vec3 (i2d f) (narrow f) (elems f) (f_dbg f) (at_index f) i of
        (n, v) \<Rightarrow> tbind (of_result v) (\<lambda>x. Done (n, x)))"

definition p_opt :: "'a param \<Rightarrow> 'a option param" where
  "p_opt a f i =
     (if noneornil (at_index f i) then Done (1, None)
      else tbind (a f i) (\<lambda>(n, x). Done (n, Some x)))"

definition p_ctx :: "unit param" where
  "p_ctx f i = tbind require_ctx (\<lambda>_. Done (0, ()))"

definition p_live :: "EntityKind \<Rightarrow> int param" where
  "p_live k f i = tbind (live k i (at_index f i)) (\<lambda>ref. Done (1, er_id ref))"

text \<open>The object as it is, without a check (\<^verbatim>\<open>sol::object\<close>).\<close>

definition p_object :: "lval option param" where
  "p_object f i = Done (1, at_index f i)"

text \<open>The body of a binding reads its parameters from left to right.\<close>

type_synonym 'r body = "Frame \<Rightarrow> int \<Rightarrow> 'r bnd"

definition arg :: "'a param \<Rightarrow> ('a \<Rightarrow> 'r body) \<Rightarrow> 'r body" where
  "arg a k f i = tbind (a f i) (\<lambda>(n, x). k x f (i + n))"

definition act :: "(Frame \<Rightarrow> 'r bnd) \<Rightarrow> 'r body" where
  "act t f i = t f"

text \<open>\<^verbatim>\<open>sol::variadic_args\<close>: the rest is read by position, from stack index \<open>first\<close>.\<close>

definition rest :: "(Frame \<Rightarrow> int \<Rightarrow> 'r bnd) \<Rightarrow> 'r body" where
  "rest t f i = t f i"

text \<open>\<^verbatim>\<open>ArgReader\<close>: argument \<open>i\<close> counted from \<open>first\<close>.\<close>

definition index :: "int \<Rightarrow> int \<Rightarrow> int" where
  "index first i = first + i - 1"

definition reader_at :: "Frame \<Rightarrow> int \<Rightarrow> int \<Rightarrow> lval option" where
  "reader_at f first i = at_index f (index first i)"

definition missing :: "Frame \<Rightarrow> int \<Rightarrow> int \<Rightarrow> bool" where
  "missing f first i \<longleftrightarrow> noneornil (reader_at f first i)"

definition arg_count :: "Frame \<Rightarrow> int \<Rightarrow> int" where
  "arg_count f first = int (length (stack f)) - first + 1"

definition value_at :: "'a param \<Rightarrow> Frame \<Rightarrow> int \<Rightarrow> int \<Rightarrow> 'a bnd" where
  "value_at a f first i = tbind (a f (index first i)) (\<lambda>(_, x). Done x)"

definition value_or :: "'a param \<Rightarrow> Frame \<Rightarrow> int \<Rightarrow> int \<Rightarrow> 'a \<Rightarrow> 'a bnd" where
  "value_or a f first i d = (if missing f first i then Done d else value_at a f first i)"

text \<open>\<^verbatim>\<open>Vector(i)\<close>: the vector and the next argument.\<close>

definition Vector :: "Frame \<Rightarrow> int \<Rightarrow> int \<Rightarrow> (vec \<times> int) bnd" where
  "Vector f first i = tbind (p_vec3 f (index first i)) (\<lambda>(n, v). Done (v, i + n))"

definition table_number :: "Frame \<Rightarrow> int \<Rightarrow> nat \<Rightarrow> int \<Rightarrow> lua_float bnd" where
  "table_number f idx t i =
     of_result (map_sum id (narrow f) (TableNumber (i2d f) (elems f) (f_dbg f) idx t i))"

definition table_integer :: "Frame \<Rightarrow> int \<Rightarrow> nat \<Rightarrow> int \<Rightarrow> int \<Rightarrow> int \<Rightarrow> int option \<Rightarrow> int bnd" where
  "table_integer f idx t i lo hi d = of_result (TableInteger (elems f) (f_dbg f) idx t i lo hi d)"

text \<open>\<^verbatim>\<open>TableLength\<close> casts the raw length to int.\<close>

definition TableLength :: "Frame \<Rightarrow> nat \<Rightarrow> int" where
  "TableLength f t = sint (of_nat (raw_len f t) :: 32 word)"

definition RawField :: "Frame \<Rightarrow> nat \<Rightarrow> string \<Rightarrow> lval" where
  "RawField f t key = raw_fields f t key"

text \<open>
  The rotation that a vehicle returns is a table with a quaternion and an euler field; where a
  rotation is expected, such a table stands for the inner one, and so on inwards. \<open>nests\<close> says
  that at most \<open>n\<close> tables follow each other this way.
\<close>

definition inner_rotation :: "Frame \<Rightarrow> nat \<Rightarrow> nat option" where
  "inner_rotation f t =
     (case RawField f t ''quaternion'' of
        LTab q \<Rightarrow> Some q
      | _ \<Rightarrow> (case RawField f t ''euler'' of LTab e \<Rightarrow> Some e | _ \<Rightarrow> None))"

primrec nests :: "Frame \<Rightarrow> nat \<Rightarrow> nat \<Rightarrow> bool" where
  "nests f 0 t = False"
| "nests f (Suc n) t = (case inner_rotation f t of None \<Rightarrow> True | Some t' \<Rightarrow> nests f n t')"

definition shallow :: "Frame \<Rightarrow> bool" where
  "shallow f \<longleftrightarrow> list_all (\<lambda>v. case v of LTab t \<Rightarrow> nests f (free_slots f) t | _ \<Rightarrow> True) (stack f)"

section \<open>Results\<close>

text \<open>What a binding returns to Lua; a reference is pushed as the entity's handle or nil.\<close>

datatype bres =
    R_none | R_nil | R_bool bool | R_int int | R_num lua_float | R_str string | R_vec vec
  | R_ref EntityKind EntityRef
  | R_table "(lval \<times> bres) list"
  | R_pair bres bres

definition out :: "nat \<Rightarrow> sval list \<Rightarrow> sval" where
  "out n vs = (if n < length vs then vs ! n else I 0)"

fun int_of :: "sval \<Rightarrow> int" where "int_of (I n) = n" | "int_of _ = 0"
fun float_of :: "sval \<Rightarrow> lua_float" where "float_of (F x) = x" | "float_of _ = Fin 0"
fun text_of :: "sval \<Rightarrow> string" where "text_of (S x) = x" | "text_of _ = []"

definition vec_out :: "sval list \<Rightarrow> vec" where
  "vec_out vs = (float_of (out 0 vs), float_of (out 1 vs), float_of (out 2 vs))"

definition vec_args :: "vec \<Rightarrow> sval list" where
  "vec_args v = (case v of (x, y, z) \<Rightarrow> [F x, F y, F z])"

definition flag :: "bool \<Rightarrow> sval" where
  "flag b = I (if b then 1 else 0)"

text \<open>\<^verbatim>\<open>c_str()\<close> of a string argument.\<close>

definition text_arg :: "string \<Rightarrow> sval" where
  "text_arg s = S (cstr s)"

definition check :: "Frame \<Rightarrow> vcmpError \<Rightarrow> bool bnd" where
  "check f e = of_result (Check (f_dbg f) e)"

text \<open>\<^verbatim>\<open>CheckLast\<close>: a server without GetLastError counts as one that reports no error.\<close>

definition check_last :: "Frame \<Rightarrow> bool bnd" where
  "check_last f = tbind last_error (check f)"

definition checked :: "Frame \<Rightarrow> sfn \<Rightarrow> sval list \<Rightarrow> bool bnd" where
  "checked f fn args = tbind (call fn args) (\<lambda>(e, _). check f e)"

text \<open>The usual forms: the result of \<^verbatim>\<open>Check\<close>, nothing after \<^verbatim>\<open>Check\<close>, the value, the flag.\<close>

definition r_check :: "Frame \<Rightarrow> sfn \<Rightarrow> sval list \<Rightarrow> bres bnd" where
  "r_check f fn args = tbind (checked f fn args) (\<lambda>b. Done (R_bool b))"

definition r_unit :: "Frame \<Rightarrow> sfn \<Rightarrow> sval list \<Rightarrow> bres bnd" where
  "r_unit f fn args = tbind (checked f fn args) (\<lambda>_. Done R_none)"

definition r_plain :: "sfn \<Rightarrow> sval list \<Rightarrow> bres bnd" where
  "r_plain fn args = tbind (call fn args) (\<lambda>_. Done R_none)"

definition r_int :: "sfn \<Rightarrow> sval list \<Rightarrow> bres bnd" where
  "r_int fn args = tbind (call fn args) (\<lambda>(_, vs). Done (R_int (int_of (out 0 vs))))"

definition r_num :: "sfn \<Rightarrow> sval list \<Rightarrow> bres bnd" where
  "r_num fn args = tbind (call fn args) (\<lambda>(_, vs). Done (R_num (float_of (out 0 vs))))"

definition r_flag :: "sfn \<Rightarrow> sval list \<Rightarrow> bres bnd" where
  "r_flag fn args = tbind (call fn args) (\<lambda>(_, vs). Done (R_bool (int_of (out 0 vs) \<noteq> 0)))"

text \<open>A getter that reports errors only through \<^verbatim>\<open>GetLastError\<close>.\<close>

definition then_last :: "Frame \<Rightarrow> bres bnd \<Rightarrow> bres bnd" where
  "then_last f t = tbind t (\<lambda>x. tbind (check_last f) (\<lambda>_. Done x))"

definition r_vec :: "Frame \<Rightarrow> sfn \<Rightarrow> sval list \<Rightarrow> bres bnd" where
  "r_vec f fn args =
     tbind (call fn args) (\<lambda>(e, vs). tbind (check f e) (\<lambda>_. Done (R_vec (vec_out vs))))"

text \<open>
  \<^verbatim>\<open>ReadText\<close>: the buffer is cut at its last byte and read to the first NUL; the error
  \<^verbatim>\<open>vcmpErrorBufferTooSmall\<close> counts as success.
\<close>

definition ReadText :: "nat \<Rightarrow> Frame \<Rightarrow> sfn \<Rightarrow> sval list \<Rightarrow> string bnd" where
  "ReadText sz f fn args =
     tbind (server fn args) (\<lambda>(e, vs).
     tbind (if e \<noteq> vcmpErrorBufferTooSmall then check f e else Done True) (\<lambda>_.
       Done (cstr (take (sz - 1) (text_of (out 0 vs))))))"

definition r_text :: "nat \<Rightarrow> Frame \<Rightarrow> sfn \<Rightarrow> sval list \<Rightarrow> bres bnd" where
  "r_text sz f fn args =
     tbind (find_server_fn fn) (\<lambda>_. tbind (ReadText sz f fn args) (\<lambda>s. Done (R_str s)))"

text \<open>\<^verbatim>\<open>RefOf\<close> on the id that the server reports.\<close>

definition r_ref :: "EntityKind \<Rightarrow> sfn \<Rightarrow> sval list \<Rightarrow> bres bnd" where
  "r_ref k fn args =
     tbind (call fn args) (\<lambda>(_, vs). tbind (pool_ref k (int_of (out 0 vs))) (\<lambda>ref. Done (R_ref k ref)))"

text \<open>After a \<^verbatim>\<open>Create*\<close> call.\<close>

definition r_created :: "EntityKind \<Rightarrow> sfn \<Rightarrow> sval list \<Rightarrow> bres bnd" where
  "r_created k fn args =
     tbind (call fn args) (\<lambda>(_, vs). tbind (created k (int_of (out 0 vs))) (\<lambda>ref. Done (R_ref k ref)))"

text \<open>\<^verbatim>\<open>destroy\<close> of a vehicle, object, pickup or checkpoint.\<close>

definition destroy :: "EntityKind \<Rightarrow> sfn \<Rightarrow> Frame \<Rightarrow> int \<Rightarrow> bres bnd" where
  "destroy k fn f self =
     tbind (checked f fn [I self]) (\<lambda>deleted.
       if deleted then tbind (release k self) (\<lambda>_. Done (R_bool True)) else Done (R_bool False))"

section \<open>Members of a class\<close>

text \<open>
  A class table: functions, and properties with a getter and possibly a setter. A getter sees
  the handle at index 1; a setter finds the value at index 3, and the value is read before
  the handle is checked (\<^verbatim>\<open>Property\<close> in entity\_type.hpp).
\<close>

datatype member =
    Method "bres body"
  | Property "bres body" "bres body option"

definition on_self :: "EntityKind \<Rightarrow> (int \<Rightarrow> bres body) \<Rightarrow> member" where
  "on_self k b = Method (arg (p_live k) b)"

definition static :: "bres body \<Rightarrow> member" where
  "static b = Method (arg p_ctx (\<lambda>_. b))"

definition getter :: "EntityKind \<Rightarrow> (Frame \<Rightarrow> int \<Rightarrow> bres bnd) \<Rightarrow> bres body" where
  "getter k g f i = tbind (live k 1 (at_index f 1)) (\<lambda>ref. g f (er_id ref))"

definition setter :: "EntityKind \<Rightarrow> 'a param \<Rightarrow> (Frame \<Rightarrow> int \<Rightarrow> 'a \<Rightarrow> bres bnd) \<Rightarrow> bres body" where
  "setter k a s f i =
     tbind (a f 3) (\<lambda>(_, v). tbind (live k 1 (at_index f 1)) (\<lambda>ref. s f (er_id ref) v))"

definition read_only :: "EntityKind \<Rightarrow> (Frame \<Rightarrow> int \<Rightarrow> bres bnd) \<Rightarrow> member" where
  "read_only k g = Property (getter k g) None"

definition property ::
  "EntityKind \<Rightarrow> (Frame \<Rightarrow> int \<Rightarrow> bres bnd) \<Rightarrow> 'a param \<Rightarrow> (Frame \<Rightarrow> int \<Rightarrow> 'a \<Rightarrow> bres bnd) \<Rightarrow> member" where
  "property k g a s = Property (getter k g) (Some (setter k a s))"

text \<open>The bodies of a member, and all trees of a class table.\<close>

fun bodies :: "member \<Rightarrow> bres body list" where
  "bodies (Method b) = [b]"
| "bodies (Property g None) = [g]"
| "bodies (Property g (Some s)) = [g, s]"

section \<open>What a binding may ask\<close>

text \<open>
  \<open>held\<close> is what the binding has established so far: nothing, or a usable runtime and the
  entities checked to be alive in this call. A call of the server is allowed with a runtime,
  with exactly the parameters the function has, each of the C type it declares, and with
  entity ids that were checked. \<open>sat Q t held\<close>: whatever the answers are, every question of
  \<open>t\<close> is allowed and a result satisfies \<open>Q\<close>.
\<close>

type_synonym held = "(EntityKind \<times> int) list option"

definition allowed :: "held \<Rightarrow> ask \<Rightarrow> bool" where
  "allowed held a =
     (case a of
        Require_ctx \<Rightarrow> True
      | Check_live k i v \<Rightarrow> True
      | Call_fn f args \<Rightarrow> (case held of None \<Rightarrow> False | Some ids \<Rightarrow> list_all2 (fits ids) (ins f) args)
      | _ \<Rightarrow> held \<noteq> None)"

definition answers :: "ask \<Rightarrow> ans \<Rightarrow> bool" where
  "answers a x =
     (case a of
        Call_fn f args \<Rightarrow> (\<exists>e vs. x = A_res e vs \<and> list_all2 result_fits (outs f) vs)
      | Check_live k i v \<Rightarrow> (\<exists>ref. x = A_ref ref)
      | Pool_ref k i \<Rightarrow> (\<exists>ref. x = A_ref ref \<and> (er_id ref = i \<or> er_id ref = -1))
      | Pool_created k i \<Rightarrow> (\<exists>ref. x = A_ref ref)
      | Pool_alive k \<Rightarrow> (\<exists>is. x = A_ids is)
      | Last_error \<Rightarrow> (\<exists>e. x = A_res e [])
      | _ \<Rightarrow> x = Nothing)"

definition learn :: "ask \<Rightarrow> ans \<Rightarrow> held \<Rightarrow> held" where
  "learn a x held =
     (let ids = (case held of None \<Rightarrow> [] | Some ids \<Rightarrow> ids) in
      case a of
        Require_ctx \<Rightarrow> Some ids
      | Check_live k i v \<Rightarrow> Some (case x of A_ref ref \<Rightarrow> (k, er_id ref) # ids | _ \<Rightarrow> ids)
      | Pool_alive k \<Rightarrow> (case x of A_ids is \<Rightarrow> Some (map (Pair k) is @ ids) | _ \<Rightarrow> held)
      | _ \<Rightarrow> held)"

primrec sat :: "('a \<Rightarrow> held \<Rightarrow> bool) \<Rightarrow> 'a bnd \<Rightarrow> held \<Rightarrow> bool" where
  "sat Q (Done x) = (\<lambda>held. Q x held)"
| "sat Q (Raise e) = (\<lambda>held. True)"
| "sat Q Crash = (\<lambda>held. False)"
| "sat Q (Ask a k) = (\<lambda>held. allowed held a \<and> (\<forall>x. answers a x \<longrightarrow> sat Q (k x) (learn a x held)))"


lemma sat_tbind [simp]: "sat Q (tbind t c) held \<longleftrightarrow> sat (\<lambda>x. sat Q (c x)) t held"
  by (induction t arbitrary: held) auto

lemma sat_mono: "\<lbrakk>sat P t held; \<And>x h. P x h \<Longrightarrow> Q x h\<rbrakk> \<Longrightarrow> sat Q t held"
  by (induction t arbitrary: held) auto

lemma sat_of_result [simp]:
  "sat Q (of_result x) held \<longleftrightarrow> (case x of Inl e \<Rightarrow> True | Inr y \<Rightarrow> Q y held)"
  by (simp add: of_result_def split: sum.split)

definition ids_of :: "held \<Rightarrow> (EntityKind \<times> int) list" where
  "ids_of held = (case held of None \<Rightarrow> [] | Some ids \<Rightarrow> ids)"

lemma ids_of_simps [simp]: "ids_of None = []" "ids_of (Some ids) = ids"
  by (simp_all add: ids_of_def)

lemma sat_questions [simp]:
  "sat Q require_ctx held \<longleftrightarrow> Q () (Some (ids_of held))"
  "sat R (live k i v) held \<longleftrightarrow> (\<forall>ref. R ref (Some ((k, er_id ref) # ids_of held)))"
  "sat Q (find_server_fn f) (Some ids) \<longleftrightarrow> Q () (Some ids)"
  "sat E last_error (Some ids) \<longleftrightarrow> (\<forall>e. E e (Some ids))"
  "sat R (pool_ref k n) (Some ids) \<longleftrightarrow> (\<forall>ref. er_id ref = n \<or> er_id ref = -1 \<longrightarrow> R ref (Some ids))"
  "sat L (alive_ids k) (Some ids) \<longleftrightarrow> (\<forall>is. L is (Some (map (Pair k) is @ ids)))"
  "sat R (created k n) (Some ids) \<longleftrightarrow> (\<forall>ref. R ref (Some ids))"
  "sat Q (release k n) (Some ids) \<longleftrightarrow> Q () (Some ids)"
  by (auto simp: require_ctx_def live_def find_server_fn_def last_error_def pool_ref_def alive_ids_def
      created_def release_def allowed_def answers_def learn_def ids_of_def split: option.split)

lemma sat_server [simp]:
  "sat Q (server f args) (Some ids) \<longleftrightarrow>
     list_all2 (fits ids) (ins f) args \<and> (\<forall>e vs. list_all2 result_fits (outs f) vs \<longrightarrow> Q (e, vs) (Some ids))"
  by (auto simp: server_def allowed_def answers_def learn_def dest: spec [where x = "A_res _ _"])

lemma sat_call [simp]:
  "sat Q (call f args) (Some ids) \<longleftrightarrow>
     list_all2 (fits ids) (ins f) args \<and> (\<forall>e vs. list_all2 result_fits (outs f) vs \<longrightarrow> Q (e, vs) (Some ids))"
  by (simp add: call_def)

section \<open>Parameters and results\<close>

lemma sat_arg [simp]: "sat Q (arg a k f i) held \<longleftrightarrow> sat (\<lambda>p. sat Q (k (snd p) f (i + fst p))) (a f i) held"
  by (simp add: arg_def case_prod_beta)

lemma sat_act [simp]: "sat Q (act t f i) held \<longleftrightarrow> sat Q (t f) held"
  and sat_rest [simp]: "sat Q (rest u f i) held \<longleftrightarrow> sat Q (u f i) held"
  by (simp_all add: act_def rest_def)

lemma sat_simple: "(\<And>v. get f i (at_index f i) = Inr v \<Longrightarrow> Q (1, v) held) \<Longrightarrow> sat Q (simple get f i) held"
  by (simp add: simple_def split: sum.split)

lemma sat_p_live [simp]:
  "sat Q (p_live k f i) held \<longleftrightarrow> (\<forall>ref :: EntityRef. Q (1, er_id ref) (Some ((k, er_id ref) # ids_of held)))"
  and sat_p_ctx [simp]: "sat U (p_ctx f i) held \<longleftrightarrow> U (0, ()) (Some (ids_of held))"
  and sat_p_object [simp]: "sat V (p_object f i) held \<longleftrightarrow> V (1, at_index f i) held"
  by (simp_all add: p_live_def p_ctx_def p_object_def)

lemma sat_p_int:
  "(\<And>n. \<lbrakk>int_min T \<le> n; n \<le> int_max T\<rbrakk> \<Longrightarrow> Q (1, n) held) \<Longrightarrow> sat Q (p_int T f i) held"
  unfolding p_int_def by (rule sat_simple) (simp add: get_Int_def CheckInteger_Inr)

lemma sat_p_colour:
  "(\<And>n. \<lbrakk>0 \<le> n; n \<le> 4294967295\<rbrakk> \<Longrightarrow> Q (1, n) held) \<Longrightarrow> sat Q (p_colour f i) held"
proof -
  assume *: "\<And>n. \<lbrakk>0 \<le> n; n \<le> 4294967295\<rbrakk> \<Longrightarrow> Q (1, n) held"
  have "uint c \<le> 4294967295" for c :: u32
    using uint_range_size [of c] by (simp add: word_size)
  then show ?thesis
    unfolding p_colour_def
    by (intro sat_simple) (auto intro!: * split: sum.splits simp: map_sum_def)
qed

lemma sat_p_any:
  "(\<And>x. FQ (1, x) held) \<Longrightarrow> sat FQ (p_float f i) held"
  "(\<And>x. FQ (1, x) held) \<Longrightarrow> sat FQ (p_double f i) held"
  "(\<And>x. BQ (1, x) held) \<Longrightarrow> sat BQ (p_bool f i) held"
  "(\<And>x. SQ (1, x) held) \<Longrightarrow> sat SQ (p_string f i) held"
  unfolding p_float_def p_double_def p_bool_def p_string_def by (rule sat_simple; simp)+

lemma sat_p_vec3: "(\<And>n x y z. Q (n, (x, y, z)) held) \<Longrightarrow> sat Q (p_vec3 f i) held"
  by (simp add: p_vec3_def split: sum.split prod.split)

lemma sat_p_opt:
  "\<lbrakk>Q (1, None) held; sat (\<lambda>p. Q (fst p, Some (snd p))) (a f i) held\<rbrakk> \<Longrightarrow> sat Q (p_opt a f i) held"
  by (simp add: p_opt_def case_prod_beta)

lemma sat_reader [simp]:
  "sat Q (value_at a f first i) held \<longleftrightarrow> sat (\<lambda>p. Q (snd p)) (a f (index first i)) held"
  "sat Q (value_or a f first i d) held \<longleftrightarrow>
     (if missing f first i then Q d held else sat (\<lambda>p. Q (snd p)) (a f (index first i)) held)"
  "sat R (Vector f first i) held \<longleftrightarrow> sat (\<lambda>p. R (snd p, i + fst p)) (p_vec3 f (index first i)) held"
  by (simp_all add: value_at_def value_or_def Vector_def case_prod_beta)

lemma sat_table_number: "(\<And>x. Q x held) \<Longrightarrow> sat Q (table_number f idx t i) held"
  by (simp add: table_number_def split: sum.split)

lemma TableInteger_range:
  "\<lbrakk>TableInteger h dbg idx t i lo hi d = Inr n; \<And>m. d = Some m \<Longrightarrow> lo \<le> m \<and> m \<le> hi\<rbrakk> \<Longrightarrow> lo \<le> n \<and> n \<le> hi"
  by (auto simp: TableInteger_def element_in_range_def split: lval.splits option.splits if_splits)

lemma sat_table_integer:
  "\<lbrakk>\<And>m. d = Some m \<Longrightarrow> lo \<le> m \<and> m \<le> hi; \<And>n. \<lbrakk>lo \<le> n; n \<le> hi\<rbrakk> \<Longrightarrow> Q n held\<rbrakk>
     \<Longrightarrow> sat Q (table_integer f idx t i lo hi d) held"
  using TableInteger_range [of "elems f" "f_dbg f" idx t i lo hi d]
  by (auto simp: table_integer_def split: sum.split)

lemmas sat_params = sat_p_int sat_p_colour sat_p_any sat_p_vec3 sat_p_opt sat_table_number sat_table_integer

lemma sat_check: "(\<And>b. Q b (Some ids)) \<Longrightarrow> sat Q (check f e) (Some ids)"
  by (simp add: check_def split: sum.split)

lemma sat_check_last: "(\<And>b. Q b (Some ids)) \<Longrightarrow> sat Q (check_last f) (Some ids)"
  by (simp add: check_last_def sat_check)

lemma sat_checked: "\<lbrakk>list_all2 (fits ids) (ins fn) args; \<And>b. Q b (Some ids)\<rbrakk> \<Longrightarrow> sat Q (checked f fn args) (Some ids)"
  by (simp add: checked_def sat_check)

lemma sat_ReadText: "\<lbrakk>list_all2 (fits ids) (ins fn) args; \<And>s. Q s (Some ids)\<rbrakk> \<Longrightarrow> sat Q (ReadText sz f fn args) (Some ids)"
  by (simp add: ReadText_def sat_check)

abbreviation fine :: "'a bnd \<Rightarrow> held \<Rightarrow> bool" where
  "fine \<equiv> sat (\<lambda>_ _. True)"

lemma sat_results:
  assumes "list_all2 (fits ids) (ins fn) args"
  shows "fine (r_check f fn args) (Some ids)" "fine (r_unit f fn args) (Some ids)"
    "fine (r_plain fn args) (Some ids)" "fine (r_int fn args) (Some ids)" "fine (r_num fn args) (Some ids)"
    "fine (r_flag fn args) (Some ids)" "fine (r_vec f fn args) (Some ids)" "fine (r_text sz f fn args) (Some ids)"
    "fine (r_ref k fn args) (Some ids)" "fine (r_created k fn args) (Some ids)"
  using assms
  by (simp_all add: r_check_def r_unit_def r_plain_def r_int_def r_num_def r_flag_def r_vec_def r_text_def
      r_ref_def r_created_def sat_checked sat_check sat_ReadText)

lemma learn_Some: "\<exists>ids'. learn a x (Some ids) = Some ids'"
  by (cases a; cases x) (auto simp: learn_def)

lemma sat_held: "sat Q t (Some ids) \<Longrightarrow> sat (\<lambda>x h. Q x h \<and> h \<noteq> None) t (Some ids)"
proof (induction t arbitrary: ids)
  case (Ask a k)
  have "sat (\<lambda>x h. Q x h \<and> h \<noteq> None) (k x) (learn a x (Some ids))" if "answers a x" for x
  proof -
    obtain ids' where "learn a x (Some ids) = Some ids'"
      using learn_Some by blast
    moreover from Ask.prems that have "sat Q (k x) (learn a x (Some ids))"
      by simp
    ultimately show ?thesis
      using Ask.IH [OF rangeI] by simp
  qed
  with Ask.prems show ?case
    by simp
qed simp_all

lemma sat_then_last:
  assumes "fine t (Some ids)"
  shows "fine (then_last f t) (Some ids)"
proof -
  have "sat (\<lambda>x h. h \<noteq> None) t (Some ids)"
    using sat_held [OF assms] by simp
  then show ?thesis
    unfolding then_last_def by (auto elim!: sat_mono intro!: sat_check_last)
qed

lemma sat_destroy: "\<lbrakk>list_all2 (fits ids) (ins fn) [I self]\<rbrakk> \<Longrightarrow> fine (destroy k fn f self) (Some ids)"
  unfolding destroy_def by (auto intro!: sat_checked)

lemma sat_getter: "(\<And>ref :: EntityRef. fine (g f (er_id ref)) (Some [(k, er_id ref)])) \<Longrightarrow> fine (getter k g f i) None"
  by (simp add: getter_def)

lemma sat_setter:
  "sat (\<lambda>p h. \<forall>ref :: EntityRef. fine (s f (er_id ref) (snd p)) (Some ((k, er_id ref) # ids_of h))) (a f 3) None
     \<Longrightarrow> fine (setter k a s f i) None"
  unfolding setter_def sat_tbind by (erule sat_mono) (simp add: case_prod_beta)

text \<open>A member of a class whose calls are all allowed, on every frame without too deep rotations.\<close>

definition member_ok :: "member \<Rightarrow> bool" where
  "member_ok m \<longleftrightarrow> (\<forall>b \<in> set (bodies m). \<forall>f i. shallow f \<longrightarrow> fine (b f i) None)"

lemma member_ok_forms:
  "(\<And>f i. shallow f \<Longrightarrow> fine (b f i) None) \<Longrightarrow> member_ok (Method b)"
  "(\<And>f i. shallow f \<Longrightarrow> fine (arg (p_live k) m f i) None) \<Longrightarrow> member_ok (on_self k m)"
  "(\<And>f i. shallow f \<Longrightarrow> fine (b f i) (Some [])) \<Longrightarrow> member_ok (static b)"
  "(\<And>f n. fine (g f n) (Some [(k, n)])) \<Longrightarrow> member_ok (read_only k g)"
  "\<lbrakk>\<And>f n. fine (g f n) (Some [(k, n)]); \<And>f i. shallow f \<Longrightarrow> fine (setter k a s f i) None\<rbrakk>
     \<Longrightarrow> member_ok (property k g a s)"
  by (auto simp: member_ok_def on_self_def static_def read_only_def property_def intro!: sat_getter)

definition class_ok :: "(string \<times> member) list \<Rightarrow> bool" where
  "class_ok ms \<longleftrightarrow> list_all (\<lambda>m. member_ok (snd m)) ms"

lemma class_ok_rules:
  "class_ok []"
  "\<lbrakk>member_ok m; class_ok ms\<rbrakk> \<Longrightarrow> class_ok ((name, m) # ms)"
  "\<lbrakk>class_ok ms; class_ok ns\<rbrakk> \<Longrightarrow> class_ok (ms @ ns)"
  by (simp_all add: class_ok_def)

lemma class_ok_map: "(\<And>x. x \<in> set xs \<Longrightarrow> member_ok (snd (h x))) \<Longrightarrow> class_ok (map h xs)"
  by (simp add: class_ok_def list_all_iff)

lemmas sat_rules = sat_params sat_results sat_then_last sat_destroy sat_setter sat_check sat_checked sat_ReadText

text \<open>Values that came back from the server, by their C type.\<close>

lemma fits_any_cases:
  "fits ids I32 v \<longleftrightarrow> (\<exists>n. v = I n \<and> -2147483648 \<le> n \<and> n \<le> 2147483647)"
  "fits ids U32 v \<longleftrightarrow> (\<exists>n. v = I n \<and> 0 \<le> n \<and> n \<le> 4294967295)"
  "fits ids U8 v \<longleftrightarrow> (\<exists>n. v = I n \<and> 0 \<le> n \<and> n \<le> 255)"
  "fits ids F32 v \<longleftrightarrow> (\<exists>x. v = F x)"
  "fits ids F64 v \<longleftrightarrow> (\<exists>x. v = F x)"
  "fits ids Str v \<longleftrightarrow> (\<exists>x. v = S x)"
  by (cases v; simp)+

lemma result_fits_plain:
  "result_fits I32 v \<longleftrightarrow> fits [] I32 v" "result_fits U32 v \<longleftrightarrow> fits [] U32 v" "result_fits U8 v \<longleftrightarrow> fits [] U8 v"
  "result_fits F32 v \<longleftrightarrow> fits [] F32 v" "result_fits F64 v \<longleftrightarrow> fits [] F64 v" "result_fits Str v \<longleftrightarrow> fits [] Str v"
  by (simp_all add: result_fits_def plain_def integral_def)

lemmas fits_cases = result_fits_plain fits_any_cases

text \<open>The common shapes of getters and setters.\<close>

abbreviation g_int :: "sfn \<Rightarrow> Frame \<Rightarrow> int \<Rightarrow> bres bnd" where "g_int fn \<equiv> \<lambda>f self. r_int fn [I self]"
abbreviation g_num :: "sfn \<Rightarrow> Frame \<Rightarrow> int \<Rightarrow> bres bnd" where "g_num fn \<equiv> \<lambda>f self. r_num fn [I self]"
abbreviation g_flag :: "sfn \<Rightarrow> Frame \<Rightarrow> int \<Rightarrow> bres bnd" where "g_flag fn \<equiv> \<lambda>f self. r_flag fn [I self]"
abbreviation g_vec :: "sfn \<Rightarrow> Frame \<Rightarrow> int \<Rightarrow> bres bnd" where "g_vec fn \<equiv> \<lambda>f self. r_vec f fn [I self]"
abbreviation g_ref :: "EntityKind \<Rightarrow> sfn \<Rightarrow> Frame \<Rightarrow> int \<Rightarrow> bres bnd" where
  "g_ref k fn \<equiv> \<lambda>f self. r_ref k fn [I self]"
abbreviation g_text :: "sfn \<Rightarrow> Frame \<Rightarrow> int \<Rightarrow> bres bnd" where "g_text fn \<equiv> \<lambda>f self. r_text 256 f fn [I self]"
abbreviation s_int :: "sfn \<Rightarrow> Frame \<Rightarrow> int \<Rightarrow> int \<Rightarrow> bres bnd" where
  "s_int fn \<equiv> \<lambda>f self n. r_unit f fn [I self, I n]"
abbreviation s_num :: "sfn \<Rightarrow> Frame \<Rightarrow> int \<Rightarrow> lua_float \<Rightarrow> bres bnd" where
  "s_num fn \<equiv> \<lambda>f self x. r_unit f fn [I self, F x]"
abbreviation s_flag :: "sfn \<Rightarrow> Frame \<Rightarrow> int \<Rightarrow> bool \<Rightarrow> bres bnd" where
  "s_flag fn \<equiv> \<lambda>f self b. r_unit f fn [I self, flag b]"
abbreviation s_vec :: "sfn \<Rightarrow> Frame \<Rightarrow> int \<Rightarrow> vec \<Rightarrow> bres bnd" where
  "s_vec fn \<equiv> \<lambda>f self v. r_unit f fn (I self # vec_args v)"

text \<open>A method without arguments: as a getter, and one whose result is that of \<^verbatim>\<open>Check\<close>.\<close>

abbreviation get_method :: "EntityKind \<Rightarrow> (Frame \<Rightarrow> int \<Rightarrow> bres bnd) \<Rightarrow> member" where
  "get_method k g \<equiv> on_self k (\<lambda>self. act (\<lambda>f. g f self))"
abbreviation check_method :: "EntityKind \<Rightarrow> sfn \<Rightarrow> member" where
  "check_method k fn \<equiv> on_self k (\<lambda>self. act (\<lambda>f. r_check f fn [I self]))"

definition opt_or :: "'a option \<Rightarrow> 'a \<Rightarrow> 'a" where
  "opt_or x d = (case x of Some v \<Rightarrow> v | None \<Rightarrow> d)"

lemma opt_or_simps [simp]: "opt_or None d = d" "opt_or (Some v) d = v"
  by (simp_all add: opt_or_def)

lemma flag_cases [simp]: "fits ids U8 (flag b)"
  by (simp add: flag_def)

lemma vec_args_simps [simp]: "vec_args (x, y, z) = [F x, F y, F z]"
  by (simp add: vec_args_def)

lemma out_simps [simp]: "out 0 (v # vs) = v" "out (Suc n) (v # vs) = out n vs" "out 1 (v # vs) = out 0 vs"
  by (simp_all add: out_def)

lemma text_arg_fits [simp]: "fits ids Str (text_arg s)"
  by (simp add: text_arg_def)

lemma uint_u32 [simp]: "uint (w :: u32) \<le> 4294967295"
  using uint_range_size [of w] by (simp add: word_size)

end
