(* ===== verification/Player_Class.thy ===== *)
theory Player_Class
  imports Server_Call
begin

text \<open>
  The class \<^verbatim>\<open>Player\<close> (\<^verbatim>\<open>src/bindings/player.cpp\<close>): every member that the file adds to the class,
  in the order of the file, in three tables. A message goes to the server with the format
  \<open>%s\<close>, so the text of a script is never read as a format.
\<close>

definition kWhite :: int where "kWhite = 4294967295"

definition percent_s :: sval where "percent_s = S ''%s''"

definition Message :: "Frame \<Rightarrow> int \<Rightarrow> int \<Rightarrow> string \<Rightarrow> bres bnd" where
  "Message f self colour text = r_check f SendClientMessage [I self, I colour, percent_s, text_arg text]"

definition Announce :: "Frame \<Rightarrow> int \<Rightarrow> int \<Rightarrow> string \<Rightarrow> bres bnd" where
  "Announce f self kind text = r_check f SendGameMessage [I self, I kind, percent_s, text_arg text]"

definition Position :: "Frame \<Rightarrow> int \<Rightarrow> vec bnd" where
  "Position f self =
     tbind (call GetPlayerPosition [I self]) (\<lambda>(e, vs). tbind (check f e) (\<lambda>_. Done (vec_out vs)))"

definition PlaySoundAt :: "Frame \<Rightarrow> int \<Rightarrow> int \<Rightarrow> vec \<Rightarrow> bres bnd" where
  "PlaySoundAt f self sound place =
     tbind (call GetPlayerUniqueWorld [I self]) (\<lambda>(_, vs).
       r_check f PlaySound ([out 0 vs, I sound] @ vec_args place))"

primrec each_player :: "(int \<Rightarrow> unit bnd) \<Rightarrow> int list \<Rightarrow> unit bnd" where
  "each_player fn [] = Done ()"
| "each_player fn (i # is) =
     tbind (pool_ref Player i) (\<lambda>ref. tbind (fn (er_id ref)) (\<lambda>_. each_player fn is))"

definition ForEachPlayer :: "(int \<Rightarrow> unit bnd) \<Rightarrow> bres bnd" where
  "ForEachPlayer fn = tbind (alive_ids Player) (\<lambda>ids. tbind (each_player fn ids) (\<lambda>_. Done R_none))"

primrec spawned_rows :: "bool \<Rightarrow> int list \<Rightarrow> (lval \<times> bres) list bnd" where
  "spawned_rows only_spawned [] = Done []"
| "spawned_rows only_spawned (i # is) =
     tbind (if only_spawned then tbind (call IsPlayerSpawned [I i]) (\<lambda>(_, vs). Done (int_of (out 0 vs) = 0))
            else Done False) (\<lambda>skip.
     if skip then spawned_rows only_spawned is
     else tbind (pool_ref Player i) (\<lambda>ref.
          tbind (spawned_rows only_spawned is) (\<lambda>rows. Done ((LInt i, R_ref Player ref) # rows))))"

definition no_position :: vec where "no_position = (NaN, NaN, NaN)"

abbreviation player :: "(int \<Rightarrow> bres body) \<Rightarrow> member" where "player \<equiv> on_self Player"

definition player_functions :: "(string \<times> member) list" where
  "player_functions = [
   (''getActive'', static (arg (p_opt p_bool) (\<lambda>spawned_only. act (\<lambda>f.
      tbind (alive_ids Player) (\<lambda>ids.
      tbind (spawned_rows (opt_or spawned_only False) ids) (\<lambda>rows. Done (R_table rows))))))),
   (''findByName'', static (arg p_string (\<lambda>name. act (\<lambda>f. r_ref Player GetPlayerIdFromName [text_arg name])))),
   (''msgAll'', static (arg p_string (\<lambda>text. arg (p_opt p_colour) (\<lambda>colour. act (\<lambda>f.
      ForEachPlayer (\<lambda>i. tbind (call SendClientMessage [I i, I (opt_or colour kWhite), percent_s, text_arg text])
        (\<lambda>_. Done ()))))))),
   (''announceAll'', static (arg p_string (\<lambda>text. arg (p_opt (p_int Int32)) (\<lambda>kind. act (\<lambda>f.
      ForEachPlayer (\<lambda>i. tbind (call SendGameMessage [I i, I (opt_or kind 0), percent_s, text_arg text])
        (\<lambda>_. Done ()))))))),
   (''msg'', player (\<lambda>self. arg p_string (\<lambda>text. arg (p_opt p_colour) (\<lambda>colour. act (\<lambda>f.
      Message f self (opt_or colour kWhite) text))))),
   (''announce'', player (\<lambda>self. arg p_string (\<lambda>text. arg (p_opt (p_int Int32)) (\<lambda>kind. act (\<lambda>f.
      Announce f self (opt_or kind 0) text))))),
   (''getAlpha'', get_method Player (g_int GetPlayerAlpha)),
   (''setAlpha'', player (\<lambda>self. arg (p_int Int32) (\<lambda>alpha. arg (p_opt (p_int UInt32)) (\<lambda>fade_time. act (\<lambda>f.
      r_check f SetPlayerAlpha [I self, I alpha, I (opt_or fade_time 0)]))))),
   (''getOption'', player (\<lambda>self. arg (p_int Int32) (\<lambda>option. act (\<lambda>f.
      then_last f (r_flag GetPlayerOption [I self, I option]))))),
   (''setOption'', player (\<lambda>self. arg (p_int Int32) (\<lambda>option. arg p_bool (\<lambda>on. act (\<lambda>f.
      r_check f SetPlayerOption [I self, I option, flag on]))))),
   (''isPlayerStreamed'', player (\<lambda>self. arg (p_live Player) (\<lambda>other. act (\<lambda>f.
      r_flag IsPlayerStreamedForPlayer [I self, I other])))),
   (''forceSpawn'', check_method Player ForcePlayerSpawn),
   (''selectClass'', check_method Player ForcePlayerSelect),
   (''playSound'', player (\<lambda>self. arg (p_int Int32) (\<lambda>sound. act (\<lambda>f. PlaySoundAt f self sound no_position)))),
   (''playSound3D'', player (\<lambda>self. arg (p_int Int32) (\<lambda>sound. arg (p_opt p_vec3) (\<lambda>place. act (\<lambda>f.
      case place of Some v \<Rightarrow> PlaySoundAt f self sound v
      | None \<Rightarrow> tbind (Position f self) (\<lambda>v. PlaySoundAt f self sound v)))))),
   (''setWeapon'', player (\<lambda>self. arg (p_int Int32) (\<lambda>weapon. arg (p_int Int32) (\<lambda>ammo. act (\<lambda>f.
      r_check f SetPlayerWeapon [I self, I weapon, I ammo]))))),
   (''giveWeapon'', player (\<lambda>self. arg (p_int Int32) (\<lambda>weapon. arg (p_int Int32) (\<lambda>ammo. act (\<lambda>f.
      r_check f GivePlayerWeapon [I self, I weapon, I ammo]))))),
   (''removeWeapon'', player (\<lambda>self. arg (p_int Int32) (\<lambda>weapon. act (\<lambda>f.
      r_check f RemovePlayerWeapon [I self, I weapon])))),
   (''disarm'', check_method Player RemoveAllWeapons),
   (''getWeaponAtSlot'', player (\<lambda>self. arg (p_int Int32) (\<lambda>slot. act (\<lambda>f.
      then_last f (r_int GetPlayerWeaponAtSlot [I self, I slot]))))),
   (''getAmmoAtSlot'', player (\<lambda>self. arg (p_int Int32) (\<lambda>slot. act (\<lambda>f.
      then_last f (r_int GetPlayerAmmoAtSlot [I self, I slot]))))),
   (''giveMoney'', player (\<lambda>self. arg (p_int Int32) (\<lambda>amount. act (\<lambda>f.
      r_check f GivePlayerMoney [I self, I amount])))),
   (''addSpeed'', player (\<lambda>self. arg p_vec3 (\<lambda>speed. act (\<lambda>f.
      r_check f AddPlayerSpeed (I self # vec_args speed))))),
   (''setVehicle'', player (\<lambda>self. arg (p_live Vehicle) (\<lambda>vehicle. arg (p_opt (p_int Int32)) (\<lambda>slot. act (\<lambda>f.
      r_check f PutPlayerInVehicle [I self, I vehicle, I (opt_or slot 0), I 1, I 1]))))),
   (''eject'', check_method Player RemovePlayerFromVehicle),
   (''redirect'', player (\<lambda>self. arg p_string (\<lambda>ip. arg (p_int UInt32) (\<lambda>port. arg (p_opt p_string) (\<lambda>server_password.
      arg (p_opt p_string) (\<lambda>user_password. act (\<lambda>f.
      tbind (find_server_fn GetPlayerName) (\<lambda>_. tbind (ReadText 256 f GetPlayerName [I self]) (\<lambda>name.
        r_check f RedirectPlayerToServer [I self, text_arg ip, I port, text_arg name,
          text_arg (opt_or server_password []), text_arg (opt_or user_password [])]))))))))),
   (''setCamera'', player (\<lambda>self. arg p_vec3 (\<lambda>position. arg p_vec3 (\<lambda>look_at. act (\<lambda>f.
      r_check f SetCameraPosition (I self # vec_args position @ vec_args look_at)))))),
   (''restoreCamera'', check_method Player RestoreCamera),
   (''interpolateCamLookAt'', player (\<lambda>self. arg p_vec3 (\<lambda>look_at. arg (p_int UInt32) (\<lambda>ms. act (\<lambda>f.
      r_check f InterpolateCameraLookAt ((I self # vec_args look_at) @ [I ms]))))))]"

definition player_actions :: "(string \<times> member) list" where
  "player_actions = [
   (''kick'', player (\<lambda>self. act (\<lambda>f. r_unit f KickPlayer [I self]))),
   (''ban'', player (\<lambda>self. act (\<lambda>f. r_unit f BanPlayer [I self]))),
   (''kill'', check_method Player KillPlayer),
   (''setAnimation'', player (\<lambda>self. arg (p_int Int32) (\<lambda>first. arg (p_opt (p_int Int32)) (\<lambda>second. act (\<lambda>f.
      r_check f SetPlayerAnimation
        [I self, I (if second = None then 0 else first), I (opt_or second first)]))))),
   (''set3DArrowToPlayer'', player (\<lambda>self. arg (p_live Player) (\<lambda>target. arg p_bool (\<lambda>on. act (\<lambda>f.
      r_check f SetPlayer3DArrowForPlayer [I self, I target, flag on]))))),
   (''get3DArrowToPlayer'', player (\<lambda>self. arg (p_live Player) (\<lambda>target. act (\<lambda>f.
      r_flag GetPlayer3DArrowForPlayer [I self, I target])))),
   (''setDrunkHandling'', player (\<lambda>self. arg (p_int UInt32) (\<lambda>level. act (\<lambda>f.
      r_check f SetPlayerDrunkHandling [I self, I level])))),
   (''setDrunkVisuals'', player (\<lambda>self. arg (p_int UInt8) (\<lambda>level. act (\<lambda>f.
      r_check f SetPlayerDrunkVisuals [I self, I level])))),
   (''getNetworkStatistics'', player (\<lambda>self. arg (p_int Int32) (\<lambda>option. act (\<lambda>f.
      then_last f (r_num GetNetworkStatistics [I self, I option]))))),
   (''getModules'', check_method Player GetPlayerModuleList)]"

definition player_methods :: "(string \<times> member) list" where
  "player_methods = player_functions @ player_actions"

text \<open>The values that can be read both by a method and as a property.\<close>

definition player_values :: "(string \<times> string \<times> (Frame \<Rightarrow> int \<Rightarrow> bres bnd)) list" where
  "player_values = [
   (''getIP'', ''ip'', g_text GetPlayerIP), (''getUID'', ''uid'', g_text GetPlayerUID),
   (''getUID2'', ''uid2'', g_text GetPlayerUID2), (''getKey'', ''key'', g_int GetPlayerKey),
   (''getState'', ''state'', g_int GetPlayerState), (''getUniqueWorld'', ''uniqueWorld'', g_int GetPlayerUniqueWorld),
   (''getClass'', ''class'', g_int GetPlayerClass), (''isOnline'', ''online'', g_flag IsPlayerConnected),
   (''isSpawned'', ''spawned'', g_flag IsPlayerSpawned), (''isTyping'', ''typing'', g_flag IsPlayerTyping),
   (''isCrouching'', ''crouching'', g_flag IsPlayerCrouching), (''isAway'', ''away'', g_flag IsPlayerAway),
   (''getPing'', ''ping'', g_int GetPlayerPing), (''getFPS'', ''fps'', g_num GetPlayerFPS)]"

definition player_readers :: "(string \<times> member) list" where
  "player_readers =
     map (\<lambda>(m, p, g). (m, get_method Player g)) player_values
     @ [(''getDrunkHandling'', get_method Player (g_int GetPlayerDrunkHandling)),
        (''getDrunkVisuals'', get_method Player (g_int GetPlayerDrunkVisuals))]
     @ map (\<lambda>(m, p, g). (p, read_only Player g)) player_values
     @ [(''cameraLocked'', read_only Player (g_flag IsCameraLocked)),
        (''onFire'', read_only Player (g_flag IsPlayerOnFire)),
        (''action'', read_only Player (g_int GetPlayerAction)),
        (''gameKeys'', read_only Player (g_int GetPlayerGameKeys)),
        (''weapon'', read_only Player (g_int GetPlayerWeapon)),
        (''ammo'', read_only Player (g_int GetPlayerWeaponAmmo)),
        (''vehicleSlot'', read_only Player (g_int GetPlayerInVehicleSlot)),
        (''vehicleStatus'', read_only Player (g_int GetPlayerInVehicleStatus)),
        (''aimPosition'', read_only Player (g_vec GetPlayerAimPosition)),
        (''aimDirection'', read_only Player (g_vec GetPlayerAimDirection)),
        (''standingOnVehicle'', read_only Player (g_ref Vehicle GetPlayerStandingOnVehicle)),
        (''standingOnObject'', read_only Player (g_ref Object GetPlayerStandingOnObject))]"

definition set_player_vehicle :: "Frame \<Rightarrow> int \<Rightarrow> int option \<Rightarrow> bres bnd" where
  "set_player_vehicle f self vehicle =
     (case vehicle of
        None \<Rightarrow>
          tbind (call GetPlayerVehicleId [I self]) (\<lambda>(_, vs).
            if int_of (out 0 vs) > 0 then r_unit f RemovePlayerFromVehicle [I self] else Done R_none)
      | Some v \<Rightarrow> r_unit f PutPlayerInVehicle [I self, I v, I 0, I 1, I 1])"

definition player_properties :: "(string \<times> member) list" where
  "player_properties = [
   (''admin'', property Player (g_flag IsPlayerAdmin) p_bool (s_flag SetPlayerAdmin)),
   (''world'', property Player (g_int GetPlayerWorld) (p_int Int32) (s_int SetPlayerWorld)),
   (''secondaryWorld'', property Player (g_int GetPlayerSecondaryWorld) (p_int Int32) (s_int SetPlayerSecondaryWorld)),
   (''team'', property Player (g_int GetPlayerTeam) (p_int Int32) (s_int SetPlayerTeam)),
   (''skin'', property Player (g_int GetPlayerSkin) (p_int Int32) (s_int SetPlayerSkin)),
   (''color'', property Player (g_int GetPlayerColour) p_colour (s_int SetPlayerColour)),
   (''cash'', property Player (g_int GetPlayerMoney) (p_int Int32) (s_int SetPlayerMoney)),
   (''score'', property Player (g_int GetPlayerScore) (p_int Int32) (s_int SetPlayerScore)),
   (''wantedLevel'', property Player (g_int GetPlayerWantedLevel) (p_int Int32) (s_int SetPlayerWantedLevel)),
   (''immunity'', property Player (g_int GetPlayerImmunityFlags) (p_int UInt32) (s_int SetPlayerImmunityFlags)),
   (''health'', property Player (g_num GetPlayerHealth) p_float (s_num SetPlayerHealth)),
   (''armour'', property Player (g_num GetPlayerArmour) p_float (s_num SetPlayerArmour)),
   (''name'', property Player (g_text GetPlayerName) p_string
      (\<lambda>f self name. r_unit f SetPlayerName [I self, text_arg name])),
   (''weaponSlot'', property Player (g_int GetPlayerWeaponSlot) (p_int Int32) (s_int SetPlayerWeaponSlot)),
   (''drunkHandling'', property Player (g_int GetPlayerDrunkHandling) (p_int UInt32) (s_int SetPlayerDrunkHandling)),
   (''drunkVisuals'', property Player (g_int GetPlayerDrunkVisuals) (p_int UInt8) (s_int SetPlayerDrunkVisuals)),
   (''vehicle'', property Player (g_ref Vehicle GetPlayerVehicleId) (p_opt (p_live Vehicle)) set_player_vehicle),
   (''spectateTarget'', property Player (g_ref Player GetPlayerSpectateTarget) (p_opt (p_live Player))
      (\<lambda>f self target. r_unit f SetPlayerSpectateTarget [I self, I (opt_or target (-1))])),
   (''position'', property Player (\<lambda>f self. tbind (Position f self) (\<lambda>v. Done (R_vec v))) p_vec3
      (s_vec SetPlayerPosition)),
   (''speed'', property Player (g_vec GetPlayerSpeed) p_vec3 (s_vec SetPlayerSpeed)),
   (''angle'', property Player (g_num GetPlayerHeading) p_float (s_num SetPlayerHeading))]"

section \<open>Every call is allowed\<close>

lemma sat_Position: "\<lbrakk>(Player, self) \<in> set ids; \<And>v. Q v (Some ids)\<rbrakk> \<Longrightarrow> sat Q (Position f self) (Some ids)"
  by (simp add: Position_def server_fn sat_check)

lemma fine_PlaySoundAt:
  "\<lbrakk>(Player, self) \<in> set ids; -2147483648 \<le> sound; sound \<le> 2147483647\<rbrakk>
     \<Longrightarrow> fine (PlaySoundAt f self sound place) (Some ids)"
  by (cases place) (auto simp: PlaySoundAt_def server_fn list_all2_Cons1 fits_cases intro!: sat_results)

lemma sat_each_player:
  assumes "\<And>n. (Player, n) \<in> set ids \<or> n = -1 \<Longrightarrow> sat (\<lambda>_ h. h = Some ids) (fn n) (Some ids)"
  shows "Pair Player ` set is \<subseteq> set ids \<Longrightarrow> sat (\<lambda>_ h. h = Some ids) (each_player fn is) (Some ids)"
proof (induction "is")
  case (Cons i "is")
  have "sat (\<lambda>x h. sat (\<lambda>_ h. h = Some ids) (each_player fn is) h) (fn n) (Some ids)"
    if "n = i \<or> n = -1" for n
    using assms [of n] Cons that by (auto elim!: sat_mono)
  then show ?case
    by simp
qed simp

lemma fine_ForEachPlayer:
  assumes "\<And>n ids. (Player, n) \<in> set ids \<or> n = -1 \<Longrightarrow> sat (\<lambda>_ h. h = Some ids) (fn n) (Some ids)"
  shows "fine (ForEachPlayer fn) (Some ids)"
proof -
  have "sat (\<lambda>_ h. h = Some (map (Pair Player) is @ ids)) (each_player fn is) (Some (map (Pair Player) is @ ids))" for "is"
    using assms by (rule sat_each_player) auto
  then show ?thesis
    unfolding ForEachPlayer_def by (auto intro: sat_mono)
qed

lemma sat_spawned_rows:
  "\<lbrakk>Pair Player ` set is \<subseteq> set ids; \<And>rows. Q rows (Some ids)\<rbrakk> \<Longrightarrow> sat Q (spawned_rows b is) (Some ids)"
  by (induction "is" arbitrary: Q) (auto simp: server_fn)

lemma fine_set_player_vehicle:
  "\<lbrakk>(Player, self) \<in> set ids; \<And>v. vehicle = Some v \<Longrightarrow> (Vehicle, v) \<in> set ids\<rbrakk>
     \<Longrightarrow> fine (set_player_vehicle f self vehicle) (Some ids)"
  by (cases vehicle) (auto simp: set_player_vehicle_def server_fn intro!: sat_results)

lemmas player_rules = sat_rules sat_Position fine_PlaySoundAt fine_ForEachPlayer sat_spawned_rows
  fine_set_player_vehicle

lemmas player_defs = server_fn Message_def Announce_def percent_s_def kWhite_def no_position_def

lemma player_methods_ok: "class_ok player_methods"
  unfolding player_methods_def player_functions_def player_actions_def
  by (intro class_ok_rules member_ok_forms; auto intro!: player_rules simp: player_defs; fail)

lemma player_readers_ok: "class_ok player_readers"
  unfolding player_readers_def player_values_def list.map prod.case
  by (intro class_ok_rules member_ok_forms; auto intro!: player_rules simp: player_defs; fail)

lemma player_properties_ok: "class_ok player_properties"
  unfolding player_properties_def
  by (intro class_ok_rules member_ok_forms; auto intro!: player_rules simp: player_defs; fail)

end
