(* ===== verification/Vehicle_Class.thy ===== *)
theory Vehicle_Class
  imports Server_Call
begin

unbundle bit_operations_syntax

text \<open>
  The class \<^verbatim>\<open>Vehicle\<close> (\<^verbatim>\<open>src/bindings/vehicle.cpp\<close>): the helpers of the file and its members, in
  the order of the file, in two tables.
\<close>

definition kNormal :: int where "kNormal = 1"
definition kNormalRelative :: int where "kNormalRelative = 2"
definition kTurn :: int where "kTurn = 3"
definition kTurnRelative :: int where "kTurnRelative = 4"

definition kTaxiLight :: u32 where "kTaxiLight = push_bit 8 1"

lemmas speed_kinds = kNormal_def kNormalRelative_def kTurn_def kTurnRelative_def

text \<open>The fourth element of the position table, if it is there, is the angle.\<close>

definition angle_element :: "Frame \<Rightarrow> int \<Rightarrow> nat \<Rightarrow> lua_float bnd" where
  "angle_element f idx t =
     (case elems f t 4 of
        LInt n \<Rightarrow> Done (narrow f (i2d f n))
      | LFloat x \<Rightarrow> Done (narrow f x)
      | LNil \<Rightarrow> Done (Fin 0)
      | v \<Rightarrow> Raise (ArgError (f_dbg f) idx (''angle (element 4) must be a number, got '' @ TypeName (Some v))))"

definition Vehicle_create :: "Frame \<Rightarrow> int \<Rightarrow> bres bnd" where
  "Vehicle_create f first =
     tbind require_ctx (\<lambda>_.
     tbind (value_at (p_int Int32) f first 1) (\<lambda>model.
     tbind (value_at (p_int Int32) f first 2) (\<lambda>world.
     tbind (if is_table (reader_at f first 3)
            then tbind (Vector f first 3) (\<lambda>(position, i).
                 tbind (angle_element f (index first 3) (table_of (reader_at f first 3))) (\<lambda>angle.
                   Done (position, angle, i)))
            else tbind (Vector f first 3) (\<lambda>(position, i).
                 tbind (value_at p_float f first i) (\<lambda>angle. Done (position, angle, i + 1)))) (\<lambda>(position, angle, i).
     tbind (value_or (p_int Int32) f first i (-1)) (\<lambda>primary.
     tbind (value_or (p_int Int32) f first (i + 1) (-1)) (\<lambda>secondary.
       r_created Vehicle CreateVehicle
         ([I model, I world] @ vec_args position @ [F angle, I primary, I secondary])))))))"

definition speed_of :: "Frame \<Rightarrow> sfn \<Rightarrow> int \<Rightarrow> int \<Rightarrow> bres bnd" where
  "speed_of f fn self relative =
     tbind (server fn [I self, I relative]) (\<lambda>(e, vs). tbind (check f e) (\<lambda>_. Done (R_vec (vec_out vs))))"

definition GetSpeed :: "Frame \<Rightarrow> int \<Rightarrow> int \<Rightarrow> bres bnd" where
  "GetSpeed f self which =
     tbind (find_server_fn GetVehicleSpeed) (\<lambda>_.
     tbind (find_server_fn GetVehicleTurnSpeed) (\<lambda>_.
       if which = kNormal then speed_of f GetVehicleSpeed self 0
       else if which = kNormalRelative then speed_of f GetVehicleSpeed self 1
       else if which = kTurn then speed_of f GetVehicleTurnSpeed self 0
       else if which = kTurnRelative then speed_of f GetVehicleTurnSpeed self 1
       else Raise (ArgError (f_dbg f) 2 ''VehicleSpeed value expected'')))"

definition SetSpeed :: "Frame \<Rightarrow> int \<Rightarrow> int \<Rightarrow> bres bnd" where
  "SetSpeed f self first =
     (let typed = is_number (reader_at f first 1) \<and>
                  (is_table (reader_at f first 2) \<or>
                   (is_number (reader_at f first 2) \<and> is_number (reader_at f first 4))) in
      tbind (if typed then tbind (value_at (p_int Int32) f first 1) (\<lambda>w. Done (w, 2)) else Done (kNormal, 1)) (\<lambda>(which, i).
      tbind (Vector f first i) (\<lambda>(v, i).
      tbind (value_or p_bool f first i False) (\<lambda>add.
        if which = kNormal \<or> which = kNormalRelative
        then r_check f SetVehicleSpeed ((I self # vec_args v) @ [flag add, flag (which = kNormalRelative)])
        else if which = kTurn \<or> which = kTurnRelative
        then r_check f SetVehicleTurnSpeed ((I self # vec_args v) @ [flag add, flag (which = kTurnRelative)])
        else Raise (ArgError (f_dbg f) (index first 1) ''VehicleSpeed value expected'')))))"

definition GetRotation :: "Frame \<Rightarrow> int \<Rightarrow> bres bnd" where
  "GetRotation f self =
     tbind (call GetVehicleRotationEuler [I self]) (\<lambda>(e, vs).
     tbind (check f e) (\<lambda>_.
     tbind (call GetVehicleRotation [I self]) (\<lambda>(e, ws).
     tbind (check f e) (\<lambda>_.
       Done (R_table [(LStr ''euler'', R_vec (vec_out vs)),
                      (LStr ''quaternion'', R_table (map (\<lambda>n. (LInt (int n + 1), R_num (float_of (out n ws)))) [0..<4]))])))))"

text \<open>
  \<^verbatim>\<open>SetRotationFromTable\<close> follows the inner tables. Each level leaves the inner table on the Lua
  stack and no level asks for more stack; \<open>room\<close> is the room that is left. \<open>next_ix\<close> is the
  stack index that the next pushed value gets, for the message.
\<close>

primrec SetRotationFromTable :: "nat \<Rightarrow> Frame \<Rightarrow> int \<Rightarrow> int \<Rightarrow> int \<Rightarrow> nat \<Rightarrow> bool \<Rightarrow> bres bnd" where
  "SetRotationFromTable 0 f self idx next_ix t spawn = Crash"
| "SetRotationFromTable (Suc room) f self idx next_ix t spawn =
     (case inner_rotation f t of
        Some t' \<Rightarrow> SetRotationFromTable room f self next_ix (next_ix + 1) t' spawn
      | None \<Rightarrow>
          tbind (table_number f idx t 1) (\<lambda>x.
          tbind (table_number f idx t 2) (\<lambda>y.
          tbind (table_number f idx t 3) (\<lambda>z.
            if TableLength f t \<ge> 4
            then tbind (table_number f idx t 4) (\<lambda>w.
                   r_unit f (if spawn then SetVehicleSpawnRotation else SetVehicleRotation)
                     [I self, F x, F y, F z, F w])
            else r_unit f (if spawn then SetVehicleSpawnRotationEuler else SetVehicleRotationEuler)
                   [I self, F x, F y, F z]))))"

text \<open>The setters of a rotation: the value is pushed once more, at the top of the stack.\<close>

definition set_rotation :: "bool \<Rightarrow> Frame \<Rightarrow> int \<Rightarrow> lval option \<Rightarrow> bres bnd" where
  "set_rotation spawn f self value =
     (if \<not> is_table value then Raise (TypeError (f_dbg f) 3 ''table'' (at_index f 3))
      else let next_ix = int (length (stack f)) + 1
           in SetRotationFromTable (free_slots f) f self next_ix (next_ix + 1) (table_of value) spawn)"

definition setRotation :: "Frame \<Rightarrow> int \<Rightarrow> int \<Rightarrow> bres bnd" where
  "setRotation f self first =
     (if is_table (reader_at f first 1)
      then SetRotationFromTable (free_slots f) f self (index first 1) (int (length (stack f)) + 1)
             (table_of (reader_at f first 1)) False
      else
        tbind (value_at p_float f first 1) (\<lambda>x.
        tbind (value_at p_float f first 2) (\<lambda>y.
        tbind (value_at p_float f first 3) (\<lambda>z.
          if missing f first 4 then r_unit f SetVehicleRotationEuler [I self, F x, F y, F z]
          else tbind (find_server_fn SetVehicleRotation) (\<lambda>_.
               tbind (value_at p_float f first 4) (\<lambda>w.
               tbind (server SetVehicleRotation [I self, F x, F y, F z, F w]) (\<lambda>(e, _).
               tbind (check f e) (\<lambda>_. Done R_none))))))))"

definition repair :: "Frame \<Rightarrow> int \<Rightarrow> bres bnd" where
  "repair f self =
     tbind (checked f SetVehicleHealth [I self, F (Fin 1000)]) (\<lambda>ok1.
     tbind (checked f SetVehicleDamageData [I self, I 0]) (\<lambda>ok2.
     tbind (call GetVehicleLightsData [I self]) (\<lambda>(_, vs).
       let lights = (word_of_int (int_of (out 0 vs)) :: u32) in
       tbind (checked f SetVehicleLightsData [I self, I (uint (lights AND 0xFFFFFF00))]) (\<lambda>ok3.
         Done (R_bool (ok3 \<and> ok2 \<and> ok1))))))"

primrec reset_rules :: "Frame \<Rightarrow> int \<Rightarrow> int \<Rightarrow> nat \<Rightarrow> bool \<Rightarrow> int list \<Rightarrow> bres bnd" where
  "reset_rules f self idx t all [] = Done (R_bool all)"
| "reset_rules f self idx t all (i # is) =
     tbind (table_integer f idx t i (-2147483648) 2147483647 None) (\<lambda>rule.
     tbind (checked f ResetInstHandlingRule [I self, I rule]) (\<lambda>ok.
       reset_rules f self idx t (ok \<and> all) is))"

definition resetHandlingRule :: "Frame \<Rightarrow> int \<Rightarrow> int \<Rightarrow> bres bnd" where
  "resetHandlingRule f self first =
     (if \<not> is_table (reader_at f first 1)
      then tbind (find_server_fn ResetInstHandlingRule) (\<lambda>_.
           tbind (value_at (p_int Int32) f first 1) (\<lambda>rule.
           tbind (server ResetInstHandlingRule [I self, I rule]) (\<lambda>(e, _).
           tbind (check f e) (\<lambda>b. Done (R_bool b)))))
      else let t = table_of (reader_at f first 1)
           in reset_rules f self (index first 1) t True [1..TableLength f t])"

definition getOccupant :: "Frame \<Rightarrow> int \<Rightarrow> int \<Rightarrow> bres bnd" where
  "getOccupant f self slot =
     tbind (call GetVehicleOccupant [I self, I slot]) (\<lambda>(_, vs).
     tbind last_error (\<lambda>err.
     tbind (if err \<noteq> vcmpErrorNoSuchEntity then check f err else Done True) (\<lambda>_.
       if err = vcmpErrorNone
       then tbind (pool_ref Player (int_of (out 0 vs))) (\<lambda>ref. Done (R_ref Player ref))
       else Done (R_ref Player no_ref))))"

definition set_taxiLight :: "Frame \<Rightarrow> int \<Rightarrow> bool \<Rightarrow> bres bnd" where
  "set_taxiLight f self on =
     tbind (call GetVehicleLightsData [I self]) (\<lambda>(_, vs).
       let lights = (word_of_int (int_of (out 0 vs)) :: u32) in
       r_unit f SetVehicleLightsData
         [I self, I (uint (if on then lights OR kTaxiLight else lights AND NOT kTaxiLight))])"

definition vehicle_colours :: "Frame \<Rightarrow> int \<Rightarrow> (int \<times> int) bnd" where
  "vehicle_colours f self =
     tbind (call GetVehicleColour [I self]) (\<lambda>(e, vs).
     tbind (check f e) (\<lambda>_. Done (int_of (out 0 vs), int_of (out 1 vs))))"

definition set_vehicle_colours :: "Frame \<Rightarrow> int \<Rightarrow> lval option \<Rightarrow> bres bnd" where
  "set_vehicle_colours f self colours =
     (if \<not> is_table colours then Raise (TypeError (f_dbg f) 3 ''table'' (at_index f 3))
      else
        tbind (vehicle_colours f self) (\<lambda>(primary, secondary).
        let idx = int (length (stack f)) + 1; t = table_of colours in
        tbind (table_integer f idx t 1 (-2147483648) 2147483647 (Some primary)) (\<lambda>primary.
        tbind (table_integer f idx t 2 (-2147483648) 2147483647 (Some secondary)) (\<lambda>secondary.
          r_unit f SetVehicleColour [I self, I primary, I secondary]))))"

abbreviation vehicle :: "(int \<Rightarrow> bres body) \<Rightarrow> member" where "vehicle \<equiv> on_self Vehicle"

definition vehicle_methods :: "(string \<times> member) list" where
  "vehicle_methods = [
   (''create'', Method (rest Vehicle_create)),
   (''new'', Method (rest Vehicle_create)),
   (''__call'', Method (rest Vehicle_create)),
   (''resetAllHandlings'', static (act (\<lambda>f. r_plain ResetAllVehicleHandlings []))),
   (''modelHandlingRuleExists'', static (arg (p_int Int32) (\<lambda>model. arg (p_int Int32) (\<lambda>rule. act (\<lambda>f.
      then_last f (r_flag ExistsHandlingRule [I model, I rule])))))),
   (''resetModelHandlingRule'', static (arg (p_int Int32) (\<lambda>model. arg (p_int Int32) (\<lambda>rule. act (\<lambda>f.
      r_check f ResetHandlingRule [I model, I rule]))))),
   (''resetModelHandlingRules'', static (arg (p_int Int32) (\<lambda>model. act (\<lambda>f. r_check f ResetHandling [I model])))),
   (''getModelHandlingRule'', static (arg (p_int Int32) (\<lambda>model. arg (p_int Int32) (\<lambda>rule. act (\<lambda>f.
      then_last f (r_num GetHandlingRule [I model, I rule])))))),
   (''setModelHandlingRule'', static (arg (p_int Int32) (\<lambda>model. arg (p_int Int32) (\<lambda>rule. arg p_double (\<lambda>x. act (\<lambda>f.
      r_check f SetHandlingRule [I model, I rule, F x])))))),
   (''destroy'', vehicle (\<lambda>self. act (\<lambda>f. destroy Vehicle DeleteVehicle f self))),
   (''respawn'', check_method Vehicle RespawnVehicle),
   (''explode'', check_method Vehicle ExplodeVehicle),
   (''repair'', vehicle (\<lambda>self. act (\<lambda>f. repair f self))),
   (''fix'', vehicle (\<lambda>self. act (\<lambda>f. repair f self))),
   (''streamedForPlayer'', vehicle (\<lambda>self. arg (p_live Player) (\<lambda>player. act (\<lambda>f.
      r_flag IsVehicleStreamedForPlayer [I self, I player])))),
   (''getOption'', vehicle (\<lambda>self. arg (p_int Int32) (\<lambda>option. act (\<lambda>f.
      then_last f (r_flag GetVehicleOption [I self, I option]))))),
   (''setOption'', vehicle (\<lambda>self. arg (p_int Int32) (\<lambda>option. arg p_bool (\<lambda>on. act (\<lambda>f.
      r_check f SetVehicleOption [I self, I option, flag on]))))),
   (''getPartStatus'', vehicle (\<lambda>self. arg (p_int Int32) (\<lambda>part. act (\<lambda>f.
      then_last f (r_int GetVehiclePartStatus [I self, I part]))))),
   (''setPartStatus'', vehicle (\<lambda>self. arg (p_int Int32) (\<lambda>part. arg (p_int Int32) (\<lambda>status. act (\<lambda>f.
      r_check f SetVehiclePartStatus [I self, I part, I status]))))),
   (''getTyreStatus'', vehicle (\<lambda>self. arg (p_int Int32) (\<lambda>tyre. act (\<lambda>f.
      then_last f (r_int GetVehicleTyreStatus [I self, I tyre]))))),
   (''setTyreStatus'', vehicle (\<lambda>self. arg (p_int Int32) (\<lambda>tyre. arg (p_int Int32) (\<lambda>status. act (\<lambda>f.
      r_check f SetVehicleTyreStatus [I self, I tyre, I status]))))),
   (''getSpeed'', vehicle (\<lambda>self. arg (p_opt (p_int Int32)) (\<lambda>which. act (\<lambda>f. GetSpeed f self (opt_or which kNormal))))),
   (''setSpeed'', vehicle (\<lambda>self. rest (\<lambda>f. SetSpeed f self))),
   (''getRotation'', vehicle (\<lambda>self. act (\<lambda>f. GetRotation f self))),
   (''setRotation'', vehicle (\<lambda>self. rest (\<lambda>f. setRotation f self))),
   (''resetHandling'', check_method Vehicle ResetInstHandling),
   (''resetHandlingRule'', vehicle (\<lambda>self. rest (\<lambda>f. resetHandlingRule f self))),
   (''hasHandlingRule'', vehicle (\<lambda>self. arg (p_int Int32) (\<lambda>rule. act (\<lambda>f.
      then_last f (r_flag ExistsInstHandlingRule [I self, I rule]))))),
   (''getHandlingRule'', vehicle (\<lambda>self. arg (p_int Int32) (\<lambda>rule. act (\<lambda>f.
      then_last f (r_num GetInstHandlingRule [I self, I rule]))))),
   (''setHandlingRule'', vehicle (\<lambda>self. arg (p_int Int32) (\<lambda>rule. arg p_double (\<lambda>x. act (\<lambda>f.
      r_check f SetInstHandlingRule [I self, I rule, F x]))))),
   (''get3DArrowToPlayer'', vehicle (\<lambda>self. arg (p_live Player) (\<lambda>player. act (\<lambda>f.
      r_flag GetVehicle3DArrowForPlayer [I self, I player])))),
   (''set3DArrowToPlayer'', vehicle (\<lambda>self. arg (p_live Player) (\<lambda>player. arg p_bool (\<lambda>on. act (\<lambda>f.
      r_check f SetVehicle3DArrowForPlayer [I self, I player, flag on]))))),
   (''getModel'', get_method Vehicle (g_int GetVehicleModel)),
   (''getOccupant'', vehicle (\<lambda>self. arg (p_int Int32) (\<lambda>slot. act (\<lambda>f. getOccupant f self slot)))),
   (''getTurretRotation'', vehicle (\<lambda>self. act (\<lambda>f.
      tbind (call GetVehicleTurretRotation [I self]) (\<lambda>(e, vs). tbind (check f e) (\<lambda>_.
        Done (R_pair (R_num (float_of (out 0 vs))) (R_num (float_of (out 1 vs)))))))))]"

definition vehicle_properties :: "(string \<times> member) list" where
  "vehicle_properties = [
   (''model'', read_only Vehicle (g_int GetVehicleModel)),
   (''wrecked'', read_only Vehicle (g_flag IsVehicleWrecked)),
   (''world'', property Vehicle (g_int GetVehicleWorld) (p_int Int32) (s_int SetVehicleWorld)),
   (''health'', property Vehicle (g_num GetVehicleHealth) p_float (s_num SetVehicleHealth)),
   (''idleRespawnTime'', property Vehicle (g_int GetVehicleIdleRespawnTimer) (p_int UInt32)
      (s_int SetVehicleIdleRespawnTimer)),
   (''radio'', property Vehicle (g_int GetVehicleRadio) (p_int Int32) (s_int SetVehicleRadio)),
   (''damage'', property Vehicle (g_int GetVehicleDamageData) (p_int UInt32) (s_int SetVehicleDamageData)),
   (''immunity'', property Vehicle (g_int GetVehicleImmunityFlags) (p_int UInt32) (s_int SetVehicleImmunityFlags)),
   (''lightsData'', property Vehicle (g_int GetVehicleLightsData) (p_int UInt32) (s_int SetVehicleLightsData)),
   (''taxiLight'', property Vehicle
      (\<lambda>f self. tbind (call GetVehicleLightsData [I self]) (\<lambda>(_, vs).
         Done (R_bool ((word_of_int (int_of (out 0 vs)) :: u32) AND kTaxiLight \<noteq> 0))))
      p_bool set_taxiLight),
   (''color'', property Vehicle
      (\<lambda>f self. tbind (vehicle_colours f self) (\<lambda>(primary, secondary).
         Done (R_table [(LInt 1, R_int primary), (LInt 2, R_int secondary)])))
      p_object set_vehicle_colours),
   (''position'', property Vehicle (g_vec GetVehiclePosition) p_vec3
      (\<lambda>f self v. r_unit f SetVehiclePosition ((I self # vec_args v) @ [I 0]))),
   (''spawnPosition'', property Vehicle (g_vec GetVehicleSpawnPosition) p_vec3 (s_vec SetVehicleSpawnPosition)),
   (''spawnRotation'', property Vehicle (g_vec GetVehicleSpawnRotationEuler) p_object (set_rotation True)),
   (''rotation'', property Vehicle GetRotation p_object (set_rotation False)),
   (''angle'', property Vehicle GetRotation p_object (set_rotation False))]"

section \<open>Every call is allowed\<close>

lemma sat_angle_element: "(\<And>x. Q x held) \<Longrightarrow> sat Q (angle_element f idx t) held"
  by (simp add: angle_element_def split: lval.split)

lemma fine_Vehicle_create: "fine (Vehicle_create f first) None"
  unfolding Vehicle_create_def
  by (auto intro!: sat_rules sat_angle_element simp: server_fn case_prod_beta)

lemma fine_speed:
  "(Vehicle, self) \<in> set ids \<Longrightarrow> fine (GetSpeed f self which) (Some ids)"
  "(Vehicle, self) \<in> set ids \<Longrightarrow> fine (SetSpeed f self first) (Some ids)"
  unfolding GetSpeed_def SetSpeed_def
  by (auto intro!: sat_rules simp: speed_of_def server_fn case_prod_beta Let_def)

lemma fine_GetRotation: "(Vehicle, self) \<in> set ids \<Longrightarrow> fine (GetRotation f self) (Some ids)"
  unfolding GetRotation_def by (auto intro!: sat_rules simp: server_fn)

lemma fine_SetRotationFromTable:
  "\<lbrakk>(Vehicle, self) \<in> set ids; nests f n t\<rbrakk> \<Longrightarrow> fine (SetRotationFromTable n f self idx next_ix t spawn) (Some ids)"
  by (induction n arbitrary: idx next_ix t) (auto intro!: sat_rules simp: server_fn split: option.splits)

lemma at_index_set: "at_index f i = Some v \<Longrightarrow> v \<in> set (stack f)"
  by (auto simp: at_index_def split: if_splits)

lemma shallow_at:
  assumes "shallow f" "is_table (at_index f i)"
  shows "nests f (free_slots f) (table_of (at_index f i))"
proof -
  obtain t where "at_index f i = Some (LTab t)"
    using assms(2) by (auto simp: is_table_def split: option.splits lval.splits)
  with assms(1) show ?thesis
    using at_index_set by (force simp: shallow_def list_all_iff table_of_def)
qed

lemma fine_rotation_setters:
  "\<lbrakk>(Vehicle, self) \<in> set ids; shallow f\<rbrakk> \<Longrightarrow> fine (set_rotation spawn f self (at_index f i)) (Some ids)"
  "\<lbrakk>(Vehicle, self) \<in> set ids; shallow f\<rbrakk> \<Longrightarrow> fine (setRotation f self first) (Some ids)"
  by (auto intro!: fine_SetRotationFromTable sat_rules shallow_at
      simp: set_rotation_def setRotation_def Let_def reader_at_def server_fn)

lemma fine_repair: "(Vehicle, self) \<in> set ids \<Longrightarrow> fine (repair f self) (Some ids)"
  unfolding repair_def by (auto intro!: sat_rules simp: server_fn Let_def)

lemma fine_reset_rules: "(Vehicle, self) \<in> set ids \<Longrightarrow> fine (reset_rules f self idx t b is) (Some ids)"
  by (induction "is" arbitrary: b) (auto intro!: sat_rules simp: server_fn)

lemma fine_resetHandlingRule: "(Vehicle, self) \<in> set ids \<Longrightarrow> fine (resetHandlingRule f self first) (Some ids)"
  unfolding resetHandlingRule_def by (auto intro!: sat_rules fine_reset_rules simp: server_fn Let_def)

lemma fine_getOccupant:
  "\<lbrakk>(Vehicle, self) \<in> set ids; -2147483648 \<le> slot; slot \<le> 2147483647\<rbrakk> \<Longrightarrow> fine (getOccupant f self slot) (Some ids)"
  unfolding getOccupant_def by (auto intro!: sat_rules simp: server_fn)

lemma fine_set_taxiLight: "(Vehicle, self) \<in> set ids \<Longrightarrow> fine (set_taxiLight f self b) (Some ids)"
  unfolding set_taxiLight_def by (auto intro!: sat_rules simp: server_fn Let_def)

lemma sat_vehicle_colours:
  assumes "(Vehicle, self) \<in> set ids"
    "\<And>p s. \<lbrakk>-2147483648 \<le> p; p \<le> 2147483647; -2147483648 \<le> s; s \<le> 2147483647\<rbrakk> \<Longrightarrow> Q (p, s) (Some ids)"
  shows "sat Q (vehicle_colours f self) (Some ids)"
  using assms unfolding vehicle_colours_def
  by (auto intro!: sat_rules simp: server_fn list_all2_Cons1 fits_cases)

lemma fine_set_vehicle_colours:
  "(Vehicle, self) \<in> set ids \<Longrightarrow> fine (set_vehicle_colours f self v) (Some ids)"
  unfolding set_vehicle_colours_def
  by (auto intro!: sat_vehicle_colours sat_rules simp: server_fn Let_def)

lemmas vehicle_rules = sat_rules fine_Vehicle_create fine_speed fine_GetRotation fine_rotation_setters
  fine_repair fine_resetHandlingRule fine_getOccupant fine_set_taxiLight sat_vehicle_colours
  fine_set_vehicle_colours

lemma vehicle_methods_ok: "class_ok vehicle_methods"
  unfolding vehicle_methods_def
  by (intro class_ok_rules member_ok_forms; auto intro!: vehicle_rules simp: server_fn; fail)

lemma vehicle_properties_ok: "class_ok vehicle_properties"
  unfolding vehicle_properties_def
  by (intro class_ok_rules member_ok_forms; auto intro!: vehicle_rules simp: server_fn; fail)

section \<open>Nested rotation tables\<close>

lemma tbind_result_Crash: "tbind (of_result x) c = Crash \<longleftrightarrow> (\<exists>y. x = Inr y \<and> c y = Crash)"
  by (cases x) (simp_all add: of_result_def)

lemma r_unit_not_Crash: "r_unit f g args \<noteq> Crash"
  by (simp add: r_unit_def checked_def call_def find_server_fn_def)

lemma rotation_crash: "SetRotationFromTable n f self idx next_ix t spawn = Crash \<longleftrightarrow> \<not> nests f n t"
  by (induction n arbitrary: idx next_ix t)
     (auto simp: table_number_def tbind_result_Crash r_unit_not_Crash split: option.split sum.split if_splits)

lemma cyclic_crashes: "inner_rotation f t = Some t \<Longrightarrow> \<not> nests f n t"
  by (induction n) simp_all


end
