(* ===== verification/Placed_Classes.thy ===== *)
theory Placed_Classes
  imports Server_Call
begin

text \<open>
  The classes \<^verbatim>\<open>Object\<close>, \<^verbatim>\<open>Pickup\<close> and \<^verbatim>\<open>Checkpoint\<close> (\<^verbatim>\<open>src/bindings/object.cpp\<close>, \<^verbatim>\<open>pickup.cpp\<close> and
  \<^verbatim>\<open>checkpoint.cpp\<close>): the helpers and the members of each file.
\<close>

section \<open>Object\<close>

definition Object_create :: "Frame \<Rightarrow> int \<Rightarrow> bres bnd" where
  "Object_create f first =
     tbind require_ctx (\<lambda>_.
     tbind (value_at (p_int Int32) f first 1) (\<lambda>model.
     tbind (value_at (p_int Int32) f first 2) (\<lambda>world.
     let table = is_table (reader_at f first 3) in
     tbind (Vector f first 3) (\<lambda>(position, i).
     tbind (if table
            then table_integer f (index first 3) (table_of (reader_at f first 3)) 4 0 255 (Some 255)
            else value_or (p_int UInt8) f first i 255) (\<lambda>alpha.
       r_created Object CreateObject ([I model, I world] @ vec_args position @ [I alpha]))))))"

text \<open>\<^verbatim>\<open>moveTo\<close> and \<^verbatim>\<open>moveBy\<close>: the server function is looked up before the arguments are read.\<close>

definition MoveObject :: "sfn \<Rightarrow> Frame \<Rightarrow> int \<Rightarrow> int \<Rightarrow> bres bnd" where
  "MoveObject move f self first =
     tbind (find_server_fn move) (\<lambda>_.
     let table = is_table (reader_at f first 1) in
     tbind (Vector f first 1) (\<lambda>(to, i).
     tbind (if table \<and> missing f first 2
            then table_integer f (index first 1) (table_of (reader_at f first 1)) 4 0 4294967295 (Some 0)
            else value_or (p_int UInt32) f first i 0) (\<lambda>ms.
     tbind (server move ((I self # vec_args to) @ [I ms])) (\<lambda>(e, _).
     tbind (check f e) (\<lambda>b. Done (R_bool b))))))"

definition RotateObject :: "sfn \<Rightarrow> sfn \<Rightarrow> Frame \<Rightarrow> int \<Rightarrow> int \<Rightarrow> bres bnd" where
  "RotateObject quaternion euler f self first =
     tbind (find_server_fn quaternion) (\<lambda>_.
     tbind (find_server_fn euler) (\<lambda>_.
     if \<not> is_table (reader_at f first 1)
     then Raise (TypeError (f_dbg f) (index first 1) ''table'' (reader_at f first 1))
     else
       let t = table_of (reader_at f first 1); idx = index first 1 in
       tbind (table_number f idx t 1) (\<lambda>x.
       tbind (table_number f idx t 2) (\<lambda>y.
       tbind (table_number f idx t 3) (\<lambda>z.
       tbind (value_or (p_int UInt32) f first 2 0) (\<lambda>ms.
       tbind (if TableLength f t \<ge> 4
              then tbind (table_number f idx t 4) (\<lambda>w. server quaternion [I self, F x, F y, F z, F w, I ms])
              else server euler [I self, F x, F y, F z, I ms]) (\<lambda>(e, _).
       tbind (check f e) (\<lambda>b. Done (R_bool b)))))))))"

abbreviation object :: "(int \<Rightarrow> bres body) \<Rightarrow> member" where "object \<equiv> on_self Object"

definition object_members :: "(string \<times> member) list" where
  "object_members = [
   (''create'', Method (rest Object_create)),
   (''new'', Method (rest Object_create)),
   (''__call'', Method (rest Object_create)),
   (''destroy'', object (\<lambda>self. act (\<lambda>f. destroy Object DeleteObject f self))),
   (''streamedForPlayer'', object (\<lambda>self. arg (p_live Player) (\<lambda>player. act (\<lambda>f.
      r_flag IsObjectStreamedForPlayer [I self, I player])))),
   (''getAlpha'', get_method Object (g_int GetObjectAlpha)),
   (''setAlpha'', object (\<lambda>self. arg (p_int Int32) (\<lambda>alpha. arg (p_opt (p_int UInt32)) (\<lambda>ms. act (\<lambda>f.
      r_check f SetObjectAlpha [I self, I alpha, I (opt_or ms 0)]))))),
   (''alpha'', property Object (g_int GetObjectAlpha) (p_int Int32)
      (\<lambda>f self alpha. r_unit f SetObjectAlpha [I self, I alpha, I 0])),
   (''moveTo'', object (\<lambda>self. rest (\<lambda>f. MoveObject MoveObjectTo f self))),
   (''moveBy'', object (\<lambda>self. rest (\<lambda>f. MoveObject MoveObjectBy f self))),
   (''rotateTo'', object (\<lambda>self. rest (\<lambda>f. RotateObject RotateObjectTo RotateObjectToEuler f self))),
   (''rotateBy'', object (\<lambda>self. rest (\<lambda>f. RotateObject RotateObjectBy RotateObjectByEuler f self))),
   (''getModel'', get_method Object (g_int GetObjectModel)),
   (''model'', read_only Object (g_int GetObjectModel)),
   (''world'', property Object (g_int GetObjectWorld) (p_int Int32) (s_int SetObjectWorld)),
   (''trackShots'', property Object (g_flag IsObjectShotReportEnabled) p_bool (s_flag SetObjectShotReportEnabled)),
   (''trackTouch'', property Object (g_flag IsObjectTouchedReportEnabled) p_bool
      (s_flag SetObjectTouchedReportEnabled)),
   (''position'', property Object (g_vec GetObjectPosition) p_vec3 (s_vec SetObjectPosition)),
   (''angle'', property Object (g_vec GetObjectRotationEuler) p_vec3
      (\<lambda>f self v. r_unit f RotateObjectToEuler ((I self # vec_args v) @ [I 0])))]"

section \<open>Pickup\<close>

definition Pickup_create :: "Frame \<Rightarrow> int \<Rightarrow> bres bnd" where
  "Pickup_create f first =
     tbind require_ctx (\<lambda>_.
     tbind (value_at (p_int Int32) f first 1) (\<lambda>model.
     tbind (value_at (p_int Int32) f first 2) (\<lambda>world.
     tbind (value_at (p_int Int32) f first 3) (\<lambda>quantity.
     tbind (Vector f first 4) (\<lambda>(position, i).
     tbind (value_or (p_int UInt8) f first i 255) (\<lambda>alpha.
     tbind (value_or p_bool f first (i + 1) True) (\<lambda>automatic.
       r_created Pickup CreatePickup
         ([I model, I world, I quantity] @ vec_args position @ [I alpha, flag automatic]))))))))"

abbreviation pickup :: "(int \<Rightarrow> bres body) \<Rightarrow> member" where "pickup \<equiv> on_self Pickup"

definition pickup_members :: "(string \<times> member) list" where
  "pickup_members = [
   (''create'', Method (rest Pickup_create)),
   (''new'', Method (rest Pickup_create)),
   (''__call'', Method (rest Pickup_create)),
   (''destroy'', pickup (\<lambda>self. act (\<lambda>f. destroy Pickup DeletePickup f self))),
   (''respawn'', check_method Pickup RefreshPickup),
   (''streamedForPlayer'', pickup (\<lambda>self. arg (p_live Player) (\<lambda>player. act (\<lambda>f.
      r_flag IsPickupStreamedForPlayer [I self, I player])))),
   (''getOption'', pickup (\<lambda>self. arg (p_int Int32) (\<lambda>option. act (\<lambda>f.
      then_last f (r_flag GetPickupOption [I self, I option]))))),
   (''setOption'', pickup (\<lambda>self. arg (p_int Int32) (\<lambda>option. arg p_bool (\<lambda>on. act (\<lambda>f.
      r_check f SetPickupOption [I self, I option, flag on]))))),
   (''getModel'', get_method Pickup (g_int GetPickupModel)),
   (''model'', read_only Pickup (g_int GetPickupModel)),
   (''quantity'', read_only Pickup (g_int GetPickupQuantity)),
   (''world'', property Pickup (g_int GetPickupWorld) (p_int Int32) (s_int SetPickupWorld)),
   (''alpha'', property Pickup (g_int GetPickupAlpha) (p_int Int32) (s_int SetPickupAlpha)),
   (''auto'', property Pickup (g_flag IsPickupAutomatic) p_bool (s_flag SetPickupIsAutomatic)),
   (''autoTimer'', property Pickup (g_int GetPickupAutoTimer) (p_int UInt32) (s_int SetPickupAutoTimer)),
   (''position'', property Pickup (g_vec GetPickupPosition) p_vec3 (s_vec SetPickupPosition))]"

section \<open>Checkpoint\<close>

record Rgba =
  red :: int
  green :: int
  blue :: int
  alpha :: int

definition Channel :: "Frame \<Rightarrow> int \<Rightarrow> nat \<Rightarrow> int \<Rightarrow> int bnd" where
  "Channel f idx t i = table_integer f idx t i 0 255 None"

definition ReadColour :: "Frame \<Rightarrow> int \<Rightarrow> lval option \<Rightarrow> int \<Rightarrow> Rgba bnd" where
  "ReadColour f idx v a =
     (if \<not> is_table v then Raise (TypeError (f_dbg f) idx ''table'' v)
      else
        let t = table_of v in
        tbind (Channel f idx t 1) (\<lambda>r.
        tbind (Channel f idx t 2) (\<lambda>g.
        tbind (Channel f idx t 3) (\<lambda>b.
          if TableLength f t \<ge> 4
          then tbind (Channel f idx t 4) (\<lambda>a'. Done \<lparr>red = r, green = g, blue = b, alpha = a'\<rparr>)
          else Done \<lparr>red = r, green = g, blue = b, alpha = a\<rparr>))))"

definition GetColour :: "Frame \<Rightarrow> int \<Rightarrow> Rgba bnd" where
  "GetColour f self =
     tbind (call GetCheckPointColour [I self]) (\<lambda>(e, vs).
     tbind (check f e) (\<lambda>_.
       Done \<lparr>red = int_of (out 0 vs), green = int_of (out 1 vs), blue = int_of (out 2 vs), alpha = int_of (out 3 vs)\<rparr>))"

definition colour_args :: "Rgba \<Rightarrow> sval list" where
  "colour_args c = [I (red c), I (green c), I (blue c), I (alpha c)]"

definition Checkpoint_create :: "Frame \<Rightarrow> int \<Rightarrow> bres bnd" where
  "Checkpoint_create f first =
     tbind require_ctx (\<lambda>_.
     tbind (if missing f first 1 then Done (-1) else value_at (p_live Player) f first 1) (\<lambda>owner.
     tbind (value_at (p_int Int32) f first 2) (\<lambda>world.
     tbind (value_at p_bool f first 3) (\<lambda>sphere.
     tbind (Vector f first 4) (\<lambda>(position, i).
     tbind (ReadColour f (index first i) (reader_at f first i) 255) (\<lambda>colour.
     tbind (value_at p_float f first (i + 1)) (\<lambda>radius.
       r_created Checkpoint CreateCheckPoint
         ([I owner, I world, flag sphere] @ vec_args position @ colour_args colour @ [F radius]))))))))"

definition set_checkpoint_colour :: "Frame \<Rightarrow> int \<Rightarrow> lval option \<Rightarrow> bres bnd" where
  "set_checkpoint_colour f self v =
     tbind (GetColour f self) (\<lambda>old.
     tbind (ReadColour f (int (length (stack f)) + 1) v (alpha old)) (\<lambda>c.
       r_unit f SetCheckPointColour (I self # colour_args c)))"

definition set_checkpoint_alpha :: "Frame \<Rightarrow> int \<Rightarrow> int \<Rightarrow> bres bnd" where
  "set_checkpoint_alpha f self a =
     tbind (GetColour f self) (\<lambda>c. r_unit f SetCheckPointColour (I self # colour_args (c\<lparr>alpha := a\<rparr>)))"

definition checkpoint_members :: "(string \<times> member) list" where
  "checkpoint_members = [
   (''create'', Method (rest Checkpoint_create)),
   (''new'', Method (rest Checkpoint_create)),
   (''__call'', Method (rest Checkpoint_create)),
   (''destroy'', on_self Checkpoint (\<lambda>self. act (\<lambda>f. destroy Checkpoint DeleteCheckPoint f self))),
   (''streamedForPlayer'', on_self Checkpoint (\<lambda>self. arg (p_live Player) (\<lambda>player. act (\<lambda>f.
      r_flag IsCheckPointStreamedForPlayer [I self, I player])))),
   (''getOwner'', get_method Checkpoint (g_ref Player GetCheckPointOwner)),
   (''owner'', read_only Checkpoint (g_ref Player GetCheckPointOwner)),
   (''isSphere'', get_method Checkpoint (g_flag IsCheckPointSphere)),
   (''sphere'', read_only Checkpoint (g_flag IsCheckPointSphere)),
   (''world'', property Checkpoint (g_int GetCheckPointWorld) (p_int Int32) (s_int SetCheckPointWorld)),
   (''radius'', property Checkpoint (g_num GetCheckPointRadius) p_float (s_num SetCheckPointRadius)),
   (''color'', property Checkpoint
      (\<lambda>f self. tbind (GetColour f self) (\<lambda>c. Done (R_table [(LInt 1, R_int (red c)), (LInt 2, R_int (green c)),
         (LInt 3, R_int (blue c)), (LInt 4, R_int (alpha c))])))
      p_object set_checkpoint_colour),
   (''alpha'', property Checkpoint (\<lambda>f self. tbind (GetColour f self) (\<lambda>c. Done (R_int (alpha c))))
      (p_int Int32) set_checkpoint_alpha),
   (''position'', property Checkpoint (g_vec GetCheckPointPosition) p_vec3 (s_vec SetCheckPointPosition))]"

section \<open>Every call is allowed\<close>

lemma fine_Object_create: "fine (Object_create f first) None"
  and fine_Pickup_create: "fine (Pickup_create f first) None"
  unfolding Object_create_def Pickup_create_def
  by (auto intro!: sat_rules simp: server_fn case_prod_beta Let_def)

lemma fine_MoveObject:
  "\<lbrakk>(Object, self) \<in> set ids; ins move = [Id Object, F32, F32, F32, U32]\<rbrakk>
     \<Longrightarrow> fine (MoveObject move f self first) (Some ids)"
  unfolding MoveObject_def by (auto intro!: sat_rules simp: case_prod_beta Let_def)

lemma fine_RotateObject:
  "\<lbrakk>(Object, self) \<in> set ids; ins q = [Id Object, F32, F32, F32, F32, U32]; ins e = [Id Object, F32, F32, F32, U32]\<rbrakk>
     \<Longrightarrow> fine (RotateObject q e f self first) (Some ids)"
  unfolding RotateObject_def by (auto intro!: sat_rules simp: case_prod_beta Let_def)

lemmas placed_rules = sat_rules fine_Object_create fine_Pickup_create fine_MoveObject fine_RotateObject

lemma object_members_ok: "class_ok object_members"
  unfolding object_members_def
  by (intro class_ok_rules member_ok_forms; auto intro!: placed_rules simp: server_fn; fail)

lemma pickup_members_ok: "class_ok pickup_members"
  unfolding pickup_members_def
  by (intro class_ok_rules member_ok_forms; auto intro!: placed_rules simp: server_fn; fail)

definition channels_ok :: "Rgba \<Rightarrow> bool" where
  "channels_ok c \<longleftrightarrow> (\<forall>n \<in> {red c, green c, blue c, alpha c}. -2147483648 \<le> n \<and> n \<le> 2147483647)"

lemma sat_ReadColour:
  "\<lbrakk>-2147483648 \<le> a; a \<le> 2147483647; \<And>c. channels_ok c \<Longrightarrow> Q c held\<rbrakk> \<Longrightarrow> sat Q (ReadColour f idx v a) held"
  unfolding ReadColour_def Channel_def by (auto intro!: sat_rules simp: Let_def channels_ok_def)

lemma sat_GetColour:
  "\<lbrakk>(Checkpoint, self) \<in> set ids; \<And>c. channels_ok c \<Longrightarrow> Q c (Some ids)\<rbrakk> \<Longrightarrow> sat Q (GetColour f self) (Some ids)"
  unfolding GetColour_def
  by (auto intro!: sat_rules simp: server_fn list_all2_Cons1 fits_cases channels_ok_def numeral_3_eq_3 numeral_2_eq_2)

lemma fine_Checkpoint_create: "fine (Checkpoint_create f first) None"
  unfolding Checkpoint_create_def
  by (auto intro!: sat_ReadColour sat_rules simp: server_fn case_prod_beta colour_args_def channels_ok_def)

lemma fine_checkpoint_setters:
  "(Checkpoint, self) \<in> set ids \<Longrightarrow> fine (set_checkpoint_colour f self v) (Some ids)"
  "\<lbrakk>(Checkpoint, self) \<in> set ids; -2147483648 \<le> a; a \<le> 2147483647\<rbrakk>
     \<Longrightarrow> fine (set_checkpoint_alpha f self a) (Some ids)"
  unfolding set_checkpoint_colour_def set_checkpoint_alpha_def
  by (auto intro!: sat_GetColour sat_ReadColour sat_rules simp: server_fn colour_args_def channels_ok_def)

lemma checkpoint_members_ok: "class_ok checkpoint_members"
  unfolding checkpoint_members_def
  by (intro class_ok_rules member_ok_forms;
      auto intro!: fine_Checkpoint_create fine_checkpoint_setters sat_GetColour sat_rules simp: server_fn; fail)

end
