(* ===== verification/Names.thy ===== *)
theory Names
  imports Chars
begin

text \<open>
  The skin and weapon names of \<^verbatim>\<open>src/bindings/names.cpp\<close>: the tables
  \<^verbatim>\<open>kSkinNames\<close> and \<^verbatim>\<open>kWeaponNames\<close>, the look-ups \<^verbatim>\<open>SkinName\<close> and \<^verbatim>\<open>WeaponName\<close>, and
  the name heuristics \<^verbatim>\<open>SkinId\<close> and \<^verbatim>\<open>WeaponId\<close>, one definition for each case of
  the outer \<^verbatim>\<open>switch\<close>. A test such as \<^verbatim>\<open>b && b == 'e'\<close> is written \<open>b = CHR ''e''\<close>:
  the first conjunct only says that the character is not NUL, and is kept where the
  second does not imply it. Characters are bytes and \<^verbatim>\<open>isalnum\<close> and \<^verbatim>\<open>tolower\<close> are
  those of the C locale, which the program never changes.
\<close>

section \<open>The tables\<close>

abbreviation (input) SKIN_ID_UNKNOWN :: int where "SKIN_ID_UNKNOWN \<equiv> - 1"
abbreviation (input) SKIN_ID_TOMMY_VERCETTI :: int where "SKIN_ID_TOMMY_VERCETTI \<equiv> 0"
abbreviation (input) SKIN_ID_COP :: int where "SKIN_ID_COP \<equiv> 1"
abbreviation (input) SKIN_ID_SWAT :: int where "SKIN_ID_SWAT \<equiv> 2"
abbreviation (input) SKIN_ID_FBI :: int where "SKIN_ID_FBI \<equiv> 3"
abbreviation (input) SKIN_ID_ARMY :: int where "SKIN_ID_ARMY \<equiv> 4"
abbreviation (input) SKIN_ID_PARAMEDIC :: int where "SKIN_ID_PARAMEDIC \<equiv> 5"
abbreviation (input) SKIN_ID_FIREMAN :: int where "SKIN_ID_FIREMAN \<equiv> 6"
abbreviation (input) SKIN_ID_GOLF_GUY_A :: int where "SKIN_ID_GOLF_GUY_A \<equiv> 7"
abbreviation (input) SKIN_ID_BUM_LADY_A :: int where "SKIN_ID_BUM_LADY_A \<equiv> 9"
abbreviation (input) SKIN_ID_BUM_LADY_B :: int where "SKIN_ID_BUM_LADY_B \<equiv> 10"
abbreviation (input) SKIN_ID_PUNK_A :: int where "SKIN_ID_PUNK_A \<equiv> 11"
abbreviation (input) SKIN_ID_LAWYER :: int where "SKIN_ID_LAWYER \<equiv> 12"
abbreviation (input) SKIN_ID_SPANISH_LADY_A :: int where "SKIN_ID_SPANISH_LADY_A \<equiv> 13"
abbreviation (input) SKIN_ID_SPANISH_LADY_B :: int where "SKIN_ID_SPANISH_LADY_B \<equiv> 14"
abbreviation (input) SKIN_ID_COOL_GUY_A :: int where "SKIN_ID_COOL_GUY_A \<equiv> 15"
abbreviation (input) SKIN_ID_ARABIC_GUY :: int where "SKIN_ID_ARABIC_GUY \<equiv> 16"
abbreviation (input) SKIN_ID_BEACH_LADY_A :: int where "SKIN_ID_BEACH_LADY_A \<equiv> 17"
abbreviation (input) SKIN_ID_BEACH_LADY_B :: int where "SKIN_ID_BEACH_LADY_B \<equiv> 18"
abbreviation (input) SKIN_ID_BEACH_GUY_A :: int where "SKIN_ID_BEACH_GUY_A \<equiv> 19"
abbreviation (input) SKIN_ID_BEACH_GUY_B :: int where "SKIN_ID_BEACH_GUY_B \<equiv> 20"
abbreviation (input) SKIN_ID_OFFICE_LADY_A :: int where "SKIN_ID_OFFICE_LADY_A \<equiv> 21"
abbreviation (input) SKIN_ID_WAITRESS_A :: int where "SKIN_ID_WAITRESS_A \<equiv> 22"
abbreviation (input) SKIN_ID_FOOD_LADY :: int where "SKIN_ID_FOOD_LADY \<equiv> 23"
abbreviation (input) SKIN_ID_PROSTITUTE_A :: int where "SKIN_ID_PROSTITUTE_A \<equiv> 24"
abbreviation (input) SKIN_ID_BUM_LADY_C :: int where "SKIN_ID_BUM_LADY_C \<equiv> 25"
abbreviation (input) SKIN_ID_BUM_GUY_A :: int where "SKIN_ID_BUM_GUY_A \<equiv> 26"
abbreviation (input) SKIN_ID_GARBAGEMAN_A :: int where "SKIN_ID_GARBAGEMAN_A \<equiv> 27"
abbreviation (input) SKIN_ID_TAXI_DRIVER_A :: int where "SKIN_ID_TAXI_DRIVER_A \<equiv> 28"
abbreviation (input) SKIN_ID_HATIAN_A :: int where "SKIN_ID_HATIAN_A \<equiv> 29"
abbreviation (input) SKIN_ID_CRIMINAL_A :: int where "SKIN_ID_CRIMINAL_A \<equiv> 30"
abbreviation (input) SKIN_ID_HOOD_LADY :: int where "SKIN_ID_HOOD_LADY \<equiv> 31"
abbreviation (input) SKIN_ID_GRANNY_A :: int where "SKIN_ID_GRANNY_A \<equiv> 32"
abbreviation (input) SKIN_ID_BUSINESS_MAN_A :: int where "SKIN_ID_BUSINESS_MAN_A \<equiv> 33"
abbreviation (input) SKIN_ID_CHURCH_GUY :: int where "SKIN_ID_CHURCH_GUY \<equiv> 34"
abbreviation (input) SKIN_ID_CLUB_LADY :: int where "SKIN_ID_CLUB_LADY \<equiv> 35"
abbreviation (input) SKIN_ID_CHURCH_LADY :: int where "SKIN_ID_CHURCH_LADY \<equiv> 36"
abbreviation (input) SKIN_ID_PIMP :: int where "SKIN_ID_PIMP \<equiv> 37"
abbreviation (input) SKIN_ID_BEACH_LADY_C :: int where "SKIN_ID_BEACH_LADY_C \<equiv> 38"
abbreviation (input) SKIN_ID_BEACH_GUY_C :: int where "SKIN_ID_BEACH_GUY_C \<equiv> 39"
abbreviation (input) SKIN_ID_BEACH_LADY_D :: int where "SKIN_ID_BEACH_LADY_D \<equiv> 40"
abbreviation (input) SKIN_ID_BEACH_GUY_D :: int where "SKIN_ID_BEACH_GUY_D \<equiv> 41"
abbreviation (input) SKIN_ID_BUSINESS_MAN_B :: int where "SKIN_ID_BUSINESS_MAN_B \<equiv> 42"
abbreviation (input) SKIN_ID_PROSTITUTE_B :: int where "SKIN_ID_PROSTITUTE_B \<equiv> 43"
abbreviation (input) SKIN_ID_BUM_LADY_D :: int where "SKIN_ID_BUM_LADY_D \<equiv> 44"
abbreviation (input) SKIN_ID_BUM_GUY_B :: int where "SKIN_ID_BUM_GUY_B \<equiv> 45"
abbreviation (input) SKIN_ID_HATIAN_B :: int where "SKIN_ID_HATIAN_B \<equiv> 46"
abbreviation (input) SKIN_ID_CONSTRUCTION_WORKER_A :: int where "SKIN_ID_CONSTRUCTION_WORKER_A \<equiv> 47"
abbreviation (input) SKIN_ID_PUNK_B :: int where "SKIN_ID_PUNK_B \<equiv> 48"
abbreviation (input) SKIN_ID_PROSTITUTE_C :: int where "SKIN_ID_PROSTITUTE_C \<equiv> 49"
abbreviation (input) SKIN_ID_GRANNY_B :: int where "SKIN_ID_GRANNY_B \<equiv> 50"
abbreviation (input) SKIN_ID_PUNK_C :: int where "SKIN_ID_PUNK_C \<equiv> 51"
abbreviation (input) SKIN_ID_BUSINESS_MAN_C :: int where "SKIN_ID_BUSINESS_MAN_C \<equiv> 52"
abbreviation (input) SKIN_ID_SPANISH_LADY_C :: int where "SKIN_ID_SPANISH_LADY_C \<equiv> 53"
abbreviation (input) SKIN_ID_SPANISH_LADY_D :: int where "SKIN_ID_SPANISH_LADY_D \<equiv> 54"
abbreviation (input) SKIN_ID_COOL_GUY_B :: int where "SKIN_ID_COOL_GUY_B \<equiv> 55"
abbreviation (input) SKIN_ID_BUSINESS_MAN_D :: int where "SKIN_ID_BUSINESS_MAN_D \<equiv> 56"
abbreviation (input) SKIN_ID_BEACH_LADY_E :: int where "SKIN_ID_BEACH_LADY_E \<equiv> 57"
abbreviation (input) SKIN_ID_BEACH_GUY_E :: int where "SKIN_ID_BEACH_GUY_E \<equiv> 58"
abbreviation (input) SKIN_ID_BEACH_LADY_F :: int where "SKIN_ID_BEACH_LADY_F \<equiv> 59"
abbreviation (input) SKIN_ID_BEACH_GUY_F :: int where "SKIN_ID_BEACH_GUY_F \<equiv> 60"
abbreviation (input) SKIN_ID_CONSTRUCTION_WORKER_B :: int where "SKIN_ID_CONSTRUCTION_WORKER_B \<equiv> 61"
abbreviation (input) SKIN_ID_GOLF_GUY_B :: int where "SKIN_ID_GOLF_GUY_B \<equiv> 62"
abbreviation (input) SKIN_ID_GOLF_LADY :: int where "SKIN_ID_GOLF_LADY \<equiv> 63"
abbreviation (input) SKIN_ID_GOLF_GUY_C :: int where "SKIN_ID_GOLF_GUY_C \<equiv> 64"
abbreviation (input) SKIN_ID_BEACH_LADY_G :: int where "SKIN_ID_BEACH_LADY_G \<equiv> 65"
abbreviation (input) SKIN_ID_BEACH_GUY_G :: int where "SKIN_ID_BEACH_GUY_G \<equiv> 66"
abbreviation (input) SKIN_ID_OFFICE_LADY_B :: int where "SKIN_ID_OFFICE_LADY_B \<equiv> 67"
abbreviation (input) SKIN_ID_BUSINESS_MAN_E :: int where "SKIN_ID_BUSINESS_MAN_E \<equiv> 68"
abbreviation (input) SKIN_ID_BUSINESS_MAN_F :: int where "SKIN_ID_BUSINESS_MAN_F \<equiv> 69"
abbreviation (input) SKIN_ID_PROSTITUTE_D :: int where "SKIN_ID_PROSTITUTE_D \<equiv> 70"
abbreviation (input) SKIN_ID_BUM_LADY_E :: int where "SKIN_ID_BUM_LADY_E \<equiv> 71"
abbreviation (input) SKIN_ID_BUM_GUY_C :: int where "SKIN_ID_BUM_GUY_C \<equiv> 72"
abbreviation (input) SKIN_ID_SPANISH_GUY :: int where "SKIN_ID_SPANISH_GUY \<equiv> 73"
abbreviation (input) SKIN_ID_TAXI_DRIVER_B :: int where "SKIN_ID_TAXI_DRIVER_B \<equiv> 74"
abbreviation (input) SKIN_ID_GYM_LADY :: int where "SKIN_ID_GYM_LADY \<equiv> 75"
abbreviation (input) SKIN_ID_GYM_GUY :: int where "SKIN_ID_GYM_GUY \<equiv> 76"
abbreviation (input) SKIN_ID_SKATE_LADY :: int where "SKIN_ID_SKATE_LADY \<equiv> 77"
abbreviation (input) SKIN_ID_SKATE_GUY :: int where "SKIN_ID_SKATE_GUY \<equiv> 78"
abbreviation (input) SKIN_ID_SHOPPER_A :: int where "SKIN_ID_SHOPPER_A \<equiv> 79"
abbreviation (input) SKIN_ID_SHOPPER_B :: int where "SKIN_ID_SHOPPER_B \<equiv> 80"
abbreviation (input) SKIN_ID_TOURIST_A :: int where "SKIN_ID_TOURIST_A \<equiv> 81"
abbreviation (input) SKIN_ID_TOURIST_B :: int where "SKIN_ID_TOURIST_B \<equiv> 82"
abbreviation (input) SKIN_ID_CUBAN_A :: int where "SKIN_ID_CUBAN_A \<equiv> 83"
abbreviation (input) SKIN_ID_CUBAN_B :: int where "SKIN_ID_CUBAN_B \<equiv> 84"
abbreviation (input) SKIN_ID_HATIAN_C :: int where "SKIN_ID_HATIAN_C \<equiv> 85"
abbreviation (input) SKIN_ID_HATIAN_D :: int where "SKIN_ID_HATIAN_D \<equiv> 86"
abbreviation (input) SKIN_ID_SHARK_A :: int where "SKIN_ID_SHARK_A \<equiv> 87"
abbreviation (input) SKIN_ID_SHARK_B :: int where "SKIN_ID_SHARK_B \<equiv> 88"
abbreviation (input) SKIN_ID_DIAZ_GUY_A :: int where "SKIN_ID_DIAZ_GUY_A \<equiv> 89"
abbreviation (input) SKIN_ID_DIAZ_GUY_B :: int where "SKIN_ID_DIAZ_GUY_B \<equiv> 90"
abbreviation (input) SKIN_ID_DBP_SECURITY_A :: int where "SKIN_ID_DBP_SECURITY_A \<equiv> 91"
abbreviation (input) SKIN_ID_DBP_SECURITY_B :: int where "SKIN_ID_DBP_SECURITY_B \<equiv> 92"
abbreviation (input) SKIN_ID_BIKER_A :: int where "SKIN_ID_BIKER_A \<equiv> 93"
abbreviation (input) SKIN_ID_BIKER_B :: int where "SKIN_ID_BIKER_B \<equiv> 94"
abbreviation (input) SKIN_ID_VERCETTI_GUY_A :: int where "SKIN_ID_VERCETTI_GUY_A \<equiv> 95"
abbreviation (input) SKIN_ID_VERCETTI_GUY_B :: int where "SKIN_ID_VERCETTI_GUY_B \<equiv> 96"
abbreviation (input) SKIN_ID_UNDERCOVER_COP_A :: int where "SKIN_ID_UNDERCOVER_COP_A \<equiv> 97"
abbreviation (input) SKIN_ID_UNDERCOVER_COP_B :: int where "SKIN_ID_UNDERCOVER_COP_B \<equiv> 98"
abbreviation (input) SKIN_ID_UNDERCOVER_COP_C :: int where "SKIN_ID_UNDERCOVER_COP_C \<equiv> 99"
abbreviation (input) SKIN_ID_UNDERCOVER_COP_D :: int where "SKIN_ID_UNDERCOVER_COP_D \<equiv> 100"
abbreviation (input) SKIN_ID_UNDERCOVER_COP_E :: int where "SKIN_ID_UNDERCOVER_COP_E \<equiv> 101"
abbreviation (input) SKIN_ID_UNDERCOVER_COP_F :: int where "SKIN_ID_UNDERCOVER_COP_F \<equiv> 102"
abbreviation (input) SKIN_ID_RICH_GUY :: int where "SKIN_ID_RICH_GUY \<equiv> 103"
abbreviation (input) SKIN_ID_COOL_GUY_C :: int where "SKIN_ID_COOL_GUY_C \<equiv> 104"
abbreviation (input) SKIN_ID_PROSTITUTE_E :: int where "SKIN_ID_PROSTITUTE_E \<equiv> 105"
abbreviation (input) SKIN_ID_PROSTITUTE_F :: int where "SKIN_ID_PROSTITUTE_F \<equiv> 106"
abbreviation (input) SKIN_ID_LOVE_FIST_A :: int where "SKIN_ID_LOVE_FIST_A \<equiv> 107"
abbreviation (input) SKIN_ID_KEN_ROSENBURG :: int where "SKIN_ID_KEN_ROSENBURG \<equiv> 108"
abbreviation (input) SKIN_ID_CANDY_SUXX :: int where "SKIN_ID_CANDY_SUXX \<equiv> 109"
abbreviation (input) SKIN_ID_HILARY :: int where "SKIN_ID_HILARY \<equiv> 110"
abbreviation (input) SKIN_ID_LOVE_FIST_B :: int where "SKIN_ID_LOVE_FIST_B \<equiv> 111"
abbreviation (input) SKIN_ID_PHIL :: int where "SKIN_ID_PHIL \<equiv> 112"
abbreviation (input) SKIN_ID_ROCKSTAR_GUY :: int where "SKIN_ID_ROCKSTAR_GUY \<equiv> 113"
abbreviation (input) SKIN_ID_SONNY :: int where "SKIN_ID_SONNY \<equiv> 114"
abbreviation (input) SKIN_ID_LANCE_A :: int where "SKIN_ID_LANCE_A \<equiv> 115"
abbreviation (input) SKIN_ID_MERCADES_A :: int where "SKIN_ID_MERCADES_A \<equiv> 116"
abbreviation (input) SKIN_ID_LOVE_FIST_C :: int where "SKIN_ID_LOVE_FIST_C \<equiv> 117"
abbreviation (input) SKIN_ID_ALEX_SRUB :: int where "SKIN_ID_ALEX_SRUB \<equiv> 118"
abbreviation (input) SKIN_ID_LANCE_COP :: int where "SKIN_ID_LANCE_COP \<equiv> 119"
abbreviation (input) SKIN_ID_LANCE_B :: int where "SKIN_ID_LANCE_B \<equiv> 120"
abbreviation (input) SKIN_ID_CORTEZ :: int where "SKIN_ID_CORTEZ \<equiv> 121"
abbreviation (input) SKIN_ID_LOVE_FIST_D :: int where "SKIN_ID_LOVE_FIST_D \<equiv> 122"
abbreviation (input) SKIN_ID_COLUMBIAN_GUY_A :: int where "SKIN_ID_COLUMBIAN_GUY_A \<equiv> 123"
abbreviation (input) SKIN_ID_HILARY_ROBBER :: int where "SKIN_ID_HILARY_ROBBER \<equiv> 124"
abbreviation (input) SKIN_ID_MERCADES_B :: int where "SKIN_ID_MERCADES_B \<equiv> 125"
abbreviation (input) SKIN_ID_CAM :: int where "SKIN_ID_CAM \<equiv> 126"
abbreviation (input) SKIN_ID_CAM_ROBBER :: int where "SKIN_ID_CAM_ROBBER \<equiv> 127"
abbreviation (input) SKIN_ID_PHIL_ONE_ARM :: int where "SKIN_ID_PHIL_ONE_ARM \<equiv> 128"
abbreviation (input) SKIN_ID_PHIL_ROBBER :: int where "SKIN_ID_PHIL_ROBBER \<equiv> 129"
abbreviation (input) SKIN_ID_COOL_GUY_D :: int where "SKIN_ID_COOL_GUY_D \<equiv> 130"
abbreviation (input) SKIN_ID_PIZZAMAN :: int where "SKIN_ID_PIZZAMAN \<equiv> 131"
abbreviation (input) SKIN_ID_TAXI_DRIVER_C :: int where "SKIN_ID_TAXI_DRIVER_C \<equiv> 132"
abbreviation (input) SKIN_ID_TAXI_DRIVER_D :: int where "SKIN_ID_TAXI_DRIVER_D \<equiv> 133"
abbreviation (input) SKIN_ID_SAILOR_A :: int where "SKIN_ID_SAILOR_A \<equiv> 134"
abbreviation (input) SKIN_ID_SAILOR_B :: int where "SKIN_ID_SAILOR_B \<equiv> 135"
abbreviation (input) SKIN_ID_SAILOR_C :: int where "SKIN_ID_SAILOR_C \<equiv> 136"
abbreviation (input) SKIN_ID_CHEF :: int where "SKIN_ID_CHEF \<equiv> 137"
abbreviation (input) SKIN_ID_CRIMINAL_B :: int where "SKIN_ID_CRIMINAL_B \<equiv> 138"
abbreviation (input) SKIN_ID_FRENCH_GUY :: int where "SKIN_ID_FRENCH_GUY \<equiv> 139"
abbreviation (input) SKIN_ID_GARBAGEMAN_B :: int where "SKIN_ID_GARBAGEMAN_B \<equiv> 140"
abbreviation (input) SKIN_ID_HATIAN_E :: int where "SKIN_ID_HATIAN_E \<equiv> 141"
abbreviation (input) SKIN_ID_WAITRESS_B :: int where "SKIN_ID_WAITRESS_B \<equiv> 142"
abbreviation (input) SKIN_ID_SONNY_GUY_A :: int where "SKIN_ID_SONNY_GUY_A \<equiv> 143"
abbreviation (input) SKIN_ID_SONNY_GUY_B :: int where "SKIN_ID_SONNY_GUY_B \<equiv> 144"
abbreviation (input) SKIN_ID_SONNY_GUY_C :: int where "SKIN_ID_SONNY_GUY_C \<equiv> 145"
abbreviation (input) SKIN_ID_COLUMBIAN_GUY_B :: int where "SKIN_ID_COLUMBIAN_GUY_B \<equiv> 146"
abbreviation (input) SKIN_ID_THUG_A :: int where "SKIN_ID_THUG_A \<equiv> 147"
abbreviation (input) SKIN_ID_BEACH_GUY_H :: int where "SKIN_ID_BEACH_GUY_H \<equiv> 148"
abbreviation (input) SKIN_ID_GARBAGEMAN_C :: int where "SKIN_ID_GARBAGEMAN_C \<equiv> 149"
abbreviation (input) SKIN_ID_GARBAGEMAN_D :: int where "SKIN_ID_GARBAGEMAN_D \<equiv> 150"
abbreviation (input) SKIN_ID_GARBAGEMAN_E :: int where "SKIN_ID_GARBAGEMAN_E \<equiv> 151"
abbreviation (input) SKIN_ID_TRANNY :: int where "SKIN_ID_TRANNY \<equiv> 152"
abbreviation (input) SKIN_ID_THUG_B :: int where "SKIN_ID_THUG_B \<equiv> 153"
abbreviation (input) SKIN_ID_SPANDEX_GUY_A :: int where "SKIN_ID_SPANDEX_GUY_A \<equiv> 154"
abbreviation (input) SKIN_ID_SPANDEX_GUY_B :: int where "SKIN_ID_SPANDEX_GUY_B \<equiv> 155"
abbreviation (input) SKIN_ID_STRIPPER_A :: int where "SKIN_ID_STRIPPER_A \<equiv> 156"
abbreviation (input) SKIN_ID_STRIPPER_B :: int where "SKIN_ID_STRIPPER_B \<equiv> 157"
abbreviation (input) SKIN_ID_STRIPPER_C :: int where "SKIN_ID_STRIPPER_C \<equiv> 158"
abbreviation (input) SKIN_ID_STORE_CLERK :: int where "SKIN_ID_STORE_CLERK \<equiv> 159"

definition SkinIdValue_low :: "int list" where
  "SkinIdValue_low = [
     SKIN_ID_UNKNOWN,
     SKIN_ID_TOMMY_VERCETTI,
     SKIN_ID_COP,
     SKIN_ID_SWAT,
     SKIN_ID_FBI,
     SKIN_ID_ARMY,
     SKIN_ID_PARAMEDIC,
     SKIN_ID_FIREMAN,
     SKIN_ID_GOLF_GUY_A,
     SKIN_ID_BUM_LADY_A,
     SKIN_ID_BUM_LADY_B,
     SKIN_ID_PUNK_A,
     SKIN_ID_LAWYER,
     SKIN_ID_SPANISH_LADY_A,
     SKIN_ID_SPANISH_LADY_B,
     SKIN_ID_COOL_GUY_A,
     SKIN_ID_ARABIC_GUY,
     SKIN_ID_BEACH_LADY_A,
     SKIN_ID_BEACH_LADY_B,
     SKIN_ID_BEACH_GUY_A,
     SKIN_ID_BEACH_GUY_B,
     SKIN_ID_OFFICE_LADY_A,
     SKIN_ID_WAITRESS_A,
     SKIN_ID_FOOD_LADY,
     SKIN_ID_PROSTITUTE_A,
     SKIN_ID_BUM_LADY_C,
     SKIN_ID_BUM_GUY_A,
     SKIN_ID_GARBAGEMAN_A,
     SKIN_ID_TAXI_DRIVER_A,
     SKIN_ID_HATIAN_A,
     SKIN_ID_CRIMINAL_A,
     SKIN_ID_HOOD_LADY,
     SKIN_ID_GRANNY_A,
     SKIN_ID_BUSINESS_MAN_A,
     SKIN_ID_CHURCH_GUY,
     SKIN_ID_CLUB_LADY,
     SKIN_ID_CHURCH_LADY,
     SKIN_ID_PIMP,
     SKIN_ID_BEACH_LADY_C,
     SKIN_ID_BEACH_GUY_C,
     SKIN_ID_BEACH_LADY_D,
     SKIN_ID_BEACH_GUY_D,
     SKIN_ID_BUSINESS_MAN_B,
     SKIN_ID_PROSTITUTE_B,
     SKIN_ID_BUM_LADY_D,
     SKIN_ID_BUM_GUY_B,
     SKIN_ID_HATIAN_B,
     SKIN_ID_CONSTRUCTION_WORKER_A,
     SKIN_ID_PUNK_B,
     SKIN_ID_PROSTITUTE_C,
     SKIN_ID_GRANNY_B,
     SKIN_ID_PUNK_C,
     SKIN_ID_BUSINESS_MAN_C,
     SKIN_ID_SPANISH_LADY_C,
     SKIN_ID_SPANISH_LADY_D,
     SKIN_ID_COOL_GUY_B,
     SKIN_ID_BUSINESS_MAN_D,
     SKIN_ID_BEACH_LADY_E,
     SKIN_ID_BEACH_GUY_E,
     SKIN_ID_BEACH_LADY_F,
     SKIN_ID_BEACH_GUY_F,
     SKIN_ID_CONSTRUCTION_WORKER_B,
     SKIN_ID_GOLF_GUY_B,
     SKIN_ID_GOLF_LADY,
     SKIN_ID_GOLF_GUY_C,
     SKIN_ID_BEACH_LADY_G,
     SKIN_ID_BEACH_GUY_G,
     SKIN_ID_OFFICE_LADY_B,
     SKIN_ID_BUSINESS_MAN_E,
     SKIN_ID_BUSINESS_MAN_F,
     SKIN_ID_PROSTITUTE_D,
     SKIN_ID_BUM_LADY_E,
     SKIN_ID_BUM_GUY_C,
     SKIN_ID_SPANISH_GUY,
     SKIN_ID_TAXI_DRIVER_B,
     SKIN_ID_GYM_LADY,
     SKIN_ID_GYM_GUY,
     SKIN_ID_SKATE_LADY,
     SKIN_ID_SKATE_GUY,
     SKIN_ID_SHOPPER_A]"

definition SkinIdValue_high :: "int list" where
  "SkinIdValue_high = [
     SKIN_ID_SHOPPER_B,
     SKIN_ID_TOURIST_A,
     SKIN_ID_TOURIST_B,
     SKIN_ID_CUBAN_A,
     SKIN_ID_CUBAN_B,
     SKIN_ID_HATIAN_C,
     SKIN_ID_HATIAN_D,
     SKIN_ID_SHARK_A,
     SKIN_ID_SHARK_B,
     SKIN_ID_DIAZ_GUY_A,
     SKIN_ID_DIAZ_GUY_B,
     SKIN_ID_DBP_SECURITY_A,
     SKIN_ID_DBP_SECURITY_B,
     SKIN_ID_BIKER_A,
     SKIN_ID_BIKER_B,
     SKIN_ID_VERCETTI_GUY_A,
     SKIN_ID_VERCETTI_GUY_B,
     SKIN_ID_UNDERCOVER_COP_A,
     SKIN_ID_UNDERCOVER_COP_B,
     SKIN_ID_UNDERCOVER_COP_C,
     SKIN_ID_UNDERCOVER_COP_D,
     SKIN_ID_UNDERCOVER_COP_E,
     SKIN_ID_UNDERCOVER_COP_F,
     SKIN_ID_RICH_GUY,
     SKIN_ID_COOL_GUY_C,
     SKIN_ID_PROSTITUTE_E,
     SKIN_ID_PROSTITUTE_F,
     SKIN_ID_LOVE_FIST_A,
     SKIN_ID_KEN_ROSENBURG,
     SKIN_ID_CANDY_SUXX,
     SKIN_ID_HILARY,
     SKIN_ID_LOVE_FIST_B,
     SKIN_ID_PHIL,
     SKIN_ID_ROCKSTAR_GUY,
     SKIN_ID_SONNY,
     SKIN_ID_LANCE_A,
     SKIN_ID_MERCADES_A,
     SKIN_ID_LOVE_FIST_C,
     SKIN_ID_ALEX_SRUB,
     SKIN_ID_LANCE_COP,
     SKIN_ID_LANCE_B,
     SKIN_ID_CORTEZ,
     SKIN_ID_LOVE_FIST_D,
     SKIN_ID_COLUMBIAN_GUY_A,
     SKIN_ID_HILARY_ROBBER,
     SKIN_ID_MERCADES_B,
     SKIN_ID_CAM,
     SKIN_ID_CAM_ROBBER,
     SKIN_ID_PHIL_ONE_ARM,
     SKIN_ID_PHIL_ROBBER,
     SKIN_ID_COOL_GUY_D,
     SKIN_ID_PIZZAMAN,
     SKIN_ID_TAXI_DRIVER_C,
     SKIN_ID_TAXI_DRIVER_D,
     SKIN_ID_SAILOR_A,
     SKIN_ID_SAILOR_B,
     SKIN_ID_SAILOR_C,
     SKIN_ID_CHEF,
     SKIN_ID_CRIMINAL_B,
     SKIN_ID_FRENCH_GUY,
     SKIN_ID_GARBAGEMAN_B,
     SKIN_ID_HATIAN_E,
     SKIN_ID_WAITRESS_B,
     SKIN_ID_SONNY_GUY_A,
     SKIN_ID_SONNY_GUY_B,
     SKIN_ID_SONNY_GUY_C,
     SKIN_ID_COLUMBIAN_GUY_B,
     SKIN_ID_THUG_A,
     SKIN_ID_BEACH_GUY_H,
     SKIN_ID_GARBAGEMAN_C,
     SKIN_ID_GARBAGEMAN_D,
     SKIN_ID_GARBAGEMAN_E,
     SKIN_ID_TRANNY,
     SKIN_ID_THUG_B,
     SKIN_ID_SPANDEX_GUY_A,
     SKIN_ID_SPANDEX_GUY_B,
     SKIN_ID_STRIPPER_A,
     SKIN_ID_STRIPPER_B,
     SKIN_ID_STRIPPER_C,
     SKIN_ID_STORE_CLERK]"

definition SkinIdValue :: "int list" where
  "SkinIdValue = SkinIdValue_low @ SkinIdValue_high"

definition kSkinNames_low :: "(int \<times> string) list" where
  "kSkinNames_low = [
     (0, ''Tommy Vercetti''),
     (1, ''Cop''),
     (2, ''SWAT''),
     (3, ''FBI''),
     (4, ''Army''),
     (5, ''Paramedic''),
     (6, ''Firefighter''),
     (7, ''Golf Guy #1''),
     (9, ''Bum Lady #1''),
     (10, ''Bum Lady #2''),
     (11, ''Punk #1''),
     (12, ''Lawyer''),
     (13, ''Spanish Lady #1''),
     (14, ''Spanish Lady #2''),
     (15, ''Cool Guy #1''),
     (16, ''Arabic Guy''),
     (17, ''Beach Lady #1''),
     (18, ''Beach Lady #2''),
     (19, ''Beach Guy #1''),
     (20, ''Beach Guy #2''),
     (21, ''Office Lady #1''),
     (22, ''Waitress #1''),
     (23, ''Food Lady''),
     (24, ''Prostitute #1''),
     (25, ''Bum Lady #3''),
     (26, ''Bum Guy #1''),
     (27, ''Garbageman #1''),
     (28, ''Taxi Driver #1''),
     (29, ''Haitian #1''),
     (30, ''Criminal #1''),
     (31, ''Hood Lady''),
     (32, ''Granny #1''),
     (33, ''Businessman #1''),
     (34, ''Church Guy''),
     (35, ''Club Lady''),
     (36, ''Church Lady''),
     (37, ''Pimp''),
     (38, ''Beach Lady #3''),
     (39, ''Beach Guy #3''),
     (40, ''Beach Lady #4''),
     (41, ''Beach Guy #4''),
     (42, ''Businessman #2''),
     (43, ''Prostitute #2''),
     (44, ''Bum Lady #4''),
     (45, ''Bum Guy #2''),
     (46, ''Haitian #2''),
     (47, ''Construction Worker #1''),
     (48, ''Punk #2''),
     (49, ''Prostitute #3''),
     (50, ''Granny #2''),
     (51, ''Punk #3''),
     (52, ''Businessman #3''),
     (53, ''Spanish Lady #3''),
     (54, ''Spanish Lady #4''),
     (55, ''Cool Guy #2''),
     (56, ''Businessman #4''),
     (57, ''Beach Lady #5''),
     (58, ''Beach Guy #5''),
     (59, ''Beach Lady #6''),
     (60, ''Beach Guy #6''),
     (61, ''Construction Worker #2''),
     (62, ''Golf Guy #2''),
     (63, ''Golf Lady''),
     (64, ''Golf Guy #3''),
     (65, ''Beach Lady #7''),
     (66, ''Beach Guy #7''),
     (67, ''Office Lady #2''),
     (68, ''Businessman #5''),
     (69, ''Businessman #6''),
     (70, ''Prostitute #2''),
     (71, ''Bum Lady #4''),
     (72, ''Bum Guy #3''),
     (73, ''Spanish Guy''),
     (74, ''Taxi Driver #2''),
     (75, ''Gym Lady''),
     (76, ''Gym Guy''),
     (77, ''Skate Lady''),
     (78, ''Skate Guy''),
     (79, ''Shopper #1''),
     (80, ''Shopper #2''),
     (81, ''Tourist #1''),
     (82, ''Tourist #2''),
     (83, ''Cuban #1''),
     (84, ''Cuban #2''),
     (85, ''Haitian #3''),
     (86, ''Haitian #4''),
     (87, ''Shark #1''),
     (88, ''Shark #2''),
     (89, ''Diaz Guy #1''),
     (90, ''Diaz Guy #2''),
     (91, ''DBP Security #1''),
     (92, ''DBP Security #2''),
     (93, ''Biker #1''),
     (94, ''Biker #2''),
     (95, ''Vercetti Guy #1''),
     (96, ''Vercetti Guy #2''),
     (97, ''Undercover Cop #1'')]"

definition kSkinNames_high :: "(int \<times> string) list" where
  "kSkinNames_high = [
     (98, ''Undercover Cop #2''),
     (99, ''Undercover Cop #3''),
     (100, ''Undercover Cop #4''),
     (101, ''Undercover Cop #5''),
     (102, ''Undercover Cop #6''),
     (103, ''Rich Guy''),
     (104, ''Cool Guy #3''),
     (105, ''Prostitute #3''),
     (106, ''Prostitute #4''),
     (107, ''Love Fist #1''),
     (108, ''Ken Rosenburg''),
     (109, ''Candy Suxx''),
     (110, ''Hilary''),
     (111, ''Love Fist #2''),
     (112, ''Phil''),
     (113, ''Rockstar Guy''),
     (114, ''Sonny''),
     (115, ''Lance''),
     (116, ''Mercedes''),
     (117, ''Love Fist #3''),
     (118, ''Alex Shrub''),
     (119, ''Lance (Cop)''),
     (120, ''Lance''),
     (121, ''Cortez''),
     (122, ''Love Fist #4''),
     (123, ''Columbian Guy #1''),
     (124, ''Hilary (Robber)''),
     (125, ''Mercedes''),
     (126, ''Cam''),
     (127, ''Cam (Robber)''),
     (128, ''Phil (One Arm)''),
     (129, ''Phil (Robber)''),
     (130, ''Cool Guy #4''),
     (131, ''Pizza Man''),
     (132, ''Taxi Driver #1''),
     (133, ''Taxi Driver #2''),
     (134, ''Sailor #1''),
     (135, ''Sailor #2''),
     (136, ''Sailor #3''),
     (137, ''Chef''),
     (138, ''Criminal #2''),
     (139, ''French Guy''),
     (140, ''Garbageman #2''),
     (141, ''Haitian #5''),
     (142, ''Waitress #2''),
     (143, ''Sonny Guy #1''),
     (144, ''Sonny Guy #2''),
     (145, ''Sonny Guy #3''),
     (146, ''Columbian Guy #2''),
     (147, ''Haitian #6''),
     (148, ''Beach Guy #8''),
     (149, ''Garbageman #3''),
     (150, ''Garbageman #4''),
     (151, ''Garbageman #5''),
     (152, ''Tranny''),
     (153, ''Thug #5''),
     (154, ''SpandEx Guy #1''),
     (155, ''SpandEx Guy #2''),
     (156, ''Stripper #1''),
     (157, ''Stripper #2''),
     (158, ''Stripper #3''),
     (159, ''Store Clerk''),
     (161, ''Tommy with Suit''),
     (162, ''Worker Tommy''),
     (163, ''Golfer Tommy''),
     (164, ''Cuban Tommy''),
     (165, ''VCPD Tommy''),
     (166, ''Bank Robber Tommy''),
     (167, ''Street Tommy''),
     (168, ''Mafia Tommy''),
     (169, ''Jogger Tommy #1''),
     (170, ''Jogger Tommy #2''),
     (171, ''Guy With Suit #1''),
     (172, ''Guy With Suit #3''),
     (173, ''Prostitute #5''),
     (174, ''Rico''),
     (175, ''Prostitute #3''),
     (176, ''Club Lady''),
     (177, ''Prostitute #2''),
     (178, ''Skull T-Shirt Guy''),
     (179, ''Easter Egg Tommy''),
     (180, ''Diaz Gangster #1''),
     (181, ''Diaz Gangster #2''),
     (182, ''Hood Lady''),
     (183, ''Punk #1''),
     (184, ''Tray Lady''),
     (185, ''Kent Paul''),
     (186, ''Taxi Driver #1''),
     (187, ''Deformed Ken Rosenberg''),
     (188, ''Deformed Woman''),
     (189, ''Deformed Man''),
     (190, ''Deformed Cortez''),
     (191, ''Deformed Lance Vance''),
     (192, ''Thief #1''),
     (193, ''Thief #2''),
     (194, ''Thief #3'')]"

definition kSkinNames :: "(int \<times> string) list" where
  "kSkinNames = kSkinNames_low @ kSkinNames_high"

definition kWeaponNames :: "(int \<times> string) list" where
  "kWeaponNames = [
     (0, ''Unarmed''),
     (1, ''Brass Knuckles''),
     (2, ''Screwdriver''),
     (3, ''Golf Club''),
     (4, ''Nightstick''),
     (5, ''Knife''),
     (6, ''Baseball Bat''),
     (7, ''Hammer''),
     (8, ''Meat Cleaver''),
     (9, ''Machete''),
     (10, ''Katana''),
     (11, ''Chainsaw''),
     (12, ''Grenade''),
     (13, ''Remote Detonation Grenade''),
     (14, ''Tear Gas''),
     (15, ''Molotov Cocktails''),
     (16, ''Rocket''),
     (17, ''Colt .45''),
     (18, ''Python''),
     (19, ''Pump-Action Shotgun''),
     (20, ''SPAS-12 Shotgun''),
     (21, ''Stubby Shotgun''),
     (22, ''TEC-9''),
     (23, ''Uzi''),
     (24, ''Silenced Ingram''),
     (25, ''MP5''),
     (26, ''M4''),
     (27, ''Ruger''),
     (28, ''Sniper Rifle''),
     (29, ''Laserscope Sniper Rifle''),
     (30, ''Rocket Launcher''),
     (31, ''Flamethrower''),
     (32, ''M60''),
     (33, ''Minigun''),
     (34, ''Explosion''),
     (35, ''Helicannon''),
     (36, ''Camera''),
     (39, ''Vehicle''),
     (41, ''Explosion''),
     (42, ''Driveby''),
     (43, ''Drowned''),
     (44, ''Fall''),
     (51, ''Explosion''),
     (70, ''Suicide'')]"

section \<open>Matching\<close>

text \<open>A \<^verbatim>\<open>switch (d)\<close> whose cases assign \<^verbatim>\<open>id\<close> and break; without a match \<^verbatim>\<open>id\<close> keeps its
  initial value.\<close>

fun switch :: "char \<Rightarrow> (string \<times> int) list \<Rightarrow> int" where
  "switch d [] = SKIN_ID_UNKNOWN"
| "switch d ((cs, v) # rest) = (if d \<in> set cs then v else switch d rest)"

text \<open>The test \<^verbatim>\<open>len >= n + 1 && str[n] == ch\<close>.\<close>

definition has_at :: "string \<Rightarrow> nat \<Rightarrow> char \<Rightarrow> bool" where
  "has_at str n ch \<longleftrightarrow> n + 1 \<le> length str \<and> str ! n = ch"

section \<open>Skin names to ids\<close>

definition skin_a :: "char \<Rightarrow> char \<Rightarrow> int" where
  "skin_a b c =
     (if b = CHR ''l'' \<or> b = CHR ''s'' then SKIN_ID_ALEX_SRUB
      else if b = CHR ''g'' then SKIN_ID_ARABIC_GUY
      else if b = CHR ''r'' then
        (if c = CHR ''a'' then SKIN_ID_ARABIC_GUY
         else if c = CHR ''m'' then SKIN_ID_ARMY
         else SKIN_ID_UNKNOWN)
      else SKIN_ID_UNKNOWN)"

definition skin_b :: "char \<Rightarrow> char \<Rightarrow> char \<Rightarrow> string \<Rightarrow> int" where
  "skin_b b c d str =
     (if b = CHR ''e'' \<and> (c = CHR ''g'' \<or> has_at str 5 (CHR ''g'')) then
        switch d [(''1a'', SKIN_ID_BEACH_GUY_A), (''2b'', SKIN_ID_BEACH_GUY_B),
                  (''3c'', SKIN_ID_BEACH_GUY_C), (''4d'', SKIN_ID_BEACH_GUY_D),
                  (''5e'', SKIN_ID_BEACH_GUY_E), (''6f'', SKIN_ID_BEACH_GUY_F),
                  (''7g'', SKIN_ID_BEACH_GUY_G), (''8h'', SKIN_ID_BEACH_GUY_H)]
      else if b = CHR ''e'' \<and> (c = CHR ''l'' \<or> has_at str 5 (CHR ''l'')) then
        switch d [(''1a'', SKIN_ID_BEACH_LADY_A), (''2b'', SKIN_ID_BEACH_LADY_B),
                  (''3c'', SKIN_ID_BEACH_LADY_C), (''4d'', SKIN_ID_BEACH_LADY_D),
                  (''5e'', SKIN_ID_BEACH_LADY_E), (''6f'', SKIN_ID_BEACH_LADY_F),
                  (''7g'', SKIN_ID_BEACH_LADY_G)]
      else if b = CHR ''i'' \<and> (d = CHR ''1'' \<or> d = CHR ''a'') then SKIN_ID_BIKER_A
      else if b = CHR ''i'' \<and> (d = CHR ''2'' \<or> d = CHR ''b'') then SKIN_ID_BIKER_B
      else if b = CHR ''u'' \<and> (c = CHR ''m'' \<or> c = CHR ''g'' \<or> c = CHR ''l'') then
        (if c = CHR ''g'' \<or> has_at str 3 (CHR ''g'') then
           (if d = CHR ''1'' \<or> d = CHR ''a'' then SKIN_ID_BUM_GUY_A
            else if d = CHR ''2'' \<or> d = CHR ''b'' then SKIN_ID_BUM_GUY_B
            else if d = CHR ''3'' \<or> d = CHR ''c'' then SKIN_ID_BUM_GUY_C
            else SKIN_ID_UNKNOWN)
         else if c = CHR ''l'' \<or> has_at str 3 (CHR ''l'') then
           (if d = CHR ''1'' \<or> d = CHR ''a'' then SKIN_ID_BUM_LADY_A
            else if d = CHR ''2'' \<or> d = CHR ''b'' then SKIN_ID_BUM_LADY_B
            else if d = CHR ''2'' \<or> d = CHR ''c'' then SKIN_ID_BUM_LADY_C
            else if d = CHR ''3'' \<or> d = CHR ''d'' then SKIN_ID_BUM_LADY_D
            else if d = CHR ''4'' \<or> d = CHR ''e'' then SKIN_ID_BUM_LADY_E
            else SKIN_ID_UNKNOWN)
         else SKIN_ID_UNKNOWN)
      else if b = CHR ''u'' \<and> (c = CHR ''s'' \<or> has_at str 9 (CHR ''m'')) then
        switch d [(''1a'', SKIN_ID_BUSINESS_MAN_A), (''2b'', SKIN_ID_BUSINESS_MAN_B),
                  (''3c'', SKIN_ID_BUSINESS_MAN_C), (''4d'', SKIN_ID_BUSINESS_MAN_D),
                  (''5e'', SKIN_ID_BUSINESS_MAN_E), (''6f'', SKIN_ID_BUSINESS_MAN_F)]
      else SKIN_ID_UNKNOWN)"

text \<open>The branch \<^verbatim>\<open>b == 'o'\<close> of case \<^verbatim>\<open>'c'\<close>.\<close>

definition skin_co :: "char \<Rightarrow> char \<Rightarrow> string \<Rightarrow> int" where
  "skin_co c d str =
     (if c = CHR ''l'' \<and> has_at str 9 (CHR ''g'') \<or> c = CHR ''g'' then
        (if d = CHR ''1'' \<or> d = CHR ''a'' then SKIN_ID_COLUMBIAN_GUY_A
         else if d = CHR ''2'' \<or> d = CHR ''b'' then SKIN_ID_COLUMBIAN_GUY_B
         else SKIN_ID_UNKNOWN)
      else if c \<noteq> CHR 0x00 \<and> (c = CHR ''n'' \<or> has_at str 12 (CHR ''g'')) then
        (if d = CHR ''1'' \<or> d = CHR ''a'' then SKIN_ID_CONSTRUCTION_WORKER_A
         else if d = CHR ''2'' \<or> d = CHR ''b'' then SKIN_ID_CONSTRUCTION_WORKER_B
         else SKIN_ID_UNKNOWN)
      else if c = CHR ''o'' then
        switch d [(''1a'', SKIN_ID_COOL_GUY_A), (''2b'', SKIN_ID_COOL_GUY_B),
                  (''3c'', SKIN_ID_COOL_GUY_C), (''4d'', SKIN_ID_COOL_GUY_D)]
      else if c = CHR ''p'' then SKIN_ID_COP
      else if c \<noteq> CHR 0x00 \<and> (c = CHR ''r'' \<or> c = CHR ''z'' \<or> d = CHR ''z'') then SKIN_ID_CORTEZ
      else SKIN_ID_UNKNOWN)"

definition skin_c :: "char \<Rightarrow> char \<Rightarrow> char \<Rightarrow> string \<Rightarrow> int" where
  "skin_c b c d str =
     (if b = CHR ''a'' then
        (if (c = CHR ''m'' \<or> c = CHR ''r'') \<and> d = CHR ''r'' then SKIN_ID_CAM_ROBBER
         else if c = CHR ''m'' then SKIN_ID_CAM
         else if c \<noteq> CHR 0x00 \<and> (c = CHR ''n'' \<or> c = CHR ''s'' \<or> d = CHR ''x'') then SKIN_ID_CANDY_SUXX
         else SKIN_ID_UNKNOWN)
      else if b = CHR ''h'' then
        (if c \<noteq> CHR 0x00 \<and> (c = CHR ''e'' \<or> d = CHR ''f'') then SKIN_ID_CHEF
         else if c = CHR ''u'' \<and> has_at str 6 (CHR ''g'') \<or> c = CHR ''g'' then SKIN_ID_CHURCH_GUY
         else if c = CHR ''u'' \<and> has_at str 6 (CHR ''l'') \<or> c = CHR ''l'' then SKIN_ID_CHURCH_LADY
         else SKIN_ID_UNKNOWN)
      else if b = CHR ''l'' then SKIN_ID_CLUB_LADY
      else if b = CHR ''o'' then skin_co c d str
      else if b = CHR ''r'' \<and> (d = CHR ''1'' \<or> d = CHR ''a'') then SKIN_ID_CRIMINAL_A
      else if b = CHR ''r'' \<and> (d = CHR ''2'' \<or> d = CHR ''b'') then SKIN_ID_CRIMINAL_B
      else if b = CHR ''u'' \<and> (d = CHR ''1'' \<or> d = CHR ''a'') then SKIN_ID_CUBAN_A
      else if b = CHR ''u'' \<and> (d = CHR ''2'' \<or> d = CHR ''b'') then SKIN_ID_CUBAN_B
      else SKIN_ID_UNKNOWN)"

definition skin_d :: "char \<Rightarrow> char \<Rightarrow> int" where
  "skin_d b d =
     (if b = CHR ''b'' \<or> b = CHR ''s'' then
        (if d = CHR ''1'' \<or> d = CHR ''a'' then SKIN_ID_DBP_SECURITY_A
         else if d = CHR ''2'' \<or> d = CHR ''b'' then SKIN_ID_DBP_SECURITY_B
         else SKIN_ID_UNKNOWN)
      else if b = CHR ''i'' \<or> b = CHR ''z'' \<or> b = CHR ''g'' then
        (if d = CHR ''1'' \<or> d = CHR ''a'' then SKIN_ID_DIAZ_GUY_A
         else if d = CHR ''2'' \<or> d = CHR ''b'' then SKIN_ID_DIAZ_GUY_B
         else SKIN_ID_UNKNOWN)
      else SKIN_ID_UNKNOWN)"

definition skin_f :: "char \<Rightarrow> int" where
  "skin_f b = switch b [(''b'', SKIN_ID_FBI), (''im'', SKIN_ID_FIREMAN),
                        (''ol'', SKIN_ID_FOOD_LADY), (''rg'', SKIN_ID_FRENCH_GUY)]"

definition skin_g :: "char \<Rightarrow> char \<Rightarrow> char \<Rightarrow> string \<Rightarrow> int" where
  "skin_g b c d str =
     (if b = CHR ''a'' \<or> b = CHR ''m'' then
        switch d [(''1a'', SKIN_ID_GARBAGEMAN_A), (''2b'', SKIN_ID_GARBAGEMAN_B),
                  (''3c'', SKIN_ID_GARBAGEMAN_C), (''4d'', SKIN_ID_GARBAGEMAN_D),
                  (''5e'', SKIN_ID_GARBAGEMAN_E)]
      else if b = CHR ''o'' \<and> (c = CHR ''g'' \<or> has_at str 4 (CHR ''g'')) then
        switch d [(''1a'', SKIN_ID_GOLF_GUY_A), (''2b'', SKIN_ID_GOLF_GUY_B),
                  (''3c'', SKIN_ID_GOLF_GUY_C)]
      else if b = CHR ''o'' \<and> (c = CHR ''l'' \<or> has_at str 4 (CHR ''l'')) then SKIN_ID_GOLF_LADY
      else if b = CHR ''r'' then
        (if d = CHR ''1'' \<or> d = CHR ''a'' then SKIN_ID_GRANNY_A
         else if d = CHR ''2'' \<or> d = CHR ''b'' then SKIN_ID_GRANNY_B
         else SKIN_ID_UNKNOWN)
      else if b = CHR ''g'' \<or> b = CHR ''y'' \<and> has_at str 3 (CHR ''g'') then SKIN_ID_GYM_GUY
      else if b = CHR ''l'' \<or> b = CHR ''y'' \<and> has_at str 3 (CHR ''l'') then SKIN_ID_GYM_LADY
      else SKIN_ID_UNKNOWN)"

text \<open>The last test of case \<^verbatim>\<open>'h'\<close> is an \<^verbatim>\<open>if\<close> of its own, which overrides what the first
  ones chose.\<close>

definition skin_h :: "char \<Rightarrow> char \<Rightarrow> int" where
  "skin_h b d =
     (let chosen = (if b = CHR ''a'' then
                  switch d [(''1a'', SKIN_ID_HATIAN_A), (''2b'', SKIN_ID_HATIAN_B),
                            (''3c'', SKIN_ID_HATIAN_C), (''4d'', SKIN_ID_HATIAN_D),
                            (''5e'', SKIN_ID_HATIAN_E)]
                else if (b = CHR ''i'' \<or> b = CHR ''r'') \<and> d = CHR ''r'' then SKIN_ID_HILARY_ROBBER
                else if b = CHR ''i'' then SKIN_ID_HILARY
                else SKIN_ID_UNKNOWN)
      in if b = CHR ''o'' \<or> b = CHR ''l'' then SKIN_ID_HOOD_LADY else chosen)"

definition skin_l :: "char \<Rightarrow> char \<Rightarrow> char \<Rightarrow> string \<Rightarrow> int" where
  "skin_l b c d str =
     (if b = CHR ''a'' \<and> c = CHR ''n'' \<and> (has_at str 5 (CHR ''c'') \<or> d = CHR ''p'') then SKIN_ID_LANCE_COP
      else if b = CHR ''c'' \<or> b = CHR ''a'' \<and> c = CHR ''n'' then SKIN_ID_LANCE_COP
      else if b = CHR ''a'' \<and> c = CHR ''n'' then
        (if d = CHR ''1'' \<or> d = CHR ''a'' then SKIN_ID_LANCE_A
         else if d = CHR ''2'' \<or> d = CHR ''b'' then SKIN_ID_LANCE_B
         else SKIN_ID_UNKNOWN)
      else if b = CHR ''w'' \<or> b = CHR ''a'' \<and> c = CHR ''w'' then SKIN_ID_LAWYER
      else if b = CHR ''o'' \<or> b = CHR ''f'' then
        switch d [(''1a'', SKIN_ID_LOVE_FIST_A), (''2b'', SKIN_ID_LOVE_FIST_B),
                  (''3c'', SKIN_ID_LOVE_FIST_C), (''d'', SKIN_ID_LOVE_FIST_D)]
      else SKIN_ID_UNKNOWN)"

definition skin_m :: "char \<Rightarrow> int" where
  "skin_m d = (if d = CHR ''b'' then SKIN_ID_MERCADES_B else SKIN_ID_MERCADES_A)"

definition skin_o :: "char \<Rightarrow> int" where
  "skin_o d =
     (if d = CHR ''1'' \<or> d = CHR ''a'' then SKIN_ID_OFFICE_LADY_A
      else if d = CHR ''2'' \<or> d = CHR ''b'' then SKIN_ID_OFFICE_LADY_B
      else SKIN_ID_UNKNOWN)"

definition skin_p :: "char \<Rightarrow> char \<Rightarrow> char \<Rightarrow> string \<Rightarrow> int" where
  "skin_p b c d str =
     (if b = CHR ''a'' then SKIN_ID_PARAMEDIC
      else if b = CHR ''h'' then
        (if b = CHR ''o'' \<or> c = CHR ''o'' \<or> has_at str 4 (CHR ''o'') \<or> d = CHR ''m'' then SKIN_ID_PHIL_ONE_ARM
         else if c \<noteq> CHR 0x00 \<and> (c = CHR ''r'' \<or> d = CHR ''r'' \<or> has_at str 4 (CHR ''r'')) then SKIN_ID_PHIL_ROBBER
         else if c = CHR ''i'' then SKIN_ID_PHIL
         else SKIN_ID_UNKNOWN)
      else if b = CHR ''i'' \<and> (c = CHR ''m'' \<or> d = CHR ''p'') then SKIN_ID_PIMP
      else if b = CHR ''i'' \<and> (c = CHR ''z'' \<or> d = CHR ''n'') then SKIN_ID_PIZZAMAN
      else if b = CHR ''r'' then
        switch d [(''1a'', SKIN_ID_PROSTITUTE_A), (''2b'', SKIN_ID_PROSTITUTE_B),
                  (''c'', SKIN_ID_PROSTITUTE_C), (''d'', SKIN_ID_PROSTITUTE_D),
                  (''3e'', SKIN_ID_PROSTITUTE_E), (''4f'', SKIN_ID_PROSTITUTE_F)]
      else if b = CHR ''u'' then
        switch d [(''1a'', SKIN_ID_PUNK_A), (''2b'', SKIN_ID_PUNK_B), (''3c'', SKIN_ID_PUNK_C)]
      else SKIN_ID_UNKNOWN)"

definition skin_r :: "char \<Rightarrow> int" where
  "skin_r b = (if b = CHR ''i'' then SKIN_ID_RICH_GUY
     else if b = CHR ''o'' then SKIN_ID_ROCKSTAR_GUY else SKIN_ID_UNKNOWN)"

definition skin_s :: "char \<Rightarrow> char \<Rightarrow> char \<Rightarrow> string \<Rightarrow> int" where
  "skin_s b c d str =
     (if b = CHR ''a'' then
        switch d [(''1a'', SKIN_ID_SAILOR_A), (''2b'', SKIN_ID_SAILOR_B), (''3c'', SKIN_ID_SAILOR_C)]
      else if b = CHR ''h'' \<and> c = CHR ''a'' then
        switch d [(''1a'', SKIN_ID_SHARK_A), (''2b'', SKIN_ID_SHARK_B)]
      else if b = CHR ''h'' \<and> c = CHR ''o'' then
        switch d [(''1a'', SKIN_ID_SHOPPER_A), (''2b'', SKIN_ID_SHOPPER_B)]
      else if b = CHR ''k'' \<and> (c = CHR ''g'' \<or> has_at str 5 (CHR ''g'')) then SKIN_ID_SKATE_GUY
      else if b = CHR ''k'' \<and> (c = CHR ''l'' \<or> has_at str 5 (CHR ''l'')) then SKIN_ID_SKATE_LADY
      else if b = CHR ''o'' then
        switch d [(''1a'', SKIN_ID_SONNY_GUY_A), (''2b'', SKIN_ID_SONNY_GUY_B), (''3c'', SKIN_ID_SONNY_GUY_C)]
      else if b = CHR ''g'' then
        switch d [(''1a'', SKIN_ID_SONNY_GUY_A), (''2b'', SKIN_ID_SONNY_GUY_B), (''3c'', SKIN_ID_SONNY_GUY_C)]
      else if b = CHR ''p'' \<and> (c = CHR ''x'' \<or> has_at str 6 (CHR ''x'')) then
        switch d [(''1a'', SKIN_ID_SPANDEX_GUY_A), (''2b'', SKIN_ID_SPANDEX_GUY_B)]
      else if b = CHR ''p'' \<and> (c = CHR ''g'' \<or> has_at str 7 (CHR ''g'')) then SKIN_ID_SPANISH_GUY
      else if b = CHR ''p'' \<and> (c = CHR ''l'' \<or> has_at str 7 (CHR ''l'')) then
        switch d [(''1a'', SKIN_ID_SPANISH_LADY_A), (''2b'', SKIN_ID_SPANISH_LADY_B),
                  (''3c'', SKIN_ID_SPANISH_LADY_C), (''4d'', SKIN_ID_SPANISH_LADY_D)]
      else if b = CHR ''t'' \<and> c = CHR ''o'' then SKIN_ID_STORE_CLERK
      else if b = CHR ''t'' \<and> c = CHR ''r'' then
        switch d [(''1a'', SKIN_ID_STRIPPER_A), (''2b'', SKIN_ID_STRIPPER_B), (''3c'', SKIN_ID_STRIPPER_C)]
      else if b = CHR ''w'' then SKIN_ID_SWAT
      else SKIN_ID_UNKNOWN)"

definition skin_t :: "char \<Rightarrow> char \<Rightarrow> char \<Rightarrow> int" where
  "skin_t b c d =
     (if b = CHR ''a'' then
        switch d [(''1a'', SKIN_ID_TAXI_DRIVER_A), (''2b'', SKIN_ID_TAXI_DRIVER_B),
                  (''c'', SKIN_ID_TAXI_DRIVER_C), (''d'', SKIN_ID_TAXI_DRIVER_D)]
      else if b = CHR ''h'' then
        switch d [(''1a'', SKIN_ID_THUG_A), (''5b'', SKIN_ID_THUG_B)]
      else if b = CHR ''v'' then SKIN_ID_TOMMY_VERCETTI
      else if b = CHR ''o'' then
        (if c = CHR ''m'' then SKIN_ID_TOMMY_VERCETTI
         else if c = CHR ''u'' \<and> (d = CHR ''1'' \<or> d = CHR ''a'') then SKIN_ID_TOURIST_A
         else if c = CHR ''u'' \<and> (d = CHR ''2'' \<or> d = CHR ''b'') then SKIN_ID_TOURIST_B
         else SKIN_ID_UNKNOWN)
      else if b = CHR ''r'' then SKIN_ID_TRANNY
      else SKIN_ID_UNKNOWN)"

definition skin_u :: "char \<Rightarrow> int" where
  "skin_u d = switch d
     [(''1a'', SKIN_ID_UNDERCOVER_COP_A), (''2b'', SKIN_ID_UNDERCOVER_COP_B),
      (''3c'', SKIN_ID_UNDERCOVER_COP_C), (''4d'', SKIN_ID_UNDERCOVER_COP_D),
      (''5e'', SKIN_ID_UNDERCOVER_COP_E), (''6f'', SKIN_ID_UNDERCOVER_COP_F)]"

definition skin_v :: "char \<Rightarrow> int" where
  "skin_v d = switch d [(''1a'', SKIN_ID_VERCETTI_GUY_A), (''2b'', SKIN_ID_VERCETTI_GUY_B)]"

definition skin_w :: "char \<Rightarrow> int" where
  "skin_w d = switch d [(''1a'', SKIN_ID_WAITRESS_A), (''2b'', SKIN_ID_WAITRESS_B)]"

text \<open>The outer \<^verbatim>\<open>switch (a)\<close>; there is no case for e, i, j, n, q, x, y and z.\<close>

definition skin_switch :: "char \<Rightarrow> char \<Rightarrow> char \<Rightarrow> char \<Rightarrow> string \<Rightarrow> int" where
  "skin_switch a b c d str =
     (if a = CHR ''a'' then skin_a b c
      else if a = CHR ''b'' then skin_b b c d str
      else if a = CHR ''c'' then skin_c b c d str
      else if a = CHR ''d'' then skin_d b d
      else if a = CHR ''f'' then skin_f b
      else if a = CHR ''g'' then skin_g b c d str
      else if a = CHR ''h'' then skin_h b d
      else if a = CHR ''k'' then SKIN_ID_KEN_ROSENBURG
      else if a = CHR ''l'' then skin_l b c d str
      else if a = CHR ''m'' then skin_m d
      else if a = CHR ''o'' then skin_o d
      else if a = CHR ''p'' then skin_p b c d str
      else if a = CHR ''r'' then skin_r b
      else if a = CHR ''s'' then skin_s b c d str
      else if a = CHR ''t'' then skin_t b c d
      else if a = CHR ''u'' then skin_u d
      else if a = CHR ''v'' then skin_v d
      else if a = CHR ''w'' then skin_w d
      else SKIN_ID_UNKNOWN)"

definition lower_at :: "string \<Rightarrow> nat \<Rightarrow> char" where
  "lower_at name n = (if n + 1 \<le> length name then Lower (name ! n) else CHR 0x00)"

definition SkinId :: "string \<Rightarrow> int" where
  "SkinId name =
     (let str = map Lower (filter isalnum name)
      in if str = [] then SKIN_ID_UNKNOWN
         else skin_switch (lower_at name 0) (lower_at name 1) (lower_at name 2)
                (str ! (length str - 1)) str)"

section \<open>Weapon names to ids\<close>

definition weapon_s :: "char \<Rightarrow> int" where
  "weapon_s char2 =
     (if char2 = CHR ''c'' then 2
      else if char2 = CHR ''h'' then 19
      else if char2 = CHR ''p'' then 20
      else if char2 = CHR ''t'' \<or> char2 = CHR ''a'' then 21
      else if char2 = CHR ''i'' then 24
      else if char2 = CHR ''n'' then 28
      else 2)"

definition weapon_k :: "char \<Rightarrow> char \<Rightarrow> int" where
  "weapon_k char2 char3 =
     (if char2 = CHR ''n'' then
        (if char3 = CHR ''i'' then 5 else if char3 = CHR ''u'' then 1 else 255)
      else 10)"

definition weapon_m :: "char \<Rightarrow> int" where
  "weapon_m char2 =
     (if char2 = CHR ''e'' then 8
      else if char2 = CHR ''a'' then 9
      else if char2 = CHR ''o'' then 15
      else if char2 = CHR ''p'' then 25
      else if char2 = CHR ''4'' then 26
      else if char2 = CHR ''6'' then 32
      else if char2 = CHR ''i'' then 33
      else 26)"

definition weapon_c :: "char \<Rightarrow> int" where
  "weapon_c char2 = (if char2 = CHR ''l'' then 8 else if char2 = CHR ''h'' then 11 else 17)"

definition weapon_r :: "char \<Rightarrow> int" where
  "weapon_r char2 =
     (if char2 = CHR ''e'' then 13
      else if char2 = CHR ''o'' \<or> char2 = CHR ''p'' then 30
      else if char2 = CHR ''u'' then 27
      else 27)"

definition weapon_t :: "char \<Rightarrow> char \<Rightarrow> int" where
  "weapon_t char2 char3 = (if char2 \<noteq> CHR 0x00 then (if char3 = CHR ''a'' then 14 else 22) else 22)"

definition weapon_last :: "char \<Rightarrow> int" where
  "weapon_last char1 =
     (if char1 = CHR ''p'' then 18
      else if char1 = CHR ''u'' then 23
      else if char1 = CHR ''i'' then 24
      else if char1 = CHR ''l'' then 29
      else 255)"

lemmas weapon_defs = weapon_s_def weapon_k_def weapon_m_def weapon_c_def weapon_r_def weapon_t_def weapon_last_def

definition WeaponId :: "string \<Rightarrow> int" where
  "WeaponId name =
     (if name = [] then 0
      else
        let char1 = lower_at name 0; char2 = lower_at name 1; char3 = lower_at name 2
        in if char1 = CHR ''f'' then (if char2 = CHR ''i'' then 0 else 31)
           else if char1 = CHR ''b'' then (if char2 = CHR ''r'' then 1 else 6)
           else if char1 = CHR ''s'' then weapon_s char2
           else if char1 = CHR ''g'' then (if char2 = CHR ''o'' then 3 else 12)
           else if char1 = CHR ''n'' then 4
           else if char1 = CHR ''k'' then weapon_k char2 char3
           else if char1 = CHR ''h'' then 7
           else if char1 = CHR ''m'' then weapon_m char2
           else if char1 = CHR ''c'' then weapon_c char2
           else if char1 = CHR ''r'' then weapon_r char2
           else if char1 = CHR ''t'' then weapon_t char2 char3
           else weapon_last char1)"

lemmas kSkinNames_defs = kSkinNames_def kSkinNames_low_def kSkinNames_high_def

section \<open>Ids to names\<close>

definition SkinName :: "int \<Rightarrow> string option" where
  "SkinName i = map_of kSkinNames i"

definition WeaponName :: "int \<Rightarrow> string" where
  "WeaponName i = (case map_of kWeaponNames i of Some text \<Rightarrow> text | None \<Rightarrow> ''Unknown'')"

section \<open>What the look-ups promise\<close>

lemma alnum_map_Lower [simp]:
  "map Lower (filter isalnum (map Lower name)) = map Lower (filter isalnum name)"
  by (induction name) auto

lemma lower_at_map_Lower [simp]: "lower_at (map Lower name) n = lower_at name n"
  by (simp add: lower_at_def)

lemma if_in: "\<lbrakk>P \<Longrightarrow> x \<in> S; \<not> P \<Longrightarrow> y \<in> S\<rbrakk> \<Longrightarrow> (if P then x else y) \<in> S"
  by simp

lemma switch_in: "\<lbrakk>SKIN_ID_UNKNOWN \<in> S; snd ` set t \<subseteq> S\<rbrakk> \<Longrightarrow> switch d t \<in> S"
  by (induction t) auto

lemmas skin_defs =
  skin_a_def skin_b_def skin_c_def skin_co_def skin_d_def skin_f_def skin_g_def skin_h_def
  skin_l_def skin_m_def skin_o_def skin_p_def skin_r_def skin_s_def skin_t_def skin_u_def
  skin_v_def skin_w_def

lemmas SkinId_eval =
  SkinId_def isalnum_code Lower_code skin_switch_def skin_defs lower_at_def has_at_def

lemma SkinIdValue_set: "set SkinIdValue = {- 1..159} - {8}"
  by code_simp

lemma skin_switch_in:
  "skin_switch a b c d str \<in> {- 1..159} - {8, SKIN_ID_SONNY, SKIN_ID_LANCE_A, SKIN_ID_LANCE_B}"
  unfolding skin_switch_def skin_defs Let_def by (intro if_in switch_in; simp)

lemma SkinId_in:
  "SkinId name \<in> {- 1..159} - {8, SKIN_ID_SONNY, SKIN_ID_LANCE_A, SKIN_ID_LANCE_B}"
proof (cases "map Lower (filter isalnum name) = []")
  case True
  then show ?thesis
    by (simp add: SkinId_def)
next
  case False
  then show ?thesis
    unfolding SkinId_def Let_def by (simp only: if_False skin_switch_in)
qed

text \<open>The table entries whose own name is not taken back to their id.\<close>

lemma skin_table_misses:
  "map fst (filter (\<lambda>(i, n). SkinId n \<noteq> i) kSkinNames)
     = [25, 44, 49, 70, 114, 115, 120, 122, 125, 132, 133, 147] @ [161..194]"
  by (simp add: SkinId_eval kSkinNames_defs upto_rec1)

lemma skin_table_keys: "map fst kSkinNames = [0..7] @ [9..159] @ [161..194]"
  by (simp add: kSkinNames_defs upto_rec1)

lemma skin_table_distinct: "distinct (map fst kSkinNames)"
  unfolding skin_table_keys by (simp only: distinct_append distinct_upto set_append set_upto) auto

lemma skin_table_key_set: "fst ` set kSkinNames = {0..7} \<union> {9..159} \<union> {161..194}"
  using arg_cong [OF skin_table_keys, of set] by (simp only: set_map set_append set_upto Un_assoc)

lemma SkinName_iff: "SkinName i = Some n \<longleftrightarrow> (i, n) \<in> set kSkinNames"
  by (simp add: SkinName_def skin_table_distinct)

lemma SkinName_dom: "SkinName i \<noteq> None \<longleftrightarrow> i \<in> {0..7} \<union> {9..159} \<union> {161..194}"
  by (simp only: SkinName_def map_of_eq_None_iff skin_table_key_set not_not)

lemma SkinName_miss_set:
  "{i. \<exists>n. SkinName i = Some n \<and> SkinId n \<noteq> i}
     = {25, 44, 49, 70, 114, 115, 120, 122, 125, 132, 133, 147} \<union> {161..194}"
proof -
  have "{i. \<exists>n. SkinName i = Some n \<and> SkinId n \<noteq> i}
          = set (map fst (filter (\<lambda>(i, n). SkinId n \<noteq> i) kSkinNames))"
    by (force simp: SkinName_iff image_iff)
  then show ?thesis
    unfolding skin_table_misses by (simp only: set_append set_upto list.set)
qed

lemma SkinId_hit:
  assumes "i \<in> {0..159} - {8}" "i \<notin> {25, 44, 49, 70, 114, 115, 120, 122, 125, 132, 133, 147}"
  shows "i \<in> range SkinId"
proof -
  from assms(1) have "SkinName i \<noteq> None"
    unfolding SkinName_dom by auto
  then obtain n where n: "SkinName i = Some n"
    by auto
  from assms have "i \<notin> {i. \<exists>n. SkinName i = Some n \<and> SkinId n \<noteq> i}"
    unfolding SkinName_miss_set by simp
  with n show ?thesis
    by auto
qed

lemma SkinId_letters:
  "map SkinId [[], ''Bum Lady C'', ''Bum Lady D'', ''Prostitute C'', ''Prostitute D'',
     ''Love Fist D'', ''Mercedes B'', ''Taxi Driver C'', ''Taxi Driver D'', ''Thug A'']
   = [- 1, 25, 44, 49, 70, 122, 125, 132, 133, 147]"
  by (simp add: SkinId_eval)

text \<open>
  C40. The skin heuristics return exactly the enumerators of \<^verbatim>\<open>SkinIdValue\<close> other than
  \<^verbatim>\<open>SKIN_ID_SONNY\<close>, \<^verbatim>\<open>SKIN_ID_LANCE_A\<close> and \<^verbatim>\<open>SKIN_ID_LANCE_B\<close>: every other enumerator is the
  id of some name, nothing outside the enumeration is ever returned, and no name at
  all gives those three, although the code has a rule for the two Lances.
\<close>

theorem SkinId_range:
  "range SkinId = set SkinIdValue - {SKIN_ID_SONNY, SKIN_ID_LANCE_A, SKIN_ID_LANCE_B}"
proof
  show "range SkinId \<subseteq> set SkinIdValue - {SKIN_ID_SONNY, SKIN_ID_LANCE_A, SKIN_ID_LANCE_B}"
    unfolding SkinIdValue_set using SkinId_in by (simp add: image_subset_iff)
  show "set SkinIdValue - {SKIN_ID_SONNY, SKIN_ID_LANCE_A, SKIN_ID_LANCE_B} \<subseteq> range SkinId"
  proof
    fix i assume i: "i \<in> set SkinIdValue - {SKIN_ID_SONNY, SKIN_ID_LANCE_A, SKIN_ID_LANCE_B}"
    show "i \<in> range SkinId"
    proof (cases "i \<in> set [- 1, 25, 44, 49, 70, 122, 125, 132, 133, 147]")
      case True
      then show ?thesis
        unfolding SkinId_letters [symmetric] set_map by blast
    next
      case False
      then have "i \<noteq> - 1"
        by simp
      then have "- 1 \<le> i \<longleftrightarrow> 0 \<le> i"
        by arith
      with False i show ?thesis
        unfolding SkinIdValue_set by (intro SkinId_hit) simp_all
    qed
  qed
qed

text \<open>
  Round trip of the skin names: the name that \<^verbatim>\<open>SkinName\<close> gives for an id is taken
  back to that id by \<^verbatim>\<open>SkinId\<close>, except for exactly the twelve skins listed (whose names
  are shared, or numbered in another way than the heuristics number them) and the
  skins 161 to 194, which the heuristics do not know.
\<close>

theorem SkinId_SkinName:
  "{i. \<exists>n. SkinName i = Some n \<and> SkinId n \<noteq> i}
     = {25, 44, 49, 70, 114, 115, 120, 122, 125, 132, 133, 147} \<union> {161..194}"
  by (rule SkinName_miss_set)

text \<open>
  The look-ups by name ignore the case of letters.
\<close>

theorem names_ignore_case:
  "SkinId (map Lower name) = SkinId name \<and> WeaponId (map Lower name) = WeaponId name"
  unfolding SkinId_def WeaponId_def Let_def by simp

lemma weapon_table_misses:
  "map fst (filter (\<lambda>(i, n). WeaponId n \<noteq> i) kWeaponNames)
     = [0, 16, 19, 34, 35, 36, 39, 41, 42, 43, 44, 51, 70]"
  by (simp add: WeaponId_def weapon_defs Let_def lower_at_def kWeaponNames_def Lower_code)

lemma weapon_table_keys: "map fst kWeaponNames = [0..36] @ [39, 41, 42, 43, 44, 51, 70]"
  by (simp add: kWeaponNames_def upto_rec1)

lemma weapon_table_distinct: "distinct (map fst kWeaponNames)"
  by (simp add: weapon_table_keys)

lemma WeaponName_known:
  assumes "i \<in> {0..33} - {0, 16, 19}"
  shows "WeaponId (WeaponName i) = i"
proof -
  have "i \<in> set (map fst kWeaponNames)"
    unfolding weapon_table_keys using assms by auto
  then obtain n where n: "(i, n) \<in> set kWeaponNames"
    by auto
  then have name: "WeaponName i = n"
    using weapon_table_distinct by (simp add: WeaponName_def)
  have "i \<notin> set (map fst (filter (\<lambda>(i, n). WeaponId n \<noteq> i) kWeaponNames))"
    unfolding weapon_table_misses using assms by auto
  then have "WeaponId n = i"
    using n by force
  then show ?thesis
    by (simp add: name)
qed

lemma WeaponId_in: "WeaponId name \<in> {0..33} - {16} \<union> {255}"
  unfolding WeaponId_def weapon_defs Let_def by (intro if_in; simp)

text \<open>
  Every id that \<^verbatim>\<open>WeaponId\<close> returns is a weapon in 0 to 33 or the value 255 for an
  unknown name, and the name of a weapon that it returns is taken back to that weapon,
  except for Unarmed and an unknown weapon, whose names are read as that of the Uzi,
  and for the Pump-Action Shotgun, whose name is read as that of the Python.
\<close>

theorem WeaponId_stable:
  "WeaponId name \<in> {0..33} \<union> {255} \<and>
   (let i = WeaponId name in
      WeaponId (WeaponName i) = (if i = 0 \<or> i = 255 then 23 else if i = 19 then 18 else i))"
proof -
  have "WeaponId (WeaponName 0) = 23" "WeaponId (WeaponName 19) = 18" "WeaponId (WeaponName 255) = 23"
    by (simp_all add: WeaponId_def weapon_defs WeaponName_def Let_def lower_at_def kWeaponNames_def Lower_code)
  then show ?thesis
    using WeaponId_in [of name] WeaponName_known [of "WeaponId name"] by (auto simp: Let_def)
qed

end
