(* ===== verification/Server_Class.thy ===== *)
theory Server_Class
  imports Server_Call Names
begin

text \<open>
  The global \<^verbatim>\<open>Server\<close> and the tables \<^verbatim>\<open>Map\<close>, \<^verbatim>\<open>Radio\<close>, \<^verbatim>\<open>Weapon\<close>, \<^verbatim>\<open>Sound\<close> and the members of \<^verbatim>\<open>Blip\<close>
  (\<^verbatim>\<open>src/bindings/server.cpp\<close>). \<^verbatim>\<open>Server.reload\<close> is in the theory Bindings, with the reload itself.
\<close>

section \<open>Server\<close>

text \<open>A property of \<^verbatim>\<open>Server\<close>: the runtime is required when the getter or the setter runs.\<close>

definition server_getter :: "(Frame \<Rightarrow> bres bnd) \<Rightarrow> bres body" where
  "server_getter g f i = tbind require_ctx (\<lambda>_. g f)"

definition server_setter :: "'a param \<Rightarrow> (Frame \<Rightarrow> 'a \<Rightarrow> bres bnd) \<Rightarrow> bres body" where
  "server_setter a s f i = tbind (a f 3) (\<lambda>(_, v). tbind require_ctx (\<lambda>_. s f v))"

definition ServerProperty :: "(Frame \<Rightarrow> bres bnd) \<Rightarrow> 'a param \<Rightarrow> (Frame \<Rightarrow> 'a \<Rightarrow> bres bnd) \<Rightarrow> member" where
  "ServerProperty g a s = Property (server_getter g) (Some (server_setter a s))"

abbreviation server_text :: "sfn \<Rightarrow> Frame \<Rightarrow> bres bnd" where
  "server_text fn \<equiv> \<lambda>f. r_text 512 f fn []"
abbreviation set_server_text :: "sfn \<Rightarrow> Frame \<Rightarrow> string \<Rightarrow> bres bnd" where
  "set_server_text fn \<equiv> \<lambda>f text. r_unit f fn [text_arg text]"
abbreviation server_int :: "sfn \<Rightarrow> sfn \<Rightarrow> int_type \<Rightarrow> member" where
  "server_int getf setf T \<equiv> ServerProperty (\<lambda>f. r_int getf []) (p_int T) (\<lambda>f n. r_plain setf [I n])"
abbreviation server_float :: "sfn \<Rightarrow> sfn \<Rightarrow> member" where
  "server_float getf setf \<equiv> ServerProperty (\<lambda>f. r_num getf []) p_float (\<lambda>f x. r_plain setf [F x])"

primrec class_weapons :: "Frame \<Rightarrow> int \<Rightarrow> int \<Rightarrow> nat \<Rightarrow> int list bnd" where
  "class_weapons f first i 0 = Done []"
| "class_weapons f first i (Suc n) =
     tbind (value_or (p_int Int32) f first i 0) (\<lambda>w.
     tbind (class_weapons f first (i + 1) n) (\<lambda>ws. Done (w # ws)))"

definition AddClass :: "Frame \<Rightarrow> int \<Rightarrow> bres bnd" where
  "AddClass f first =
     tbind (value_at (p_int Int32) f first 1) (\<lambda>team.
     tbind (value_at p_colour f first 2) (\<lambda>colour.
     tbind (value_at (p_int Int32) f first 3) (\<lambda>skin.
     let table = is_table (reader_at f first 4);
         t = table_of (reader_at f first 4);
         angle_in_table = (table \<and> TableLength f t \<ge> 4) in
     tbind (Vector f first 4) (\<lambda>(position, i).
     tbind (if angle_in_table then tbind (table_number f (index first 4) t 4) (\<lambda>a. Done (a, i))
            else tbind (value_at p_float f first i) (\<lambda>a. Done (a, i + 1))) (\<lambda>(angle, i).
     tbind (class_weapons f first i 6) (\<lambda>weapons.
     tbind (call AddPlayerClass
              ([I team, I colour, I skin] @ vec_args position @ [F angle] @ map I weapons)) (\<lambda>(_, vs).
       if int_of (out 0 vs) < 0
       then tbind (check_last f) (\<lambda>_.
              Raise (Runtime_error (quoted (CurrentFunction (f_dbg f)) @ '' failed: the server refused'')))
       else Done (R_int (int_of (out 0 vs))))))))))"

definition getSettings :: "Frame \<Rightarrow> bres bnd" where
  "getSettings f =
     tbind (call GetServerSettings []) (\<lambda>(e, vs).
     tbind (check f e) (\<lambda>_.
     tbind (find_server_fn GetServerPassword) (\<lambda>_.
     tbind (ReadText 512 f GetServerPassword []) (\<lambda>password.
       Done (R_table [(LStr ''maxPlayers'', R_int (int_of (out 1 vs))), (LStr ''port'', R_int (int_of (out 2 vs))),
         (LStr ''serverName'', R_str (cstr (take 127 (text_of (out 0 vs))))),
         (LStr ''serverPassword'', R_str password), (LStr ''flags'', R_int (int_of (out 3 vs)))])))))"

definition banIP :: "string \<Rightarrow> bres bnd" where
  "banIP ip =
     tbind (call IsIPBanned [text_arg ip]) (\<lambda>(_, vs).
       if int_of (out 0 vs) \<noteq> 0 then Done (R_bool False)
       else tbind (call BanIP [text_arg ip]) (\<lambda>_. Done (R_bool True)))"

record Wasted =
  death :: int
  fade :: int
  fade_in :: lua_float
  fade_out :: lua_float
  fade_colour :: int
  corpse_start :: int
  corpse_time :: int

definition get_wasted :: "Wasted bnd" where
  "get_wasted =
     tbind (call GetWastedSettings []) (\<lambda>(_, vs).
       Done \<lparr>death = int_of (out 0 vs), fade = int_of (out 1 vs), fade_in = float_of (out 2 vs),
             fade_out = float_of (out 3 vs), fade_colour = int_of (out 4 vs), corpse_start = int_of (out 5 vs),
             corpse_time = int_of (out 6 vs)\<rparr>)"

definition wasted_table :: "Wasted \<Rightarrow> bres" where
  "wasted_table w = R_table [(LStr ''deathTimer'', R_int (death w)), (LStr ''fadeTimer'', R_int (fade w)),
     (LStr ''fadeInSpeed'', R_num (fade_in w)), (LStr ''fadeOutSpeed'', R_num (fade_out w)),
     (LStr ''fadeColour'', R_int (fade_colour w)), (LStr ''corpseFadeStart'', R_int (corpse_start w)),
     (LStr ''corpseFadeTime'', R_int (corpse_time w))]"

definition wasted_args :: "Wasted \<Rightarrow> sval list" where
  "wasted_args w = [I (death w), I (fade w), F (fade_in w), F (fade_out w), I (fade_colour w),
     I (corpse_start w), I (corpse_time w)]"

text \<open>One field of the table: the value at the top of the stack, or the old value when it is nil.\<close>

definition table_field :: "(Frame \<Rightarrow> int \<Rightarrow> lval option \<Rightarrow> 'a res) \<Rightarrow> Frame \<Rightarrow> nat \<Rightarrow> string \<Rightarrow> 'a \<Rightarrow> 'a bnd" where
  "table_field get f t key old =
     (if RawField f t key = LNil then Done old
      else of_result (get f (int (length (stack f)) + 2) (Some (RawField f t key))))"

definition integer_field :: "Frame \<Rightarrow> nat \<Rightarrow> string \<Rightarrow> int \<Rightarrow> int bnd" where
  "integer_field = table_field (\<lambda>f i v. CheckInteger (f_dbg f) i v 0 4294967295)"

definition colour_field :: "Frame \<Rightarrow> nat \<Rightarrow> string \<Rightarrow> int \<Rightarrow> int bnd" where
  "colour_field = table_field (\<lambda>f i v. map_sum id uint (CheckColour (f_dbg f) i v))"

definition number_field :: "Frame \<Rightarrow> nat \<Rightarrow> string \<Rightarrow> lua_float \<Rightarrow> lua_float bnd" where
  "number_field = table_field get_Float"

definition set_wasted :: "Frame \<Rightarrow> lval option \<Rightarrow> bres bnd" where
  "set_wasted f v =
     (if \<not> is_table v then Raise (TypeError (f_dbg f) 3 ''table'' v)
      else
        tbind get_wasted (\<lambda>w. let t = table_of v in
        tbind (integer_field f t ''deathTimer'' (death w)) (\<lambda>d.
        tbind (integer_field f t ''fadeTimer'' (fade w)) (\<lambda>fd.
        tbind (number_field f t ''fadeInSpeed'' (fade_in w)) (\<lambda>fi.
        tbind (number_field f t ''fadeOutSpeed'' (fade_out w)) (\<lambda>fo.
        tbind (colour_field f t ''fadeColour'' (fade_colour w)) (\<lambda>fc.
        tbind (integer_field f t ''corpseFadeStart'' (corpse_start w)) (\<lambda>cs.
        tbind (integer_field f t ''corpseFadeTime'' (corpse_time w)) (\<lambda>ct.
          r_plain SetWastedSettings (wasted_args
            \<lparr>death = d, fade = fd, fade_in = fi, fade_out = fo, fade_colour = fc, corpse_start = cs,
             corpse_time = ct\<rparr>))))))))))"

definition server_functions :: "(string \<times> member) list" where
  "server_functions = [
   (''type'', Method (act (\<lambda>f. Done (R_str ''Server'')))),
   (''shutdown'', static (act (\<lambda>f. r_plain ShutdownServer []))),
   (''getOption'', static (arg (p_int Int32) (\<lambda>option. act (\<lambda>f. then_last f (r_flag GetServerOption [I option]))))),
   (''setOption'', static (arg (p_int Int32) (\<lambda>option. arg p_bool (\<lambda>on. act (\<lambda>f.
      r_check f SetServerOption [I option, flag on]))))),
   (''getSettings'', static (act getSettings)),
   (''getName'', static (act (server_text GetServerName))),
   (''setName'', static (arg p_string (\<lambda>name. act (\<lambda>f. set_server_text SetServerName f name)))),
   (''name'', ServerProperty (server_text GetServerName) p_string (set_server_text SetServerName)),
   (''getMaxPlayers'', static (act (\<lambda>f. r_int GetMaxPlayers []))),
   (''setMaxPlayers'', static (arg (p_int UInt32) (\<lambda>n. act (\<lambda>f. r_unit f SetMaxPlayers [I n])))),
   (''maxPlayers'', ServerProperty (\<lambda>f. r_int GetMaxPlayers []) (p_int UInt32) (\<lambda>f n. r_unit f SetMaxPlayers [I n])),
   (''getGame'', static (act (server_text GetGameModeText))),
   (''setGame'', static (arg p_string (\<lambda>text. act (\<lambda>f. set_server_text SetGameModeText f text)))),
   (''gamemode'', ServerProperty (server_text GetGameModeText) p_string (set_server_text SetGameModeText)),
   (''getPassword'', static (act (server_text GetServerPassword))),
   (''setPassword'', static (arg p_string (\<lambda>text. act (\<lambda>f. set_server_text SetServerPassword f text)))),
   (''password'', ServerProperty (server_text GetServerPassword) p_string (set_server_text SetServerPassword)),
   (''addClass'', static (rest AddClass)),
   (''setClassPosition'', static (arg p_vec3 (\<lambda>v. act (\<lambda>f. r_plain SetSpawnPlayerPosition (vec_args v))))),
   (''setClassCameraPosition'', static (arg p_vec3 (\<lambda>v. act (\<lambda>f. r_plain SetSpawnCameraPosition (vec_args v))))),
   (''setClassCameraLook'', static (arg p_vec3 (\<lambda>v. act (\<lambda>f. r_plain SetSpawnCameraLookAt (vec_args v))))),
   (''banIP'', static (arg p_string (\<lambda>ip. act (\<lambda>f. banIP ip)))),
   (''unbanIP'', static (arg p_string (\<lambda>ip. act (\<lambda>f. r_flag UnbanIP [text_arg ip])))),
   (''isIPBanned'', static (arg p_string (\<lambda>ip. act (\<lambda>f. r_flag IsIPBanned [text_arg ip])))),
   (''createExplosion'', static (arg (p_int Int32) (\<lambda>world. arg (p_int Int32) (\<lambda>explosion. arg p_vec3 (\<lambda>place.
      arg (p_opt (p_live Player)) (\<lambda>creator. arg (p_opt p_bool) (\<lambda>grounded. act (\<lambda>f.
      r_check f CreateExplosion ([I world, I explosion] @ vec_args place
        @ [I (opt_or creator (-1)), flag (opt_or grounded False)]))))))))),
   (''getSkinID'', Method (arg p_string (\<lambda>name. act (\<lambda>f. Done (R_int (SkinId name)))))),
   (''getSkinName'', Method (arg (p_int Int32) (\<lambda>i. act (\<lambda>f.
      Done (case SkinName i of Some name \<Rightarrow> R_str name | None \<Rightarrow> R_nil)))))]"

definition server_properties :: "(string \<times> member) list" where
  "server_properties = [
   (''fallTimer'', server_int GetFallTimer SetFallTimer UInt16),
   (''timeRate'', server_int GetTimeRate SetTimeRate Int32),
   (''hour'', server_int GetHour SetHour Int32),
   (''minute'', server_int GetMinute SetMinute Int32),
   (''weather'', server_int GetWeather SetWeather Int32),
   (''gravity'', server_float GetGravity SetGravity),
   (''waterLevel'', server_float GetWaterLevel SetWaterLevel),
   (''gameSpeed'', server_float GetGameSpeed SetGameSpeed),
   (''flightAltitude'', server_float GetMaximumFlightAltitude SetMaximumFlightAltitude),
   (''vehicleRespawnHeight'', server_float GetVehiclesForcedRespawnHeight SetVehiclesForcedRespawnHeight),
   (''killDelay'', server_int GetKillCommandDelay SetKillCommandDelay Int32),
   (''wastedSettings'', ServerProperty (\<lambda>f. tbind get_wasted (\<lambda>w. Done (wasted_table w))) p_object set_wasted)]"

section \<open>Map\<close>

fun above :: "lua_float \<Rightarrow> rat \<Rightarrow> bool" where
  "above (Fin a) q = (a > q)" | "above PosInf q = True" | "above _ q = False"

fun below :: "lua_float \<Rightarrow> rat \<Rightarrow> bool" where
  "below (Fin a) q = (a < q)" | "below NegInf q = True" | "below _ q = False"

text \<open>
  The districts: left, lower, right and upper border and the name, in the order of the tests.
  The borders are single-precision literals, written here as the exact numbers they denote.
\<close>

definition kDistricts :: "(rat \<times> rat \<times> rat \<times> rat \<times> string) list" where
  "kDistricts = [
   (-(6606971 / 4096), 13540327 / 32768, -(14007009 / 65536), 13740605 / 8192, ''Downtown Vice City''),
   (670335 / 4096, -(5753291 / 16384), 5103739 / 4096, 11459379 / 8192, ''Vice Point''),
   (-(3406889 / 32768), -(7622869 / 8192), 5103739 / 4096, -(5753291 / 16384), ''Washington Beach''),
   (-(4148527 / 16384), -(14789591 / 8192), 10280141 / 8192, -(7622869 / 8192), ''Ocean Beach''),
   (-(1933527 / 1024), -(14578565 / 8192), -(1237207 / 1024), 15098839 / 65536, ''Escobar International Airport''),
   (-(12258607 / 16384), -(6703235 / 8192), -(13697679 / 131072), -(15824781 / 65536), ''Starfish Island''),
   (-(14007009 / 65536), 1633495 / 2048, 670335 / 4096, 5093253 / 4096, ''Prawn Island''),
   (-(14007009 / 65536), -(15822291 / 65536), 670335 / 4096, 1633495 / 2048, ''Leaf Links''),
   (-(5721129 / 4096), -(2812235 / 65536), -(1237207 / 1024), 15098839 / 65536, ''Junkyard''),
   (-(1237207 / 1024), -(14578565 / 8192), -(4148527 / 16384), -(14724923 / 16384), ''Viceport''),
   (-(1237207 / 1024), -(14724923 / 16384), -(12258607 / 16384), -(15824781 / 65536), ''Little Havana''),
   (-(1237207 / 1024), -(15824781 / 65536), -(9474687 / 16384), 13522043 / 32768, ''Little Haiti'')]"

definition DistrictName :: "lua_float \<Rightarrow> lua_float \<Rightarrow> string" where
  "DistrictName x y =
     (case find (\<lambda>(left, low, right, high, _). above x left \<and> above y low \<and> below x right \<and> below y high) kDistricts of
        Some (_, _, _, _, name) \<Rightarrow> name
      | None \<Rightarrow> ''Vice City'')"

text \<open>\<^verbatim>\<open>std::round\<close> rounds half away from zero; ten times a float is exact in a double.\<close>

definition round_away :: "rat \<Rightarrow> int" where
  "round_away q = (if q \<ge> 0 then \<lfloor>q + 1 / 2\<rfloor> else - \<lfloor>1 / 2 - q\<rfloor>)"

definition Tenths :: "Frame \<Rightarrow> lua_float \<Rightarrow> int \<Rightarrow> int bnd" where
  "Tenths f value i =
     (let bad = Raise (ArgError (f_dbg f) i ''coordinate out of range'') in
      case value of
        Fin q \<Rightarrow> (let tenths = round_away (q * 10) in
                  if -32768 \<le> tenths \<and> tenths \<le> 32767 then Done tenths else bad)
      | _ \<Rightarrow> bad)"

definition map_object :: "sfn \<Rightarrow> Frame \<Rightarrow> int \<Rightarrow> vec \<Rightarrow> bres bnd" where
  "map_object fn f model place =
     (case place of (x, y, z) \<Rightarrow>
        tbind (find_server_fn fn) (\<lambda>_.
        tbind (Tenths f x 2) (\<lambda>a. tbind (Tenths f y 3) (\<lambda>b. tbind (Tenths f z 4) (\<lambda>c.
        tbind (server fn [I model, I a, I b, I c]) (\<lambda>_. Done R_none))))))"

definition getDistrictName :: "Frame \<Rightarrow> int \<Rightarrow> bres bnd" where
  "getDistrictName f first =
     (if is_table (reader_at f first 1)
      then let t = table_of (reader_at f first 1) in
           tbind (table_number f (index first 1) t 1) (\<lambda>x. tbind (table_number f (index first 1) t 2) (\<lambda>y.
             Done (R_str (DistrictName x y))))
      else tbind (value_at p_float f first 1) (\<lambda>x. tbind (value_at p_float f first 2) (\<lambda>y.
             Done (R_str (DistrictName x y)))))"

definition map_functions :: "(string \<times> member) list" where
  "map_functions = [
   (''setBounds'', static (arg p_float (\<lambda>max_x. arg p_float (\<lambda>min_x. arg p_float (\<lambda>max_y. arg p_float (\<lambda>min_y.
      act (\<lambda>f. r_plain SetWorldBounds [F max_x, F min_x, F max_y, F min_y]))))))),
   (''getBounds'', static (act (\<lambda>f. tbind (call GetWorldBounds []) (\<lambda>(_, vs).
      Done (R_table [(LStr ''max_x'', R_num (float_of (out 0 vs))), (LStr ''min_x'', R_num (float_of (out 1 vs))),
        (LStr ''max_y'', R_num (float_of (out 2 vs))), (LStr ''min_y'', R_num (float_of (out 3 vs)))]))))),
   (''hideObject'', static (arg (p_int Int32) (\<lambda>model. arg p_vec3 (\<lambda>place. act (\<lambda>f.
      map_object HideMapObject f model place))))),
   (''hideObjectRaw'', static (arg (p_int Int32) (\<lambda>model. arg (p_int Int16) (\<lambda>x. arg (p_int Int16) (\<lambda>y.
      arg (p_int Int16) (\<lambda>z. act (\<lambda>f. r_plain HideMapObject [I model, I x, I y, I z]))))))),
   (''showMapObject'', static (arg (p_int Int32) (\<lambda>model. arg p_vec3 (\<lambda>place. act (\<lambda>f.
      map_object ShowMapObject f model place))))),
   (''showObject'', static (arg (p_int Int32) (\<lambda>model. arg p_vec3 (\<lambda>place. act (\<lambda>f.
      map_object ShowMapObject f model place))))),
   (''showAllObjects'', static (act (\<lambda>f. r_plain ShowAllMapObjects []))),
   (''getDistrictName'', Method (rest getDistrictName))]"

section \<open>Radio, Weapon, Blip and Sound\<close>

definition createStream :: "Frame \<Rightarrow> int \<Rightarrow> bres bnd" where
  "createStream f first =
     (let named = (if is_number (reader_at f first 1) then 2 else 1) in
      tbind (if named = 2 then value_at (p_int Int32) f first 1 else Done (-1)) (\<lambda>i.
      tbind (value_at p_string f first named) (\<lambda>name.
      tbind (value_at p_string f first (named + 1)) (\<lambda>url.
      tbind (value_or p_bool f first (named + 2) True) (\<lambda>listed.
        r_check f AddRadioStream [I i, text_arg name, text_arg url, flag listed])))))"

definition radio_functions :: "(string \<times> member) list" where
  "radio_functions = [
   (''createStream'', static (rest createStream)),
   (''destroyStream'', static (arg (p_int Int32) (\<lambda>i. act (\<lambda>f. r_check f RemoveRadioStream [I i]))))]"

definition weapon_data :: "Frame \<Rightarrow> int \<Rightarrow> int \<Rightarrow> lua_float option \<Rightarrow> bres bnd" where
  "weapon_data f i field value =
     (case value of
        Some x \<Rightarrow> tbind (checked f SetWeaponDataValue [I i, I field, F x]) (\<lambda>_. Done R_nil)
      | None \<Rightarrow> then_last f (r_num GetWeaponDataValue [I i, I field]))"

definition weapon_functions :: "(string \<times> member) list" where
  "weapon_functions = [
   (''data'', static (arg (p_int Int32) (\<lambda>i. arg (p_int Int32) (\<lambda>field. arg (p_opt p_double) (\<lambda>value. act (\<lambda>f.
      weapon_data f i field value)))))),
   (''isFieldModified'', static (arg (p_int Int32) (\<lambda>i. arg (p_int Int32) (\<lambda>field. act (\<lambda>f.
      then_last f (r_flag IsWeaponDataValueModified [I i, I field])))))),
   (''resetField'', static (arg (p_int Int32) (\<lambda>i. arg (p_int Int32) (\<lambda>field. act (\<lambda>f.
      r_check f ResetWeaponDataValue [I i, I field]))))),
   (''reset'', static (arg (p_int Int32) (\<lambda>i. act (\<lambda>f. r_check f ResetWeaponData [I i])))),
   (''resetAll'', static (act (\<lambda>f. r_plain ResetAllWeaponData []))),
   (''getName'', Method (arg (p_int Int32) (\<lambda>i. act (\<lambda>f. Done (R_str (WeaponName i)))))),
   (''getID'', Method (arg p_string (\<lambda>name. act (\<lambda>f. Done (R_int (WeaponId name))))))]"

definition CreateBlip :: "Frame \<Rightarrow> int \<Rightarrow> bres bnd" where
  "CreateBlip f first =
     (let table = (is_table (reader_at f first 2) \<or> is_table (reader_at f first 3));
          indexed = (if table then is_table (reader_at f first 3) else arg_count f first \<ge> 8);
          i = (if indexed then 2 else 1) in
      tbind (if indexed then value_at (p_int Int32) f first 1 else Done (-1)) (\<lambda>ix.
      tbind (value_at (p_int Int32) f first i) (\<lambda>world.
      tbind (Vector f first (i + 1)) (\<lambda>(place, i).
      tbind (value_at (p_int Int32) f first i) (\<lambda>scale.
      tbind (value_at p_colour f first (i + 1)) (\<lambda>colour.
      tbind (value_at (p_int Int32) f first (i + 2)) (\<lambda>sprite.
        r_created Blip CreateCoordBlip
          ([I ix, I world] @ vec_args place @ [I scale, I colour, I sprite]))))))))"

definition BlipId :: "Frame \<Rightarrow> int \<Rightarrow> int bnd" where
  "BlipId f i =
     (if is_number (at_index f i) then of_result (CheckInteger (f_dbg f) i (at_index f i) (-1) 2147483647)
      else tbind (live Blip i (at_index f i)) (\<lambda>ref. Done (er_id ref)))"

definition BlipInfo :: "int \<Rightarrow> bres bnd" where
  "BlipInfo i =
     tbind (call GetCoordBlipInfo [I i]) (\<lambda>(e, vs).
       if e \<noteq> vcmpErrorNone then Done R_nil
       else Done (R_table [(LStr ''world'', R_int (int_of (out 0 vs))), (LStr ''position'', R_vec (vec_out (drop 1 vs))),
         (LStr ''scale'', R_int (int_of (out 4 vs))), (LStr ''color'', R_int (int_of (out 5 vs))),
         (LStr ''sprite'', R_int (int_of (out 6 vs)))]))"

definition DestroyBlip :: "Frame \<Rightarrow> int \<Rightarrow> bres bnd" where
  "DestroyBlip f i =
     tbind (call DestroyCoordBlip [I i]) (\<lambda>(e, _).
       if e = vcmpErrorNone \<or> e = vcmpErrorNoSuchEntity
       then tbind (release Blip i) (\<lambda>_. Done (R_bool (e = vcmpErrorNone)))
       else tbind (check f e) (\<lambda>b. Done (R_bool b)))"

definition blip_members :: "(string \<times> member) list" where
  "blip_members = [
   (''create'', static (rest CreateBlip)),
   (''destroy'', static (rest (\<lambda>f first. tbind (BlipId f first) (\<lambda>i. DestroyBlip f i)))),
   (''getInfo'', static (rest (\<lambda>f first. tbind (BlipId f first) (\<lambda>i. BlipInfo i))))]"

definition Sound_play :: "Frame \<Rightarrow> int \<Rightarrow> bres bnd" where
  "Sound_play f first =
     (let n = arg_count f first;
          table_second = is_table (reader_at f first 2);
          has_world = ((n = 2 \<and> \<not> table_second) \<or> n = 3 \<or> n \<ge> 5);
          i = (if has_world then 2 else 1) in
      tbind (if has_world then value_at (p_int Int32) f first 1 else Done 0) (\<lambda>world.
      tbind (value_at (p_int Int32) f first i) (\<lambda>sound.
      tbind (if missing f first (i + 1) then Done (NaN, NaN, NaN)
             else tbind (Vector f first (i + 1)) (\<lambda>(v, _). Done v)) (\<lambda>place.
        r_check f PlaySound ([I world, I sound] @ vec_args place)))))"

definition sound_functions :: "(string \<times> member) list" where
  "sound_functions = [(''play'', static (rest Sound_play))]"

section \<open>Every call is allowed\<close>

lemma fine_server_setter:
  "sat (\<lambda>p h. fine (s f (snd p)) (Some (ids_of h))) (a f 3) None \<Longrightarrow> fine (server_setter a s f i) None"
  unfolding server_setter_def sat_tbind by (erule sat_mono) (simp add: case_prod_beta)

lemma fine_ServerProperty:
  "\<lbrakk>\<And>f. fine (g f) (Some []); \<And>f. sat (\<lambda>p h. fine (s f (snd p)) (Some (ids_of h))) (a f 3) None\<rbrakk>
     \<Longrightarrow> member_ok (ServerProperty g a s)"
  unfolding member_ok_def ServerProperty_def
  by (auto simp: server_getter_def intro!: fine_server_setter)

lemma sat_class_weapons:
  "(\<And>ws. list_all2 (fits ids) (replicate n I32) (map I ws) \<Longrightarrow> Q ws (Some ids))
     \<Longrightarrow> sat Q (class_weapons f first i n) (Some ids)"
  by (induction n arbitrary: i Q) (auto intro!: sat_rules)

lemma sat_six_weapons:
  "(\<And>ws. list_all2 (fits ids) [I32, I32, I32, I32, I32, I32] (map I ws) \<Longrightarrow> Q ws (Some ids))
     \<Longrightarrow> sat Q (class_weapons f first i 6) (Some ids)"
  by (rule sat_class_weapons) (simp add: eval_nat_numeral)

lemma fine_AddClass: "fine (AddClass f first) (Some ids)"
  unfolding AddClass_def
  by (auto intro!: sat_six_weapons sat_rules sat_check_last simp: server_fn case_prod_beta Let_def)

lemma fine_getSettings: "fine (getSettings f) (Some ids)"
  unfolding getSettings_def by (auto intro!: sat_rules simp: server_fn)

lemma fine_banIP: "fine (banIP ip) (Some ids)"
  unfolding banIP_def by (auto simp: server_fn)

definition wasted_ok :: "Wasted \<Rightarrow> bool" where
  "wasted_ok w \<longleftrightarrow> (\<forall>n \<in> {death w, fade w, fade_colour w, corpse_start w, corpse_time w}. 0 \<le> n \<and> n \<le> 4294967295)"

lemma sat_get_wasted: "(\<And>w. wasted_ok w \<Longrightarrow> Q w (Some ids)) \<Longrightarrow> sat Q get_wasted (Some ids)"
  unfolding get_wasted_def
  by (auto simp: server_fn list_all2_Cons1 fits_cases wasted_ok_def eval_nat_numeral)

lemma sat_integer_field:
  "\<lbrakk>0 \<le> old; old \<le> 4294967295; \<And>n. \<lbrakk>0 \<le> n; n \<le> 4294967295\<rbrakk> \<Longrightarrow> Q n held\<rbrakk>
     \<Longrightarrow> sat Q (integer_field f t key old) held"
  by (simp add: integer_field_def table_field_def CheckInteger_Inr split: sum.split)

lemma sat_colour_field:
  "\<lbrakk>0 \<le> old; old \<le> 4294967295; \<And>n. \<lbrakk>0 \<le> n; n \<le> 4294967295\<rbrakk> \<Longrightarrow> Q n held\<rbrakk>
     \<Longrightarrow> sat Q (colour_field f t key old) held"
  by (auto simp: colour_field_def table_field_def map_sum_def uint_u32 split: sum.splits)

lemma sat_number_field: "(\<And>x. Q x held) \<Longrightarrow> sat Q (number_field f t key old) held"
  by (simp add: number_field_def table_field_def split: sum.split)

lemma fine_set_wasted: "fine (set_wasted f v) (Some ids)"
  unfolding set_wasted_def
  by (auto intro!: sat_get_wasted sat_integer_field sat_colour_field sat_number_field sat_results
      simp: server_fn Let_def wasted_ok_def wasted_args_def)

lemma server_functions_ok: "class_ok server_functions"
  unfolding server_functions_def
  by (intro class_ok_rules member_ok_forms fine_ServerProperty;
      auto intro!: fine_AddClass fine_getSettings fine_banIP sat_rules simp: server_fn; fail)

lemma server_properties_ok: "class_ok server_properties"
  unfolding server_properties_def
  by (intro class_ok_rules fine_ServerProperty;
      auto intro!: sat_get_wasted fine_set_wasted sat_rules simp: server_fn; fail)

lemma sat_Tenths: "(\<And>n. \<lbrakk>-32768 \<le> n; n \<le> 32767\<rbrakk> \<Longrightarrow> Q n held) \<Longrightarrow> sat Q (Tenths f x i) held"
  by (simp add: Tenths_def Let_def split: lua_float.split)

lemma fine_map_object:
  "\<lbrakk>-2147483648 \<le> model; model \<le> 2147483647; ins fn = [I32, I16, I16, I16]\<rbrakk>
     \<Longrightarrow> fine (map_object fn f model place) (Some ids)"
  unfolding map_object_def by (auto intro!: sat_Tenths split: prod.split)

lemma fine_getDistrictName: "fine (getDistrictName f first) held"
  unfolding getDistrictName_def by (auto intro!: sat_rules simp: Let_def)

lemma map_functions_ok: "class_ok map_functions"
  unfolding map_functions_def
  by (intro class_ok_rules member_ok_forms;
      auto intro!: fine_map_object fine_getDistrictName sat_rules simp: server_fn; fail)

lemma fine_createStream: "fine (createStream f first) (Some ids)"
  unfolding createStream_def by (auto intro!: sat_rules simp: server_fn Let_def)

lemma radio_functions_ok: "class_ok radio_functions"
  unfolding radio_functions_def
  by (intro class_ok_rules member_ok_forms; auto intro!: fine_createStream sat_rules simp: server_fn; fail)

lemma fine_weapon_data:
  "\<lbrakk>-2147483648 \<le> i; i \<le> 2147483647; -2147483648 \<le> field; field \<le> 2147483647\<rbrakk>
     \<Longrightarrow> fine (weapon_data f i field v) (Some ids)"
  unfolding weapon_data_def by (auto intro!: sat_rules simp: server_fn split: option.split)

lemma weapon_functions_ok: "class_ok weapon_functions"
  unfolding weapon_functions_def
  by (intro class_ok_rules member_ok_forms; auto intro!: fine_weapon_data sat_rules simp: server_fn; fail)

lemma fine_CreateBlip: "fine (CreateBlip f first) (Some ids)"
  unfolding CreateBlip_def by (auto intro!: sat_rules simp: server_fn Let_def case_prod_beta)

lemma sat_BlipId:
  "\<lbrakk>\<And>n. \<lbrakk>-1 \<le> n; n \<le> 2147483647\<rbrakk> \<Longrightarrow> Q n (Some ids);
    \<And>ref :: EntityRef. Q (er_id ref) (Some ((Blip, er_id ref) # ids))\<rbrakk> \<Longrightarrow> sat Q (BlipId f i) (Some ids)"
  by (auto simp: BlipId_def CheckInteger_Inr split: sum.split)

lemma blip_members_ok: "class_ok blip_members"
  unfolding blip_members_def
  by (intro class_ok_rules member_ok_forms;
      auto intro!: fine_CreateBlip sat_BlipId sat_rules simp: server_fn DestroyBlip_def BlipInfo_def; fail)

lemma sound_functions_ok: "class_ok sound_functions"
  unfolding sound_functions_def Sound_play_def
  by (intro class_ok_rules member_ok_forms; auto intro!: sat_rules simp: server_fn Let_def case_prod_beta; fail)

section \<open>The district names\<close>

definition district_points :: "(rat \<times> rat) list" where
  "district_points = [(-1000, 1000), (500, 0), (500, -500), (500, -1500), (-1500, -500), (-500, -500), (0, 1000),
     (0, 0), (-1000, -1200), (-1000, -500), (-1000, 0), (5000, 5000)]"

lemma district_points_names:
  "map (\<lambda>(x, y). DistrictName (Fin x) (Fin y)) district_points =
     map (\<lambda>(_, _, _, _, n). n) (filter (\<lambda>(_, _, _, _, n). n \<noteq> ''Junkyard'') kDistricts) @ [''Vice City'']"
  by (simp add: district_points_def DistrictName_def kDistricts_def)

lemma never_junkyard: "DistrictName x y \<noteq> ''Junkyard''"
  by (cases x; cases y) (simp_all add: DistrictName_def kDistricts_def)

lemma district_in: "DistrictName x y \<in> insert ''Vice City'' (set (map (\<lambda>(_, _, _, _, n). n) kDistricts))"
  by (cases x; cases y) (simp_all add: DistrictName_def kDistricts_def)

text \<open>
  C34. The names DistrictName gives: those of all its districts and Vice City, without Junkyard,
  whose rectangle lies inside that of the airport, tested before it.
\<close>

theorem districts_reached:
  "{DistrictName x y | x y. True} =
     insert ''Vice City'' (set (map (\<lambda>(_, _, _, _, name). name) kDistricts)) - {''Junkyard''}" (is "?L = ?R")
proof
  show "?L \<subseteq> ?R"
  proof
    fix name assume "name \<in> ?L"
    then obtain x y where "name = DistrictName x y"
      by blast
    with never_junkyard [of x y] district_in [of x y] show "name \<in> ?R"
      by simp
  qed
  have "?R \<subseteq> set (map (\<lambda>(x, y). DistrictName (Fin x) (Fin y)) district_points)"
    unfolding district_points_names by (simp add: kDistricts_def insert_Diff_if)
  also have "\<dots> \<subseteq> ?L"
    by auto
  finally show "?R \<subseteq> ?L" .
qed

end
