(* ===== verification/Classes.thy ===== *)
theory Classes
  imports Player_Class Vehicle_Class Placed_Classes Server_Class
begin

text \<open>
  All class tables, and what holds for every function, getter and setter in them.
\<close>

definition classes :: "(string \<times> (string \<times> member) list) list" where
  "classes = [
   (''Player'', player_methods @ player_readers @ player_properties),
   (''Vehicle'', vehicle_methods @ vehicle_properties),
   (''Object'', object_members), (''Pickup'', pickup_members), (''Checkpoint'', checkpoint_members),
   (''Blip'', blip_members), (''Server'', server_functions @ server_properties), (''Map'', map_functions),
   (''Radio'', radio_functions), (''Weapon'', weapon_functions), (''Sound'', sound_functions)]"

lemma classes_ok: "list_all (\<lambda>(_, ms). class_ok ms) classes"
  by (simp add: classes_def class_ok_rules player_methods_ok player_readers_ok player_properties_ok
      vehicle_methods_ok vehicle_properties_ok object_members_ok pickup_members_ok checkpoint_members_ok
      blip_members_ok server_functions_ok server_properties_ok map_functions_ok radio_functions_ok
      weapon_functions_ok sound_functions_ok)

text \<open>The function, getter (0) or setter (1) of a member, by the names scripts use.\<close>

definition class_body :: "string \<Rightarrow> string \<Rightarrow> nat \<Rightarrow> bres body option" where
  "class_body c name n =
     (case map_of classes c of
        None \<Rightarrow> None
      | Some ms \<Rightarrow>
          (case map_of ms name of
             None \<Rightarrow> None
           | Some m \<Rightarrow> if n < length (bodies m) then Some (bodies m ! n) else None))"

lemma class_body_ok:
  assumes "class_body c name n = Some b" "shallow f"
  shows "fine (b f i) None"
proof -
  obtain ms m where ms: "(c, ms) \<in> set classes" "(name, m) \<in> set ms" "b \<in> set (bodies m)"
    using assms(1) by (auto simp: class_body_def split: option.splits if_splits dest!: map_of_SomeD)
  then have "class_ok ms"
    using classes_ok by (fastforce simp: list_all_iff)
  with ms(2) have "member_ok m"
    by (fastforce simp: list_all_iff class_ok_def)
  with ms(3) assms(2) show ?thesis
    by (simp add: member_ok_def)
qed


section \<open>The two forms of a position\<close>

lemma number_iff: "is_number (Some v) \<longleftrightarrow> (\<exists>n. v = LInt n) \<or> (\<exists>x. v = LFloat x)"
  by (cases v) (auto simp: is_number_def)

definition numbers :: "Frame \<Rightarrow> nat \<Rightarrow> int list \<Rightarrow> bool" where
  "numbers f t ks \<longleftrightarrow> list_all (\<lambda>k. is_number (Some (elems f t k))) ks"

definition vec_of :: "Frame \<Rightarrow> nat \<Rightarrow> vec" where
  "vec_of f t = (let c = (\<lambda>k. narrow f (case elems f t k of LInt n \<Rightarrow> i2d f n | LFloat x \<Rightarrow> x | _ \<Rightarrow> NaN)) in (c 1, c 2, c 3))"

lemma vec_from_table:
  assumes "numbers f t [1, 2, 3]" "at_index f i = Some (LTab t)"
  shows "p_vec3 f i = Done (1, vec_of f t)"
  using assms by (auto simp: numbers_def number_iff p_vec3_def get_Vec3_def map_vec_def TableNumber_def of_result_def vec_of_def)

lemma vec_from_numbers:
  assumes "numbers f t [1, 2, 3]" "at_index f i = Some (elems f t 1)" "at_index f (i + 1) = Some (elems f t 2)"
    "at_index f (i + 2) = Some (elems f t 3)"
  shows "p_vec3 f i = Done (3, vec_of f t)"
  using assms by (auto simp: numbers_def number_iff p_vec3_def get_Vec3_def map_vec_def CheckNumber_def of_result_def vec_of_def)

lemma same_frame:
  fixes f :: Frame
  shows "numbers (f\<lparr>stack := xs\<rparr>) t ks = numbers f t ks" "vec_of (f\<lparr>stack := xs\<rparr>) t = vec_of f t"
    "value_at a (f\<lparr>stack := xs\<rparr>) 1 k = tbind (a (f\<lparr>stack := xs\<rparr>) k) (\<lambda>(_, x). Done x)"
  by (simp_all add: numbers_def vec_of_def value_at_def index_def cong: lval.case_cong)

lemma int_at_same:
  fixes f :: Frame
  assumes "at_index (f\<lparr>stack := xs\<rparr>) k = at_index (f\<lparr>stack := ys\<rparr>) k"
  shows "value_at (p_int T) (f\<lparr>stack := xs\<rparr>) 1 k = value_at (p_int T) (f\<lparr>stack := ys\<rparr>) 1 k"
  using assms by (simp add: same_frame(3) p_int_def simple_def)

lemmas on_frame = at_index_def reader_at_def index_def missing_def value_or_def noneornil_def is_table_def table_of_def

lemma pickup_forms:
  assumes "numbers f t [1, 2, 3]"
  shows "Pickup_create (f\<lparr>stack := [model, world, quantity, elems f t 1, elems f t 2, elems f t 3]\<rparr>) 1
       = Pickup_create (f\<lparr>stack := [model, world, quantity, LTab t]\<rparr>) 1"
proof -
  let ?g = "f\<lparr>stack := [model, world, quantity, elems f t 1, elems f t 2, elems f t 3]\<rparr>"
  let ?h = "f\<lparr>stack := [model, world, quantity, LTab t]\<rparr>"
  have "Vector ?g 1 4 = Done (vec_of f t, 7)" "Vector ?h 1 4 = Done (vec_of f t, 5)"
    using vec_from_numbers [of ?g t 4] vec_from_table [of ?h t 4] assms
    by (simp_all add: Vector_def same_frame on_frame)
  moreover have "value_at (p_int Int32) ?g 1 k = value_at (p_int Int32) ?h 1 k" if "k \<in> {1, 2, 3}" for k
    using that by (intro int_at_same) (auto simp: at_index_def)
  ultimately show ?thesis
    by (simp add: Pickup_create_def on_frame)
qed


lemma vehicle_forms:
  assumes "numbers f t [1, 2, 3, 4]"
  shows "Vehicle_create (f\<lparr>stack := [model, world, elems f t 1, elems f t 2, elems f t 3, elems f t 4]\<rparr>) 1
       = Vehicle_create (f\<lparr>stack := [model, world, LTab t]\<rparr>) 1"
proof -
  let ?g = "f\<lparr>stack := [model, world, elems f t 1, elems f t 2, elems f t 3, elems f t 4]\<rparr>"
  let ?h = "f\<lparr>stack := [model, world, LTab t]\<rparr>"
  have three: "numbers f t [1, 2, 3]" and four: "is_number (Some (elems f t 4))"
    using assms by (simp_all add: numbers_def)
  have "Vector ?g 1 3 = Done (vec_of f t, 6)" "Vector ?h 1 3 = Done (vec_of f t, 4)"
    using vec_from_numbers [of ?g t 3] vec_from_table [of ?h t 3] three
    by (simp_all add: Vector_def same_frame on_frame)
  moreover have "value_at (p_int Int32) ?g 1 k = value_at (p_int Int32) ?h 1 k" if "k \<in> {1, 2}" for k
    using that by (intro int_at_same) (auto simp: at_index_def)
  moreover have "value_at p_float ?g 1 6 = angle_element ?h 3 t"
    using four by (auto simp: number_iff same_frame(3) p_float_def simple_def get_Float_def CheckNumber_def angle_element_def
        at_index_def of_result_def)
  moreover have "\<not> is_table (reader_at ?g 1 3)"
    using three by (auto simp: numbers_def number_iff on_frame)
  ultimately show ?thesis
    by (simp add: Vehicle_create_def on_frame tbind_assoc)
qed

lemma sound_forms:
  assumes "numbers f t [1, 2, 3]"
  shows "Sound_play (f\<lparr>stack := [world, sound, elems f t 1, elems f t 2, elems f t 3]\<rparr>) 1
       = Sound_play (f\<lparr>stack := [world, sound, LTab t]\<rparr>) 1"
proof -
  let ?g = "f\<lparr>stack := [world, sound, elems f t 1, elems f t 2, elems f t 3]\<rparr>"
  let ?h = "f\<lparr>stack := [world, sound, LTab t]\<rparr>"
  have "Vector ?g 1 3 = Done (vec_of f t, 6)" "Vector ?h 1 3 = Done (vec_of f t, 4)"
    using vec_from_numbers [of ?g t 3] vec_from_table [of ?h t 3] assms
    by (simp_all add: Vector_def same_frame on_frame)
  moreover have "value_at (p_int Int32) ?g 1 k = value_at (p_int Int32) ?h 1 k" if "k \<in> {1, 2}" for k
    using that by (intro int_at_same) (auto simp: at_index_def)
  moreover have "elems f t 1 \<noteq> LNil"
    using assms by (auto simp: numbers_def number_iff)
  ultimately show ?thesis
    by (simp add: Sound_play_def on_frame arg_count_def Let_def r_check_def checked_def check_def)
qed


definition demo_frame :: Frame where
  "demo_frame =
     \<lparr>stack = [], elems = (\<lambda>_ k. LInt k), raw_fields = (\<lambda>_ _. LNil), raw_len = (\<lambda>_. 4), f_dbg = None,
      i2d = (\<lambda>n. Fin (of_int n)), narrow = id, n2s = (\<lambda>_. []), free_slots = 10\<rparr>"


end
