(* ===== verification/Class_Calls.thy ===== *)
theory Class_Calls
  imports Binding_Safety Classes
begin

text \<open>
  Running a class binding in the plugin: the questions of its tree are answered by the runtime,
  the entity pools and the server. The binding holds a pointer to the runtime once it has
  required one; using the runtime without it is undefined behaviour. The server's answer to a
  call, the callbacks it sends before it returns and the functions it then provides are the
  parameter \<open>srv\<close>.
\<close>

type_synonym server_reply = "ServerApi \<times> server_call list \<times> vcmpError \<times> sval list"

definition is_frame :: "server_call \<Rightarrow> bool" where
  "is_frame c \<longleftrightarrow> (case c of ServerFrameTick _ \<Rightarrow> True | _ \<Rightarrow> False)"

definition supported :: "ServerApi \<Rightarrow> sfn \<Rightarrow> bool" where
  "supported a f \<longleftrightarrow>
     find_fn a (sfn_offset f) (\<lambda>funcs. if fn_provided funcs (sfn_name f) then Some () else None) \<noteq> None"

text \<open>A C function returns values of its types.\<close>

definition typed_outs :: "sfn \<Rightarrow> sval list \<Rightarrow> sval list" where
  "typed_outs f vs = map (\<lambda>n. coerce (outs f ! n) (out n vs)) [0..<length (outs f)]"

definition with_ptr :: "nat option \<Rightarrow> (nat \<Rightarrow> 'a host) \<Rightarrow> 'a host" where
  "with_ptr p m = (case p of Some r \<Rightarrow> m r | None \<Rightarrow> (\<lambda>s. (UB, s)))"

definition call_server ::
  "(State \<Rightarrow> sfn \<Rightarrow> sval list \<Rightarrow> server_reply) \<Rightarrow> World \<Rightarrow> sfn \<Rightarrow> sval list \<Rightarrow> ans host" where
  "call_server srv w f args =
     bind (query (\<lambda>s. srv s f args)) (\<lambda>(a, cs, e, vs).
     bind (change (\<lambda>s. s\<lparr>api := a\<rparr>)) (\<lambda>_.
     bind (callbacks_run w (filter (\<lambda>c. \<not> is_frame c) cs)) (\<lambda>_.
       ret (A_res e (typed_outs f vs)))))"

definition run_ask ::
  "(State \<Rightarrow> sfn \<Rightarrow> sval list \<Rightarrow> server_reply) \<Rightarrow> World \<Rightarrow> lua_Debug option \<Rightarrow> nat option \<Rightarrow> ask \<Rightarrow>
    (nat option \<times> ans) host" where
  "run_ask srv w dbg p a =
     (case a of
        Require_ctx \<Rightarrow> bind Require_runtime (\<lambda>r. ret (Some r, Nothing))
      | Check_live k i v \<Rightarrow> bind (CheckLive dbg k i v) (\<lambda>(r, ref). ret (Some r, A_ref ref))
      | Find_fn f \<Rightarrow>
          with_ptr p (\<lambda>r. bind (get r id) (\<lambda>_. bind (query api) (\<lambda>a.
            if supported a f then ret (p, Nothing)
            else throw (Runtime_error (sfn_name f @ '' is not supported by this server version'')))))
      | Call_fn f args \<Rightarrow> with_ptr p (\<lambda>r. bind (call_server srv w f args) (\<lambda>x. ret (p, x)))
      | Last_error \<Rightarrow>
          with_ptr p (\<lambda>r. bind (query (\<lambda>s. case find_GetLastError (api s) of Some e \<Rightarrow> e | None \<Rightarrow> vcmpErrorNone))
            (\<lambda>e. ret (p, A_res e [])))
      | Pool_ref k i \<Rightarrow> with_ptr p (\<lambda>r. bind (RefOf r k i) (\<lambda>ref. ret (p, A_ref ref)))
      | Pool_alive k \<Rightarrow> with_ptr p (\<lambda>r. bind (sub r (\<lambda>rt. AliveIds (entities rt k))) (\<lambda>is. ret (p, A_ids is)))
      | Pool_created k i \<Rightarrow> with_ptr p (\<lambda>r. bind (Created dbg r k i) (\<lambda>ref. ret (p, A_ref ref)))
      | Pool_release k i \<Rightarrow>
          with_ptr p (\<lambda>r. bind (update_pool r k (\<lambda>q. Release q i)) (\<lambda>_. ret (p, Nothing))))"

primrec run_tree ::
  "(State \<Rightarrow> sfn \<Rightarrow> sval list \<Rightarrow> server_reply) \<Rightarrow> World \<Rightarrow> lua_Debug option \<Rightarrow> 'a bnd \<Rightarrow> nat option \<Rightarrow> 'a host" where
  "run_tree srv w dbg (Done x) = (\<lambda>p. ret x)"
| "run_tree srv w dbg (Raise e) = (\<lambda>p. throw e)"
| "run_tree srv w dbg Crash = (\<lambda>p s. (UB, s))"
| "run_tree srv w dbg (Ask a k) =
     (\<lambda>p. bind (run_ask srv w dbg p a) (\<lambda>(p', x). run_tree srv w dbg (k x) p'))"

text \<open>What Lua receives; the contents of a table are not followed further.\<close>

fun push_bres :: "bres \<Rightarrow> lval host" where
  "push_bres (R_bool b) = ret (LBool b)"
| "push_bres (R_int n) = ret (LInt n)"
| "push_bres (R_num x) = ret (LFloat x)"
| "push_bres (R_str s) = ret (LStr s)"
| "push_bres (R_ref k ref) =
     bind (query runtime) (\<lambda>rt. case rt of Some rt \<Rightarrow> PushEntity (rid rt) k ref | None \<Rightarrow> ret LNil)"
| "push_bres (R_pair a b) = push_bres a"
| "push_bres _ = ret LNil"

text \<open>
  A call by a script. A frame whose rotation tables nest deeper than the Lua stack has room is
  outside the model (\<open>rotation_needs_room\<close> shows what happens there).
\<close>

definition call_member ::
  "(State \<Rightarrow> sfn \<Rightarrow> sval list \<Rightarrow> server_reply) \<Rightarrow> World \<Rightarrow> string \<Rightarrow> string \<Rightarrow> nat \<Rightarrow> Frame \<Rightarrow> lval host" where
  "call_member srv w c name n f =
     (case class_body c name n of
        None \<Rightarrow> throw (Runtime_error ''attempt to call a nil value'')
      | Some b \<Rightarrow> if shallow f then bind (run_tree srv w (f_dbg f) (b f 1) None) push_bres else ret LNil)"

section \<open>Class bindings keep the invariant\<close>

text \<open>A computation that keeps the invariant and whose result satisfies \<open>A\<close>.\<close>

definition yields :: "(Runtime \<Rightarrow> bool) \<Rightarrow> nat \<Rightarrow> 'a host \<Rightarrow> ('a \<Rightarrow> bool) \<Rightarrow> bool" where
  "yields P r m A \<longleftrightarrow>
     (\<forall>s. standing r P s \<longrightarrow> wp m (\<lambda>out s'. step_ok s s' \<and> (\<forall>x. out = Ret x \<longrightarrow> A x)) s)"

lemma yields_good: "yields P r m (\<lambda>_. True) \<longleftrightarrow> good P r m"
  by (simp add: yields_def good_def)

lemma yields_bind:
  assumes "yields P r m A" "\<And>x. A x \<Longrightarrow> yields P r (k x) B" "lasting P"
  shows "yields P r (bind m k) B"
  unfolding yields_def
proof (intro allI impI)
  fix s
  assume s: "standing r P s"
  let ?Q = "\<lambda>s out s'. step_ok s s' \<and> (\<forall>x. out = Ret x \<longrightarrow> B x)"
  have "wp (k x) (?Q s) s'" if "step_ok s s'" "A x" for x s'
  proof -
    have "wp (k x) (?Q s') s'"
      using assms(2) [OF that(2)] standing_step [OF s that(1) assms(3)] by (simp add: yields_def)
    then show ?thesis
      by (rule wp_mono) (use that in \<open>auto intro: step_ok_trans\<close>)
  qed
  moreover have "wp m (\<lambda>out s'. step_ok s s' \<and> (\<forall>x. out = Ret x \<longrightarrow> A x)) s"
    using assms(1) s by (simp add: yields_def)
  ultimately show "wp (bind m k) (?Q s) s"
    unfolding wp_bind by (elim wp_mono) (simp split: outcome.split)
qed

lemma yields_ret: "A x \<Longrightarrow> yields P r (ret x) A"
  and yields_throw: "yields P r (throw e) A"
  and yields_sub: "(\<And>rt. A (f rt)) \<Longrightarrow> yields P r (sub r f) A"
  by (auto simp: yields_def standing_def step_ok_def host_inv_def rt_wf_def)

lemma yields_any: "good P r m \<Longrightarrow> (\<And>x. A x) \<Longrightarrow> yields P r m A"
  by (auto simp: yields_def good_def elim!: wp_mono)

lemma yields_seq: "\<lbrakk>good P r m; \<And>x. yields P r (k x) B; lasting P\<rbrakk> \<Longrightarrow> yields P r (bind m k) B"
  by (rule yields_bind [where A = "\<lambda>_. True"]) (simp_all add: yields_good)

lemma yields_Require: "yields P r Require_runtime (\<lambda>r'. r' = r)"
  by (auto simp: yields_def standing_def step_ok_def wp_def Require_runtime_def split: if_splits)

lemma yields_CheckLive:
  assumes "lasting P"
  shows "yields P r (CheckLive dbg k i v) (\<lambda>x. fst x = r)"
proof -
  have body: "yields P r (case v of
         Some (LHandle h) \<Rightarrow>
           if eh_kind h \<noteq> k then throw (TypeError dbg i (type_name (Traits k)) v)
           else
             bind (sub r' (\<lambda>rt. Require (entities rt k) (eh_id h) (eh_generation h))) (\<lambda>ok.
             bind (of_res ok) (\<lambda>_.
             bind (if k = EntityKind.Bind then RequireBindExists r' (eh_id h) else ret ()) (\<lambda>_.
               ret (r', \<lparr>er_id = eh_id h, er_generation = eh_generation h\<rparr>))))
       | _ \<Rightarrow> throw (TypeError dbg i (type_name (Traits k)) v)) (\<lambda>x. fst x = r)" if "r' = r" for r'
    using assms that
    by (auto split: option.split lval.split
        intro!: yields_throw yields_ret yields_seq good_sub good_of_res good_RequireBindExists good_ret)
  show ?thesis
    unfolding CheckLive_def by (rule yields_bind [OF yields_Require body assms])
qed

lemma typed_outs_fit: "list_all2 result_fits (outs f) (typed_outs f vs)"
  by (simp add: typed_outs_def list_all2_conv_all_nth result_fits_coerce)

lemma er_id_Ref: "er_id (Ref p i) \<noteq> -1 \<Longrightarrow> er_id (Ref p i) = i"
  by (simp add: Ref_def no_ref_def split: if_splits)

lemma good_api: "good P r (change (\<lambda>s. s\<lparr>api := a\<rparr>))"
  by (rule good_change) simp_all

context lua_host
begin

lemma good_nested_callbacks: "good in_lua r (callbacks_run w (filter (\<lambda>c. \<not> is_frame c) cs))"
proof (induction cs)
  case (Cons c cs)
  have "(\<forall>t. c \<noteq> ServerFrameTick t)" if "\<not> is_frame c"
    using that by (auto simp: is_frame_def)
  then show ?case
    using Cons.IH by (auto intro!: good_bind nested_callback)
qed (simp add: good_ret)

lemma yields_call_server: "yields in_lua r (call_server srv w f args) (\<lambda>x. answers (Call_fn f args) x)"
  unfolding call_server_def
  by (auto intro!: yields_seq good_query good_api good_nested_callbacks yields_ret
      simp: answers_def typed_outs_fit)

text \<open>The pointer that a binding holds.\<close>

lemma yields_run_ask:
  assumes "allowed held a" "p = map_option (\<lambda>_. r) held"
  shows "yields in_lua r (run_ask srv w dbg p a)
    (\<lambda>(p', x). answers a x \<and> p' = map_option (\<lambda>_. r) (learn a x held))"
proof (cases a)
  case (Call_fn f args)
  then have p: "p = Some r" "\<And>x. learn a x held = held"
    using assms by (auto simp: allowed_def learn_def split: option.splits)
  then show ?thesis
    unfolding Call_fn run_ask_def
    by (auto simp: with_ptr_def assms(2) intro!: yields_bind [OF yields_call_server] yields_ret)
next
  case Require_ctx
  then show ?thesis
    by (auto simp: run_ask_def answers_def learn_def intro!: yields_bind [OF yields_Require] yields_ret)
next
  case (Check_live k i v)
  then show ?thesis
    by (auto simp: run_ask_def answers_def learn_def intro!: yields_bind [OF yields_CheckLive] yields_ret)
next
  case (Pool_ref k i)
  then show ?thesis
    using assms
    by (auto simp: run_ask_def answers_def learn_def allowed_def with_ptr_def RefOf_def dest: er_id_Ref
        intro!: yields_bind [OF yields_sub [where A = "\<lambda>ref. er_id ref = i \<or> er_id ref = -1"]] yields_ret)
qed (use assms in \<open>auto simp: run_ask_def answers_def learn_def allowed_def with_ptr_def pool_wf_Release
      intro!: yields_seq yields_ret yields_throw good_get good_query good_sub good_Created good_update_pool\<close>)

lemma good_run_tree:
  assumes "sat Q t held" "p = map_option (\<lambda>_. r) held"
  shows "good in_lua r (run_tree srv w dbg t p)"
  using assms
proof (induction t arbitrary: held p)
  case (Ask a k)
  show ?case
    unfolding run_tree.simps yields_good [symmetric]
  proof (rule yields_bind)
    show "yields in_lua r (run_ask srv w dbg p a)
        (\<lambda>(p', x). answers a x \<and> p' = map_option (\<lambda>_. r) (learn a x held))"
      using Ask.prems by (intro yields_run_ask) simp_all
    fix px
    assume "case px of (p', x) \<Rightarrow> answers a x \<and> p' = map_option (\<lambda>_. r) (learn a x held)"
    then show "yields in_lua r (case px of (p', x) \<Rightarrow> run_tree srv w dbg (k x) p') (\<lambda>_. True)"
      using Ask.prems Ask.IH [OF rangeI] by (auto simp: yields_good split: prod.splits)
  qed simp
qed (simp_all add: good_ret good_throw)

lemma good_push_bres: "good in_lua r (push_bres x)"
proof (induction x rule: push_bres.induct)
  case (5 k ref)
  show ?case
  proof (rule goodI)
    fix s rt
    assume s: "host_inv s" "runtime s = Some rt" "rid rt = r" "in_lua rt"
    then show "wp (push_bres (R_ref k ref)) (\<lambda>_ s'. step_ok s s') s"
      using goodD [OF good_PushEntity [of in_lua r k ref] s] by simp
  qed
qed (simp_all add: good_ret)

lemma good_call_member: "good in_lua r (call_member srv w c name n f)"
  unfolding call_member_def
  by (auto intro!: good_throw good_ret good_bind good_push_bres good_run_tree [OF class_body_ok]
      split: option.split)

end

end
