(* ===== verification/Scripts.thy ===== *)
theory Scripts
  imports Class_Calls
begin

text \<open>
  Scripts: what a Lua function may do to the plugin. A script is a tree of operations, each a
  call of a binding with a continuation that receives its result or its error, and it may
  depend on everything that happened before. Scripts may bind and unbind handlers, cancel and
  trigger events, create and destroy timers, send requests, ask for a reload, use entities and
  every member of the classes, and call server functions that send callbacks back into the
  plugin, to any depth. The
  interface \<open>lua_host\<close> is interpreted for every such program.
\<close>

section \<open>Scripts\<close>

text \<open>
  A call of a server function by a binding: \<open>DoServer a cs\<close> stands for the server changing what
  its functions answer and sending the callbacks \<open>cs\<close> before it returns. The frame callback
  comes from the server's main loop only.
\<close>

datatype (plugins del: transfer lifting "quickcheck") script_op =
    DoBind string lval | DoUnbind string lval | DoCancel | DoCreate string
  | DoTrigger string "lval list"
  | DoTimerCreate lval lval lval "lval list" | DoTimerDestroy u64 | DoTimerActive u64
  | DoReload | DoRequest "lval option" lval
  | DoData EntityHandle | DoSetData EntityHandle nat | DoValid EntityHandle
  | DoFind EntityKind int | DoCount EntityKind | DoActive EntityKind | DoCreated EntityKind int
  | DoBindCreate bool int "int option" "int option" | DoBindDestroy "lval option"
  | DoFindByTag string | DoClearBinds | DoBindData "lval option" | DoBindTag "lval option"
  | DoSetBindTag "lval option" string
  | DoServer ServerApi "server_call list"
  | DoMember string string nat Frame

datatype script = Return | Error string | Op script_op "cxx + lval \<Rightarrow> script"

record Lua =
  program :: "luafn \<Rightarrow> lval list \<Rightarrow> State \<Rightarrow> script"
  l_show_float :: "lua_float \<Rightarrow> string"
  l_conv :: LuaConv
  l_tables :: "State \<Rightarrow> ltables"
  l_dbg :: "lua_Debug option"
  l_server :: "State \<Rightarrow> sfn \<Rightarrow> sval list \<Rightarrow> server_reply"

primrec run_op :: "Lua \<Rightarrow> World \<Rightarrow> script_op \<Rightarrow> lval host" where
  "run_op l w (DoBind name f) = returning LBool (Event_bind name f)"
| "run_op l w (DoUnbind name f) = returning LBool (Event_unbind name f)"
| "run_op l w DoCancel = returning (\<lambda>_. LNil) Event_cancel"
| "run_op l w (DoCreate name) = returning LBool (Event_create name)"
| "run_op l w (DoTrigger name args) = returning LBool (Event_trigger w name args)"
| "run_op l w (DoTimerCreate f ms n args) =
     returning (\<lambda>i. LInt (uint i)) (Timer_create w (l_show_float l) f ms n args)"
| "run_op l w (DoTimerDestroy i) = returning LBool (Timer_destroy i)"
| "run_op l w (DoTimerActive i) = returning LBool (Timer_active i)"
| "run_op l w DoReload = returning (\<lambda>_. LNil) Server_reload"
| "run_op l w (DoRequest options_arg callback_arg) =
     bind (query (l_tables l)) (\<lambda>ts.
       returning (\<lambda>_. LNil) (Request_binding w (l_conv l) ts (l_dbg l) options_arg callback_arg))"
| "run_op l w (DoData h) = returning LTab (entity_data h)"
| "run_op l w (DoSetData h d) = returning (\<lambda>_. LNil) (set_entity_data h d)"
| "run_op l w (DoValid h) = returning LBool (IsAlive h)"
| "run_op l w (DoFind k i) = push_result k (findByID k i)"
| "run_op l w (DoCount k) = returning (\<lambda>n. LInt (int n)) (entity_count k)"
| "run_op l w (DoActive k) = returning (\<lambda>_. LNil) (getActive k)"
| "run_op l w (DoCreated k i) = push_result k (bind Require_runtime (\<lambda>r. Created (l_dbg l) r k i))"
| "run_op l w (DoBindCreate b k1 k2 k3) = push_result EntityKind.Bind (Bind_create (l_dbg l) b k1 k2 k3)"
| "run_op l w (DoBindDestroy v) = returning LBool (Bind_destroy (l_dbg l) v)"
| "run_op l w (DoFindByTag t) = push_result EntityKind.Bind (findByTag t)"
| "run_op l w DoClearBinds = returning (\<lambda>_. LNil) (clearAllBinds (l_dbg l))"
| "run_op l w (DoBindData v) = returning (\<lambda>_. LNil) (Bind_getData (l_dbg l) v)"
| "run_op l w (DoBindTag v) = returning LStr (Bind_tag (l_dbg l) v)"
| "run_op l w (DoSetBindTag v t) = returning (\<lambda>_. LNil) (set_Bind_tag (l_dbg l) v t)"
| "run_op l w (DoServer a cs) =
     bind (change (\<lambda>s. s\<lparr>api := a\<rparr>)) (\<lambda>_.
       returning (\<lambda>_. LNil) (callbacks_run w (filter (\<lambda>c. \<not> is_frame c) cs)))"
| "run_op l w (DoMember c name n f) = call_member (l_server l) w c name n f"

text \<open>An exception of a binding is a Lua error at the place of the call, which a script may catch.\<close>

primrec run_script :: "Lua \<Rightarrow> World \<Rightarrow> script \<Rightarrow> string option host" where
  "run_script l w Return = ret None"
| "run_script l w (Error e) = ret (Some e)"
| "run_script l w (Op x k) =
     bind (try_catch (bind (run_op l w x) (\<lambda>v. ret (Inr v))) (\<lambda>e. ret (Inl e)))
       (\<lambda>res. run_script l w (k res))"

text \<open>
  Lua bounds the number of nested C calls and raises an error at the bound. The world in which
  the calls of depth \<open>n\<close> run has the calls of depth \<open>n - 1\<close> as its \<open>pcall\<close>.
\<close>

primrec pcall_at :: "Lua \<Rightarrow> World \<Rightarrow> nat \<Rightarrow> luafn \<Rightarrow> lval list \<Rightarrow> string option host" where
  "pcall_at l w 0 = (\<lambda>f args. ret (Some ''C stack overflow''))"
| "pcall_at l w (Suc n) =
     (\<lambda>f args. bind (query (program l f args)) (run_script l (w\<lparr>pcall := pcall_at l w n\<rparr>)))"

text \<open>
  libcurl reports a transfer as finished once, and only transfers that were added and not
  removed: the other messages of the parameter are dropped.
\<close>

definition reported :: "World \<Rightarrow> State \<Rightarrow> (64 word \<times> nat) list" where
  "reported w s =
     (case runtime s of
        None \<Rightarrow> []
      | Some rt \<Rightarrow> AList.clearjunk (filter (\<lambda>m. fst m \<in> fst ` set (transfers (http rt))) (curl_done w s)))"

definition scripted :: "Lua \<Rightarrow> World \<Rightarrow> nat \<Rightarrow> World" where
  "scripted l w n = (let w' = w\<lparr>curl_done := reported w\<rparr> in w'\<lparr>pcall := pcall_at l w' n\<rparr>)"

lemma reported_honest:
  assumes "runtime s = Some rt"
    "distinct (map fst (curl_done w s))" "fst ` set (curl_done w s) \<subseteq> fst ` set (transfers (http rt))"
  shows "reported w s = curl_done w s"
proof -
  have "filter (\<lambda>m. fst m \<in> fst ` set (transfers (http rt))) (curl_done w s) = curl_done w s"
    using assms(3) by (auto intro!: filter_True)
  then show ?thesis
    using assms(1,2) by (simp add: reported_def )
qed

section \<open>Scripts keep the invariant\<close>

context lua_host
begin

lemma good_Event_trigger: "lasting P \<Longrightarrow> good P r (Event_trigger w name args)"
  unfolding Event_trigger_def
  by (intro good_parts good_Dispatch) simp_all

lemma good_run_op: "good in_lua r (run_op l w x)"
  by (cases x)
     (auto intro!: good_returning good_push_result good_bindings good_Event_trigger good_bind good_query
        good_api good_nested_callbacks good_Require good_Created good_call_member)

lemma good_run_script: "good in_lua r (run_script l w x)"
  by (induction x) (auto intro!: good_ret good_bind good_try_catch good_run_op)

end

lemma reported_ok:
  "runtime s = Some rt \<Longrightarrow>
     distinct (map fst (reported w s)) \<and> fst ` set (reported w s) \<subseteq> fst ` set (transfers (http rt))"
  using clearjunk_keys_set [of "filter (\<lambda>m. fst m \<in> fst ` set (transfers (http rt))) (curl_done w s)"]
  by (auto simp: reported_def)

lemma lua_host_at:
  assumes "curl_done w = reported w0"
  shows "lua_host (w\<lparr>pcall := pcall_at l w n\<rparr>)"
proof (induction n)
  case 0
  show ?case
    by unfold_locales (use assms reported_ok in \<open>auto intro!: good_ret\<close>)
next
  case (Suc n)
  then show ?case
    by unfold_locales
       (use assms reported_ok in \<open>auto intro!: good_bind good_query lua_host.good_run_script\<close>)
qed

interpretation scripts: lua_host "scripted l w n" for l w n
  unfolding scripted_def Let_def by (rule lua_host_at [of _ w]) simp

end
