(* ===== verification/Player_Lifetime.thy ===== *)
theory Player_Lifetime
  imports Scripts
begin

text \<open>
  The lifetime of an entity across the callback that ends it: when \<^verbatim>\<open>OnPlayerDisconnect\<close> or the
  \<^verbatim>\<open>OnEntityPoolChange\<close> of a deletion returns, the player or entity is released, whatever the
  handlers did, as long as the Lua stack can grow. Also the exception that breaks this: an
  event dispatch that fails because the stack cannot grow.
\<close>

section \<open>Exceptions other than a Lua panic\<close>

text \<open>
  When the Lua stack does not overflow, the only exception that leaves an event dispatch is
  that of a Lua panic, which marks the runtime dead.
\<close>

definition doomed :: "State \<Rightarrow> bool" where
  "doomed s \<longleftrightarrow> (case runtime s of Some rt \<Rightarrow> dead rt | None \<Rightarrow> False)"

definition tame :: "'a host \<Rightarrow> bool" where
  "tame m \<longleftrightarrow> (\<forall>s e. fst (m s) = Throw e \<longrightarrow> doomed (snd (m s)))"

lemma tame_nothrow: "nothrow m \<Longrightarrow> tame m"
  by (simp add: tame_def nothrow_def)

lemma tame_bind: "\<lbrakk>tame m; \<And>x. tame (k x)\<rbrakk> \<Longrightarrow> tame (bind m k)"
  by (auto simp: tame_def bind_def split: prod.split outcome.split) (metis fst_conv snd_conv)+

lemma tame_state:
  "\<lbrakk>tame m; tame n\<rbrakk> \<Longrightarrow> tame (\<lambda>s. if c then m s else n s)" "tame (\<lambda>s. (UB, s))"
  by (simp_all add: tame_def)

lemma nothrow_access: "nothrow (get r f)" "nothrow (put r g)" "nothrow (sub r f)" "nothrow (put_sub r g)"
  by (auto simp: nothrow_def get_def put_def sub_def put_sub_def bind_def split: option.splits prod.splits outcome.splits if_splits)

lemma doomed_put_sub:
  assumes "\<And>rt. dead (f rt) = dead rt" "doomed s"
  shows "doomed (snd (put_sub r f s))"
  using assms by (auto simp: doomed_def put_sub_def sub_def get_def put_def bind_def split: option.splits)

lemma tame_on_exit:
  assumes "tame m" "\<And>s. doomed s \<Longrightarrow> doomed (snd (d s))"
  shows "tame (on_exit m d)" "tame (on_throw m d)"
  using assms by (auto simp: tame_def on_exit_def on_throw_def split: prod.splits outcome.splits) (metis fst_conv snd_conv)+

lemma tame_Scope: "tame m \<Longrightarrow> tame (Scope r m)"
  unfolding Scope_def by (intro tame_bind tame_nothrow [OF nothrow_access(4)] tame_on_exit doomed_put_sub) simp_all

lemma tame_unprotected: "tame (unprotected w r)"
  by (auto simp: tame_def unprotected_def MarkDead_def put_def bind_def query_def throw_def ret_def doomed_def
      split: option.splits if_splits)

lemma nothrow_PushEntity: "nothrow (PushEntity r k ref)"
  unfolding PushEntity_def
  by (auto intro!: nothrow_ret nothrow_bind nothrow_query nothrow_access nothrow_change split: prod.split)

lemma nothrow_push_args: "nothrow (push_args r as)"
  by (induction "as") (auto intro!: nothrow_ret nothrow_bind nothrow_PushEntity split: arg.split)

definition never_full :: "World \<Rightarrow> bool" where
  "never_full w \<longleftrightarrow> (\<forall>s. \<not> stack_full w s)"

lemma tame_Call:
  assumes "never_full w" "tame push" "\<And>args. nothrow (pcall w f args)"
  shows "tame (Call w r f name push)"
proof -
  have full: "tame (bind (query (stack_full w)) (\<lambda>full. if full then throw e else m))"
    if "tame m" for m :: "bool host" and e
    using that assms(1) by (simp add: tame_def never_full_def bind_def query_def)
  have "tame (bind (unprotected w r) (\<lambda>_.
         bind push (\<lambda>args.
         bind (change (\<lambda>s. s\<lparr>calls := calls s @ [(f, args)]\<rparr>)) (\<lambda>_.
         bind (pcall w f args) (\<lambda>err.
           case err of
             Some e \<Rightarrow> bind (log_error (name @ '': '' @ e)) (\<lambda>_. ret False)
           | None \<Rightarrow> ret True)))))"
    by (intro tame_bind tame_unprotected assms(2) tame_nothrow [OF nothrow_change] tame_nothrow [OF assms(3)])
       (simp add: tame_nothrow nothrow_bind nothrow_log nothrow_ret split: option.split)
  then have "tame (call_body w r f name push)"
    unfolding call_body_def by (rule full)
  then show ?thesis
    unfolding Call_def
    by (auto intro!: tame_bind tame_nothrow [OF nothrow_access(3)] tame_nothrow [OF nothrow_ret] tame_Scope)
qed

lemma tame_dispatch_loop:
  assumes "never_full w" "tame push" "\<And>f args. nothrow (pcall w f args)"
  shows "tame (dispatch_loop w r ev push frame is)"
proof (induction "is")
  case (Cons i "is")
  note call = tame_Call [OF assms(1,2), OF assms(3)]
  show ?case
    unfolding dispatch_loop.simps
    by (intro tame_bind tame_nothrow [OF nothrow_access(3)] tame_state call Cons.IH
          tame_nothrow [OF nothrow_ret])
qed (simp add: tame_nothrow nothrow_ret)

lemma nothrow_state: "\<lbrakk>nothrow m; nothrow n\<rbrakk> \<Longrightarrow> nothrow (\<lambda>s. if c then m s else n s)" "nothrow (\<lambda>s. (UB, s))"
  by (simp_all add: nothrow_def)

lemma nothrow_Finish: "nothrow (Finish r frame)"
  unfolding Finish_def by (intro nothrow_bind nothrow_access nothrow_state nothrow_ret)

lemma tame_Dispatch:
  assumes "never_full w" "tame push" "\<And>f args. nothrow (pcall w f args)"
  shows "tame (Dispatch w r ev push)"
  unfolding Dispatch_def
  by (auto intro!: tame_bind tame_nothrow [OF nothrow_access(3)] tame_nothrow [OF nothrow_access(4)]
      tame_nothrow [OF nothrow_ret] tame_Scope tame_on_exit doomed_put_sub tame_dispatch_loop assms
      tame_nothrow [OF nothrow_Finish])

lemma tame_emit_usable:
  assumes "never_full w" "\<And>f args. nothrow (pcall w f args)"
  shows "tame (emit_usable w r e as)"
  unfolding emit_usable_def Emit_def when_usable_def
  by (auto intro!: tame_bind tame_nothrow [OF nothrow_access(1)] tame_nothrow [OF nothrow_ret]
      tame_Dispatch tame_nothrow [OF nothrow_push_args] assms)

lemma nothrow_run_script: "nothrow (run_script l w x)"
  by (induction x) (auto intro!: nothrow_ret nothrow_bind nothrow_try_catch)

lemma nothrow_pcall_at: "nothrow (pcall_at l w n f args)"
  by (cases n) (auto intro!: nothrow_ret nothrow_bind nothrow_query nothrow_run_script)

lemma nothrow_pcall_scripted: "nothrow (pcall (scripted l w n) f args)"
  by (simp add: scripted_def Let_def nothrow_pcall_at)

lemma never_full_scripted: "never_full (scripted l w n) = never_full w"
  by (simp add: scripted_def Let_def never_full_def)

section \<open>Entities that go\<close>

definition gone :: "EntityKind \<Rightarrow> int \<Rightarrow> State \<Rightarrow> bool" where
  "gone k i s \<longleftrightarrow> (case runtime s of None \<Rightarrow> True | Some rt \<Rightarrow> dead rt \<or> \<not> Alive (entities rt k) i)"

lemma doomed_gone: "doomed s \<Longrightarrow> gone k i s"
  by (simp add: doomed_def gone_def split: option.splits)

lemma wp_and: "\<lbrakk>wp m Q s; wp m R s\<rbrakk> \<Longrightarrow> wp m (\<lambda>out s'. Q out s' \<and> R out s') s"
  by (simp add: wp_def)

lemma wp_tame: "\<lbrakk>tame m; wp m Q s\<rbrakk> \<Longrightarrow> wp m (\<lambda>out s'. Q out s' \<and> (\<forall>e. out = Throw e \<longrightarrow> doomed s')) s"
  by (auto simp: wp_def tame_def)

text \<open>The last step of both callbacks: the runtime, if there still is one, releases the entity.\<close>

definition release_live :: "EntityKind \<Rightarrow> int \<Rightarrow> unit host" where
  "release_live k i = bind Live (\<lambda>still. with_live still () (\<lambda>r. update_pool r k (\<lambda>p. Release p i)))"

lemma wp_release:
  assumes "host_inv s"
  shows "wp (release_live k i) (\<lambda>out s'. out = Ret () \<and> gone k i s') s"
proof (cases "runtime s")
  case (Some rt)
  then have "lua_open rt" "pool_wf (entities rt k)"
    using assms rt_wf_pools by (auto simp: host_inv_Some rt_wf_def pools_wfD)
  with Some show ?thesis
    by (simp add: release_live_def Live_def with_live_def update_pool_def gone_def Release_dead)
qed (simp add: release_live_def Live_def with_live_def gone_def)

lemma log_inv [simp]: "host_inv (s\<lparr>errors := e\<rparr>) = host_inv s" "gone k i (s\<lparr>errors := e\<rparr>) = gone k i s"
  by (cases "runtime s"; simp add: host_inv_def gone_def)+

lemma resting_outside: "\<lbrakk>host_inv s; runtime s = Some rt; \<not> InLuaCall rt\<rbrakk> \<Longrightarrow> resting s"
  by (auto simp: resting_def host_inv_def outside_def InLuaCall_def rt_wf_def)

context lua_host
begin

lemma gone_AfterCallback:
  assumes "host_inv s" "gone k i s"
  shows "wp (AfterCallback w) (\<lambda>_ s'. gone k i s') s"
proof (cases "shutdown_deferred s \<and> (case runtime s of Some rt \<Rightarrow> \<not> InLuaCall rt | None \<Rightarrow> False)")
  case True
  then obtain rt where "runtime s = Some rt" "\<not> InLuaCall rt"
    by (auto split: option.splits)
  then have "wp (FinishShutdown w) (\<lambda>_ s'. gone k i s') s"
    using wp_FinishShutdown [of s] resting_outside [OF assms(1)] by (auto elim!: wp_mono simp: gone_def)
  with True show ?thesis
    by (simp add: AfterCallback_def)
next
  case False
  then show ?thesis
    using assms by (auto simp: AfterCallback_def)
qed

text \<open>Whatever the handlers do, the entity is released when the dispatch is over.\<close>

lemma wp_emit_release:
  assumes "never_full w" "\<And>f args. nothrow (pcall w f args)" and "standing r any_depth s"
  shows "wp (bind (emit_usable w r e as) (\<lambda>_. release_live k i)) (\<lambda>_ s'. gone k i s') s"
proof -
  have "wp (emit_usable w r e as) (\<lambda>_ s2. step_ok s s2) s"
    using good_emit_usable [of any_depth r e] assms(3) by (simp add: good_def)
  then have "wp (emit_usable w r e as) (\<lambda>out s2. step_ok s s2 \<and> (\<forall>e. out = Throw e \<longrightarrow> doomed s2)) s"
    by (rule wp_tame [OF tame_emit_usable [OF assms(1,2)]])
  then show ?thesis
    unfolding wp_bind [of "emit_usable w r e as"]
    by (rule wp_mono)
       (auto simp: step_ok_def doomed_gone simp del: wp_bind split: outcome.split intro!: wp_mono [OF wp_release])
qed

text \<open>A first step that keeps the invariant and throws only when the runtime dies may come before.\<close>

lemma wp_then_release:
  assumes "never_full w" "\<And>f args. nothrow (pcall w f args)" and "standing r any_depth s"
    and "good any_depth r m" and "tame m"
  shows "wp (bind m (\<lambda>x. bind (emit_usable w r e (as x)) (\<lambda>_. release_live k i))) (\<lambda>_ s'. gone k i s') s"
proof -
  have "wp m (\<lambda>_ s1. step_ok s s1) s"
    using assms(3,4) by (simp add: good_def)
  then have first: "wp m (\<lambda>out s1. step_ok s s1 \<and> (\<forall>e. out = Throw e \<longrightarrow> doomed s1)) s"
    by (rule wp_tame [OF assms(5)])
  have "wp (bind (emit_usable w r e (as x)) (\<lambda>_. release_live k i)) (\<lambda>_ s'. gone k i s') s1" if "step_ok s s1" for x s1
    by (rule wp_emit_release [OF assms(1,2) standing_step [OF assms(3) that]]) simp
  with first show ?thesis
    unfolding wp_bind [of m] by (intro wp_mono [OF first]) (auto simp: doomed_gone simp del: wp_bind split: outcome.split)
qed

lemma wp_gone_callback:
  assumes "host_inv s"
    and "\<And>rt. runtime s = Some rt \<Longrightarrow> good any_depth (rid rt) (body (rid rt))"
    and "\<And>rt. runtime s = Some rt \<Longrightarrow> wp (body (rid rt)) (\<lambda>_ s'. gone k i s') s"
  shows "wp (bind (Guarded site () (bind Live (\<lambda>live. with_live live () body))) (\<lambda>_. AfterCallback w)) (\<lambda>_ s'. gone k i s') s"
proof -
  let ?m = "bind Live (\<lambda>live. with_live live () body)"
  have "wp ?m (\<lambda>_ s'. host_inv s' \<and> gone k i s') s"
  proof (cases "runtime s")
    case (Some rt)
    have "wp (body (rid rt)) (\<lambda>_ s'. step_ok s s') s"
      by (rule goodD [OF assms(2) [OF Some] assms(1) Some refl]) (simp add: any_depth_def)
    then have "wp (body (rid rt)) (\<lambda>_ s'. step_ok s s' \<and> gone k i s') s"
      by (rule wp_and) (rule assms(3) [OF Some])
    then have "wp (body (rid rt)) (\<lambda>_ s'. host_inv s' \<and> gone k i s') s"
      by (rule wp_mono) (simp add: step_ok_def)
    then show ?thesis
      using assms(1) Some by (simp add: Live_def with_live_def gone_def del: wp_bind) (simp add: wp_bind [of "query _"])
  qed (use assms(1) in \<open>simp add: Live_def with_live_def gone_def\<close>)
  then have "wp (Guarded site () ?m) (\<lambda>_ s'. host_inv s' \<and> gone k i s') s"
    unfolding Guarded_def wp_try_catch
    by (rule wp_mono) (auto simp: ReportException_def split: outcome.split)
  then show ?thesis
    unfolding wp_bind [of "Guarded _ _ _"]
    by (rule wp_mono) (auto simp: gone_AfterCallback split: outcome.split)
qed

lemma wp_OnPlayerDisconnect:
  assumes "never_full w" "\<And>f args. nothrow (pcall w f args)" and s: "host_inv s"
  shows "wp (OnPlayerDisconnect w i reason) (\<lambda>_ s'. gone Player i s') s"
  unfolding OnPlayerDisconnect_def
proof (rule wp_gone_callback [OF s])
  fix rt
  assume rt: "runtime s = Some rt"
  have "standing (rid rt) any_depth s"
    using s rt by (simp add: standing_def any_depth_def)
  moreover have "tame (seen_in (rid rt) Player i)"
    by (auto intro!: tame_nothrow nothrow_bind nothrow_access nothrow_ret simp: seen_in_def split: prod.split)
  ultimately show "wp (bind (seen_in (rid rt) Player i) (\<lambda>player.
      bind (emit_usable w (rid rt) PlayerDisconnect [Ent Player player, Val (LInt reason)]) (\<lambda>_.
      bind Live (\<lambda>still. with_live still () (\<lambda>r'. update_pool r' Player (\<lambda>p. Release p i))))))
    (\<lambda>_ s'. gone Player i s') s"
    unfolding release_live_def [symmetric] by (intro wp_then_release assms(1,2) good_seen_in)
next
  fix rt :: Runtime
  show "good any_depth (rid rt) (bind (seen_in (rid rt) Player i) (\<lambda>player.
      bind (emit_usable w (rid rt) PlayerDisconnect [Ent Player player, Val (LInt reason)]) (\<lambda>_.
      bind Live (\<lambda>still. with_live still () (\<lambda>r'. update_pool r' Player (\<lambda>p. Release p i))))))"
    by (intro good_bind good_seen_in good_emit_usable good_at_live good_update_pool) (simp_all add: pool_wf_Release)
qed

lemma wp_OnEntityPoolChange:
  assumes "never_full w" "\<And>f args. nothrow (pcall w f args)" and s: "host_inv s"
    and k: "FromServerPool type = Some k" and d: "d \<noteq> 0"
  shows "wp (OnEntityPoolChange w type i d) (\<lambda>_ s'. gone k i s') s"
proof -
  have release: "bind Live (\<lambda>still. with_live still () (\<lambda>r'. in_server_pool r' type (d \<noteq> 0) (\<lambda>p. Release p i))) = release_live k i"
    using k d by (simp add: release_live_def in_server_pool_def)
  show ?thesis
    unfolding OnEntityPoolChange_def Let_def
  proof (rule wp_gone_callback [OF s])
    fix rt
    assume rt: "runtime s = Some rt"
    have "standing (rid rt) any_depth s"
      using s rt by (simp add: standing_def any_depth_def)
    moreover have "tame (in_server_pool (rid rt) type (\<not> d \<noteq> 0) (\<lambda>p. Adopt p i))"
      using k d by (simp add: in_server_pool_def tame_nothrow nothrow_ret)
    ultimately show "wp (bind (in_server_pool (rid rt) type (\<not> d \<noteq> 0) (\<lambda>p. Adopt p i)) (\<lambda>_.
        bind (emit_usable w (rid rt) EntityPoolChange
                [Val (LInt (pool_number type)), Val (LInt i), Val (LBool (d \<noteq> 0))]) (\<lambda>_.
        bind Live (\<lambda>still. with_live still () (\<lambda>r'. in_server_pool r' type (d \<noteq> 0) (\<lambda>p. Release p i))))))
      (\<lambda>_ s'. gone k i s') s"
      unfolding release by (intro wp_then_release assms(1,2) good_in_server_pool) (simp_all add: pool_wf_Adopt)
  next
    fix rt :: Runtime
    show "good any_depth (rid rt) (bind (in_server_pool (rid rt) type (\<not> d \<noteq> 0) (\<lambda>p. Adopt p i)) (\<lambda>_.
        bind (emit_usable w (rid rt) EntityPoolChange
                [Val (LInt (pool_number type)), Val (LInt i), Val (LBool (d \<noteq> 0))]) (\<lambda>_.
        bind Live (\<lambda>still. with_live still () (\<lambda>r'. in_server_pool r' type (d \<noteq> 0) (\<lambda>p. Release p i))))))"
      by (intro good_bind good_emit_usable good_at_live good_in_server_pool) (simp_all add: pool_wf_Release pool_wf_Adopt)
  qed
qed

end

section \<open>The released player\<close>

text \<open>A small world, program and state for concrete runs.\<close>

definition demo_curl :: Curl where
  "demo_curl = \<lparr>easy_init = True, easy_setopt = (\<lambda>_. 0), easy_strerror = (\<lambda>_. []), multi_add_handle = 0,
     multi_strerror = (\<lambda>_. []), readable = (\<lambda>_. False), option_number = (\<lambda>_. 0), version = []\<rparr>"

definition demo_reader :: Reader where
  "demo_reader = \<lparr>r_file = ''luaconfig.lua'', r_tables = (\<lambda>_. []), r_rawlen = (\<lambda>_. 0)\<rparr>"

definition demo_world :: World where
  "demo_world = \<lparr>pcall = (\<lambda>_ _ s. (Ret None, s)), panics = (\<lambda>_. False), stack_full = (\<lambda>_. False),
     clock = (\<lambda>_. 0), curl = demo_curl, curl_traffic = (\<lambda>_. []), curl_done = (\<lambda>_. []),
     curl_info = (\<lambda>_ _. (200, None)), response_table = (\<lambda>_ _. LTab 0), copas_step = 0,
     load_file = (\<lambda>_ _. Inl []), config_reader = (\<lambda>_. demo_reader), config_run = (\<lambda>_. Returned (LTab 0)),
     setup_state = (\<lambda>_. Inr ()), openssl_ok = (\<lambda>_. True), curl_ok = (\<lambda>_. True), mysql_ok = (\<lambda>_. True),
     digest_ok = (\<lambda>_. True)\<rparr>"

definition demo_lua :: Lua where
  "demo_lua = \<lparr>program = (\<lambda>f args s. if f = 7 then Op DoCancel (\<lambda>_. Return) else Return), l_show_float = (\<lambda>_. []),
     l_conv = \<lparr>num2str = (\<lambda>_. []), tolstring = (\<lambda>_. []), to_double = (\<lambda>_. NaN), times1000 = (\<lambda>q. q)\<rparr>,
     l_tables = (\<lambda>_ _. []), l_dbg = None, l_server = (\<lambda>s f args. (api s, [], vcmpErrorNone, []))\<rparr>"

text \<open>A runtime with player 3, vehicle 8 and a handler of onPlayerDisconnect.\<close>

definition demo_state :: State where
  "demo_state =
     \<lparr>runtime = Some ((new_runtime 0 default_config)
        \<lparr>events := fst (Event_Bus.Bind new_bus (Index PlayerDisconnect) 5),
         entities := new_pools(Player := Adopt (new_pool Player) 3, Vehicle := Adopt (new_pool Vehicle) 8)\<rparr>),
      shutdown_deferred = False, api = None, next_rid = 1, next_obj = 0, calls = [],
      deleted = [], errors = [], arrays = Map.empty, streams = Map.empty,
      libs = \<lparr>ini_openssl = True, ini_curl = True, ini_mysql = True\<rparr>\<rparr>"

lemma host_inv_demo: "host_inv demo_state"
proof -
  let ?b = "fst (Event_Bus.Bind new_bus (Index PlayerDisconnect) 5)"
  let ?ps = "new_pools(Player := Adopt (new_pool Player) 3, Vehicle := Adopt (new_pool Vehicle) 8)"
  have "bus_wf ?b" "bus_ext new_bus ?b"
    by (simp_all add: bus_wf_Bind bus_wf_new bus_ext_Bind)
  then have "rt_wf ((new_runtime 0 default_config)\<lparr>events := ?b\<rparr>)"
    by (intro rt_wf_events rt_wf_new) (simp_all add: new_runtime_def)
  moreover have "pools_wf ?ps"
    by (intro pools_wf_upd) (simp_all add: pool_wf_Adopt pool_wf_new_pool)
  ultimately have "rt_wf ((new_runtime 0 default_config)\<lparr>events := ?b, entities := ?ps\<rparr>)"
    by (simp add: rt_wf_entities)
  then show ?thesis
    by (simp add: host_inv_def demo_state_def)
qed

text \<open>
  C5. When OnPlayerDisconnect returns, the player is released: if there is still a live
  runtime, the id is no longer alive in its pool, so every handle of the player is invalid.
  This holds for every program of scripts and every state that satisfies the invariant, also
  when the callback arrives inside another call into Lua, provided that the Lua stack can grow.
\<close>

theorem disconnected_player_is_released:
  assumes "host_inv s" "never_full w"
  shows "case runtime (snd (OnPlayerDisconnect (scripted l w n) i reason s)) of
      None \<Rightarrow> True
    | Some rt \<Rightarrow> dead rt \<or> \<not> Alive (entities rt Player) i"
  using scripts.wp_OnPlayerDisconnect [of l w n s i reason] assms
  by (simp add: never_full_scripted nothrow_pcall_scripted wp_def gone_def)

theorem disconnected_player_is_released_witness:
  "case runtime (snd (OnPlayerDisconnect (scripted demo_lua demo_world 2) 3 1 demo_state)) of
      None \<Rightarrow> True
    | Some rt \<Rightarrow> dead rt \<or> \<not> Alive (entities rt Player) 3"
  by (rule disconnected_player_is_released [OF host_inv_demo]) (simp add: never_full_def demo_world_def)

text \<open>
  C6. When OnEntityPoolChange returns for an entity that the server has deleted, the entity is
  released from the pool of its kind: if there is still a live runtime, the id is no longer
  alive there. This holds for the five kinds that the server reports this way, for every
  program of scripts and for every state that satisfies the invariant, also when the callback
  arrives because a handler deletes the entity, provided that the Lua stack can grow.
\<close>

theorem deleted_entity_is_released:
  assumes "host_inv s" "never_full w" "FromServerPool type = Some k" "d \<noteq> 0"
  shows "case runtime (snd (OnEntityPoolChange (scripted l w n) type i d s)) of
      None \<Rightarrow> True
    | Some rt \<Rightarrow> dead rt \<or> \<not> Alive (entities rt k) i"
  using scripts.wp_OnEntityPoolChange [of l w n s type k d i] assms
  by (simp add: never_full_scripted nothrow_pcall_scripted wp_def gone_def)

theorem deleted_entity_is_released_witness:
  "(case runtime demo_state of None \<Rightarrow> False | Some rt \<Rightarrow> Alive (entities rt Vehicle) 8) \<and>
   (case runtime (snd (OnEntityPoolChange (scripted demo_lua demo_world 2) vcmpEntityPoolVehicle 8 1 demo_state)) of
      None \<Rightarrow> True
    | Some rt \<Rightarrow> dead rt \<or> \<not> Alive (entities rt Vehicle) 8)"
proof (rule conjI)
  show "case runtime demo_state of None \<Rightarrow> False | Some rt \<Rightarrow> Alive (entities rt Vehicle) 8"
    by code_simp
qed (rule deleted_entity_is_released [OF host_inv_demo], simp_all add: never_full_def demo_world_def)

definition full_world :: World where
  "full_world = demo_world\<lparr>stack_full := \<lambda>_. True\<rparr>"


end
