(* ===== verification/Timer_Frames.thy ===== *)
theory Timer_Frames
  imports Player_Lifetime
begin

text \<open>
  Timers over several frames: how often the callback of a timer is called, and when. The scripts
  here are quiet: a callback returns without an error and changes no timer, so that what happens to
  a timer is decided by \<^verbatim>\<open>Scheduler::Tick\<close> and \<^verbatim>\<open>Scheduler::Run\<close> alone.
\<close>

definition quiet_world :: "World \<Rightarrow> bool" where
  "quiet_world w \<longleftrightarrow> (\<forall>f args s. pcall w f args s = (Ret None, s)) \<and> (\<forall>s. \<not> panics w s \<and> \<not> stack_full w s)"

definition with_sched :: "Scheduler \<Rightarrow> (luafn \<times> lval list) list \<Rightarrow> Runtime \<Rightarrow> State \<Rightarrow> State" where
  "with_sched sc new rt s = s\<lparr>runtime := Some (rt\<lparr>sched := sc\<rparr>), calls := calls s @ new\<rparr>"

section \<open>One timer\<close>

lemma map_put_twice [simp]: "map_put k v (map_put k u m) = map_put k v m"
  by (induction k u m rule: map_put.induct) auto

lemma put_timer_twice [simp]: "put_timer i t (put_timer i u sc) = put_timer i t sc"
  by (simp add: put_timer_def)

lemma map_of_put: "map_ordered (timers sc) \<Longrightarrow> map_of (timers (put_timer i t sc)) = (map_of (timers sc))(i \<mapsto> t)"
  by (simp add: put_timer_def map_of_map_put)

lemma ordered_put: "map_ordered (timers sc) \<Longrightarrow> map_ordered (timers (put_timer i t sc))"
  by (simp add: put_timer_def map_ordered_put)

definition after_run :: "int \<Rightarrow> Timer \<Rightarrow> Timer" where
  "after_run now t = (run_begin now t)\<lparr>running := False\<rparr>"

definition run_timer :: "int \<Rightarrow> u64 \<Rightarrow> Timer \<Rightarrow> Scheduler \<Rightarrow> Scheduler" where
  "run_timer now i t sc = run_end i (after_run now t) (put_timer i (after_run now t) sc)"

lemma Run_quiet:
  assumes "quiet_world w" and "runtime s = Some rt" and "rid rt = r" and "Usable rt"
    and "map_ordered (timers (sched rt))" and "map_of (timers (sched rt)) i = Some t"
  shows "Run w r i now s =
    (Ret (), with_sched (run_timer now i t (sched rt)) [(callback t, t_args t)] rt s)"
  using assms
  by (simp add: Run_def set_timer_def get_timer_def bind_def sub_def put_sub_def get_def put_def query_def
      quiet_world_def unprotected_def on_exit_def Call_def Scope_def call_body_def timer_args_def change_def ret_def
      running_exit_def Usable_def map_of_put ordered_put with_sched_def run_timer_def after_run_def)

section \<open>One tick\<close>

fun run_ids :: "int \<Rightarrow> u64 list \<Rightarrow> Scheduler \<Rightarrow> Scheduler \<times> (luafn \<times> lval list) list" where
  "run_ids now [] sc = (sc, [])"
| "run_ids now (i # is) sc =
     (case map_of (timers sc) i of
        None \<Rightarrow> run_ids now is sc
      | Some t \<Rightarrow>
          if destroyed t then run_ids now is sc
          else let (sc', cs) = run_ids now is (run_timer now i t sc) in (sc', (callback t, t_args t) # cs))"

definition tick_result :: "int \<Rightarrow> Scheduler \<Rightarrow> Scheduler \<times> (luafn \<times> lval list) list" where
  "tick_result now sc =
     (if timers sc = [] then (sc, [])
      else
        let ids = sort_due sc (collect_due now sc);
            (sc', cs) = run_ids now ids (sc\<lparr>due_ids := []\<rparr>)
        in (sc'\<lparr>due_ids := ids\<rparr>, cs))"

lemma ordered_run_timer: "map_ordered (timers sc) \<Longrightarrow> map_ordered (timers (run_timer now i t sc))"
  by (simp add: run_timer_def run_end_def ordered_put map_ordered_erase)

lemma with_sched_simps [simp]:
  "runtime (with_sched sc cs rt s) = Some (rt\<lparr>sched := sc\<rparr>)"
  "calls (with_sched sc cs rt s) = calls s @ cs"
  "with_sched sc' cs' (rt\<lparr>sched := sc\<rparr>) (with_sched sc cs rt s) = with_sched sc' (cs @ cs') rt s"
  by (simp_all add: with_sched_def)

lemma Usable_sched [simp]: "Usable (rt\<lparr>sched := sc\<rparr>) = Usable rt"
  by (simp add: Usable_def)

lemma tick_loop_quiet:
  assumes "quiet_world w"
  shows "\<lbrakk>runtime s = Some rt; rid rt = r; Usable rt; map_ordered (timers (sched rt))\<rbrakk> \<Longrightarrow>
    tick_loop w r now ids s =
      (Ret (), with_sched (fst (run_ids now ids (sched rt))) (snd (run_ids now ids (sched rt))) rt s)"
proof (induction ids arbitrary: s rt)
  case Nil
  then show ?case by (simp add: ret_def with_sched_def)
next
  case (Cons i ids)
  have ex: "sub r (\<lambda>rt. Exists (sched rt) i) s = (Ret (Exists (sched rt) i), s)"
    using Cons.prems by (simp add: sub_def bind_def get_def Usable_def)
  show ?case
  proof (cases "Exists (sched rt) i")
    case False
    then have "run_ids now (i # ids) (sched rt) = run_ids now ids (sched rt)"
      by (auto simp: Exists_def split: option.split)
    with False ex Cons show ?thesis by (simp add: bind_def ret_def)
  next
    case True
    then obtain t where t: "map_of (timers (sched rt)) i = Some t" "\<not> destroyed t"
      by (auto simp: Exists_def split: option.splits)
    let ?sc = "run_timer now i t (sched rt)"
    have "map_ordered (timers ?sc)"
      using Cons.prems(4) by (rule ordered_run_timer)
    with Cons.IH [of "with_sched ?sc [(callback t, t_args t)] rt s" "rt\<lparr>sched := ?sc\<rparr>"] Cons.prems
    have "tick_loop w r now ids (with_sched ?sc [(callback t, t_args t)] rt s) =
        (Ret (), with_sched (fst (run_ids now ids ?sc)) ((callback t, t_args t) # snd (run_ids now ids ?sc)) rt s)"
      by simp
    moreover note Run_quiet [OF assms Cons.prems(1,2,3,4) t(1), of now]
    ultimately show ?thesis
      using True ex t by (simp add: bind_def split_def Let_def)
  qed
qed

lemma Tick_quiet:
  assumes "quiet_world w" and "\<And>s. clock w s = now" and rt: "runtime s = Some rt" "rid rt = r" "Usable rt"
    and "map_ordered (timers (sched rt))"
  shows "Tick w r s = (Ret (), with_sched (fst (tick_result now (sched rt))) (snd (tick_result now (sched rt))) rt s)"
proof (cases "timers (sched rt) = []")
  case True
  then show ?thesis
    using rt by (simp add: Tick_def tick_result_def sub_def bind_def get_def ret_def with_sched_def Usable_def)
next
  case False
  let ?ids = "sort_due (sched rt) (collect_due now (sched rt))"
  let ?rt = "rt\<lparr>depth := depth rt + 1, sched := (sched rt)\<lparr>due_ids := []\<rparr>\<rparr>"
  have "tick_loop w r now ?ids (s\<lparr>runtime := Some ?rt\<rparr>) =
      (Ret (), with_sched (fst (run_ids now ?ids (sched ?rt))) (snd (run_ids now ?ids (sched ?rt))) ?rt (s\<lparr>runtime := Some ?rt\<rparr>))"
    using tick_loop_quiet [OF assms(1), of "s\<lparr>runtime := Some ?rt\<rparr>" ?rt] rt assms(6) by (simp add: Usable_def)
  with False rt assms(2) show ?thesis
    by (simp add: Tick_def tick_result_def Let_def split_def sub_def put_sub_def put_def bind_def get_def query_def
        Scope_def on_exit_def with_sched_def Usable_def)
qed

section \<open>One timer over a tick\<close>

definition timer_after :: "int \<Rightarrow> Timer \<Rightarrow> Timer option" where
  "timer_after now t =
     (let t' = after_run now t in if destroyed t' \<or> remaining t' = 0 then None else Some t')"

lemma map_of_run_timer:
  "map_ordered (timers sc) \<Longrightarrow> map_of (timers (run_timer now i t sc)) = (map_of (timers sc))(i := timer_after now t)"
  by (simp add: run_timer_def run_end_def timer_after_def Let_def map_of_put map_of_map_erase)

definition due_now :: "int \<Rightarrow> Timer \<Rightarrow> bool" where
  "due_now now t \<longleftrightarrow> \<not> destroyed t \<and> due t \<le> now"

definition calls_of :: "luafn \<Rightarrow> (luafn \<times> lval list) list \<Rightarrow> nat" where
  "calls_of f cs = length (filter (\<lambda>c. fst c = f) cs)"

text \<open>No other timer has the callback of timer \<open>i\<close>.\<close>

definition only_callback :: "u64 \<Rightarrow> luafn \<Rightarrow> Scheduler \<Rightarrow> bool" where
  "only_callback i f sc \<longleftrightarrow> (\<forall>j u. map_of (timers sc) j = Some u \<longrightarrow> (callback u = f \<longleftrightarrow> j = i))"

lemma callback_timer_after: "timer_after now t = Some u \<Longrightarrow> callback u = callback t"
  by (auto simp: timer_after_def after_run_def Let_def split: if_splits)

lemma only_callback_run:
  assumes "map_ordered (timers sc)" and "map_of (timers sc) j = Some u" and "only_callback i f sc"
  shows "only_callback i f (run_timer now j u sc)"
  unfolding only_callback_def
proof (intro allI impI)
  fix k v
  assume v: "map_of (timers (run_timer now j u sc)) k = Some v"
  have other: "callback x = f \<longleftrightarrow> k = i" if "map_of (timers sc) k = Some x" for k x
    using assms(3) that by (simp add: only_callback_def)
  show "callback v = f \<longleftrightarrow> k = i"
  proof (cases "k = j")
    case True
    with v have "timer_after now u = Some v"
      using assms(1) by (simp add: map_of_run_timer)
    with other [OF assms(2)] True show ?thesis
      by (simp add: callback_timer_after)
  next
    case False
    with v other show ?thesis
      using assms(1) by (simp add: map_of_run_timer)
  qed
qed

lemma run_ids_other:
  "\<lbrakk>map_ordered (timers sc); i \<notin> set ids; only_callback i f sc\<rbrakk> \<Longrightarrow>
     map_of (timers (fst (run_ids now ids sc))) i = map_of (timers sc) i \<and>
     calls_of f (snd (run_ids now ids sc)) = 0"
proof (induction ids arbitrary: sc)
  case (Cons j ids)
  show ?case
  proof (cases "Exists sc j")
    case False
    with Cons show ?thesis by (auto simp: Exists_def split: option.splits)
  next
    case True
    then obtain u where u: "map_of (timers sc) j = Some u" "\<not> destroyed u"
      by (auto simp: Exists_def split: option.splits)
    have "callback u \<noteq> f"
      using Cons.prems(2,3) u(1) by (auto simp: only_callback_def)
    then show ?thesis
      using Cons.IH [OF ordered_run_timer, of sc now j u] only_callback_run [OF Cons.prems(1) u(1), of i f now]
        Cons.prems u
      by (simp add: split_def Let_def calls_of_def map_of_run_timer)
  qed
qed (simp add: calls_of_def)

lemma ordered_run_ids: "map_ordered (timers sc) \<Longrightarrow> map_ordered (timers (fst (run_ids now ids sc)))"
  by (induction now ids sc rule: run_ids.induct) (auto simp: split_def Let_def ordered_run_timer split: option.split)

lemma only_callback_run_ids:
  "\<lbrakk>map_ordered (timers sc); only_callback i f sc\<rbrakk> \<Longrightarrow> only_callback i f (fst (run_ids now ids sc))"
  by (induction now ids sc rule: run_ids.induct)
    (auto simp: split_def Let_def ordered_run_timer only_callback_run split: option.split)

lemma run_ids_one:
  "\<lbrakk>map_ordered (timers sc); i \<in> set ids; distinct ids; only_callback i f sc; map_of (timers sc) i = Some t; \<not> destroyed t\<rbrakk> \<Longrightarrow>
     map_of (timers (fst (run_ids now ids sc))) i = timer_after now t \<and>
     calls_of f (snd (run_ids now ids sc)) = 1"
proof (induction ids arbitrary: sc)
  case (Cons j ids)
  show ?case
  proof (cases "j = i")
    case True
    have "callback t = f"
      using Cons.prems(4,5) by (auto simp: only_callback_def)
    with True Cons.prems show ?thesis
      using run_ids_other [OF ordered_run_timer, of sc i ids f now i t] only_callback_run [of sc i t i f now]
      by (simp add: split_def Let_def calls_of_def map_of_run_timer)
  next
    case False
    show ?thesis
    proof (cases "Exists sc j")
      case no: False
      with False Cons show ?thesis by (auto simp: Exists_def split: option.splits)
    next
      case True
      then obtain u where u: "map_of (timers sc) j = Some u" "\<not> destroyed u"
        by (auto simp: Exists_def split: option.splits)
      have "callback u \<noteq> f"
        using False Cons.prems(4) u(1) by (auto simp: only_callback_def)
      then show ?thesis
        using False Cons.IH [OF ordered_run_timer, of sc now j u] only_callback_run [OF Cons.prems(1) u(1), of i f now]
          Cons.prems u
        by (simp add: split_def Let_def calls_of_def map_of_run_timer)
    qed
  qed
qed simp

lemma tick_result_facts:
  assumes "sched_wf sc" and "only_callback i f sc"
  shows "map_of (timers (fst (tick_result now sc))) i =
      (case map_of (timers sc) i of
         None \<Rightarrow> None
       | Some t \<Rightarrow> if due_now now t then timer_after now t else Some t)"
    and "calls_of f (snd (tick_result now sc)) =
      (case map_of (timers sc) i of None \<Rightarrow> 0 | Some t \<Rightarrow> if due_now now t then 1 else 0)"
    and "only_callback i f (fst (tick_result now sc))"
proof -
  let ?ids = "sort_due sc (collect_due now sc)" and ?sc = "sc\<lparr>due_ids := []\<rparr>"
  have ids: "distinct ?ids" "i \<in> set ?ids \<longleftrightarrow> (\<exists>t. map_of (timers sc) i = Some t \<and> due_now now t)"
    using distinct_collect_due [OF assms(1)] set_collect_due [OF assms(1)] by (simp_all add: sort_due_def due_now_def)
  have ord: "map_ordered (timers ?sc)" and oc: "only_callback i f ?sc"
    using assms by (simp_all add: sched_wf_ordered only_callback_def)
  have oc': "only_callback i f (sc'\<lparr>due_ids := d\<rparr>) = only_callback i f sc'" for sc' :: Scheduler and d
    by (simp add: only_callback_def)
  show "map_of (timers (fst (tick_result now sc))) i =
      (case map_of (timers sc) i of
         None \<Rightarrow> None
       | Some t \<Rightarrow> if due_now now t then timer_after now t else Some t)"
    using run_ids_one [OF ord _ ids(1) oc, of _ now] run_ids_other [OF ord _ oc, of ?ids now] ids(2)
    by (auto simp: tick_result_def Let_def split_def due_now_def split: option.split)
  show "calls_of f (snd (tick_result now sc)) =
      (case map_of (timers sc) i of None \<Rightarrow> 0 | Some t \<Rightarrow> if due_now now t then 1 else 0)"
    using run_ids_one [OF ord _ ids(1) oc, of _ now] run_ids_other [OF ord _ oc, of ?ids now] ids(2)
    by (auto simp: tick_result_def Let_def split_def due_now_def calls_of_def split: option.split)
  show "only_callback i f (fst (tick_result now sc))"
    using only_callback_run_ids [OF ord oc] assms(2) by (simp add: tick_result_def Let_def split_def oc')
qed

lemma sched_wf_run_timer: "\<lbrakk>sched_wf sc; timer_wf t\<rbrakk> \<Longrightarrow> sched_wf (run_timer now i t sc)"
  using timer_wf_run_begin [of t now] timer_wf_running [of "run_begin now t" False]
  by (simp add: run_timer_def run_end_def after_run_def sched_wf_put_timer sched_wf_erase)

lemma sched_wf_tick: "sched_wf sc \<Longrightarrow> sched_wf (fst (tick_result now sc))"
proof -
  have "sched_wf sc \<Longrightarrow> sched_wf (fst (run_ids now ids sc))" for ids sc
    by (induction now ids sc rule: run_ids.induct)
      (auto simp: split_def Let_def sched_wf_run_timer sched_wf_get split: option.split)
  then show "sched_wf sc \<Longrightarrow> sched_wf (fst (tick_result now sc))"
    by (simp add: tick_result_def Let_def split_def)
qed

section \<open>One timer over several ticks\<close>

text \<open>A sequence of ticks, each at the time its clock shows.\<close>

fun ticks :: "World \<Rightarrow> nat \<Rightarrow> int list \<Rightarrow> unit host" where
  "ticks w r [] = ret ()"
| "ticks w r (now # nows) = bind (Tick (w\<lparr>clock := \<lambda>_. now\<rparr>) r) (\<lambda>_. ticks w r nows)"

text \<open>How often a timer runs at these times, and what is left of it.\<close>

fun fires :: "int list \<Rightarrow> Timer option \<Rightarrow> nat \<times> Timer option" where
  "fires [] t = (0, t)"
| "fires (now # nows) None = (0, None)"
| "fires (now # nows) (Some t) =
     (if due_now now t then map_prod Suc id (fires nows (timer_after now t)) else fires nows (Some t))"

text \<open>The times are one interval apart, from \<open>x\<close> on.\<close>

fun spaced :: "int \<Rightarrow> int \<Rightarrow> int list \<Rightarrow> bool" where
  "spaced d x [] \<longleftrightarrow> True"
| "spaced d x (now # nows) \<longleftrightarrow> x \<le> now \<and> spaced d (now + d) nows"

lemma fires_None [simp]: "fires nows None = (0, None)"
  by (cases nows) simp_all

lemma ticks_quiet:
  assumes "quiet_world w"
  shows "\<lbrakk>runtime s = Some rt; rid rt = r; Usable rt; sched_wf (sched rt); only_callback i f (sched rt)\<rbrakk> \<Longrightarrow>
    \<exists>sc new. ticks w r nows s = (Ret (), with_sched sc new rt s) \<and> sched_wf sc \<and>
      (calls_of f new, map_of (timers sc) i) = fires nows (map_of (timers (sched rt)) i)"
proof (induction nows arbitrary: s rt)
  case Nil
  have "ticks w r [] s = (Ret (), with_sched (sched rt) [] rt s)"
    using Nil.prems(1) by (simp add: ret_def with_sched_def)
  with Nil.prems(4) show ?case
    by (intro exI [of _ "sched rt"] exI [of _ "[]"]) (simp add: calls_of_def)
next
  case (Cons now nows)
  let ?sc = "fst (tick_result now (sched rt))" and ?new = "snd (tick_result now (sched rt))"
  have "quiet_world (w\<lparr>clock := \<lambda>_. now\<rparr>)"
    using assms by (simp add: quiet_world_def)
  from Tick_quiet [OF this _ Cons.prems(1,2,3)] Cons.prems(4)
  have tick: "Tick (w\<lparr>clock := \<lambda>_. now\<rparr>) r s = (Ret (), with_sched ?sc ?new rt s)"
    by (simp add: sched_wf_ordered)
  note facts = tick_result_facts [OF Cons.prems(4,5), of now]
  have "\<exists>sc new. ticks w r nows (with_sched ?sc ?new rt s) = (Ret (), with_sched sc new (rt\<lparr>sched := ?sc\<rparr>) (with_sched ?sc ?new rt s))
      \<and> sched_wf sc \<and> (calls_of f new, map_of (timers sc) i) = fires nows (map_of (timers ?sc) i)"
    using Cons.IH [of "with_sched ?sc ?new rt s" "rt\<lparr>sched := ?sc\<rparr>"] Cons.prems(2,3) sched_wf_tick [OF Cons.prems(4)] facts(3)
    by simp
  then obtain sc new where ih: "ticks w r nows (with_sched ?sc ?new rt s) = (Ret (), with_sched sc (?new @ new) rt s)"
    "sched_wf sc" "(calls_of f new, map_of (timers sc) i) = fires nows (map_of (timers ?sc) i)"
    by auto
  have "calls_of f (?new @ new) = calls_of f ?new + calls_of f new"
    by (simp add: calls_of_def)
  with ih(3) facts(1,2) have "(calls_of f (?new @ new), map_of (timers sc) i) = fires (now # nows) (map_of (timers (sched rt)) i)"
    by (cases "map_of (timers (sched rt)) i") (auto simp: prod_eq_iff split: if_splits)
  with ih(1,2) tick show ?case
    by (intro exI [of _ sc] exI [of _ "?new @ new"]) (simp add: bind_def)
qed

lemma timer_after_facts:
  assumes "\<not> destroyed t" and "remaining t = int (Suc n)"
  shows "timer_after now t = (if n = 0 then None else Some (after_run now t))"
    and "\<not> destroyed (after_run now t)" and "remaining (after_run now t) = int n"
    and "interval (after_run now t) = interval t"
  using assms by (simp_all add: timer_after_def after_run_def Let_def remaining_run_begin)

lemma fires_bound:
  "\<lbrakk>\<not> destroyed t; remaining t = int n; 0 < n\<rbrakk> \<Longrightarrow>
     fst (fires nows (Some t)) \<le> n \<and>
     (case snd (fires nows (Some t)) of
        None \<Rightarrow> fst (fires nows (Some t)) = n
      | Some u \<Rightarrow> \<not> destroyed u \<and> fst (fires nows (Some t)) < n)"
proof (induction nows arbitrary: t n)
  case (Cons now nows)
  obtain m where n: "n = Suc m"
    using Cons.prems(3) gr0_implies_Suc by blast
  note after = timer_after_facts [OF Cons.prems(1) Cons.prems(2) [unfolded n], of now]
  show ?case
  proof (cases "due_now now t")
    case False
    then have "fires (now # nows) (Some t) = fires nows (Some t)" by simp
    with Cons.IH [OF Cons.prems] show ?thesis by (simp only:)
  next
    case True
    show ?thesis
    proof (cases m)
      case 0
      with True n after(1) show ?thesis by simp
    next
      case (Suc k)
      with Cons.IH [OF after(2,3)] True n after(1) show ?thesis
        by (simp split: option.splits)
    qed
  qed
qed simp

lemma fires_spaced:
  "\<lbrakk>\<not> destroyed t; remaining t = int n; due t \<le> x; spaced (interval t) x nows\<rbrakk> \<Longrightarrow>
     0 < n \<Longrightarrow> fst (fires nows (Some t)) = min n (length nows)"
proof (induction nows arbitrary: t n x)
  case (Cons now nows)
  obtain m where n: "n = Suc m"
    using Cons.prems(5) gr0_implies_Suc by blast
  note after = timer_after_facts [OF Cons.prems(1) Cons.prems(2) [unfolded n], of now]
  have "due_now now t"
    using Cons.prems(1,3,4) by (simp add: due_now_def)
  moreover have "due (after_run now t) \<le> now + interval t"
    using Cons.prems(3,4) by (simp add: after_run_def due_run_begin)
  ultimately show ?case
    using Cons.IH [OF after(2,3), of "now + interval t"] Cons.prems(4) after(1,4) n by (cases m) simp_all
qed simp


definition demo_timers :: State where
  "demo_timers = demo_state\<lparr>runtime := map_option (\<lambda>rt. rt\<lparr>sched := demo_scheduler\<rparr>) (runtime demo_state)\<rparr>"


end
