(* ===== verification/Lua_Stack.thy ===== *)
theory Lua_Stack
  imports Lua_Value Chars
begin

text \<open>
  The stack of the Lua API, as the code that calls Lua functions uses it: the invoker
  (\<^verbatim>\<open>src/src/core/invoker.hpp\<close>), \<^verbatim>\<open>src/src/runtime/errors.cpp\<close>, the timer callback of
  \<^verbatim>\<open>src/src/core/scheduler.cpp\<close>, the comparison of two functions of \<^verbatim>\<open>event_bus.cpp\<close> and the arguments
  of an HTTP callback. The other theories take a call of a Lua function as one step; this one
  shows what that step does with the stack, slot by slot.

  The stack of a C function is a list, the slot of index 1 first. \<open>limit\<close> is the number of slots it
  may use: the Lua manual makes the caller responsible for not pushing beyond it, and a push
  beyond it, an index of no slot or a pop of more than there is are \<open>Overrun\<close>. What Lua does when it
  runs a function is the parameter \<open>behaviour\<close>.
\<close>

section \<open>The machine\<close>

text \<open>The C functions that the plugin pushes, and what a stack slot holds.\<close>

datatype cfunction = C_Traceback | C_LoadScriptFile | C_OpenSandbox | C_RunConfigFile | C_SetupState

datatype slot = Lua lval | CFunction cfunction | Light string

fun slot_typename :: "slot \<Rightarrow> string" where
  "slot_typename (Lua v) = lua_typename v"
| "slot_typename (CFunction _) = ''function''"
| "slot_typename (Light _) = ''userdata''"

text \<open>
  How the run of a function ends: it returns values, it raises an error, for which Lua calls
  the message handler, or it fails without the handler (no memory, an error in the handler).
\<close>

datatype ending = Returns "slot list" | Raises slot | Fails slot

record LuaEnv =
  behaviour :: "slot \<Rightarrow> slot list \<Rightarrow> ending"
  meta_tostring :: "slot \<Rightarrow> slot option"   \<comment> \<open>luaL\_callmeta with \<^verbatim>\<open>__tostring\<close>\<close>
  num_text :: "slot \<Rightarrow> string"            \<comment> \<open>lua\_tostring of a number\<close>
  fmt_double :: "lua_float \<Rightarrow> string"    \<comment> \<open>fmt's rendering of a double\<close>
  backtrace :: string                     \<comment> \<open>what luaL\_traceback adds after the message\<close>
  can_grow :: "nat \<Rightarrow> bool"             \<comment> \<open>the stack can be given this many slots\<close>

record LState =
  vals :: "slot list"
  limit :: nat
  tabs :: "nat \<Rightarrow> string \<Rightarrow> slot"       \<comment> \<open>the fields of each table, by name; 0 is the table of globals\<close>
  next_tab :: nat
  inv_depth :: int                        \<comment> \<open>the invoker's \<^verbatim>\<open>depth_\<close>\<close>
  inv_dead :: bool                        \<comment> \<open>and its \<^verbatim>\<open>dead_\<close>\<close>
  err_log :: "string list"

datatype 'a result = Done 'a | Thrown cxx | Overrun

type_synonym 'a stk = "LState \<Rightarrow> 'a result \<times> LState"

definition sret :: "'a \<Rightarrow> 'a stk" where
  "sret x s = (Done x, s)"

definition sthrow :: "cxx \<Rightarrow> 'a stk" where
  "sthrow e s = (Thrown e, s)"

definition sbind :: "'a stk \<Rightarrow> ('a \<Rightarrow> 'b stk) \<Rightarrow> 'b stk" where
  "sbind m k s = (case m s of (Done x, s') \<Rightarrow> k x s' | (Thrown e, s') \<Rightarrow> (Thrown e, s') | (Overrun, s') \<Rightarrow> (Overrun, s'))"

text \<open>A destructor: runs also when an exception leaves the scope.\<close>

definition sexit :: "'a stk \<Rightarrow> unit stk \<Rightarrow> 'a stk" where
  "sexit m d s =
     (case m s of
        (Overrun, s') \<Rightarrow> (Overrun, s')
      | (out, s') \<Rightarrow> (case d s' of (Overrun, s'') \<Rightarrow> (Overrun, s'') | (_, s'') \<Rightarrow> (out, s'')))"

section \<open>The operations of the API\<close>

definition gettop :: "LState \<Rightarrow> nat" where
  "gettop s = length (vals s)"

definition push_slot :: "slot \<Rightarrow> unit stk" where
  "push_slot v s = (if gettop s < limit s then (Done (), s\<lparr>vals := vals s @ [v]\<rparr>) else (Overrun, s))"

definition checkstack :: "LuaEnv \<Rightarrow> nat \<Rightarrow> bool stk" where
  "checkstack env n s =
     (if gettop s + n \<le> limit s then (Done True, s)
      else if can_grow env (gettop s + n) then (Done True, s\<lparr>limit := gettop s + n\<rparr>)
      else (Done False, s))"

definition settop :: "nat \<Rightarrow> unit stk" where
  "settop n s =
     (if n \<le> limit s then (Done (), s\<lparr>vals := take n (vals s) @ replicate (n - gettop s) (Lua LNil)\<rparr>)
      else (Overrun, s))"

definition pop :: "nat \<Rightarrow> unit stk" where
  "pop n s = (if n \<le> gettop s then (Done (), s\<lparr>vals := take (gettop s - n) (vals s)\<rparr>) else (Overrun, s))"

text \<open>Move the topmost value to an index, and take one out, shifting those above it.\<close>

definition insert_at :: "nat \<Rightarrow> unit stk" where
  "insert_at i s =
     (if 1 \<le> i \<and> i \<le> gettop s
      then (Done (), s\<lparr>vals := take (i - 1) (vals s) @ last (vals s) # drop (i - 1) (butlast (vals s))\<rparr>)
      else (Overrun, s))"

definition remove_at :: "nat \<Rightarrow> unit stk" where
  "remove_at i s =
     (if 1 \<le> i \<and> i \<le> gettop s then (Done (), s\<lparr>vals := take (i - 1) (vals s) @ drop i (vals s)\<rparr>)
      else (Overrun, s))"

definition slot_at :: "nat \<Rightarrow> slot stk" where
  "slot_at i s = (if 1 \<le> i \<and> i \<le> gettop s then (Done (vals s ! (i - 1)), s) else (Overrun, s))"

definition top_slot :: "slot stk" where
  "top_slot s = slot_at (gettop s) s"

section \<open>Errors\<close>

fun ErrorText :: "LuaEnv \<Rightarrow> slot \<Rightarrow> string" where
  "ErrorText env (Lua (LStr s)) = s"
| "ErrorText env (Lua (LInt i)) = show_int i"
| "ErrorText env (Lua (LFloat x)) = fmt_double env x"
| "ErrorText env (Lua (LBool b)) = (if b then ''true'' else ''false'')"
| "ErrorText env (Lua LNil) = ''nil''"
| "ErrorText env v = ''(error object is a '' @ slot_typename v @ '' value)''"

definition with_traceback :: "LuaEnv \<Rightarrow> string \<Rightarrow> slot" where
  "with_traceback env message = Lua (LStr (cstr message @ backtrace env))"

text \<open>
  lua\_tostring gives the text of strings and numbers only. The result of a \<^verbatim>\<open>__tostring\<close>
  metamethod stands as it is, without a traceback.
\<close>

definition Traceback :: "LuaEnv \<Rightarrow> slot \<Rightarrow> slot" where
  "Traceback env v =
     (case v of
        Lua (LStr s) \<Rightarrow> with_traceback env s
      | Lua (LInt _) \<Rightarrow> with_traceback env (num_text env v)
      | Lua (LFloat _) \<Rightarrow> with_traceback env (num_text env v)
      | _ \<Rightarrow>
          (case meta_tostring env v of
             Some (Lua (LStr s)) \<Rightarrow> Lua (LStr s)
           | _ \<Rightarrow> with_traceback env (''(error object is a '' @ slot_typename v @ '' value)'')))"

text \<open>Panic on a state whose invoker is the one of the model: the last value is the error.\<close>

definition Panic :: "LuaEnv \<Rightarrow> 'a stk" where
  "Panic env =
     sbind top_slot (\<lambda>v s. (Thrown (Lua_panic (''Lua error outside a protected call: '' @ ErrorText env v)),
                             s\<lparr>inv_dead := True\<rparr>))"

section \<open>Protected calls\<close>

text \<open>Exactly \<open>n\<close> results: the others are dropped, missing ones are nil.\<close>

definition adjust :: "nat \<Rightarrow> slot list \<Rightarrow> slot list" where
  "adjust n rs = take n rs @ replicate (n - length rs) (Lua LNil)"

definition handle_error :: "LuaEnv \<Rightarrow> slot option \<Rightarrow> slot \<Rightarrow> slot" where
  "handle_error env h e =
     (case h of
        None \<Rightarrow> e
      | Some (CFunction C_Traceback) \<Rightarrow> Traceback env e
      | Some f \<Rightarrow> (case behaviour env f [e] of Returns (r # _) \<Rightarrow> r | Returns [] \<Rightarrow> Lua LNil | Raises e' \<Rightarrow> e' | Fails e' \<Rightarrow> e'))"

text \<open>lua\_pcall: True is LUA\_OK. \<open>msgh\<close> is the index of the message handler, or 0.\<close>

definition lua_pcall :: "LuaEnv \<Rightarrow> nat \<Rightarrow> nat \<Rightarrow> nat \<Rightarrow> bool stk" where
  "lua_pcall env nargs nresults msgh s =
     (if nargs + 1 \<le> gettop s \<and> msgh \<le> gettop s \<and> gettop s + nresults \<le> limit s + nargs
      then
        let below = take (gettop s - nargs - 1) (vals s);
            f = vals s ! (gettop s - nargs - 1);
            args = drop (gettop s - nargs) (vals s);
            h = (if msgh = 0 then None else Some (vals s ! (msgh - 1)))
        in (case behaviour env f args of
              Returns rs \<Rightarrow> (Done True, s\<lparr>vals := below @ adjust nresults rs\<rparr>)
            | Raises e \<Rightarrow> (Done False, s\<lparr>vals := below @ [handle_error env h e]\<rparr>)
            | Fails e \<Rightarrow> (Done False, s\<lparr>vals := below @ [e]\<rparr>))
      else (Overrun, s))"

definition ProtectedCall :: "LuaEnv \<Rightarrow> nat \<Rightarrow> nat \<Rightarrow> string option stk" where
  "ProtectedCall env nargs nresults s =
     (let base = gettop s - nargs in
        sbind (push_slot (CFunction C_Traceback)) (\<lambda>_.
        sbind (insert_at base) (\<lambda>_.
        sbind (lua_pcall env nargs nresults base) (\<lambda>ok.
        sbind (remove_at base) (\<lambda>_.
          if ok then sret None
          else
            sbind top_slot (\<lambda>e.
            sbind (pop 1) (\<lambda>_. sret (Some (ErrorText env e)))))))) s)"

section \<open>The invoker\<close>

definition slog :: "string \<Rightarrow> unit stk" where
  "slog line s = (Done (), s\<lparr>err_log := err_log s @ [line]\<rparr>)"

definition StackRestore :: "nat \<Rightarrow> unit stk" where
  "StackRestore n s = (if inv_dead s then (Done (), s) else settop n s)"

definition Scope :: "'a stk \<Rightarrow> 'a stk" where
  "Scope m s = sexit m (\<lambda>s. (Done (), s\<lparr>inv_depth := inv_depth s - 1\<rparr>)) (s\<lparr>inv_depth := inv_depth s + 1\<rparr>)"

definition overflow :: cxx where "overflow = Runtime_error ''Lua stack overflow''"

definition Call_body :: "LuaEnv \<Rightarrow> slot \<Rightarrow> string \<Rightarrow> nat stk \<Rightarrow> bool stk" where
  "Call_body env f name push =
     sbind (checkstack env 2) (\<lambda>ok.
       if \<not> ok then sthrow overflow
       else
         sbind (push_slot f) (\<lambda>_.
         sbind push (\<lambda>nargs.
         sbind (ProtectedCall env nargs 0) (\<lambda>err.
           case err of
             Some e \<Rightarrow> sbind (slog (name @ '': '' @ e)) (\<lambda>_. sret False)
           | None \<Rightarrow> sret True))))"

definition Call :: "LuaEnv \<Rightarrow> slot \<Rightarrow> string \<Rightarrow> nat stk \<Rightarrow> bool stk" where
  "Call env f name push s =
     (if inv_dead s then (Done False, s)
      else Scope (sexit (Call_body env f name push) (StackRestore (gettop s))) s)"

section \<open>The callers\<close>

fun push_all :: "slot list \<Rightarrow> unit stk" where
  "push_all [] = sret ()"
| "push_all (v # vs) = sbind (push_slot v) (\<lambda>_. push_all vs)"

text \<open>The arguments of a timer and of \<^verbatim>\<open>Event.trigger\<close>: room for them is asked for first.\<close>

definition push_checked :: "LuaEnv \<Rightarrow> slot list \<Rightarrow> nat stk" where
  "push_checked env vs =
     sbind (checkstack env (length vs)) (\<lambda>ok.
       if \<not> ok then sthrow overflow else sbind (push_all vs) (\<lambda>_. sret (length vs)))"

text \<open>
  \<^verbatim>\<open>RunningScope\<close>: the table of globals at \<open>n + 1\<close>, the previous \<^verbatim>\<open>thisTimer\<close> at \<open>n + 2\<close>.
\<close>

definition the_globals :: slot where "the_globals = Lua (LTab 0)"

definition this_timer_key :: slot where "this_timer_key = Lua (LStr ''thisTimer'')"

text \<open>lua\_rawget and lua\_rawset on the table at index \<open>i\<close>, with the key on the stack.\<close>

definition table_at :: "nat \<Rightarrow> nat stk" where
  "table_at i = sbind (slot_at i) (\<lambda>v s. case v of Lua (LTab t) \<Rightarrow> (Done t, s) | _ \<Rightarrow> (Overrun, s))"

definition put_field :: "nat \<Rightarrow> string \<Rightarrow> slot \<Rightarrow> LState \<Rightarrow> LState" where
  "put_field t name v s = s\<lparr>tabs := (tabs s)(t := (tabs s t)(name := v))\<rparr>"

definition rawget :: "nat \<Rightarrow> unit stk" where
  "rawget i =
     sbind (table_at i) (\<lambda>t.
     sbind top_slot (\<lambda>k. sbind (pop 1) (\<lambda>_ s.
       push_slot (case k of Lua (LStr name) \<Rightarrow> tabs s t name | _ \<Rightarrow> Lua LNil) s)))"

definition rawset :: "nat \<Rightarrow> unit stk" where
  "rawset i =
     sbind (table_at i) (\<lambda>t.
     sbind top_slot (\<lambda>v. sbind (pop 1) (\<lambda>_.
     sbind top_slot (\<lambda>k. sbind (pop 1) (\<lambda>_ s.
       (Done (), case k of Lua (LStr name) \<Rightarrow> put_field t name v s | _ \<Rightarrow> s))))))"

definition running_enter :: "LuaEnv \<Rightarrow> slot \<Rightarrow> unit stk" where
  "running_enter env timer s =
     sbind (checkstack env 4) (\<lambda>ok.
       if \<not> ok then sthrow overflow
       else
         sbind (push_slot the_globals) (\<lambda>_.
         sbind (push_slot this_timer_key) (\<lambda>_.
         sbind (rawget (gettop s + 1)) (\<lambda>_.
         sbind (push_slot this_timer_key) (\<lambda>_.
         sbind (push_slot timer) (\<lambda>_. rawset (gettop s + 1))))))) s"

definition running_leave :: "nat \<Rightarrow> unit stk" where
  "running_leave n s =
     (if inv_dead s then (Done (), s)
      else
        sbind (settop (n + 2)) (\<lambda>_.
        sbind (push_slot this_timer_key) (\<lambda>_.
        sbind (slot_at (n + 2)) (\<lambda>saved.
        sbind (push_slot saved) (\<lambda>_.
        sbind (rawset (n + 1)) (\<lambda>_. settop n))))) s)"

definition run_callback :: "LuaEnv \<Rightarrow> slot \<Rightarrow> slot \<Rightarrow> slot list \<Rightarrow> bool stk" where
  "run_callback env timer f args s =
     sbind (running_enter env timer) (\<lambda>_.
       sexit (Call env f ''Timer callback'' (push_checked env args)) (running_leave (gettop s))) s"

definition Same :: "LuaEnv \<Rightarrow> slot \<Rightarrow> slot \<Rightarrow> bool stk" where
  "Same env a b =
     sbind (checkstack env 2) (\<lambda>ok.
       if \<not> ok then sthrow overflow
       else
         sbind (push_slot a) (\<lambda>_.
         sbind (push_slot b) (\<lambda>_ s.
           sbind (slot_at (gettop s)) (\<lambda>x.
           sbind (slot_at (gettop s - 1)) (\<lambda>y.
           sbind (pop 2) (\<lambda>_. sret (x = y)))) s)))"

section \<open>The effect of the operations\<close>

lemmas stk_simps = sbind_def sret_def sthrow_def gettop_def push_slot_def pop_def slot_at_def top_slot_def
  insert_at_def remove_at_def

lemma insert_at_below:
  "insert_at (length below + 1) (s\<lparr>vals := below @ on_top @ [v]\<rparr>) = (Done (), s\<lparr>vals := below @ v # on_top\<rparr>)"
  by (simp add: insert_at_def gettop_def butlast_append)

lemma remove_at_below:
  "remove_at (length below + 1) (s\<lparr>vals := below @ v # on_top\<rparr>) = (Done (), s\<lparr>vals := below @ on_top\<rparr>)"
  by (simp add: remove_at_def gettop_def)

lemma pcall_traceback:
  assumes "length below + 2 + nresults \<le> limit s"
  shows "lua_pcall env (length args) nresults (length below + 1) (s\<lparr>vals := below @ CFunction C_Traceback # f # args\<rparr>) =
    (case behaviour env f args of
       Returns rs \<Rightarrow> (Done True, s\<lparr>vals := below @ CFunction C_Traceback # adjust nresults rs\<rparr>)
     | Raises e \<Rightarrow> (Done False, s\<lparr>vals := below @ [CFunction C_Traceback, Traceback env e]\<rparr>)
     | Fails e \<Rightarrow> (Done False, s\<lparr>vals := below @ [CFunction C_Traceback, e]\<rparr>))"
proof -
  have "Suc (length below + length args) - length args = length below + 1"
    by simp
  then show ?thesis
    using assms by (simp add: lua_pcall_def gettop_def Let_def nth_append handle_error_def Suc_diff_le split: ending.split)
qed

lemma protected_call:
  assumes "vals s = below @ f # args" and "gettop s < limit s" and "length below + 2 + nresults \<le> limit s"
  shows "ProtectedCall env (length args) nresults s =
    (case behaviour env f args of
       Returns rs \<Rightarrow> (Done None, s\<lparr>vals := below @ adjust nresults rs\<rparr>)
     | Raises e \<Rightarrow> (Done (Some (ErrorText env (Traceback env e))), s\<lparr>vals := below\<rparr>)
     | Fails e \<Rightarrow> (Done (Some (ErrorText env e)), s\<lparr>vals := below\<rparr>))"
proof -
  have base: "gettop s - length args = length below + 1"
    using assms(1) by (simp add: gettop_def)
  have "push_slot (CFunction C_Traceback) s = (Done (), s\<lparr>vals := below @ (f # args) @ [CFunction C_Traceback]\<rparr>)"
    using assms by (simp add: push_slot_def)
  then show ?thesis
    using insert_at_below [where on_top = "f # args" and s = s] pcall_traceback [OF assms(3), of env args f]
      remove_at_below [where s = s]
    unfolding ProtectedCall_def base Let_def
    by (simp add: sbind_def sret_def top_slot_def slot_at_def pop_def gettop_def split: ending.split)
qed

lemma push_all_room:
  "gettop s + length vs \<le> limit s \<Longrightarrow> push_all vs s = (Done (), s\<lparr>vals := vals s @ vs\<rparr>)"
  by (induction vs arbitrary: s) (simp_all add: sbind_def sret_def push_slot_def gettop_def)

text \<open>The line that a failed call leaves in the log, if it failed.\<close>

definition failure :: "LuaEnv \<Rightarrow> ending \<Rightarrow> string option" where
  "failure env out =
     (case out of
        Returns _ \<Rightarrow> None
      | Raises e \<Rightarrow> Some (ErrorText env (Traceback env e))
      | Fails e \<Rightarrow> Some (ErrorText env e))"

definition log_failure :: "string \<Rightarrow> string option \<Rightarrow> LState \<Rightarrow> LState" where
  "log_failure name err s = (case err of None \<Rightarrow> s | Some e \<Rightarrow> s\<lparr>err_log := err_log s @ [name @ '': '' @ e]\<rparr>)"

lemma protected_call_none:
  assumes "vals s = below @ f # args" and "gettop s < limit s"
  shows "ProtectedCall env (length args) 0 s = (Done (failure env (behaviour env f args)), s\<lparr>vals := below\<rparr>)"
proof -
  have "length below + 2 + 0 \<le> limit s"
    using assms by (simp add: gettop_def)
  from protected_call [OF assms this] show ?thesis
    by (simp add: failure_def adjust_def split: ending.split)
qed

section \<open>A call leaves the stack as it was\<close>

text \<open>
  What the invoker relies on of the function that pushes the arguments: it only adds to the
  stack, also when it throws, and it returns how many values it added.
\<close>

definition grown :: "LState \<Rightarrow> LState \<Rightarrow> slot list \<Rightarrow> bool" where
  "grown s s' vs \<longleftrightarrow> vals s' = vals s @ vs \<and> limit s \<le> limit s' \<and> inv_depth s' = inv_depth s"

definition pushes :: "nat stk \<Rightarrow> bool" where
  "pushes p \<longleftrightarrow> (\<forall>s. case p s of
     (Done n, s') \<Rightarrow> \<exists>vs. grown s s' vs \<and> n = length vs
   | (Thrown _, s') \<Rightarrow> \<exists>vs. grown s s' vs
   | (Overrun, _) \<Rightarrow> True)"

lemma pushes_Done: "\<lbrakk>pushes p; p s = (Done n, s')\<rbrakk> \<Longrightarrow> \<exists>vs. grown s s' vs \<and> n = length vs"
  by (auto simp: pushes_def dest!: spec [of _ s])

lemma pushes_Thrown: "\<lbrakk>pushes p; p s = (Thrown e, s')\<rbrakk> \<Longrightarrow> \<exists>vs. grown s s' vs"
  by (auto simp: pushes_def dest!: spec [of _ s])

lemma grown_refl: "grown s s []"
  by (simp add: grown_def)

lemma grown_trans: "\<lbrakk>grown s s' vs; grown s' s'' ws\<rbrakk> \<Longrightarrow> grown s s'' (vs @ ws)"
  by (simp add: grown_def)

lemma grown_checkstack: "grown s (snd (checkstack env n s)) []"
  by (simp add: checkstack_def grown_def)

lemma checkstack_Done: "\<exists>ok s'. checkstack env n s = (Done ok, s')"
  by (auto simp: checkstack_def)

lemma Call_body_grown:
  assumes "pushes push" and run: "Call_body env f name push s = (out, s')" and "out \<noteq> Overrun"
  shows "\<exists>vs. grown s s' vs"
proof -
  obtain ok s1 where c: "checkstack env 2 s = (Done ok, s1)"
    using checkstack_Done by blast
  have g1: "grown s s1 []"
    using grown_checkstack [of s env 2] c by simp
  show ?thesis
  proof (cases "ok \<and> gettop s1 < limit s1")
    case False
    with run assms(3) c have "s' = s1"
      by (auto simp: Call_body_def sbind_def sthrow_def push_slot_def split: if_splits)
    with g1 show ?thesis by auto
  next
    case True
    let ?s2 = "s1\<lparr>vals := vals s1 @ [f]\<rparr>"
    obtain o3 s3 where p: "push ?s2 = (o3, s3)" by force
    have g2: "grown s ?s2 [f]" using g1 by (simp add: grown_def)
    show ?thesis
    proof (cases o3)
      case (Done n)
      from pushes_Done [OF assms(1) p [unfolded Done]] obtain vs where g3: "grown ?s2 s3 vs" and n: "n = length vs"
        by blast
      have v3: "vals s3 = vals s @ f # vs"
        using g1 g3 by (simp add: grown_def)
      have full: "ProtectedCall env n 0 s3 = (Overrun, s3)" if "\<not> gettop s3 < limit s3"
        using that by (simp add: ProtectedCall_def Let_def sbind_def push_slot_def)
      have "gettop s3 < limit s3"
      proof (rule ccontr)
        assume "\<not> gettop s3 < limit s3"
        with run True c p Done full have "out = Overrun"
          by (simp add: Call_body_def sbind_def push_slot_def)
        with assms(3) show False by contradiction
      qed
      from protected_call_none [OF v3 this, of env] n
      have "ProtectedCall env n 0 s3 = (Done (failure env (behaviour env f vs)), s3\<lparr>vals := vals s\<rparr>)" by simp
      with run True c p Done have "vals s' = vals s \<and> limit s' = limit s3 \<and> inv_depth s' = inv_depth s3"
        by (auto simp: Call_body_def sbind_def sret_def slog_def push_slot_def split: option.splits)
      with g2 g3 have "grown s s' []"
        by (simp add: grown_def)
      then show ?thesis ..
    next
      case (Thrown e)
      from pushes_Thrown [OF assms(1) p [unfolded Thrown]] obtain vs where g3: "grown ?s2 s3 vs" by blast
      from run True c p Thrown have "s' = s3"
        by (simp add: Call_body_def sbind_def push_slot_def)
      with grown_trans [OF g2 g3] show ?thesis by blast
    next
      case Overrun
      with run True c p assms(3) show ?thesis
        by (simp add: Call_body_def sbind_def push_slot_def)
    qed
  qed
qed

text \<open>The interface between the invoker and the code that pushes the arguments of a call.\<close>

locale pusher =
  fixes push :: "nat stk"
  assumes pushes: "pushes push"
begin

lemma call_keeps:
  assumes "gettop s \<le> limit s"
  shows "case Call env f name push s of
           (Overrun, _) \<Rightarrow> True
         | (_, s') \<Rightarrow> inv_depth s' = inv_depth s \<and> (inv_dead s' \<or> vals s' = vals s)"
proof (cases "inv_dead s")
  case False
  let ?s0 = "s\<lparr>inv_depth := inv_depth s + 1\<rparr>"
  obtain out s1 where b: "Call_body env f name push ?s0 = (out, s1)" by force
  show ?thesis
  proof (cases "out = Overrun")
    case True
    with False b show ?thesis by (simp add: Call_def Scope_def sexit_def)
  next
    case ran: False
    from Call_body_grown [OF pushes b ran] obtain vs where "grown ?s0 s1 vs" ..
    with assms have g: "vals s1 = vals s @ vs" "gettop s \<le> limit s1" "inv_depth s1 = inv_depth s + 1"
      by (simp_all add: grown_def)
    have "StackRestore (gettop s) s1 = (Done (), if inv_dead s1 then s1 else s1\<lparr>vals := vals s\<rparr>)"
      using g by (simp add: StackRestore_def settop_def gettop_def)
    with False b ran g(3) show ?thesis
      by (cases out) (auto simp: Call_def Scope_def sexit_def gettop_def)
  qed
qed (simp add: Call_def)

end

text \<open>
  C8. Whatever the function that pushes the arguments does to the end of the stack, also when it
  throws half way, and however the Lua function ends, a call leaves the stack and the
  count of active calls as they were, unless the state died in a panic, when the stack is not
  touched any more.
\<close>

theorem call_restores_stack:
  assumes "pushes push" and "gettop s \<le> limit s"
  shows "case Call env f name push s of
           (Overrun, _) \<Rightarrow> True
         | (_, s') \<Rightarrow> inv_depth s' = inv_depth s \<and> (inv_dead s' \<or> vals s' = vals s)"
  by (rule pusher.call_keeps [OF pusher.intro, OF assms])

section \<open>Room for the arguments\<close>

lemma Call_body_checked:
  assumes "gettop s + length args + 2 \<le> limit s"
  shows "Call_body env f name (push_checked env args) s =
    (Done (failure env (behaviour env f args) = None), log_failure name (failure env (behaviour env f args)) s)"
proof -
  let ?s = "s\<lparr>vals := vals s @ [f]\<rparr>"
  have room: "gettop ?s + length args \<le> limit ?s"
    using assms by (simp add: gettop_def)
  have "push_checked env args ?s = (Done (length args), s\<lparr>vals := vals s @ f # args\<rparr>)"
    using push_all_room [OF room] room by (simp add: push_checked_def checkstack_def sbind_def sret_def)
  moreover have "ProtectedCall env (length args) 0 (s\<lparr>vals := vals s @ f # args\<rparr>)
      = (Done (failure env (behaviour env f args)), s)"
    using protected_call_none [of "s\<lparr>vals := vals s @ f # args\<rparr>" "vals s" f args env] assms by (simp add: gettop_def)
  ultimately show ?thesis
    using assms
    by (simp add: Call_body_def checkstack_def push_slot_def gettop_def sbind_def sret_def slog_def log_failure_def
        split: option.split)
qed

lemma Call_checked:
  assumes "\<not> inv_dead s" and "gettop s + length args + 2 \<le> limit s"
  shows "Call env f name (push_checked env args) s =
    (Done (failure env (behaviour env f args) = None), log_failure name (failure env (behaviour env f args)) s)"
proof -
  have "gettop (s\<lparr>inv_depth := inv_depth s + 1\<rparr>) + length args + 2 \<le> limit (s\<lparr>inv_depth := inv_depth s + 1\<rparr>)"
    using assms(2) by (simp add: gettop_def)
  from Call_body_checked [OF this] assms show ?thesis
    by (simp add: Call_def Scope_def sexit_def StackRestore_def settop_def gettop_def log_failure_def split: option.split)
qed

lemma Call_checked_full:
  assumes "\<not> inv_dead s" and "gettop s + 2 \<le> limit s" and "args \<noteq> []" and "limit s < gettop s + length args + 2"
    and "can_grow env (gettop s + length args + 1)"
  shows "fst (Call env f name (push_checked env args) s) = Overrun"
proof -
  let ?t = "s\<lparr>inv_depth := inv_depth s + 1, vals := vals s @ [f]\<rparr>"
  let ?s = "?t\<lparr>limit := gettop s + length args + 1\<rparr>"
  have room: "gettop ?s + length args \<le> limit ?s"
    by (simp add: gettop_def)
  have "\<exists>s1. push_checked env args ?t = (Done (length args), s1) \<and> gettop s1 = limit s1"
  proof (cases "limit s = gettop s + length args + 1")
    case True
    then have "gettop ?t + length args \<le> limit ?t"
      by (simp add: gettop_def)
    from push_all_room [OF this] True show ?thesis
      by (simp add: push_checked_def checkstack_def sbind_def sret_def gettop_def)
  next
    case False
    with assms(4) have "\<not> gettop s + length args + 1 \<le> limit s" by simp
    with push_all_room [OF room] assms(5) show ?thesis
      by (simp add: push_checked_def checkstack_def sbind_def sret_def gettop_def)
  qed
  then show ?thesis
    using assms(1,2)
    by (auto simp: Call_def Scope_def sexit_def Call_body_def checkstack_def push_slot_def gettop_def sbind_def
        ProtectedCall_def Let_def)
qed

section \<open>The callback of a timer\<close>

lemma running_enter_room:
  assumes "gettop s + 4 \<le> limit s"
  shows "running_enter env timer s =
    (Done (), s\<lparr>vals := vals s @ [the_globals, tabs s 0 ''thisTimer''], tabs := (tabs s)(0 := (tabs s 0)(''thisTimer'' := timer))\<rparr>)"
  using assms
  by (simp add: running_enter_def checkstack_def stk_simps rawget_def rawset_def table_at_def put_field_def the_globals_def this_timer_key_def
      nth_append)

lemma running_leave_room:
  assumes "\<not> inv_dead s" and "vals s = below @ [the_globals, saved]" and "gettop s + 2 \<le> limit s"
  shows "running_leave (length below) s =
    (Done (), s\<lparr>vals := below, tabs := (tabs s)(0 := (tabs s 0)(''thisTimer'' := saved))\<rparr>)"
  using assms
  by (simp add: running_leave_def settop_def stk_simps rawset_def table_at_def put_field_def the_globals_def this_timer_key_def nth_append)

lemma run_callback_room:
  assumes "\<not> inv_dead s" and "gettop s + length args + 4 \<le> limit s"
  shows "run_callback env timer f args s =
    (Done (failure env (behaviour env f args) = None),
     log_failure ''Timer callback'' (failure env (behaviour env f args)) s)"
proof -
  let ?s = "s\<lparr>vals := vals s @ [the_globals, tabs s 0 ''thisTimer''], tabs := (tabs s)(0 := (tabs s 0)(''thisTimer'' := timer))\<rparr>"
  let ?e = "failure env (behaviour env f args)"
  have enter: "running_enter env timer s = (Done (), ?s)"
    using assms(2) by (intro running_enter_room) simp
  have call: "Call env f ''Timer callback'' (push_checked env args) ?s = (Done (?e = None), log_failure ''Timer callback'' ?e ?s)"
    using assms by (intro Call_checked) (simp_all add: gettop_def)
  have "running_leave (length (vals s)) (log_failure ''Timer callback'' ?e ?s) = (Done (), log_failure ''Timer callback'' ?e s)"
    using running_leave_room [of "log_failure ''Timer callback'' ?e ?s" "vals s" "tabs s 0 ''thisTimer''"] assms
    by (cases ?e) (simp_all add: log_failure_def gettop_def)
  with enter call show ?thesis
    by (simp add: run_callback_def sbind_def sexit_def gettop_def)
qed

text \<open>
  When the stack has room for the two slots of \<^verbatim>\<open>RunningScope\<close>, the function, its arguments and the
  message handler, the callback of a timer is called with exactly the timer's arguments; the
  stack and \<^verbatim>\<open>thisTimer\<close> are afterwards what they were, and an error the callback raises is in
  the log with its traceback.
\<close>

theorem timer_callback_effect:
  assumes "\<not> inv_dead s" and "gettop s + length args + 4 \<le> limit s"
  shows "run_callback env timer f args s =
    (Done (failure env (behaviour env f args) = None),
     log_failure ''Timer callback'' (failure env (behaviour env f args)) s)"
  using assms by (rule run_callback_room)

text \<open>LUA\_MINSTACK: the slots that a C function, and the host outside any call, has from the start.\<close>

definition kMinStack :: nat where "kMinStack = 20"

text \<open>
  C18. The arguments of a timer and the message handler of the protected call are given room
  separately, so the handler's slot is the first argument's: on a fresh stack a timer
  callback with up to 16 arguments stays within the slots it may use, and with 17 or more the
  push of the message handler is one slot beyond them.
\<close>

theorem timer_arguments_overrun:
  assumes "vals s = []" and "limit s = kMinStack" and "\<not> inv_dead s" and "\<And>n. can_grow env n"
  shows "fst (run_callback env timer f args s) = Overrun \<longleftrightarrow> 17 \<le> length args"
proof (cases "17 \<le> length args")
  case True
  let ?s = "s\<lparr>vals := vals s @ [the_globals, tabs s 0 ''thisTimer''], tabs := (tabs s)(0 := (tabs s 0)(''thisTimer'' := timer))\<rparr>"
  have enter: "running_enter env timer s = (Done (), ?s)"
    using assms by (intro running_enter_room) (simp add: gettop_def kMinStack_def)
  have "fst (Call env f ''Timer callback'' (push_checked env args) ?s) = Overrun"
    using assms True by (intro Call_checked_full) (auto simp: gettop_def kMinStack_def)
  then obtain s' where "Call env f ''Timer callback'' (push_checked env args) ?s = (Overrun, s')"
    by (cases "Call env f ''Timer callback'' (push_checked env args) ?s") simp
  with enter True show ?thesis
    by (simp add: run_callback_def sbind_def sexit_def)
next
  case False
  with assms run_callback_room [of s args env timer f] show ?thesis
    by (simp add: gettop_def kMinStack_def)
qed

section \<open>Examples\<close>

text \<open>An environment where the function 1 returns and every other function raises its first argument.\<close>

definition demo_env :: LuaEnv where
  "demo_env = \<lparr>behaviour = (\<lambda>f args. if f = Lua (LFun 1) then Returns [] else Raises (hd (args @ [Lua LNil]))),
     meta_tostring = (\<lambda>_. None), num_text = (\<lambda>_. ''0''), fmt_double = (\<lambda>_. ''0''),
     backtrace = '' stack traceback'', can_grow = (\<lambda>_. True)\<rparr>"

definition demo_stack :: LState where
  "demo_stack = \<lparr>vals = [], limit = kMinStack, tabs = (\<lambda>_ _. Lua LNil), next_tab = 1, inv_depth = 0, inv_dead = False, err_log = []\<rparr>"

lemma pushes_checked: "pushes (push_checked env vs)"
proof -
  have "case push_checked env vs s of
          (Done n, s') \<Rightarrow> \<exists>ws. grown s s' ws \<and> n = length ws
        | (Thrown _, s') \<Rightarrow> \<exists>ws. grown s s' ws
        | (Overrun, _) \<Rightarrow> True" for s
  proof -
    obtain ok s1 where c: "checkstack env (length vs) s = (Done ok, s1)"
      using checkstack_Done by blast
    have g: "grown s s1 []"
      using grown_checkstack [of s env "length vs"] c by simp
    show ?thesis
    proof (cases ok)
      case True
      then have "gettop s1 + length vs \<le> limit s1"
        using c by (auto simp: checkstack_def gettop_def split: if_splits)
      from push_all_room [OF this] True c g show ?thesis
        by (auto simp: push_checked_def sbind_def sret_def grown_def)
    next
      case False
      with c g show ?thesis
        by (auto simp: push_checked_def sbind_def sthrow_def)
    qed
  qed
  then show ?thesis by (simp add: pushes_def)
qed

interpretation checked_args: pusher "push_checked env vs"
  by unfold_locales (rule pushes_checked)

theorem call_restores_stack_witness:
  "case Call demo_env (Lua (LFun 2)) ''onServerInit'' (push_checked demo_env [Lua (LStr ''broken'')]) demo_stack of
     (Overrun, _) \<Rightarrow> True
   | (_, s') \<Rightarrow> inv_depth s' = inv_depth demo_stack \<and> (inv_dead s' \<or> vals s' = vals demo_stack)"
  by (rule call_restores_stack [OF pushes_checked]) (simp add: demo_stack_def gettop_def)

theorem timer_callback_effect_witness:
  "run_callback demo_env (Lua (LUser 7)) (Lua (LFun 2)) [Lua (LStr ''bad'')] demo_stack =
    (Done False, demo_stack\<lparr>err_log := [''Timer callback: bad stack traceback'']\<rparr>)"
  using timer_callback_effect [of demo_stack "[Lua (LStr ''bad'')]" demo_env "Lua (LUser 7)" "Lua (LFun 2)"]
  by (simp add: demo_stack_def demo_env_def gettop_def kMinStack_def failure_def Traceback_def with_traceback_def
      cstr_def NUL_def log_failure_def)

theorem timer_arguments_overrun_witness:
  "fst (run_callback demo_env (Lua (LUser 7)) (Lua (LFun 1)) (replicate 17 (Lua LNil)) demo_stack) = Overrun
     \<and> fst (run_callback demo_env (Lua (LUser 7)) (Lua (LFun 1)) (replicate 16 (Lua LNil)) demo_stack) \<noteq> Overrun"
  using timer_arguments_overrun [of demo_stack demo_env "Lua (LUser 7)" "Lua (LFun 1)" "replicate 17 (Lua LNil)"]
    timer_arguments_overrun [of demo_stack demo_env "Lua (LUser 7)" "Lua (LFun 1)" "replicate 16 (Lua LNil)"]
  by (simp add: demo_stack_def demo_env_def)

section \<open>Comparing two functions\<close>

lemma Same_effect:
  "gettop s + 2 \<le> limit s \<Longrightarrow> Same env a b s = (Done (a = b), s)"
  by (auto simp: Same_def checkstack_def stk_simps nth_append)

end
