(* ===== verification/Lua_Modules.thy ===== *)
theory Lua_Modules
  imports Lua_Value "HOL-Library.Sublist"
begin

text \<open>
  What a new Lua state offers besides the classes: the modules in \<^verbatim>\<open>package.preload\<close>
  (\<^verbatim>\<open>src/src/runtime/preload.cpp\<close>) and the stubs of the globals that 3.0 removed
  (\<^verbatim>\<open>src/src/bindings/removed_globals.cpp\<close>). The embedded Lua files are generated by the build,
  and loading and running a chunk is Lua's: both are parameters.
\<close>

section \<open>Preloaded modules\<close>

record Embedded =
  m_name :: string
  m_chunkname :: string
  m_source :: string

datatype loader = C_open string | Load_embedded nat | Return_value lval

type_synonym preload = "string \<rightharpoonup> loader"

text \<open>The C modules, by the name and the function that opens them.\<close>

definition kCModules :: "(string \<times> string) list" where
  "kCModules = [(''lfs'', ''luaopen_lfs''), (''cjson'', ''luaopen_cjson''), (''cjson.safe'', ''luaopen_cjson_safe''),
     (''socket.core'', ''luaopen_socket_core''), (''mime.core'', ''luaopen_mime_core''),
     (''luasql.sqlite3'', ''luaopen_luasql_sqlite3''), (''luasql.postgres'', ''luaopen_luasql_postgres''),
     (''luasql.mysql'', ''luaopen_luasql_mysql'')]"

definition kInternalPrefix :: string where "kInternalPrefix = ''vcmp-lua/''"

definition Internal :: "Embedded \<Rightarrow> bool" where
  "Internal m \<longleftrightarrow> prefix kInternalPrefix (m_name m)"

definition add_c_modules :: "preload \<Rightarrow> preload" where
  "add_c_modules p = foldl (\<lambda>p (name, fn). p(name \<mapsto> C_open fn)) p kCModules"

primrec add_embedded :: "nat \<Rightarrow> Embedded list \<Rightarrow> preload \<Rightarrow> preload" where
  "add_embedded i [] p = p"
| "add_embedded i (m # ms) p =
     add_embedded (i + 1) ms (if Internal m then p else p(m_name m \<mapsto> Load_embedded i))"

definition RegisterBuiltins :: "Embedded list \<Rightarrow> preload \<Rightarrow> preload" where
  "RegisterBuiltins modules p = add_embedded 0 modules (add_c_modules p)"

definition PreloadValue :: "string \<Rightarrow> lval \<Rightarrow> preload \<Rightarrow> preload" where
  "PreloadValue name v p = p(name \<mapsto> Return_value v)"

text \<open>
  The two users of an embedded source: \<open>load\<close> is luaL\_loadbufferx in text mode, which gives an
  error or a function, \<open>run\<close> calls it with its arguments.
\<close>

definition LoadEmbedded ::
  "(string \<Rightarrow> string \<Rightarrow> lval + 'fn) \<Rightarrow> ('fn \<Rightarrow> lval list \<Rightarrow> lval + lval) \<Rightarrow> Embedded list \<Rightarrow> nat \<Rightarrow>
    lval \<Rightarrow> lval \<Rightarrow> lval + lval" where
  "LoadEmbedded load run modules i name loader_data =
     (case load (m_source (modules ! i)) (m_chunkname (modules ! i)) of
        Inl e \<Rightarrow> Inl e
      | Inr f \<Rightarrow> run f [name, loader_data])"

definition RunPrelude ::
  "(string \<Rightarrow> string \<Rightarrow> lval + 'fn) \<Rightarrow> ('fn \<Rightarrow> lval list \<Rightarrow> lval + lval) \<Rightarrow> Embedded list \<Rightarrow> lval + lval" where
  "RunPrelude load run modules =
     (case find (\<lambda>m. m_name m = ''vcmp-lua/prelude'') modules of
        None \<Rightarrow> Inl (LStr ''the prelude is not embedded'')
      | Some m \<Rightarrow> (case load (m_source m) (m_chunkname m) of Inl e \<Rightarrow> Inl e | Inr f \<Rightarrow> run f []))"

section \<open>Removed globals\<close>

record Removed =
  rm_name :: string
  rm_anchor :: string
  rm_replaced :: string

definition kRemoved :: "Removed list" where
  "kRemoved = [
   \<lparr>rm_name = ''MySQL'', rm_anchor = ''mysql'', rm_replaced = ''use require '' @ dquoted ''luasql.mysql''\<rparr>,
   \<lparr>rm_name = ''SQLite'', rm_anchor = ''sqlite'', rm_replaced = ''use require '' @ dquoted ''luasql.sqlite3''\<rparr>,
   \<lparr>rm_name = ''SqLite'', rm_anchor = ''sqlite'', rm_replaced = ''use require '' @ dquoted ''luasql.sqlite3''\<rparr>,
   \<lparr>rm_name = ''SQLiteDatabase'', rm_anchor = ''sqlite'', rm_replaced = ''use require '' @ dquoted ''luasql.sqlite3''\<rparr>,
   \<lparr>rm_name = ''Remote'', rm_anchor = ''remote'', rm_replaced = ''use require '' @ dquoted ''http''\<rparr>,
   \<lparr>rm_name = ''JSON'', rm_anchor = ''json'', rm_replaced = ''use require '' @ dquoted ''cjson''\<rparr>,
   \<lparr>rm_name = ''Thread'', rm_anchor = ''thread'',
    rm_replaced = ''Lua runs on the server'' @ [CHR 0x27] @ ''s thread only''\<rparr>,
   \<lparr>rm_name = ''dbg'', rm_anchor = ''debugger'', rm_replaced = ''it blocked the server waiting for console input''\<rparr>]"

text \<open>The error that indexing, assigning a field of, or calling the stub of a removed global raises.\<close>

definition removed_message :: "Removed \<Rightarrow> string" where
  "removed_message r =
     rm_name r @ '' was removed in 3.0: '' @ rm_replaced r @ '' (see docs/MIGRATION-v3.md#'' @ rm_anchor r @ '')''"

definition RegisterRemovedV1Stubs :: "string \<rightharpoonup> cxx" where
  "RegisterRemovedV1Stubs = map_of (map (\<lambda>r. (rm_name r, Runtime_error (removed_message r))) kRemoved)"

section \<open>What scripts can require\<close>

lemma add_embedded_Some:
  "add_embedded i ms p name = Some (Load_embedded j) \<Longrightarrow>
     p name = Some (Load_embedded j) \<or>
     i \<le> j \<and> j - i < length ms \<and> m_name (ms ! (j - i)) = name \<and> \<not> Internal (ms ! (j - i))"
proof (induction ms arbitrary: i p)
  case (Cons m ms)
  let ?p = "if Internal m then p else p(m_name m \<mapsto> Load_embedded i)"
  consider "?p name = Some (Load_embedded j)"
    | "i + 1 \<le> j" "j - (i + 1) < length ms" "m_name (ms ! (j - (i + 1))) = name" "\<not> Internal (ms ! (j - (i + 1)))"
    using Cons.IH [of "i + 1" ?p] Cons.prems by auto
  then show ?case
  proof cases
    case 1
    then show ?thesis
      by (auto split: if_splits)
  next
    case 2
    then have "j - i = Suc (j - (i + 1))"
      by simp
    with 2 show ?thesis
      by simp
  qed
qed simp

lemma add_c_modules_C: "add_c_modules Map.empty name = Some l \<Longrightarrow> \<exists>fn. l = C_open fn"
  by (auto simp: add_c_modules_def kCModules_def split: if_splits)

text \<open>
  The loader of an embedded module indexes the list of modules in bounds, at a module of the
  name it was required by, which is never one of the runtime's own.
\<close>

lemma embedded_loader_in_bounds:
  assumes "RegisterBuiltins modules Map.empty name = Some (Load_embedded j)"
  shows "j < length modules \<and> m_name (modules ! j) = name \<and> \<not> prefix kInternalPrefix name"
  using add_embedded_Some [OF assms [unfolded RegisterBuiltins_def]] add_c_modules_C [of name] by (auto simp: Internal_def)

end
