(* ===== verification/Lua_States.thy ===== *)
theory Lua_States
  imports Config Lua_Stack Lua_Modules
begin

text \<open>
  The two kinds of Lua state that the plugin makes. The sandbox that runs \<^verbatim>\<open>luaconfig.lua\<close>
  (\<^verbatim>\<open>src/src/runtime/config.cpp\<close>): which globals it has, the instruction budget, and what running the
  file gives. The state of a runtime (\<^verbatim>\<open>src/src/runtime/runtime.cpp\<close>): its set-up, \<^verbatim>\<open>print\<close>, and the
  loading of the scripts. Lua's own libraries, the loading of a chunk and its run are parameters.
\<close>

section \<open>Globals\<close>

text \<open>
  A global is a function of the base library, the table of another library, the table of
  globals itself, or the plugin's own \<^verbatim>\<open>print\<close>.
\<close>

datatype global = Base string | Library string | Globals | Plugin_print

type_synonym global_table = "string \<rightharpoonup> global"

text \<open>luaL\_requiref with the last argument 1; \<open>base\<close> are the names that luaopen\_base defines.\<close>

definition requiref :: "string list \<Rightarrow> global_table \<Rightarrow> string \<Rightarrow> global_table" where
  "requiref base g name =
     (if name = ''_G'' then (foldl (\<lambda>g f. g(f \<mapsto> Base f)) g base)(''_G'' \<mapsto> Globals)
      else g(name \<mapsto> Library name))"

definition kSandboxLibraries :: "string list" where
  "kSandboxLibraries = [''_G'', ''string'', ''table'', ''math'', ''utf8'']"

definition kSandboxRemoved :: "string list" where
  "kSandboxRemoved = [''dofile'', ''loadfile'', ''load'', ''collectgarbage'']"

definition OpenSandbox :: "string list \<Rightarrow> global_table" where
  "OpenSandbox base =
     foldl (\<lambda>g name. g(name := None)) (foldl (requiref base) Map.empty kSandboxLibraries) kSandboxRemoved"

section \<open>The instruction budget\<close>

definition kInstructionBudget :: nat where "kInstructionBudget = 10000000"

definition budget_message :: string where
  "budget_message = ''the config file runs too long (endless loop?)''"

text \<open>
  A run of the file as the hook sees it: instructions, and the protected calls (\<^verbatim>\<open>pcall\<close>) entered and
  left. Lua calls the hook after every \<^verbatim>\<open>kInstructionBudget\<close> instructions and counts anew; the error that
  \<^verbatim>\<open>BudgetHook\<close> raises ends the innermost protected call, or the run when there is none.
\<close>

datatype vm_event = Instruction | Enter_pcall | Leave_pcall

record Vm =
  vm_count :: nat       \<comment> \<open>instructions since the hook was last called\<close>
  vm_total :: nat       \<comment> \<open>instructions of the whole run\<close>
  vm_protected :: nat   \<comment> \<open>protected calls that are active\<close>
  vm_error :: "string option"

definition vm_start :: Vm where
  "vm_start = \<lparr>vm_count = 0, vm_total = 0, vm_protected = 0, vm_error = None\<rparr>"

definition BudgetHook :: "Vm \<Rightarrow> Vm" where
  "BudgetHook m =
     (if vm_protected m = 0 then m\<lparr>vm_error := Some budget_message\<rparr>
      else m\<lparr>vm_protected := vm_protected m - 1\<rparr>)"

fun vm_step :: "Vm \<Rightarrow> vm_event \<Rightarrow> Vm" where
  "vm_step m Instruction =
     (if vm_error m \<noteq> None then m
      else if vm_count m + 1 = kInstructionBudget then BudgetHook (m\<lparr>vm_count := 0, vm_total := vm_total m + 1\<rparr>)
      else m\<lparr>vm_count := vm_count m + 1, vm_total := vm_total m + 1\<rparr>)"
| "vm_step m Enter_pcall = (if vm_error m \<noteq> None then m else m\<lparr>vm_protected := vm_protected m + 1\<rparr>)"
| "vm_step m Leave_pcall = (if vm_error m \<noteq> None then m else m\<lparr>vm_protected := vm_protected m - 1\<rparr>)"

section \<open>Running the config file\<close>

text \<open>
  Outside the sources: whether a state can be made, luaL\_loadfilex in text mode, the run of a
  chunk, and a Lua error outside a protected call.
\<close>

record LuaHost =
  newstate :: bool
  open_sandbox :: ending
  load_text :: "string \<Rightarrow> slot + nat"
  run_chunk :: "nat \<Rightarrow> ending"
  panic_in_config :: "string option"
  setup_result :: "Config \<Rightarrow> ending"

definition LoadScriptFile :: "LuaHost \<Rightarrow> string \<Rightarrow> ending" where
  "LoadScriptFile host path =
     (case load_text host (cstr path) of Inl e \<Rightarrow> Raises e | Inr chunk \<Rightarrow> Returns [Lua (LFun chunk)])"

definition RunConfigFile :: "LuaHost \<Rightarrow> string \<Rightarrow> ending" where
  "RunConfigFile host path =
     (case load_text host (cstr path) of
        Inl e \<Rightarrow> Raises e
      | Inr chunk \<Rightarrow> (case run_chunk host chunk of Returns rs \<Rightarrow> Returns (adjust 1 rs) | other \<Rightarrow> other))"

text \<open>What a call of a function does, for the stack machine.\<close>

definition run_function :: "LuaHost \<Rightarrow> Config \<Rightarrow> slot \<Rightarrow> slot list \<Rightarrow> ending" where
  "run_function host cfg f args =
     (case (f, args) of
        (CFunction C_OpenSandbox, _) \<Rightarrow> open_sandbox host
      | (CFunction C_RunConfigFile, [Light path]) \<Rightarrow> RunConfigFile host path
      | (CFunction C_LoadScriptFile, [Light path]) \<Rightarrow> LoadScriptFile host path
      | (CFunction C_SetupState, _) \<Rightarrow> setup_result host cfg
      | (Lua (LFun chunk), _) \<Rightarrow> run_chunk host chunk
      | _ \<Rightarrow> Raises (Lua (LStr ''attempt to call a value'')))"

text \<open>The value in a slot; a C function and a light userdata have no more than their type here.\<close>

fun lval_of :: "slot \<Rightarrow> lval" where
  "lval_of (Lua v) = v"
| "lval_of (CFunction _) = LFun 0"
| "lval_of (Light _) = LUser 0"

text \<open>
  The body of \<^verbatim>\<open>LoadConfig\<close> up to the check of the result, on the stack of the sandbox: what the
  file returned, or the reason there is nothing.
\<close>

definition run_config :: "LuaEnv \<Rightarrow> string \<Rightarrow> sandbox stk" where
  "run_config env path =
     sbind (push_slot (CFunction C_OpenSandbox)) (\<lambda>_.
     sbind (lua_pcall env 0 0 0) (\<lambda>ok.
       if \<not> ok then sbind top_slot (\<lambda>e. sret (Setup_failed (ErrorText env e)))
       else
         sbind (push_slot (CFunction C_RunConfigFile)) (\<lambda>_.
         sbind (push_slot (Light path)) (\<lambda>_.
         sbind (lua_pcall env 1 1 0) (\<lambda>ok.
           if \<not> ok then sbind top_slot (\<lambda>e. sret (Run_failed (ErrorText env e)))
           else sbind top_slot (\<lambda>v. sret (Returned (lval_of v))))))))"

text \<open>
  The life of the sandbox's state: \<^verbatim>\<open>SandboxState\<close> throws when there is none; a state that panicked is
  left alone, every other one is closed. True: the state was closed.
\<close>

definition config_state :: LState where
  "config_state = \<lparr>vals = [], limit = kMinStack, tabs = (\<lambda>_ _. Lua LNil), next_tab = 1, inv_depth = 0, inv_dead = False, err_log = []\<rparr>"

definition sandbox_run :: "LuaHost \<Rightarrow> LuaEnv \<Rightarrow> string \<Rightarrow> (sandbox \<times> bool) result" where
  "sandbox_run host env path =
     (if \<not> newstate host then Done (No_state, False)
      else
        case panic_in_config host of
          Some e \<Rightarrow> Done (Panicked (''Lua error outside a protected call: '' @ e), False)
        | None \<Rightarrow>
            (case fst (run_config env path config_state) of
               Done run \<Rightarrow> Done (run, True)
             | Thrown e \<Rightarrow> Done (Panicked (what e), False)
             | Overrun \<Rightarrow> Overrun))"

section \<open>The state of a runtime\<close>

text \<open>
  \<^verbatim>\<open>print\<close>: one line, the texts of the arguments separated by tabs. \<open>tostr\<close> is luaL\_tolstring,
  which may raise an error.
\<close>

fun print_line :: "(lval \<Rightarrow> lval + string) \<Rightarrow> lval list \<Rightarrow> lval + string" where
  "print_line tostr [] = Inr []"
| "print_line tostr (v # vs) =
     (case tostr v of
        Inl e \<Rightarrow> Inl e
      | Inr t \<Rightarrow> map_sum id (\<lambda>r. (if vs = [] then t else t @ CHR 0x09 # r)) (print_line tostr vs))"

text \<open>
  \<^verbatim>\<open>SetupState\<close>: the standard libraries, the built-in modules, the search path, \<^verbatim>\<open>print\<close>, the prelude.
  \<open>std\<close> are the globals that luaL\_openlibs makes.
\<close>

record LuaSetup =
  set_globals :: global_table
  set_preload :: preload
  set_path :: string

definition SetupState ::
  "global_table \<Rightarrow> (string \<Rightarrow> string \<Rightarrow> lval + 'fn) \<Rightarrow> ('fn \<Rightarrow> lval list \<Rightarrow> lval + lval) \<Rightarrow> Embedded list \<Rightarrow>
    Config \<Rightarrow> LuaSetup \<times> (lval + lval)" where
  "SetupState std load run modules cfg =
     (\<lparr>set_globals = std(''print'' \<mapsto> Plugin_print), set_preload = RegisterBuiltins modules Map.empty,
       set_path = package_path cfg\<rparr>,
      RunPrelude load run modules)"

text \<open>The constructor of \<^verbatim>\<open>Runtime\<close>, as far as it uses the stack: the result is the prelude's table.\<close>

definition construct_state :: "LuaEnv \<Rightarrow> slot stk" where
  "construct_state env =
     sbind (push_slot (CFunction C_SetupState)) (\<lambda>_.
     sbind (push_slot (Light ''config'')) (\<lambda>_.
     sbind (ProtectedCall env 1 1) (\<lambda>err.
       case err of
         Some e \<Rightarrow> sthrow (Runtime_error (''cannot set up the Lua state: '' @ e))
       | None \<Rightarrow> sbind top_slot (\<lambda>t. sbind (pop 1) (\<lambda>_. sret t)))))"

text \<open>The loop of \<^verbatim>\<open>LoadScripts\<close> over the scripts, while the runtime stays usable.\<close>

definition load_script_stk :: "LuaEnv \<Rightarrow> string \<Rightarrow> unit stk" where
  "load_script_stk env script =
     Lua_Stack.Scope (
       sbind (push_slot (CFunction C_LoadScriptFile)) (\<lambda>_.
       sbind (push_slot (Light script)) (\<lambda>_.
       sbind (lua_pcall env 1 1 0) (\<lambda>ok.
         if \<not> ok then sbind top_slot (\<lambda>e. sbind (slog (ErrorText env e)) (\<lambda>_. pop 1))
         else
           sbind (ProtectedCall env 0 0) (\<lambda>err.
             case err of Some e \<Rightarrow> slog e | None \<Rightarrow> sret ())))))"

fun load_scripts_stk :: "LuaEnv \<Rightarrow> string list \<Rightarrow> unit stk" where
  "load_scripts_stk env [] s = (Done (), s)"
| "load_scripts_stk env (script # files) s =
     (if inv_dead s then (Done (), s)
      else sbind (load_script_stk env script) (\<lambda>_. load_scripts_stk env files) s)"

section \<open>What the sandbox offers\<close>

lemma foldl_base: "foldl (\<lambda>g f. g(f \<mapsto> Base f)) g base name = (if name \<in> set base then Some (Base name) else g name)"
  by (induction base arbitrary: g) auto


section \<open>What the budget bounds\<close>

lemma budget_positive: "0 < kInstructionBudget"
  by (simp add: kInstructionBudget_def)

text \<open>The runs that stay within the budget: those without a protected call.\<close>

definition within_budget :: "Vm \<Rightarrow> bool" where
  "within_budget m \<longleftrightarrow> vm_protected m = 0 \<and> vm_count m < kInstructionBudget \<and>
     (if vm_error m = None then vm_total m = vm_count m else vm_total m = kInstructionBudget)"

lemma within_budget_step: "\<lbrakk>within_budget m; e \<noteq> Enter_pcall\<rbrakk> \<Longrightarrow> within_budget (vm_step m e)"
  by (cases e) (auto simp: within_budget_def BudgetHook_def)

lemma within_budget_run: "\<lbrakk>within_budget m; Enter_pcall \<notin> set es\<rbrakk> \<Longrightarrow> within_budget (foldl vm_step m es)"
  by (induction es arbitrary: m) (auto simp: within_budget_step)

lemma budget_bounds_unprotected:
  assumes "Enter_pcall \<notin> set es"
  shows "vm_total (foldl vm_step vm_start es) \<le> kInstructionBudget"
proof -
  have "within_budget vm_start"
    using budget_positive by (simp add: within_budget_def vm_start_def)
  from within_budget_run [OF this assms] show ?thesis
    by (auto simp: within_budget_def split: if_splits)
qed

text \<open>A protected call swallows the error of the hook, and the count starts again.\<close>

lemma instructions_uncounted:
  assumes "vm_error m = None" and "vm_count m + n < kInstructionBudget"
  shows "foldl vm_step m (replicate n Instruction) = m\<lparr>vm_count := vm_count m + n, vm_total := vm_total m + n\<rparr>"
  using assms by (induction n arbitrary: m) simp_all

lemma protected_round:
  assumes "vm_error m = None" and "vm_count m = 0"
  shows "foldl vm_step m (Enter_pcall # replicate kInstructionBudget Instruction)
           = m\<lparr>vm_total := vm_total m + kInstructionBudget\<rparr>"
proof -
  obtain k where k: "kInstructionBudget = k + 1"
    using budget_positive by (metis Suc_eq_plus1 gr0_implies_Suc)
  have "replicate kInstructionBudget Instruction = replicate k Instruction @ [Instruction]"
    by (simp add: k replicate_append_same)
  then show ?thesis
    using instructions_uncounted [of "m\<lparr>vm_protected := vm_protected m + 1\<rparr>" k] assms
    by (simp add: k BudgetHook_def)
qed

lemma protected_rounds:
  assumes "vm_error m = None" and "vm_count m = 0"
  shows "foldl vm_step m (concat (replicate n (Enter_pcall # replicate kInstructionBudget Instruction)))
           = m\<lparr>vm_total := vm_total m + n * kInstructionBudget\<rparr>"
proof -
  define r where "r = Enter_pcall # replicate kInstructionBudget Instruction"
  have round: "foldl vm_step m r = m\<lparr>vm_total := vm_total m + kInstructionBudget\<rparr>"
    if "vm_error m = None" "vm_count m = 0" for m
    using protected_round [OF that] by (simp add: r_def)
  have "foldl vm_step m (concat (replicate n r)) = m\<lparr>vm_total := vm_total m + n * kInstructionBudget\<rparr>"
    using assms by (induction n arbitrary: m) (simp_all add: round add.assoc)
  then show ?thesis by (simp add: r_def)
qed


section \<open>Running the file, and loading the scripts\<close>

lemma pcall_plain:
  assumes "vals s = below @ f # args" and "length below + nresults < limit s"
  shows "lua_pcall env (length args) nresults 0 s =
    (case behaviour env f args of
       Returns rs \<Rightarrow> (Done True, s\<lparr>vals := below @ adjust nresults rs\<rparr>)
     | Raises e \<Rightarrow> (Done False, s\<lparr>vals := below @ [e]\<rparr>)
     | Fails e \<Rightarrow> (Done False, s\<lparr>vals := below @ [e]\<rparr>))"
  using assms by (simp add: lua_pcall_def gettop_def Let_def handle_error_def split: ending.split)

lemma run_config_effect:
  "fst (run_config env path config_state) =
    Done (case behaviour env (CFunction C_OpenSandbox) [] of
            Raises e \<Rightarrow> Setup_failed (ErrorText env e)
          | Fails e \<Rightarrow> Setup_failed (ErrorText env e)
          | Returns _ \<Rightarrow>
              (case behaviour env (CFunction C_RunConfigFile) [Light path] of
                 Raises e \<Rightarrow> Run_failed (ErrorText env e)
               | Fails e \<Rightarrow> Run_failed (ErrorText env e)
               | Returns rs \<Rightarrow> Returned (case rs of [] \<Rightarrow> LNil | v # _ \<Rightarrow> lval_of v)))"
proof -
  have one: "adjust 0 rs = []" "adjust 1 rs = [case rs of [] \<Rightarrow> Lua LNil | v # _ \<Rightarrow> v]" for rs
    by (cases rs; simp add: adjust_def)+
  note one' = one [unfolded One_nat_def]
  show ?thesis
    using pcall_plain [of "config_state\<lparr>vals := [CFunction C_OpenSandbox]\<rparr>" "[]" _ "[]" 0 env]
      pcall_plain [of "config_state\<lparr>vals := [CFunction C_RunConfigFile, Light path]\<rparr>" "[]" _ "[Light path]" 1 env]
    by (simp add: run_config_def sbind_def sret_def push_slot_def gettop_def config_state_def kMinStack_def
        top_slot_def slot_at_def one' split: ending.split list.split)
qed

text \<open>A script's result: the line that loading it adds to the log.\<close>

definition script_error :: "LuaEnv \<Rightarrow> string \<Rightarrow> string option" where
  "script_error env script =
     (case behaviour env (CFunction C_LoadScriptFile) [Light script] of
        Raises e \<Rightarrow> Some (ErrorText env e)
      | Fails e \<Rightarrow> Some (ErrorText env e)
      | Returns rs \<Rightarrow> failure env (behaviour env (case rs of [] \<Rightarrow> Lua LNil | f # _ \<Rightarrow> f) []))"

lemma load_script_effect:
  assumes "gettop s + 2 \<le> limit s"
  shows "load_script_stk env script s =
    (Done (), s\<lparr>err_log := err_log s @ (case script_error env script of None \<Rightarrow> [] | Some e \<Rightarrow> [e])\<rparr>)"
proof -
  let ?s = "s\<lparr>inv_depth := inv_depth s + 1, vals := vals s @ [CFunction C_LoadScriptFile, Light script]\<rparr>"
  have one: "adjust 1 rs = [case rs of [] \<Rightarrow> Lua LNil | v # _ \<Rightarrow> v]" for rs
    by (cases rs) (simp_all add: adjust_def)
  have load: "lua_pcall env 1 1 0 ?s =
      (case behaviour env (CFunction C_LoadScriptFile) [Light script] of
         Returns rs \<Rightarrow> (Done True, ?s\<lparr>vals := vals s @ [case rs of [] \<Rightarrow> Lua LNil | v # _ \<Rightarrow> v]\<rparr>)
       | Raises e \<Rightarrow> (Done False, ?s\<lparr>vals := vals s @ [e]\<rparr>)
       | Fails e \<Rightarrow> (Done False, ?s\<lparr>vals := vals s @ [e]\<rparr>))"
    using pcall_plain [of ?s "vals s" "CFunction C_LoadScriptFile" "[Light script]" 1 env] assms one
    by (simp add: gettop_def split: ending.split)
  have run: "ProtectedCall env 0 0 (s\<lparr>inv_depth := inv_depth s + 1, vals := vals s @ [f]\<rparr>) =
      (Done (failure env (behaviour env f [])), s\<lparr>inv_depth := inv_depth s + 1\<rparr>)" for f
    using protected_call_none [of "s\<lparr>inv_depth := inv_depth s + 1, vals := vals s @ [f]\<rparr>" "vals s" f "[]" env] assms
    by (simp add: gettop_def)
  show ?thesis
    using load run assms
    by (simp add: load_script_stk_def Lua_Stack.Scope_def sexit_def sbind_def sret_def push_slot_def gettop_def slog_def
        top_slot_def slot_at_def pop_def script_error_def split: ending.split option.split)
qed

text \<open>
  C17. Every script is loaded, in the order of the configuration, whatever happens to the ones before
  it; the stack is as it was before the first, and the log has exactly one more line for each
  script that does not load or raises an error, with its text.
\<close>

theorem every_script_is_loaded:
  assumes "\<not> inv_dead s" and "gettop s + 2 \<le> limit s"
  shows "load_scripts_stk env files s =
    (Done (), s\<lparr>err_log := err_log s @ List.map_filter (script_error env) files\<rparr>)"
  using assms
proof (induction files arbitrary: s)
  case (Cons script files)
  let ?s = "s\<lparr>err_log := err_log s @ (case script_error env script of None \<Rightarrow> [] | Some e \<Rightarrow> [e])\<rparr>"
  have "\<not> inv_dead ?s" and "gettop ?s + 2 \<le> limit ?s"
    using Cons.prems by (simp_all add: gettop_def)
  from Cons.IH [OF this] load_script_effect [OF Cons.prems(2)] Cons.prems(1) show ?case
    by (simp add: sbind_def split: option.split)
qed simp

text \<open>Two scripts of which the first does not load: the chunk of the second still runs.\<close>

definition demo_host :: LuaHost where
  "demo_host = \<lparr>newstate = True, open_sandbox = Returns [],
     load_text = (\<lambda>path. if path = ''a.lua'' then Inl (Lua (LStr ''cannot open a.lua'')) else Inr 1),
     run_chunk = (\<lambda>_. Returns []), panic_in_config = None, setup_result = (\<lambda>_. Returns [Lua (LTab 1)])\<rparr>"

definition script_env :: LuaEnv where
  "script_env = demo_env\<lparr>behaviour := run_function demo_host default_config\<rparr>"

theorem every_script_is_loaded_witness:
  "load_scripts_stk script_env [''a.lua'', ''b.lua''] demo_stack =
     (Done (), demo_stack\<lparr>err_log := [''cannot open a.lua'']\<rparr>)"
  using every_script_is_loaded [of demo_stack script_env "[''a.lua'', ''b.lua'']"]
  by (simp add: demo_stack_def gettop_def kMinStack_def script_error_def script_env_def demo_host_def run_function_def
      LoadScriptFile_def cstr_def NUL_def failure_def)

text \<open>
  The constructor of a runtime: the stack is as it was, and the prelude's table is the result,
  or the error of the set-up is thrown.
\<close>

lemma construct_state_effect:
  assumes "gettop s + 3 \<le> limit s"
  shows "construct_state env s =
    (case behaviour env (CFunction C_SetupState) [Light ''config''] of
       Returns rs \<Rightarrow> (Done (case rs of [] \<Rightarrow> Lua LNil | t # _ \<Rightarrow> t), s)
     | Raises e \<Rightarrow> (Thrown (Runtime_error (''cannot set up the Lua state: '' @ ErrorText env (Traceback env e))), s)
     | Fails e \<Rightarrow> (Thrown (Runtime_error (''cannot set up the Lua state: '' @ ErrorText env e)), s))"
proof -
  let ?s = "s\<lparr>vals := vals s @ [CFunction C_SetupState, Light ''config'']\<rparr>"
  have one: "adjust (Suc 0) rs = [case rs of [] \<Rightarrow> Lua LNil | v # _ \<Rightarrow> v]" for rs
    by (cases rs) (simp_all add: adjust_def)
  show ?thesis
    using protected_call [of ?s "vals s" "CFunction C_SetupState" "[Light ''config'']" 1 env] assms
    by (simp add: construct_state_def sbind_def sret_def sthrow_def push_slot_def gettop_def top_slot_def slot_at_def
        pop_def one split: ending.split)
qed

end
