(* ===== verification/Call_Agreement.thy ===== *)
theory Call_Agreement
  imports Timer_Frames Lua_States
begin

text \<open>
  The two models of a call into Lua agree. Runtime describes \<^verbatim>\<open>Invoker::Call\<close> and the loading of a script as
  steps of the whole plugin, in which Lua is a parameter; Lua\_Stack and Lua\_States describe the
  same code on the Lua stack. When the parameter \<open>pcall\<close> is what the functions on the stack do,
  both give the same answer and write the same lines to the log.
\<close>

text \<open>
  The Lua of the one model is the Lua of the other: the functions do the same, files load to the
  same chunks, and nothing fails for want of stack or memory.
\<close>

definition same_lua :: "LuaEnv \<Rightarrow> LuaHost \<Rightarrow> World \<Rightarrow> bool" where
  "same_lua env host w \<longleftrightarrow>
     behaviour env = run_function host default_config \<and>
     (\<forall>f args s. pcall w f args s = (Ret (failure env (run_chunk host f)), s)) \<and>
     (\<forall>s path. load_file w s path = map_sum (ErrorText env) id (load_text host (cstr path))) \<and>
     (\<forall>s. \<not> panics w s \<and> \<not> stack_full w s)"

text \<open>A plugin whose runtime is numbered \<open>r\<close> and usable, and a stack with room for a call.\<close>

definition ready :: "nat \<Rightarrow> State \<Rightarrow> bool" where
  "ready r s \<longleftrightarrow> (\<exists>rt. runtime s = Some rt \<and> rid rt = r \<and> Usable rt)"

lemma behaviour_function:
  "same_lua env host w \<Longrightarrow> behaviour env (Lua (LFun f)) args = run_chunk host f"
  by (simp add: same_lua_def run_function_def)

lemma host_call:
  assumes "same_lua env host w" and "ready r s"
  shows "\<exists>s'. Runtime.Call w r f name (ret args) s = (Ret (failure env (run_chunk host f) = None), s') \<and>
     errors s' = errors s @ (case failure env (run_chunk host f) of None \<Rightarrow> [] | Some e \<Rightarrow> [name @ '': '' @ e])"
proof -
  obtain rt where rt: "runtime s = Some rt" "rid rt = r" "Usable rt"
    using assms(2) by (auto simp: ready_def)
  have w: "pcall w f args s' = (Ret (failure env (run_chunk host f)), s')" "\<not> panics w s'" "\<not> stack_full w s'" for s'
    using assms(1) by (simp_all add: same_lua_def)
  show ?thesis
    using rt w
    by (cases "failure env (run_chunk host f)")
      (simp_all add: Runtime.Call_def Runtime.Scope_def call_body_def unprotected_def on_exit_def bind_def query_def
        change_def ret_def sub_def put_sub_def get_def put_def Usable_def log_error_def)
qed

lemma host_script:
  assumes "same_lua env host w" and "ready r s"
  shows "\<exists>s'. load_script w r script s = (Ret (), s') \<and>
     errors s' = errors s @ (case script_error env script of None \<Rightarrow> [] | Some e \<Rightarrow> [e])"
proof -
  obtain rt where rt: "runtime s = Some rt" "rid rt = r" "Usable rt"
    using assms(2) by (auto simp: ready_def)
  have w: "pcall w f args s' = (Ret (failure env (run_chunk host f)), s')"
    "load_file w s' script = map_sum (ErrorText env) id (load_text host (cstr script))" for f args s'
    using assms(1) by (simp_all add: same_lua_def)
  have e: "script_error env script =
      (case load_text host (cstr script) of Inl v \<Rightarrow> Some (ErrorText env v) | Inr f \<Rightarrow> failure env (run_chunk host f))"
    using assms(1)
    by (simp add: script_error_def same_lua_def run_function_def LoadScriptFile_def split: sum.split)
  show ?thesis
  proof (cases "load_text host (cstr script)")
    case (Inl v)
    with rt w e show ?thesis
      by (simp add: load_script_def Runtime.Scope_def on_exit_def bind_def query_def change_def ret_def sub_def
          put_sub_def get_def put_def Usable_def log_error_def)
  next
    case (Inr f)
    with rt w e show ?thesis
      by (cases "failure env (run_chunk host f)")
        (simp_all add: load_script_def Runtime.Scope_def on_exit_def bind_def query_def change_def ret_def sub_def
          put_sub_def get_def put_def Usable_def log_error_def)
  qed
qed

lemma call_agrees:
  assumes "same_lua env host w" and "ready r s" and "\<not> inv_dead st" and "gettop st + length args + 2 \<le> limit st"
  shows "\<exists>ok lines.
      fst (Runtime.Call w r f name (ret args) s) = Ret ok \<and>
      fst (Lua_Stack.Call env (Lua (LFun f)) name (push_checked env (map Lua args)) st) = Done ok \<and>
      errors (snd (Runtime.Call w r f name (ret args) s)) = errors s @ lines \<and>
      err_log (snd (Lua_Stack.Call env (Lua (LFun f)) name (push_checked env (map Lua args)) st)) = err_log st @ lines"
proof -
  let ?e = "failure env (run_chunk host f)"
  have "Lua_Stack.Call env (Lua (LFun f)) name (push_checked env (map Lua args)) st
      = (Done (?e = None), log_failure name ?e st)"
    using Call_checked [OF assms(3), of "map Lua args" env "Lua (LFun f)" name] assms(4)
    by (simp add: behaviour_function [OF assms(1)])
  with host_call [OF assms(1,2), of f name args] show ?thesis
    by (cases ?e) (auto simp: log_failure_def)
qed

lemma script_agrees:
  assumes "same_lua env host w" and "ready r s" and "gettop st + 2 \<le> limit st"
  shows "\<exists>lines.
      fst (load_script w r script s) = Ret () \<and> fst (load_script_stk env script st) = Done () \<and>
      errors (snd (load_script w r script s)) = errors s @ lines \<and>
      err_log (snd (load_script_stk env script st)) = err_log st @ lines"
  using host_script [OF assms(1,2), of script] load_script_effect [OF assms(3), of env script] by auto


definition demo_failing_host :: LuaHost where
  "demo_failing_host = demo_host\<lparr>run_chunk := (\<lambda>_. Raises (Lua (LStr ''bad'')))\<rparr>"

definition demo_failing_env :: LuaEnv where
  "demo_failing_env = demo_env\<lparr>behaviour := run_function demo_failing_host default_config\<rparr>"

definition demo_failing_world :: World where
  "demo_failing_world = demo_world
     \<lparr>pcall := (\<lambda>f args s. (Ret (failure demo_failing_env (run_chunk demo_failing_host f)), s)),
      load_file := (\<lambda>s path. map_sum (ErrorText demo_failing_env) id (load_text demo_failing_host (cstr path)))\<rparr>"


end
