(* ===== verification/Http_Reply.thy ===== *)
theory Http_Reply
  imports Http Lua_Stack
begin

text \<open>
  The end of an HTTP request, on the Lua stack: how \<^verbatim>\<open>Http::Complete\<close> of \<^verbatim>\<open>src/src/modules/http.cpp\<close> builds
  the response table that the callback receives, in the six slots it asks for, and how the
  destructors give the handles back to libcurl. The result is compared with \<open>Complete_reply\<close>, the
  reply that the theory Http describes.
\<close>

section \<open>More of the stack API\<close>

definition createtable :: "unit stk" where
  "createtable s =
     push_slot (Lua (LTab (next_tab s))) (s\<lparr>tabs := (tabs s)(next_tab s := (\<lambda>_. Lua LNil)), next_tab := next_tab s + 1\<rparr>)"

text \<open>lua\_setfield with index -2, on a table without a metatable.\<close>

definition setfield :: "string \<Rightarrow> unit stk" where
  "setfield name s =
     sbind (table_at (gettop s - 1)) (\<lambda>t.
     sbind top_slot (\<lambda>v.
     sbind (pop 1) (\<lambda>_ s. (Done (), put_field t name v s)))) s"

text \<open>lua\_concat of the three topmost strings.\<close>

definition concat3 :: "unit stk" where
  "concat3 s =
     sbind (slot_at (gettop s - 2)) (\<lambda>a.
     sbind (slot_at (gettop s - 1)) (\<lambda>b.
     sbind (slot_at (gettop s)) (\<lambda>c.
       case (a, b, c) of
         (Lua (LStr x), Lua (LStr y), Lua (LStr z)) \<Rightarrow> sbind (pop 3) (\<lambda>_. push_slot (Lua (LStr (x @ y @ z))))
       | _ \<Rightarrow> (\<lambda>s. (Overrun, s))))) s"

definition push_text :: "string \<Rightarrow> unit stk" where
  "push_text s = push_slot (Lua (LStr s))"

section \<open>The response table\<close>

fun is_string :: "slot \<Rightarrow> bool" where
  "is_string (Lua (LStr _)) = True"
| "is_string _ = False"

text \<open>One header: joined to what is there under its name. The table of headers is on top.\<close>

definition push_header :: "string \<Rightarrow> string \<Rightarrow> unit stk" where
  "push_header name value s =
     sbind (push_text name) (\<lambda>_.
     sbind (rawget (gettop s)) (\<lambda>_.
     sbind top_slot (\<lambda>old.
     sbind (if is_string old
            then sbind (push_text '', '') (\<lambda>_. sbind (push_text value) (\<lambda>_. concat3))
            else sbind (pop 1) (\<lambda>_. push_text value)) (\<lambda>_.
     sbind (push_text name) (\<lambda>_.
     sbind (insert_at (gettop s + 1)) (\<lambda>_. rawset (gettop s))))))) s"

fun push_headers :: "(string \<times> string) list \<Rightarrow> unit stk" where
  "push_headers [] = sret ()"
| "push_headers ((name, value) # hs) = sbind (push_header name value) (\<lambda>_. push_headers hs)"

definition push_response :: "int \<Rightarrow> string \<Rightarrow> string \<Rightarrow> (string \<times> string) list \<Rightarrow> unit stk" where
  "push_response status location body_text hs =
     sbind createtable (\<lambda>_.
     sbind (push_slot (Lua (LInt status))) (\<lambda>_. sbind (setfield ''status'') (\<lambda>_.
     sbind (push_text location) (\<lambda>_. sbind (setfield ''url'') (\<lambda>_.
     sbind (push_text body_text) (\<lambda>_. sbind (setfield ''body'') (\<lambda>_.
     sbind createtable (\<lambda>_.
     sbind (push_headers hs) (\<lambda>_. sbind (setfield ''headers'') (\<lambda>_.
       push_slot (Lua LNil)))))))))))"

definition push_reply :: "LuaEnv \<Rightarrow> Curl \<Rightarrow> int \<Rightarrow> string option \<Rightarrow> Transfer \<Rightarrow> nat stk" where
  "push_reply env c status location t =
     sbind (checkstack env 6) (\<lambda>ok.
       if \<not> ok then sthrow overflow
       else if t_result t \<noteq> 0 then
         sbind (push_slot (Lua LNil)) (\<lambda>_.
         sbind (push_text (if too_large t then ''the response body is larger than '' @ show_nat kMaxBody @ '' bytes''
                           else if t_error t \<noteq> [] then t_error t
                           else easy_strerror c (t_result t))) (\<lambda>_. sret 2))
       else sbind (push_response status (case location of Some u \<Rightarrow> u | None \<Rightarrow> []) (t_body t) (response_headers t)) (\<lambda>_. sret 2))"

section \<open>Giving the handles back\<close>

text \<open>What the destructors of a transfer and of the client tell libcurl.\<close>

datatype curl_action =
    Multi_remove "64 word"     \<comment> \<open>curl\_multi\_remove\_handle\<close>
  | Easy_cleanup "64 word"     \<comment> \<open>curl\_easy\_cleanup\<close>
  | Slist_free "64 word"       \<comment> \<open>curl\_slist\_free\_all, which accepts a null list\<close>
  | Multi_cleanup
  | Global_cleanup

definition Transfer_destroy :: "bool \<Rightarrow> Transfer \<Rightarrow> curl_action list" where
  "Transfer_destroy has_easy t =
     (if in_multi t then [Multi_remove (t_id t)] else []) @
     (if has_easy then [Easy_cleanup (t_id t)] else []) @ [Slist_free (t_id t)]"

definition Http_destroy :: "Http \<Rightarrow> curl_action list" where
  "Http_destroy h = concat (map (Transfer_destroy True \<circ> snd) (transfers h)) @ [Multi_cleanup, Global_cleanup]"

section \<open>The table that is built\<close>

text \<open>What a table of strings on the heap stands for.\<close>

definition represents :: "(string \<Rightarrow> slot) \<Rightarrow> (string \<times> string) list \<Rightarrow> bool" where
  "represents tab al \<longleftrightarrow> (\<forall>name. tab name = (case map_of al name of None \<Rightarrow> Lua LNil | Some v \<Rightarrow> Lua (LStr v)))"

definition join_field :: "string \<Rightarrow> string \<Rightarrow> (string \<Rightarrow> slot) \<Rightarrow> string \<Rightarrow> slot" where
  "join_field name value tab =
     tab(name := (case tab name of Lua (LStr old) \<Rightarrow> Lua (LStr (old @ '', '' @ value)) | _ \<Rightarrow> Lua (LStr value)))"

lemma represents_join:
  assumes "represents tab al"
  shows "represents (join_field name value tab)
           (join_header al (name, value))"
proof -
  have "tab name = (case map_of al name of None \<Rightarrow> Lua LNil | Some v \<Rightarrow> Lua (LStr v))"
    using assms by (simp add: represents_def)
  then show ?thesis
    using assms by (auto simp: represents_def join_field_def update_conv split: option.split)
qed

text \<open>The heap with one table replaced.\<close>

definition with_table :: "nat \<Rightarrow> (string \<Rightarrow> slot) \<Rightarrow> LState \<Rightarrow> LState" where
  "with_table t tab s = s\<lparr>tabs := (tabs s)(t := tab)\<rparr>"

lemma push_header_effect:
  assumes "vals s = below @ [Lua (LTab t)]" and "gettop s + 3 \<le> limit s" and "represents (tabs s t) al"
  shows "push_header name value s =
    (Done (), with_table t (join_field name value (tabs s t)) s)"
proof -
  have old: "tabs s t name = (case map_of al name of None \<Rightarrow> Lua LNil | Some v \<Rightarrow> Lua (LStr v))"
    using assms(3) by (simp add: represents_def)
  show ?thesis
    using assms(1,2)
    by (cases "map_of al name")
      (simp_all add: push_header_def push_text_def stk_simps rawget_def rawset_def table_at_def put_field_def concat3_def
        with_table_def join_field_def nth_append old butlast_append)
qed

lemma push_headers_effect:
  "\<lbrakk>vals s = below @ [Lua (LTab t)]; gettop s + 3 \<le> limit s; represents (tabs s t) al\<rbrakk> \<Longrightarrow>
     \<exists>tab. push_headers hs s = (Done (), with_table t tab s) \<and> represents tab (foldl join_header al hs)"
proof (induction hs arbitrary: s al)
  case Nil
  then show ?case
    by (intro exI [of _ "tabs s t"]) (simp add: sret_def with_table_def)
next
  case (Cons h hs)
  obtain name val where h: "h = (name, val)" by (cases h)
  let ?tab = "join_field name val (tabs s t)"
  have "\<exists>tab. push_headers hs (with_table t ?tab s) = (Done (), with_table t tab (with_table t ?tab s)) \<and>
      represents tab (foldl join_header (join_header al (name, val)) hs)"
    using Cons.prems represents_join [OF Cons.prems(3), of name val]
    by (intro Cons.IH) (simp_all add: with_table_def gettop_def)
  then obtain tab where "push_headers hs (with_table t ?tab s) = (Done (), with_table t tab (with_table t ?tab s))"
    "represents tab (foldl join_header (join_header al (name, val)) hs)" by blast
  with push_header_effect [OF Cons.prems, of name val] show ?case
    by (intro exI [of _ tab]) (simp add: h sbind_def with_table_def)
qed

lemma setfield_effect:
  assumes "vals s = below @ [Lua (LTab t), v]"
  shows "setfield name s = (Done (), put_field t name v (s\<lparr>vals := below @ [Lua (LTab t)]\<rparr>))"
  using assms by (simp add: setfield_def stk_simps table_at_def put_field_def nth_append)

lemma createtable_effect:
  "gettop s < limit s \<Longrightarrow> createtable s =
     (Done (), s\<lparr>vals := vals s @ [Lua (LTab (next_tab s))], tabs := (tabs s)(next_tab s := (\<lambda>_. Lua LNil)), next_tab := next_tab s + 1\<rparr>)"
  by (simp add: createtable_def push_slot_def gettop_def)

lemma push_response_effect:
  assumes "gettop s + 5 \<le> limit s"
  shows "\<exists>s'. push_response status location body_text hs s = (Done (), s') \<and>
      vals s' = vals s @ [Lua (LTab (next_tab s)), Lua LNil] \<and>
      tabs s' (next_tab s) = (\<lambda>_. Lua LNil)(''status'' := Lua (LInt status), ''url'' := Lua (LStr location),
        ''body'' := Lua (LStr body_text), ''headers'' := Lua (LTab (next_tab s + 1))) \<and>
      represents (tabs s' (next_tab s + 1)) (headers_table hs) \<and> limit s' = limit s \<and> inv_depth s' = inv_depth s"
proof -
  let ?t = "next_tab s"
  let ?fields = "(\<lambda>_. Lua LNil)(''status'' := Lua (LInt status), ''url'' := Lua (LStr location), ''body'' := Lua (LStr body_text))"
  define s1 where "s1 = s\<lparr>vals := vals s @ [Lua (LTab ?t)], tabs := (tabs s)(?t := ?fields), next_tab := ?t + 1\<rparr>"
  define s2 where "s2 = s1\<lparr>vals := vals s @ [Lua (LTab ?t), Lua (LTab (?t + 1))],
      tabs := (tabs s1)(?t + 1 := (\<lambda>_. Lua LNil)), next_tab := ?t + 2\<rparr>"
  have "represents (tabs s2 (?t + 1)) []"
    by (simp add: s2_def represents_def)
  moreover have "vals s2 = (vals s @ [Lua (LTab ?t)]) @ [Lua (LTab (?t + 1))]" "gettop s2 + 3 \<le> limit s2"
    using assms by (simp_all add: s2_def s1_def gettop_def)
  ultimately obtain tab where hs: "push_headers hs s2 = (Done (), with_table (?t + 1) tab s2)" "represents tab (headers_table hs)"
    using push_headers_effect [of s2 "vals s @ [Lua (LTab ?t)]" "?t + 1" "[]" hs] by (auto simp: headers_table_def)
  let ?s' = "s2\<lparr>vals := vals s @ [Lua (LTab ?t), Lua LNil],
      tabs := (tabs s2)(?t := ?fields(''headers'' := Lua (LTab (?t + 1))), ?t + 1 := tab)\<rparr>"
  have "push_response status location body_text hs s = (Done (), ?s')"
    using assms hs(1)
    by (simp add: push_response_def sbind_def createtable_effect push_slot_def push_text_def gettop_def setfield_effect
        put_field_def s1_def s2_def with_table_def fun_upd_twist)
  with hs(2) show ?thesis
    by (intro exI [of _ ?s']) (simp add: s2_def s1_def)
qed

text \<open>
  C27. The end of a request puts exactly two values on the stack, within the slots it asked for: nil
  and the error text of the reply, or the response table and nil. The response table has the
  reply's status, URL and body, and its table of headers has for every name the value the
  reply has, several values of one name joined in the order they came. When the stack cannot
  grow, an exception is thrown and nothing is pushed.
\<close>

theorem response_table_built:
  "case push_reply env c status location t s of
     (Overrun, _) \<Rightarrow> False
   | (Thrown e, s') \<Rightarrow> e = overflow \<and> s' = s
   | (Done n, s') \<Rightarrow> n = 2 \<and>
       (case Complete_reply c status location t of
          Failure e \<Rightarrow> vals s' = vals s @ [Lua LNil, Lua (LStr e)]
        | Response st u b hs \<Rightarrow>
            vals s' = vals s @ [Lua (LTab (next_tab s)), Lua LNil] \<and>
            tabs s' (next_tab s) = (\<lambda>_. Lua LNil)(''status'' := Lua (LInt st), ''url'' := Lua (LStr u),
              ''body'' := Lua (LStr b), ''headers'' := Lua (LTab (next_tab s + 1))) \<and>
            represents (tabs s' (next_tab s + 1)) hs)"
proof (cases "gettop s + 6 \<le> limit s \<or> can_grow env (gettop s + 6)")
  case False
  then show ?thesis
    by (simp add: push_reply_def checkstack_def sbind_def sthrow_def)
next
  case True
  define s1 where "s1 = (if gettop s + 6 \<le> limit s then s else s\<lparr>limit := gettop s + 6\<rparr>)"
  have s1: "checkstack env 6 s = (Done True, s1)" "gettop s1 + 5 \<le> limit s1" "vals s1 = vals s"
      "next_tab s1 = next_tab s" "gettop s1 + 2 \<le> limit s1"
    using True by (simp_all add: s1_def checkstack_def gettop_def) blast
  show ?thesis
  proof (cases "t_result t = 0")
    case ok: True
    let ?u = "case location of Some u \<Rightarrow> u | None \<Rightarrow> []"
    obtain s' where "push_response status ?u (t_body t) (response_headers t) s1 = (Done (), s')"
      and s': "vals s' = vals s1 @ [Lua (LTab (next_tab s1)), Lua LNil]"
        "tabs s' (next_tab s1) = (\<lambda>_. Lua LNil)(''status'' := Lua (LInt status), ''url'' := Lua (LStr ?u),
          ''body'' := Lua (LStr (t_body t)), ''headers'' := Lua (LTab (next_tab s1 + 1)))"
        "represents (tabs s' (next_tab s1 + 1)) (headers_table (response_headers t))"
      using push_response_effect [OF s1(2)] by blast
    then have "push_reply env c status location t s = (Done 2, s')"
      using s1(1) ok by (simp add: push_reply_def sbind_def sret_def)
    moreover have "Complete_reply c status location t = Response status ?u (t_body t) (headers_table (response_headers t))"
      using ok by (simp add: Complete_reply_def)
    ultimately show ?thesis
      using s' s1(3,4) by (simp del: fun_upd_apply)
  next
    case False
    with s1 show ?thesis
      by (simp add: push_reply_def sbind_def sret_def Complete_reply_def push_slot_def push_text_def gettop_def)
  qed
qed

text \<open>The code that pushes the reply keeps the invoker's contract, so the call leaves the stack as it was.\<close>

lemma pushes_reply: "pushes (push_reply env c status location t)"
proof -
  have "case push_reply env c status location t s of
          (Done n, s') \<Rightarrow> \<exists>ws. grown s s' ws \<and> n = length ws
        | (Thrown _, s') \<Rightarrow> \<exists>ws. grown s s' ws
        | (Overrun, _) \<Rightarrow> True" for s
  proof -
    obtain ok s1 where c: "checkstack env 6 s = (Done ok, s1)"
      using checkstack_Done by blast
    have g: "grown s s1 []"
      using grown_checkstack [of s env 6] c by simp
    show ?thesis
    proof (cases ok)
      case False
      with c g show ?thesis by (auto simp: push_reply_def sbind_def sthrow_def)
    next
      case True
      have room: "gettop s1 + 6 \<le> limit s1"
        using c True by (auto simp: checkstack_def gettop_def split: if_splits)
      show ?thesis
      proof (cases "t_result t = 0")
        case ok: True
        let ?u = "case location of Some u \<Rightarrow> u | None \<Rightarrow> []"
        obtain s' where r: "push_response status ?u (t_body t) (response_headers t) s1 = (Done (), s')"
          and v: "vals s' = vals s1 @ [Lua (LTab (next_tab s1)), Lua LNil]" "limit s' = limit s1" "inv_depth s' = inv_depth s1"
          using push_response_effect [of s1 status ?u "t_body t" "response_headers t"] room by auto
        from r c True ok have "push_reply env c status location t s = (Done 2, s')"
          by (simp add: push_reply_def sbind_def sret_def)
        moreover have "grown s s' [Lua (LTab (next_tab s1)), Lua LNil]"
          using g v by (simp add: grown_def)
        ultimately show ?thesis
          by (auto intro!: exI [of _ "[Lua (LTab (next_tab s1)), Lua LNil]"])
      next
        case False
        with c True g room show ?thesis
          by (auto simp: push_reply_def sbind_def sret_def push_slot_def push_text_def gettop_def grown_def)
      qed
    qed
  qed
  then show ?thesis by (simp add: pushes_def)
qed

interpretation reply_args: pusher "push_reply env c status location t"
  by unfold_locales (rule pushes_reply)

text \<open>A handle that is in the multi handle is taken out of it before it is freed, and the multi handle goes last.\<close>

lemma removed_before_cleanup:
  assumes "t \<in> snd ` set (transfers h)" and "in_multi t"
  shows "\<exists>as bs. Http_destroy h = as @ [Multi_remove (t_id t), Easy_cleanup (t_id t), Slist_free (t_id t)] @ bs @ [Multi_cleanup, Global_cleanup]"
proof -
  obtain i where "(i, t) \<in> set (transfers h)"
    using assms(1) by auto
  then obtain xs ys where "transfers h = xs @ (i, t) # ys"
    by (auto dest: split_list)
  then show ?thesis
    using assms(2)
    by (intro exI [of _ "concat (map (Transfer_destroy True \<circ> snd) xs)"] exI [of _ "concat (map (Transfer_destroy True \<circ> snd) ys)"])
      (simp add: Http_destroy_def Transfer_destroy_def)
qed

end
