(* ===== verification/Enums.thy ===== *)
theory Enums
  imports Vehicle_Class
begin

text \<open>
  The constant tables that scripts see (\<^verbatim>\<open>src/src/bindings/enums.cpp\<close>) and the C enumerations
  of \<^verbatim>\<open>third_party/vcmp/vcmp.h\<close> whose values they hold. A C enumeration is the list of its
  enumerators with their values; each ends with an enumerator that only forces the size of
  the type.
\<close>

type_synonym c_enum = "(string \<times> int) list"

section \<open>The enumerations of the server\<close>

definition force_size :: int where "force_size = 2147483647"

definition vcmpServerOption_values :: c_enum where
  "vcmpServerOption_values = [
   (''vcmpServerOptionSyncFrameLimiter'', 0), (''vcmpServerOptionFrameLimiter'', 1),
   (''vcmpServerOptionTaxiBoostJump'', 2), (''vcmpServerOptionDriveOnWater'', 3),
   (''vcmpServerOptionFastSwitch'', 4), (''vcmpServerOptionFriendlyFire'', 5),
   (''vcmpServerOptionDisableDriveBy'', 6), (''vcmpServerOptionPerfectHandling'', 7),
   (''vcmpServerOptionFlyingCars'', 8), (''vcmpServerOptionJumpSwitch'', 9),
   (''vcmpServerOptionShowMarkers'', 10), (''vcmpServerOptionOnlyShowTeamMarkers'', 11),
   (''vcmpServerOptionStuntBike'', 12), (''vcmpServerOptionShootInAir'', 13),
   (''vcmpServerOptionShowNameTags'', 14), (''vcmpServerOptionJoinMessages'', 15),
   (''vcmpServerOptionDeathMessages'', 16), (''vcmpServerOptionChatTagsEnabled'', 17),
   (''vcmpServerOptionUseClasses'', 18), (''vcmpServerOptionWallGlitch'', 19),
   (''vcmpServerOptionDisableBackfaceCulling'', 20),
   (''vcmpServerOptionDisableHeliBladeDamage'', 21), (''vcmpServerOptionDisableCrouch'', 22),
   (''forceSizeVcmpServerOption'', force_size)]"

definition vcmpDisconnectReason_values :: c_enum where
  "vcmpDisconnectReason_values = [
   (''vcmpDisconnectReasonTimeout'', 0), (''vcmpDisconnectReasonQuit'', 1),
   (''vcmpDisconnectReasonKick'', 2), (''vcmpDisconnectReasonCrash'', 3),
   (''vcmpDisconnectReasonAntiCheat'', 4), (''forceSizeVcmpDisconnectReason'', force_size)]"

definition vcmpBodyPart_values :: c_enum where
  "vcmpBodyPart_values = [
   (''vcmpBodyPartBody'', 0), (''vcmpBodyPartTorso'', 1), (''vcmpBodyPartLeftArm'', 2),
   (''vcmpBodyPartRightArm'', 3), (''vcmpBodyPartLeftLeg'', 4), (''vcmpBodyPartRightLeg'', 5),
   (''vcmpBodyPartHead'', 6), (''vcmpBodyPartInVehicle'', 7),
   (''forceSizeVcmpBodyPart'', force_size)]"

definition vcmpPlayerState_values :: c_enum where
  "vcmpPlayerState_values = [
   (''vcmpPlayerStateNone'', 0), (''vcmpPlayerStateNormal'', 1), (''vcmpPlayerStateAim'', 2),
   (''vcmpPlayerStateDriver'', 3), (''vcmpPlayerStatePassenger'', 4),
   (''vcmpPlayerStateEnterDriver'', 5), (''vcmpPlayerStateEnterPassenger'', 6),
   (''vcmpPlayerStateExit'', 7), (''vcmpPlayerStateUnspawned'', 8),
   (''forceSizeVcmpPlayerState'', force_size)]"

definition vcmpPlayerUpdate_values :: c_enum where
  "vcmpPlayerUpdate_values = [
   (''vcmpPlayerUpdateNormal'', 0), (''vcmpPlayerUpdateAimingDeprecated'', 1),
   (''vcmpPlayerUpdateDriver'', 2), (''vcmpPlayerUpdatePassenger'', 3),
   (''forceSizeVcmpPlayerUpdate'', force_size)]"

definition vcmpPlayerOption_values :: c_enum where
  "vcmpPlayerOption_values = [
   (''vcmpPlayerOptionControllable'', 0), (''vcmpPlayerOptionDriveBy'', 1),
   (''vcmpPlayerOptionWhiteScanlines'', 2), (''vcmpPlayerOptionGreenScanlines'', 3),
   (''vcmpPlayerOptionWidescreen'', 4), (''vcmpPlayerOptionShowMarkers'', 5),
   (''vcmpPlayerOptionCanAttack'', 6), (''vcmpPlayerOptionHasMarker'', 7),
   (''vcmpPlayerOptionChatTagsEnabled'', 8), (''vcmpPlayerOptionDrunkEffectsDeprecated'', 9),
   (''vcmpPlayerOptionBleeding'', 10), (''forceSizeVcmpPlayerOption'', force_size)]"

definition vcmpPlayerVehicle_values :: c_enum where
  "vcmpPlayerVehicle_values = [
   (''vcmpPlayerVehicleOut'', 0), (''vcmpPlayerVehicleEntering'', 1),
   (''vcmpPlayerVehicleExiting'', 2), (''vcmpPlayerVehicleIn'', 3),
   (''forceSizeVcmpPlayerVehicle'', force_size)]"

definition vcmpVehicleUpdate_values :: c_enum where
  "vcmpVehicleUpdate_values = [
   (''vcmpVehicleUpdateDriverSync'', 0), (''vcmpVehicleUpdateOtherSync'', 1),
   (''vcmpVehicleUpdatePosition'', 2), (''vcmpVehicleUpdateHealth'', 4),
   (''vcmpVehicleUpdateColour'', 5), (''vcmpVehicleUpdateRotation'', 6),
   (''forceSizeVcmpVehicleUpdate'', force_size)]"

definition vcmpVehicleOption_values :: c_enum where
  "vcmpVehicleOption_values = [
   (''vcmpVehicleOptionDoorsLocked'', 0), (''vcmpVehicleOptionAlarm'', 1),
   (''vcmpVehicleOptionLights'', 2), (''vcmpVehicleOptionRadioLocked'', 3),
   (''vcmpVehicleOptionGhost'', 4), (''vcmpVehicleOptionSiren'', 5),
   (''vcmpVehicleOptionSingleUse'', 6), (''vcmpVehicleOptionEngineDisabled'', 7),
   (''vcmpVehicleOptionBootOpen'', 8), (''vcmpVehicleOptionBonnetOpen'', 9),
   (''forceSizeVcmpVehicleOption'', force_size)]"

definition vcmpPickupOption_values :: c_enum where
  "vcmpPickupOption_values = [
   (''vcmpPickupOptionSingleUse'', 0), (''forceSizeVcmpPickupOption'', force_size)]"

definition vcmpEntityPool_values :: c_enum where
  "vcmpEntityPool_values = [
   (''vcmpEntityPoolVehicle'', 1), (''vcmpEntityPoolObject'', 2), (''vcmpEntityPoolPickup'', 3),
   (''vcmpEntityPoolRadio'', 4), (''vcmpEntityPoolPlayer'', 5), (''vcmpEntityReserved1'', 6),
   (''vcmpEntityPoolBlip'', 7), (''vcmpEntityPoolCheckPoint'', 8),
   (''forceSizeVcmpEntityPool'', force_size)]"

definition vcmpNetworkStatisticsOption_values :: c_enum where
  "vcmpNetworkStatisticsOption_values = [
   (''vcmpNetworkStatisticsOptionDataSentPerSecond'', 0),
   (''vcmpNetworkStatisticsOptionDataResentPerSecond'', 1),
   (''vcmpNetworkStatisticsOptionDataReceivedPerSecond'', 2),
   (''vcmpNetworkStatisticsOptionDataDiscardedPerSecond'', 3),
   (''vcmpNetworkStatisticsOptionAllBytesSentPerSecond'', 4),
   (''vcmpNetworkStatisticsOptionAllBytesReceivedPerSecond'', 5),
   (''vcmpNetworkStatisticsOptionDataSentTotal'', 6),
   (''vcmpNetworkStatisticsOptionDataResentTotal'', 7),
   (''vcmpNetworkStatisticsOptionDataReceivedTotal'', 8),
   (''vcmpNetworkStatisticsOptionDataDiscardedTotal'', 9),
   (''vcmpNetworkStatisticsOptionAllBytesSentTotal'', 10),
   (''vcmpNetworkStatisticsOptionAllBytesReceivedTotal'', 11),
   (''vcmpNetworkStatisticsOptionMessagesWaiting'', 12),
   (''vcmpNetworkStatisticsOptionMessagesResending'', 13),
   (''vcmpNetworkStatisticsOptionBytesResending'', 14),
   (''vcmpNetworkStatisticsOptionPacketLossPerSecond'', 15),
   (''vcmpNetworkStatisticsOptionPacketLossTotal'', 16),
   (''forceSizeVcmpNetworkStatisticsOption'', force_size)]"

text \<open>The value of an enumerator.\<close>

definition C :: "c_enum \<Rightarrow> string \<Rightarrow> int" where
  "C enum name = (case map_of enum name of Some n \<Rightarrow> n | None \<Rightarrow> - 1)"

section \<open>The tables of the scripts\<close>

definition ServerOption_items :: "(string \<times> int) list" where
  "ServerOption_items = [
   (''syncFrameLimiter'', C vcmpServerOption_values ''vcmpServerOptionSyncFrameLimiter''),
   (''frameLimit'', C vcmpServerOption_values ''vcmpServerOptionFrameLimiter''),
   (''taxiBoostJump'', C vcmpServerOption_values ''vcmpServerOptionTaxiBoostJump''),
   (''driveOnWater'', C vcmpServerOption_values ''vcmpServerOptionDriveOnWater''),
   (''fastSwitch'', C vcmpServerOption_values ''vcmpServerOptionFastSwitch''),
   (''friendlyFire'', C vcmpServerOption_values ''vcmpServerOptionFriendlyFire''),
   (''driveBy'', C vcmpServerOption_values ''vcmpServerOptionDisableDriveBy''),
   (''perfectHandling'', C vcmpServerOption_values ''vcmpServerOptionPerfectHandling''),
   (''flyingCars'', C vcmpServerOption_values ''vcmpServerOptionFlyingCars''),
   (''jumpSwitch'', C vcmpServerOption_values ''vcmpServerOptionJumpSwitch''),
   (''showMarkers'', C vcmpServerOption_values ''vcmpServerOptionShowMarkers''),
   (''teamMarkersOnly'', C vcmpServerOption_values ''vcmpServerOptionOnlyShowTeamMarkers''),
   (''stuntBike'', C vcmpServerOption_values ''vcmpServerOptionStuntBike''),
   (''shootInAir'', C vcmpServerOption_values ''vcmpServerOptionShootInAir''),
   (''nametags'', C vcmpServerOption_values ''vcmpServerOptionShowNameTags''),
   (''joinMessages'', C vcmpServerOption_values ''vcmpServerOptionJoinMessages''),
   (''deathMessages'', C vcmpServerOption_values ''vcmpServerOptionDeathMessages''),
   (''chatTags'', C vcmpServerOption_values ''vcmpServerOptionChatTagsEnabled''),
   (''classes'', C vcmpServerOption_values ''vcmpServerOptionUseClasses''),
   (''wallGlitch'', C vcmpServerOption_values ''vcmpServerOptionWallGlitch''),
   (''backfaceCulling'', C vcmpServerOption_values ''vcmpServerOptionDisableBackfaceCulling''),
   (''heliBladeDamage'', C vcmpServerOption_values ''vcmpServerOptionDisableHeliBladeDamage''),
   (''disableCrouch'', C vcmpServerOption_values ''vcmpServerOptionDisableCrouch'')]"

definition DisconnectReason_items :: "(string \<times> int) list" where
  "DisconnectReason_items = [
   (''timeout'', C vcmpDisconnectReason_values ''vcmpDisconnectReasonTimeout''),
   (''quit'', C vcmpDisconnectReason_values ''vcmpDisconnectReasonQuit''),
   (''kick'', C vcmpDisconnectReason_values ''vcmpDisconnectReasonKick''),
   (''ban'', C vcmpDisconnectReason_values ''vcmpDisconnectReasonKick''),
   (''kickBan'', C vcmpDisconnectReason_values ''vcmpDisconnectReasonKick''),
   (''crash'', C vcmpDisconnectReason_values ''vcmpDisconnectReasonCrash''),
   (''ac'', C vcmpDisconnectReason_values ''vcmpDisconnectReasonAntiCheat'')]"

definition BodyPart_items :: "(string \<times> int) list" where
  "BodyPart_items = [
   (''body'', C vcmpBodyPart_values ''vcmpBodyPartBody''),
   (''torso'', C vcmpBodyPart_values ''vcmpBodyPartTorso''),
   (''leftArm'', C vcmpBodyPart_values ''vcmpBodyPartLeftArm''),
   (''rightArm'', C vcmpBodyPart_values ''vcmpBodyPartRightArm''),
   (''leftLeg'', C vcmpBodyPart_values ''vcmpBodyPartLeftLeg''),
   (''rightLeg'', C vcmpBodyPart_values ''vcmpBodyPartRightLeg''),
   (''head'', C vcmpBodyPart_values ''vcmpBodyPartHead''),
   (''inVehicle'', C vcmpBodyPart_values ''vcmpBodyPartInVehicle'')]"

definition PlayerState_items :: "(string \<times> int) list" where
  "PlayerState_items = [
   (''none'', C vcmpPlayerState_values ''vcmpPlayerStateNone''),
   (''normal'', C vcmpPlayerState_values ''vcmpPlayerStateNormal''),
   (''aim'', C vcmpPlayerState_values ''vcmpPlayerStateAim''),
   (''driver'', C vcmpPlayerState_values ''vcmpPlayerStateDriver''),
   (''passenger'', C vcmpPlayerState_values ''vcmpPlayerStatePassenger''),
   (''enterDriver'', C vcmpPlayerState_values ''vcmpPlayerStateEnterDriver''),
   (''enterPassenger'', C vcmpPlayerState_values ''vcmpPlayerStateEnterPassenger''),
   (''exit'', C vcmpPlayerState_values ''vcmpPlayerStateExit''),
   (''unspawned'', C vcmpPlayerState_values ''vcmpPlayerStateUnspawned'')]"

definition PlayerUpdate_items :: "(string \<times> int) list" where
  "PlayerUpdate_items = [
   (''normal'', C vcmpPlayerUpdate_values ''vcmpPlayerUpdateNormal''),
   (''aiming'', C vcmpPlayerUpdate_values ''vcmpPlayerUpdateAimingDeprecated''),
   (''driver'', C vcmpPlayerUpdate_values ''vcmpPlayerUpdateDriver''),
   (''passenger'', C vcmpPlayerUpdate_values ''vcmpPlayerUpdatePassenger'')]"

definition PlayerOption_items :: "(string \<times> int) list" where
  "PlayerOption_items = [
   (''controllable'', C vcmpPlayerOption_values ''vcmpPlayerOptionControllable''),
   (''driveBy'', C vcmpPlayerOption_values ''vcmpPlayerOptionDriveBy''),
   (''whiteScanLines'', C vcmpPlayerOption_values ''vcmpPlayerOptionWhiteScanlines''),
   (''greenScanLines'', C vcmpPlayerOption_values ''vcmpPlayerOptionGreenScanlines''),
   (''widescreen'', C vcmpPlayerOption_values ''vcmpPlayerOptionWidescreen''),
   (''showMarkers'', C vcmpPlayerOption_values ''vcmpPlayerOptionShowMarkers''),
   (''canAttack'', C vcmpPlayerOption_values ''vcmpPlayerOptionCanAttack''),
   (''hasMarker'', C vcmpPlayerOption_values ''vcmpPlayerOptionHasMarker''),
   (''showOnRadar'', C vcmpPlayerOption_values ''vcmpPlayerOptionHasMarker''),
   (''chatTags'', C vcmpPlayerOption_values ''vcmpPlayerOptionChatTagsEnabled''),
   (''drunkEffects'', C vcmpPlayerOption_values ''vcmpPlayerOptionDrunkEffectsDeprecated''),
   (''bleeding'', C vcmpPlayerOption_values ''vcmpPlayerOptionBleeding'')]"

definition PlayerVehicle_items :: "(string \<times> int) list" where
  "PlayerVehicle_items = [
   (''outside'', C vcmpPlayerVehicle_values ''vcmpPlayerVehicleOut''),
   (''entering'', C vcmpPlayerVehicle_values ''vcmpPlayerVehicleEntering''),
   (''exiting'', C vcmpPlayerVehicle_values ''vcmpPlayerVehicleExiting''),
   (''inside'', C vcmpPlayerVehicle_values ''vcmpPlayerVehicleIn'')]"

definition VehicleUpdate_items :: "(string \<times> int) list" where
  "VehicleUpdate_items = [
   (''driverSync'', C vcmpVehicleUpdate_values ''vcmpVehicleUpdateDriverSync''),
   (''otherSync'', C vcmpVehicleUpdate_values ''vcmpVehicleUpdateOtherSync''),
   (''position'', C vcmpVehicleUpdate_values ''vcmpVehicleUpdatePosition''),
   (''health'', C vcmpVehicleUpdate_values ''vcmpVehicleUpdateHealth''),
   (''color'', C vcmpVehicleUpdate_values ''vcmpVehicleUpdateColour''),
   (''colour'', C vcmpVehicleUpdate_values ''vcmpVehicleUpdateColour''),
   (''rotation'', C vcmpVehicleUpdate_values ''vcmpVehicleUpdateRotation'')]"

definition VehicleOption_items :: "(string \<times> int) list" where
  "VehicleOption_items = [
   (''lockDoors'', C vcmpVehicleOption_values ''vcmpVehicleOptionDoorsLocked''),
   (''alarm'', C vcmpVehicleOption_values ''vcmpVehicleOptionAlarm''),
   (''lights'', C vcmpVehicleOption_values ''vcmpVehicleOptionLights''),
   (''radioLocked'', C vcmpVehicleOption_values ''vcmpVehicleOptionRadioLocked''),
   (''ghost'', C vcmpVehicleOption_values ''vcmpVehicleOptionGhost''),
   (''siren'', C vcmpVehicleOption_values ''vcmpVehicleOptionSiren''),
   (''singleUse'', C vcmpVehicleOption_values ''vcmpVehicleOptionSingleUse''),
   (''engine'', C vcmpVehicleOption_values ''vcmpVehicleOptionEngineDisabled''),
   (''boot'', C vcmpVehicleOption_values ''vcmpVehicleOptionBootOpen''),
   (''bonnet'', C vcmpVehicleOption_values ''vcmpVehicleOptionBonnetOpen'')]"

definition VehicleSpeed_items :: "(string \<times> int) list" where
  "VehicleSpeed_items = [
   (''normal'', 1), (''normalRelative'', 2), (''turn'', 3), (''turnRelative'', 4)]"

definition PickupOption_items :: "(string \<times> int) list" where
  "PickupOption_items = [
   (''singleUse'', C vcmpPickupOption_values ''vcmpPickupOptionSingleUse''),
   (''forceSize'', C vcmpPickupOption_values ''forceSizeVcmpPickupOption'')]"

definition EntityType_items :: "(string \<times> int) list" where
  "EntityType_items = [
   (''vehicle'', C vcmpEntityPool_values ''vcmpEntityPoolVehicle''),
   (''object'', C vcmpEntityPool_values ''vcmpEntityPoolObject''),
   (''pickup'', C vcmpEntityPool_values ''vcmpEntityPoolPickup''),
   (''radio'', C vcmpEntityPool_values ''vcmpEntityPoolRadio''),
   (''player'', C vcmpEntityPool_values ''vcmpEntityPoolPlayer''),
   (''blip'', C vcmpEntityPool_values ''vcmpEntityPoolBlip''),
   (''checkpoint'', C vcmpEntityPool_values ''vcmpEntityPoolCheckPoint'')]"

definition NetworkStatistics_items :: "(string \<times> int) list" where
  "NetworkStatistics_items = [
   (''dataSentPerSecond'', C vcmpNetworkStatisticsOption_values ''vcmpNetworkStatisticsOptionDataSentPerSecond''),
   (''dataResentPerSecond'', C vcmpNetworkStatisticsOption_values ''vcmpNetworkStatisticsOptionDataResentPerSecond''),
   (''dataReceivedPerSecond'', C vcmpNetworkStatisticsOption_values ''vcmpNetworkStatisticsOptionDataReceivedPerSecond''),
   (''dataDiscardedPerSecond'', C vcmpNetworkStatisticsOption_values ''vcmpNetworkStatisticsOptionDataDiscardedPerSecond''),
   (''allBytesSentPerSecond'', C vcmpNetworkStatisticsOption_values ''vcmpNetworkStatisticsOptionAllBytesSentPerSecond''),
   (''allBytesReceivedPerSecond'', C vcmpNetworkStatisticsOption_values ''vcmpNetworkStatisticsOptionAllBytesReceivedPerSecond''),
   (''dataSentTotal'', C vcmpNetworkStatisticsOption_values ''vcmpNetworkStatisticsOptionDataSentTotal''),
   (''dataResentTotal'', C vcmpNetworkStatisticsOption_values ''vcmpNetworkStatisticsOptionDataResentTotal''),
   (''dataReceivedTotal'', C vcmpNetworkStatisticsOption_values ''vcmpNetworkStatisticsOptionDataReceivedTotal''),
   (''dataDiscardedTotal'', C vcmpNetworkStatisticsOption_values ''vcmpNetworkStatisticsOptionDataDiscardedTotal''),
   (''allBytesSentTotal'', C vcmpNetworkStatisticsOption_values ''vcmpNetworkStatisticsOptionAllBytesSentTotal''),
   (''allBytesReceivedTotal'', C vcmpNetworkStatisticsOption_values ''vcmpNetworkStatisticsOptionAllBytesReceivedTotal''),
   (''messagesWaiting'', C vcmpNetworkStatisticsOption_values ''vcmpNetworkStatisticsOptionMessagesWaiting''),
   (''messagesResending'', C vcmpNetworkStatisticsOption_values ''vcmpNetworkStatisticsOptionMessagesResending''),
   (''bytesResending'', C vcmpNetworkStatisticsOption_values ''vcmpNetworkStatisticsOptionBytesResending''),
   (''packetLossPerSecond'', C vcmpNetworkStatisticsOption_values ''vcmpNetworkStatisticsOptionPacketLossPerSecond''),
   (''packetLossTotal'', C vcmpNetworkStatisticsOption_values ''vcmpNetworkStatisticsOptionPacketLossTotal'')]"

definition RegisterEnums :: "(string \<times> (string \<times> int) list) list" where
  "RegisterEnums = [
   (''ServerOption'', ServerOption_items), (''DisconnectReason'', DisconnectReason_items),
   (''BodyPart'', BodyPart_items), (''PlayerState'', PlayerState_items),
   (''PlayerUpdate'', PlayerUpdate_items), (''PlayerOption'', PlayerOption_items),
   (''PlayerVehicle'', PlayerVehicle_items), (''VehicleUpdate'', VehicleUpdate_items),
   (''VehicleOption'', VehicleOption_items), (''VehicleSpeed'', VehicleSpeed_items),
   (''PickupOption'', PickupOption_items), (''EntityType'', EntityType_items),
   (''NetworkStatistics'', NetworkStatistics_items)]"

text \<open>Which enumeration each table stands for; VehicleSpeed has numbers of its own.\<close>

definition stands_for :: "(string \<times> c_enum) list" where
  "stands_for = [
   (''ServerOption'', vcmpServerOption_values),
   (''DisconnectReason'', vcmpDisconnectReason_values), (''BodyPart'', vcmpBodyPart_values),
   (''PlayerState'', vcmpPlayerState_values), (''PlayerUpdate'', vcmpPlayerUpdate_values),
   (''PlayerOption'', vcmpPlayerOption_values), (''PlayerVehicle'', vcmpPlayerVehicle_values),
   (''VehicleUpdate'', vcmpVehicleUpdate_values), (''VehicleOption'', vcmpVehicleOption_values),
   (''PickupOption'', vcmpPickupOption_values), (''EntityType'', vcmpEntityPool_values),
   (''NetworkStatistics'', vcmpNetworkStatisticsOption_values)]"

section \<open>The tables hold what the server understands\<close>

definition values_of :: "(string \<times> int) list \<Rightarrow> int set" where
  "values_of items = set (map snd items)"

lemma C_simps: "C [] name = - 1" "C ((given, v) # enum) name = (if given = name then v else C enum name)"
  by (simp_all add: C_def)

lemmas reading = values_of_def C_simps force_size_def insert_Diff_if

lemma ServerOption_match: "values_of ServerOption_items = values_of vcmpServerOption_values - {force_size}"
  by (simp add: reading ServerOption_items_def vcmpServerOption_values_def)

lemma DisconnectReason_match: "values_of DisconnectReason_items = values_of vcmpDisconnectReason_values - {force_size}"
  by (simp add: reading DisconnectReason_items_def vcmpDisconnectReason_values_def)

lemma BodyPart_match: "values_of BodyPart_items = values_of vcmpBodyPart_values - {force_size}"
  by (simp add: reading BodyPart_items_def vcmpBodyPart_values_def)

lemma PlayerState_match: "values_of PlayerState_items = values_of vcmpPlayerState_values - {force_size}"
  by (simp add: reading PlayerState_items_def vcmpPlayerState_values_def)

lemma PlayerUpdate_match: "values_of PlayerUpdate_items = values_of vcmpPlayerUpdate_values - {force_size}"
  by (simp add: reading PlayerUpdate_items_def vcmpPlayerUpdate_values_def)

lemma PlayerOption_match: "values_of PlayerOption_items = values_of vcmpPlayerOption_values - {force_size}"
  by (simp add: reading PlayerOption_items_def vcmpPlayerOption_values_def)

lemma PlayerVehicle_match: "values_of PlayerVehicle_items = values_of vcmpPlayerVehicle_values - {force_size}"
  by (simp add: reading PlayerVehicle_items_def vcmpPlayerVehicle_values_def)

lemma VehicleUpdate_match: "values_of VehicleUpdate_items = values_of vcmpVehicleUpdate_values - {force_size}"
  by (simp add: reading VehicleUpdate_items_def vcmpVehicleUpdate_values_def)

lemma VehicleOption_match: "values_of VehicleOption_items = values_of vcmpVehicleOption_values - {force_size}"
  by (simp add: reading VehicleOption_items_def vcmpVehicleOption_values_def)

lemma PickupOption_match: "values_of PickupOption_items = values_of vcmpPickupOption_values"
  by (simp add: reading PickupOption_items_def vcmpPickupOption_values_def)

lemma EntityType_match: "values_of EntityType_items = values_of vcmpEntityPool_values - {force_size, 6}"
  by (simp add: reading EntityType_items_def vcmpEntityPool_values_def)

lemma NetworkStatistics_match: "values_of NetworkStatistics_items = values_of vcmpNetworkStatisticsOption_values - {force_size}"
  by (simp add: reading NetworkStatistics_items_def vcmpNetworkStatisticsOption_values_def)

lemmas tables_match =
  ServerOption_match DisconnectReason_match BodyPart_match PlayerState_match PlayerUpdate_match
  PlayerOption_match PlayerVehicle_match VehicleUpdate_match VehicleOption_match PickupOption_match EntityType_match NetworkStatistics_match

lemma GetSpeed_refuses:
  "GetSpeed f self which =
     tbind (find_server_fn GetVehicleSpeed) (\<lambda>_. tbind (find_server_fn GetVehicleTurnSpeed) (\<lambda>_.
       Raise (ArgError (f_dbg f) 2 ''VehicleSpeed value expected'')))
   \<longleftrightarrow> which \<notin> values_of VehicleSpeed_items"
  by (auto simp: GetSpeed_def find_server_fn_def speed_of_def server_def speed_kinds values_of_def VehicleSpeed_items_def
      fun_eq_iff split: if_splits)

text \<open>
  The constant tables of the scripts and the server's enumerations agree: each table has
  exactly the values of its enumeration, without the enumerator that forces its size and, for
  EntityType, without the reserved pool; only PickupOption also exports the size enumerator.
  Vehicle:getSpeed refuses exactly the numbers that VehicleSpeed does not have.
\<close>

theorem tables_match_server:
  "list_all (\<lambda>(table, enum).
     values_of (the (map_of RegisterEnums table)) =
       values_of enum - (if table = ''PickupOption'' then {} else if table = ''EntityType'' then {force_size, 6}
                         else {force_size})) stands_for \<and>
   (GetSpeed f self which =
     tbind (find_server_fn GetVehicleSpeed) (\<lambda>_. tbind (find_server_fn GetVehicleTurnSpeed) (\<lambda>_.
       Raise (ArgError (f_dbg f) 2 ''VehicleSpeed value expected'')))
    \<longleftrightarrow> which \<notin> values_of VehicleSpeed_items)"
proof
  show "list_all (\<lambda>(table, enum).
     values_of (the (map_of RegisterEnums table)) =
       values_of enum - (if table = ''PickupOption'' then {} else if table = ''EntityType'' then {force_size, 6}
                         else {force_size})) stands_for"
    by (simp add: stands_for_def RegisterEnums_def tables_match)
qed (rule GetSpeed_refuses)

end
