(* ===== verification/Script_Api.thy ===== *)
theory Script_Api
  imports Classes Bindings Enums Lua_Modules
begin

text \<open>
  What a script finds in its globals: the order in which \<^verbatim>\<open>src/src/bindings/bindings.cpp\<close> registers
  enumerations, classes and function tables, and the members that every entity class gets from
  \<^verbatim>\<open>src/src/bindings/entities.cpp\<close> before its own are added. A later assignment to the same name
  replaces the earlier one, so the order matters.
\<close>

section \<open>The members every entity class has\<close>

datatype common =
    C_id | C_getID | C_valid | C_data | C_type | C_getType | C_findByID | C_count | C_getActive | C_tostring

definition RegisterKind :: "(string \<times> common) list" where
  "RegisterKind =
     [(''id'', C_id), (''getID'', C_getID), (''valid'', C_valid), (''data'', C_data), (''type'', C_type),
      (''getType'', C_getType), (''findByID'', C_findByID), (''count'', C_count), (''getActive'', C_getActive),
      (''__tostring'', C_tostring)]"

text \<open>\<^verbatim>\<open>Kind.type()\<close> and \<^verbatim>\<open>handle:getType()\<close> need no runtime; \<^verbatim>\<open>handle.valid\<close> asks without raising.\<close>

definition entity_type :: "EntityKind \<Rightarrow> string" where
  "entity_type k = type_name (Traits k)"

definition entity_getType :: "EntityHandle \<Rightarrow> string" where
  "entity_getType h = type_name (Traits (eh_kind h))"

definition entity_valid :: "EntityHandle \<Rightarrow> bool host" where
  "entity_valid h = IsAlive h"

definition PoolOf :: "EntityKind \<Rightarrow> EntityPool host" where
  "PoolOf k = bind Require_runtime (\<lambda>r. sub r (\<lambda>rt. entities rt k))"

section \<open>The entity classes\<close>

datatype bind_member = B_create | B_new | B_call | B_findByTag | B_clearAllBinds | B_destroy | B_getData | B_tag

definition RegisterBind :: "(string \<times> bind_member) list" where
  "RegisterBind =
     [(''create'', B_create), (''new'', B_new), (''__call'', B_call), (''findByTag'', B_findByTag),
      (''clearAllBinds'', B_clearAllBinds), (''destroy'', B_destroy), (''getData'', B_getData), (''tag'', B_tag)]"

datatype entry = Common common | Member member | Bind_member bind_member

definition own_members :: "EntityKind \<Rightarrow> (string \<times> entry) list" where
  "own_members k =
     (if k = EntityKind.Bind then map (map_prod id Bind_member) RegisterBind
      else case map_of classes (entity_type k) of
        None \<Rightarrow> []
      | Some ms \<Rightarrow> map (map_prod id Member) ms)"

definition assign :: "(string \<rightharpoonup> 'v) \<Rightarrow> (string \<times> 'v) list \<Rightarrow> (string \<rightharpoonup> 'v)" where
  "assign g nvs = foldl (\<lambda>g (n, v). g(n \<mapsto> v)) g nvs"

definition class_table :: "EntityKind \<Rightarrow> string \<rightharpoonup> entry" where
  "class_table k = assign (assign Map.empty (map (map_prod id Common) RegisterKind)) (own_members k)"

definition kKinds :: "EntityKind list" where
  "kKinds = [Player, Vehicle, Object, Pickup, Checkpoint, Blip, EntityKind.Bind]"

definition RegisterEntities :: "(string \<times> (string \<rightharpoonup> entry)) list" where
  "RegisterEntities = map (\<lambda>k. (entity_type k, class_table k)) kKinds"

section \<open>The globals\<close>

datatype script_value =
    Enum_table "(string \<times> int) list"
  | Entity_class "string \<rightharpoonup> entry"
  | Usertype string           \<comment> \<open>a class of its own: Timer, Stream, Server\<close>
  | Functions string          \<comment> \<open>a table of functions\<close>
  | Server_object
  | Removed_stub cxx

definition RegisterServer :: "(string \<times> script_value) list" where
  "RegisterServer =
     [(''Server'', Usertype ''Server''), (''Server'', Server_object), (''Map'', Functions ''Map''),
      (''Radio'', Functions ''Radio''), (''Weapon'', Functions ''Weapon''), (''Sound'', Functions ''Sound'')]"

definition Register :: "(string \<times> script_value) list" where
  "Register =
     map (map_prod id Enum_table) RegisterEnums @
     [(''Event'', Functions ''Event''), (''Timer'', Usertype ''Timer'')] @
     map (map_prod id Entity_class) RegisterEntities @
     RegisterServer @
     [(''Stream'', Usertype ''Stream''), (''Logger'', Functions ''Logger'')] @
     map (\<lambda>r. (rm_name r, Removed_stub (Runtime_error (removed_message r)))) kRemoved @
     [(''Hash'', Functions ''Hash'')]"

definition script_globals :: "(string \<rightharpoonup> script_value) \<Rightarrow> string \<rightharpoonup> script_value" where
  "script_globals g = assign g Register"

text \<open>The modules that the bindings preload: the same table as the global for \<^verbatim>\<open>hash\<close>.\<close>

definition RegisterModules :: "lval \<Rightarrow> lval \<Rightarrow> preload \<Rightarrow> preload" where
  "RegisterModules hash_table http_table p = PreloadValue ''http'' http_table (PreloadValue ''hash'' hash_table p)"

section \<open>Values and errors that cross the border\<close>

text \<open>
  \<^verbatim>\<open>ExceptionHandler\<close>: the Lua error of a C++ exception, with the position luaL\_where gives for
  the calling script in front.
\<close>

definition ExceptionHandler :: "string \<Rightarrow> cxx \<Rightarrow> lval" where
  "ExceptionHandler place e = LStr (place @ what e)"

text \<open>A vector becomes a table with three numbers.\<close>

definition push_Vec3 :: "lua_float \<Rightarrow> lua_float \<Rightarrow> lua_float \<Rightarrow> (lval \<times> lval) list" where
  "push_Vec3 x y z = [(LInt 1, LFloat x), (LInt 2, LFloat y), (LInt 3, LFloat z)]"

definition timer_tostring :: "u64 \<Rightarrow> string" where
  "timer_tostring i = ''Timer('' @ show_nat (unat i) @ '')''"

definition stream_tostring :: "Stream \<Rightarrow> string" where
  "stream_tostring st = ''Stream('' @ show_nat (length (bytes st)) @ '' bytes)''"

section \<open>Nothing is overwritten by accident\<close>

lemma assign_other: "n \<notin> fst ` set nvs \<Longrightarrow> assign g nvs n = g n"
  by (induction nvs arbitrary: g) (auto simp: assign_def)

lemma assign_distinct: "\<lbrakk>distinct (map fst nvs); (n, v) \<in> set nvs\<rbrakk> \<Longrightarrow> assign g nvs n = Some v"
proof (induction nvs arbitrary: g)
  case (Cons nv nvs)
  have step: "assign g (nv # nvs) = assign (g(fst nv \<mapsto> snd nv)) nvs"
    by (simp add: assign_def split_def)
  show ?case
  proof (cases "nv = (n, v)")
    case True
    with Cons.prems step assign_other [of n nvs "g(n \<mapsto> v)"] show ?thesis by simp
  next
    case False
    with Cons step show ?thesis by simp
  qed
qed simp

lemma own_names:
  "map fst (own_members k) =
     (case k of
        Player \<Rightarrow> map fst (player_methods @ player_readers @ player_properties)
      | Vehicle \<Rightarrow> map fst (vehicle_methods @ vehicle_properties)
      | Object \<Rightarrow> map fst object_members
      | Pickup \<Rightarrow> map fst pickup_members
      | Checkpoint \<Rightarrow> map fst checkpoint_members
      | Blip \<Rightarrow> map fst blip_members
      | EntityKind.Bind \<Rightarrow> map fst RegisterBind)"
  by (cases k) (simp_all add: own_members_def classes_def entity_type_def)

lemma common_names_free:
  "list_all (\<lambda>k. list_all (\<lambda>n. n \<notin> fst ` set (own_members k) \<or> (k = Player \<and> n = ''getActive''))
     (map fst RegisterKind)) kKinds"
proof -
  have *: "fst ` set (own_members k) = set (map fst (own_members k))" for k
    by simp
  show ?thesis
    unfolding * own_names
    by (simp add: kKinds_def RegisterKind_def RegisterBind_def player_methods_def player_functions_def player_actions_def player_readers_def player_values_def player_properties_def
        vehicle_methods_def vehicle_properties_def object_members_def pickup_members_def checkpoint_members_def blip_members_def)
qed

lemma all_kinds: "k \<in> set kKinds"
  by (cases k) (simp_all add: kKinds_def)

lemma common_member_kept:
  assumes "(n, c) \<in> set RegisterKind" and "k \<noteq> Player \<or> n \<noteq> ''getActive''"
  shows "class_table k n = Some (Common c)"
proof -
  have "n \<notin> fst ` set (own_members k)"
    using common_names_free all_kinds [of k] assms by (force simp: list_all_iff)
  then have "class_table k n = assign Map.empty (map (map_prod id Common) RegisterKind) n"
    unfolding class_table_def by (rule assign_other)
  also have "\<dots> = Some (Common c)"
    by (rule assign_distinct) (use assms(1) in \<open>force simp: RegisterKind_def\<close>)+
  finally show ?thesis .
qed

lemma Register_split: "\<exists>before after. Register = before @ (''Server'', Usertype ''Server'') # after \<and>
    distinct (map fst after) \<and> ''Server'' \<notin> fst ` set before \<and> fst ` set before \<inter> fst ` set after = {}
    \<and> distinct (map fst before)"
  by (rule exI [of _ "map (map_prod id Enum_table) RegisterEnums @ [(''Event'', Functions ''Event''), (''Timer'', Usertype ''Timer'')] @
        map (map_prod id Entity_class) RegisterEntities"],
      rule exI [of _ "tl RegisterServer @ [(''Stream'', Usertype ''Stream''), (''Logger'', Functions ''Logger'')] @
        map (\<lambda>r. (rm_name r, Removed_stub (Runtime_error (removed_message r)))) kRemoved @ [(''Hash'', Functions ''Hash'')]"])
    (simp add: Register_def RegisterEnums_def RegisterEntities_def RegisterServer_def kKinds_def kRemoved_def entity_type_def)

lemma registered_global:
  assumes "(n, v) \<in> set Register" and "v \<noteq> Usertype ''Server''"
  shows "script_globals g n = Some v"
proof -
  obtain before after where r: "Register = before @ (''Server'', Usertype ''Server'') # after"
    and d: "distinct (map fst after)" "''Server'' \<notin> fst ` set before" "fst ` set before \<inter> fst ` set after = {}"
      "distinct (map fst before)"
    using Register_split by blast
  have split: "script_globals g = assign ((assign g before)(''Server'' \<mapsto> Usertype ''Server'')) after"
    by (simp add: script_globals_def r assign_def)
  show ?thesis
  proof (cases "(n, v) \<in> set after")
    case True
    then show ?thesis
      unfolding split by (rule assign_distinct [OF d(1)])
  next
    case False
    have before: "(n, v) \<in> set before"
      using assms False unfolding r by auto
    then have "n \<notin> fst ` set after" "n \<noteq> ''Server''"
      using d(2,3) by (force, force)
    with assign_other [of n after] assign_distinct [OF d(4) before] show ?thesis
      unfolding split by simp
  qed
qed


end
