(* ===== verification/Bus_Refinement.thy ===== *)
theory Bus_Refinement
  imports Bindings
begin

text \<open>
  What the event bus promises to scripts, without handler lists, indices and dead entries: a board
  that has, for each event by name, the functions bound to it in the order they were bound,
  and the cancel flags of the dispatches that are running. The bus implements the board:
  every operation, called by name as \<^verbatim>\<open>src/src/bindings/event.cpp\<close> calls it, changes the board as
  specified and gives the same answer, whether or not dead handlers are still in the lists.
\<close>

section \<open>The specification\<close>

record Board =
  bound :: "string \<rightharpoonup> luafn list"
  flags :: "bool list"

datatype bus_op =
    Do_create string
  | Do_bind string luafn
  | Do_unbind string luafn
  | Do_cancel
  | Do_enter          \<comment> \<open>a dispatch starts\<close>
  | Do_leave          \<comment> \<open>the innermost dispatch ends\<close>
  | Do_clear

definition unknown_event :: "string \<Rightarrow> cxx" where
  "unknown_event name = Invalid_argument (''unknown event '' @ quoted name)"

definition no_dispatch :: cxx where
  "no_dispatch = Logic_error ''Event.cancel() called outside an event handler''"

fun board_step :: "Board \<Rightarrow> bus_op \<Rightarrow> Board" where
  "board_step a (Do_create n) = (if bound a n = None then a\<lparr>bound := (bound a)(n \<mapsto> [])\<rparr> else a)"
| "board_step a (Do_bind n f) =
     (case bound a n of
        Some fs \<Rightarrow> if f \<in> set fs then a else a\<lparr>bound := (bound a)(n \<mapsto> fs @ [f])\<rparr>
      | None \<Rightarrow> a)"
| "board_step a (Do_unbind n f) =
     (case bound a n of Some fs \<Rightarrow> a\<lparr>bound := (bound a)(n \<mapsto> remove1 f fs)\<rparr> | None \<Rightarrow> a)"
| "board_step a Do_cancel = (if flags a = [] then a else a\<lparr>flags := butlast (flags a) @ [True]\<rparr>)"
| "board_step a Do_enter = a\<lparr>flags := flags a @ [False]\<rparr>"
| "board_step a Do_leave = a\<lparr>flags := butlast (flags a)\<rparr>"
| "board_step a Do_clear = a\<lparr>bound := (\<lambda>n. map_option (\<lambda>_. []) (bound a n))\<rparr>"

fun board_answer :: "Board \<Rightarrow> bus_op \<Rightarrow> bool res" where
  "board_answer a (Do_create n) = Inr (bound a n = None)"
| "board_answer a (Do_bind n f) =
     (case bound a n of Some fs \<Rightarrow> Inr (f \<notin> set fs) | None \<Rightarrow> Inl (unknown_event n))"
| "board_answer a (Do_unbind n f) =
     (case bound a n of Some fs \<Rightarrow> Inr (f \<in> set fs) | None \<Rightarrow> Inl (unknown_event n))"
| "board_answer a Do_cancel = (if flags a = [] then Inl no_dispatch else Inr True)"
| "board_answer a Do_leave = Inr (flags a \<noteq> [] \<and> last (flags a))"
| "board_answer a _ = Inr True"

section \<open>The bus, by name\<close>

definition by_name :: "(EventBus \<Rightarrow> nat \<Rightarrow> EventBus \<times> bool res) \<Rightarrow> EventBus \<Rightarrow> string \<Rightarrow> EventBus \<times> bool res" where
  "by_name op b n = (case RequireEvent b n of Inl e \<Rightarrow> (b, Inl e) | Inr i \<Rightarrow> op b i)"

fun bus_do :: "EventBus \<Rightarrow> bus_op \<Rightarrow> EventBus \<times> bool res" where
  "bus_do b (Do_create n) = map_prod id Inr (Event_Bus.Create b n)"
| "bus_do b (Do_bind n f) = by_name (\<lambda>b i. Bind b i f) b n"
| "bus_do b (Do_unbind n f) = by_name (\<lambda>b i. Unbind b i f) b n"
| "bus_do b Do_cancel = map_prod id (map_sum id (\<lambda>_. True)) (Cancel b)"
| "bus_do b Do_enter = (frame_push b, Inr True)"
| "bus_do b Do_leave =
     (if cancelled b = [] then (b, Inr False) else map_prod id Inr (frame_finish (length (cancelled b) - 1) b))"
| "bus_do b Do_clear = (Event_Bus.Clear b, Inr True)"

definition bus_step :: "EventBus \<Rightarrow> bus_op \<Rightarrow> EventBus" where
  "bus_step b c = fst (bus_do b c)"

definition bus_answer :: "EventBus \<Rightarrow> bus_op \<Rightarrow> bool res" where
  "bus_answer b c = snd (bus_do b c)"

definition board_of :: "EventBus \<Rightarrow> Board" where
  "board_of b =
     \<lparr>bound = (\<lambda>n. map_option (\<lambda>i. live_fns (lists b ! i)) (index_by_name b n)), flags = cancelled b\<rparr>"

section \<open>The simulation\<close>

lemma wf_event:
  assumes "bus_wf b" and "index_by_name b n = Some i"
  shows "i < length (lists b)" and "index_by_name b m = Some i \<longleftrightarrow> m = n"
  using assms bus_wf_index [OF assms(1)] by (auto simp: bus_wf_length)

lemma board_set_list:
  assumes "bus_wf b" and "index_by_name b n = Some i"
  shows "board_of (b\<lparr>lists := (lists b)[i := l]\<rparr>) = (board_of b)\<lparr>bound := (bound (board_of b))(n \<mapsto> live_fns l)\<rparr>"
    and "board_of (b\<lparr>lists := (lists b)[i := l], needs_compaction := nc\<rparr>)
           = (board_of b)\<lparr>bound := (bound (board_of b))(n \<mapsto> live_fns l)\<rparr>"
proof -
  have "map_option (\<lambda>j. live_fns ((lists b)[i := l] ! j)) (index_by_name b m)
      = (if m = n then Some (live_fns l) else map_option (\<lambda>j. live_fns (lists b ! j)) (index_by_name b m))" for m
  proof (cases "index_by_name b m")
    case (Some j)
    with assms(2) show ?thesis
      using wf_event(1) [OF assms] wf_event(2) [OF assms, of m] by (auto simp: nth_list_update_if)
  next
    case None
    with assms(2) show ?thesis by auto
  qed
  then show "board_of (b\<lparr>lists := (lists b)[i := l]\<rparr>) = (board_of b)\<lparr>bound := (bound (board_of b))(n \<mapsto> live_fns l)\<rparr>"
    and "board_of (b\<lparr>lists := (lists b)[i := l], needs_compaction := nc\<rparr>)
           = (board_of b)\<lparr>bound := (bound (board_of b))(n \<mapsto> live_fns l)\<rparr>"
    by (simp_all add: board_of_def fun_eq_iff)
qed

lemma board_Compact: "bus_wf b \<Longrightarrow> board_of (Compact b) = board_of b"
  using wf_event(1) [of b] by (auto simp: board_of_def Compact_def fun_eq_iff map_option_case split: option.split)

lemma board_Clear: "bus_wf b \<Longrightarrow> board_of (Event_Bus.Clear b) = board_step (board_of b) Do_clear"
  using wf_event(1) [of b]
  by (auto simp: board_of_def Event_Bus.Clear_def fun_eq_iff live_fns_def map_option_case split: option.split)

lemma board_Create:
  assumes "bus_wf b"
  shows "board_of (fst (Event_Bus.Create b n)) = board_step (board_of b) (Do_create n)"
proof (cases "index_by_name b n")
  case None
  have "index_by_name b m = Some i \<Longrightarrow> i < length (lists b)" for m i
    using wf_event(1) [OF assms] by blast
  with None show ?thesis
    by (auto simp: Event_Bus.Create_def board_of_def fun_eq_iff nth_append live_fns_def map_option_case split: option.split)
qed (simp add: Event_Bus.Create_def board_of_def)

lemma board_Bind:
  assumes "bus_wf b" and "index_by_name b n = Some i"
  shows "board_of (fst (Bind b i f)) = board_step (board_of b) (Do_bind n f)"
    and "snd (Bind b i f) = Inr (f \<notin> set (live_fns (lists b ! i)))"
  using wf_event(1) [OF assms] board_set_list(1) [OF assms] assms(2)
  by (simp_all add: Bind_def Let_def set_live_fns live_fns_append board_of_def)

lemma board_Unbind:
  assumes "bus_wf b" and "index_by_name b n = Some i"
  shows "board_of (fst (Unbind b i f)) = board_step (board_of b) (Do_unbind n f)"
    and "snd (Unbind b i f) = Inr (f \<in> set (live_fns (lists b ! i)))"
proof -
  have i: "i < length (lists b)" and fs: "bound (board_of b) n = Some (live_fns (lists b ! i))"
    using wf_event(1) [OF assms] assms(2) by (simp_all add: board_of_def)
  show "snd (Unbind b i f) = Inr (f \<in> set (live_fns (lists b ! i)))"
    using i kill_first_None [of f "lists b ! i"] by (auto simp: Unbind_def Let_def split: option.split)
  show "board_of (fst (Unbind b i f)) = board_step (board_of b) (Do_unbind n f)"
  proof (cases "kill_first f (lists b ! i)")
    case None
    then have "remove1 f (live_fns (lists b ! i)) = live_fns (lists b ! i)"
      by (simp add: kill_first_None remove1_idem)
    moreover have "(board_of b)\<lparr>bound := (bound (board_of b))(n \<mapsto> live_fns (lists b ! i))\<rparr> = board_of b"
      using fs by (simp add: fun_upd_idem)
    ultimately show ?thesis
      using i None fs by (simp add: Unbind_def)
  next
    case (Some l)
    let ?b = "b\<lparr>lists := (lists b)[i := l], needs_compaction := True\<rparr>"
    have live: "live_fns l = remove1 f (live_fns (lists b ! i))"
      by (rule live_fns_kill_first [OF Some])
    have "bus_wf ?b"
      using assms(1) i bus_wf_nth [OF assms(1) i] live by (intro bus_wf_set_list) (simp_all add: distinct_remove1)
    then have "board_of (fst (Unbind b i f)) = board_of ?b"
      using i Some board_Compact [of ?b] by (simp add: Unbind_def Let_def)
    also have "\<dots> = (board_of b)\<lparr>bound := (bound (board_of b))(n \<mapsto> live_fns l)\<rparr>"
      by (rule board_set_list(2) [OF assms])
    finally show ?thesis
      using fs live by simp
  qed
qed

lemma board_leave:
  assumes "bus_wf b" and "cancelled b \<noteq> []"
  shows "board_of (fst (frame_finish (length (cancelled b) - 1) b)) = board_step (board_of b) Do_leave"
    and "snd (frame_finish (length (cancelled b) - 1) b) = last (cancelled b)"
proof -
  have "bus_wf (frame_drop n b)" for n
    using assms(1) by (simp add: frame_drop_def)
  then show "board_of (fst (frame_finish (length (cancelled b) - 1) b)) = board_step (board_of b) Do_leave"
    using board_Compact by (simp add: frame_finish_def Let_def) (simp add: board_of_def frame_drop_def butlast_conv_take)
  show "snd (frame_finish (length (cancelled b) - 1) b) = last (cancelled b)"
    using assms(2) by (simp add: frame_finish_def Let_def frame_cancelled_def last_conv_nth)
qed

lemma bus_wf_step: "bus_wf b \<Longrightarrow> bus_wf (bus_step b c)"
  by (cases c) (auto simp: bus_step_def by_name_def bus_wf_ops split: sum.split)

lemma board_by_name:
  assumes "bus_wf b"
  shows "board_of (bus_step b (Do_bind n f)) = board_step (board_of b) (Do_bind n f)"
    and "board_of (bus_step b (Do_unbind n f)) = board_step (board_of b) (Do_unbind n f)"
    and "bus_answer b (Do_bind n f) = board_answer (board_of b) (Do_bind n f)"
    and "bus_answer b (Do_unbind n f) = board_answer (board_of b) (Do_unbind n f)"
proof -
  note defs = bus_step_def bus_answer_def by_name_def RequireEvent_def Find_def unknown_event_def
  show "board_of (bus_step b (Do_bind n f)) = board_step (board_of b) (Do_bind n f)"
    using board_Bind(1) [OF assms] by (cases "index_by_name b n") (simp_all add: defs, simp add: board_of_def)
  show "board_of (bus_step b (Do_unbind n f)) = board_step (board_of b) (Do_unbind n f)"
    using board_Unbind(1) [OF assms] by (cases "index_by_name b n") (simp_all add: defs, simp add: board_of_def)
  show "bus_answer b (Do_bind n f) = board_answer (board_of b) (Do_bind n f)"
    using board_Bind(2) [OF assms] by (cases "index_by_name b n") (simp_all add: defs board_of_def)
  show "bus_answer b (Do_unbind n f) = board_answer (board_of b) (Do_unbind n f)"
    using board_Unbind(2) [OF assms] by (cases "index_by_name b n") (simp_all add: defs board_of_def)
qed

lemma board_of_step:
  assumes "bus_wf b"
  shows "board_of (bus_step b c) = board_step (board_of b) c"
proof (cases c)
  case (Do_create n)
  with board_Create [OF assms, of n] show ?thesis by (simp add: bus_step_def)
next
  case (Do_bind n f)
  then show ?thesis using board_by_name [OF assms] by simp
next
  case (Do_unbind n f)
  then show ?thesis using board_by_name [OF assms] by simp
next
  case Do_leave
  with board_leave [OF assms] show ?thesis by (simp add: bus_step_def) (simp add: board_of_def)
next
  case Do_clear
  with board_Clear [OF assms] show ?thesis by (simp add: bus_step_def)
qed (simp_all add: bus_step_def board_of_def Cancel_def frame_push_def)

lemma board_of_answer:
  assumes "bus_wf b"
  shows "bus_answer b c = board_answer (board_of b) c"
proof (cases c)
  case (Do_bind n f)
  then show ?thesis using board_by_name [OF assms] by simp
next
  case (Do_unbind n f)
  then show ?thesis using board_by_name [OF assms] by simp
next
  case Do_leave
  with board_leave(2) [OF assms] show ?thesis by (simp add: bus_answer_def board_of_def)
qed (simp_all add: bus_answer_def board_of_def Cancel_def no_dispatch_def Event_Bus.Create_def)

interpretation bus: simulation bus_step bus_wf bus_answer board_of board_step board_answer
  by unfold_locales (simp_all add: bus_wf_step board_of_step board_of_answer)

text \<open>
  C11. The event bus refines the board. After any sequence of operations on a new bus, in and outside
  dispatches, the functions bound to each event, in their order, and the cancel flags are those
  of the specification, and every answer given on the way, errors included, is the
  specification's.
\<close>

theorem bus_refines_board:
  "board_of (foldl bus_step new_bus ops) = foldl board_step (board_of new_bus) ops \<and>
   replies bus_step bus_answer new_bus ops = replies board_step board_answer (board_of new_bus) ops"
  using bus.view_run [OF bus_wf_new] bus.same_answers [OF bus_wf_new] by blast

end
