(* ===== verification/Event_Order.thy ===== *)
theory Event_Order
  imports Player_Lifetime
begin

text \<open>
  The order in which a dispatch calls its handlers, and what cancelling does: proved for
  programs in which a handler either does nothing or cancels the event.
\<close>

definition handler_program :: "(luafn \<Rightarrow> bool) \<Rightarrow> luafn \<Rightarrow> lval list \<Rightarrow> State \<Rightarrow> script" where
  "handler_program cancels f args s = (if cancels f then Op DoCancel (\<lambda>_. Return) else Return)"

fun upto_cancel :: "(luafn \<Rightarrow> bool) \<Rightarrow> luafn list \<Rightarrow> luafn list" where
  "upto_cancel c [] = []"
| "upto_cancel c (f # fs) = (if c f then [f] else f # upto_cancel c fs)"

definition set_cancelled :: "bool list \<Rightarrow> Runtime \<Rightarrow> Runtime" where
  "set_cancelled fl rt = rt\<lparr>events := (events rt)\<lparr>cancelled := fl\<rparr>\<rparr>"

lemma pcall_handler:
  assumes "program l = handler_program cancels" "runtime s = Some rt" "Usable rt"
    "cancelled (events rt) = fr @ [b]"
  shows "pcall (scripted l w (Suc n)) f args s =
    (Ret None, s\<lparr>runtime := Some (set_cancelled (fr @ [b \<or> cancels f]) rt)\<rparr>)"
  using assms
  by (auto simp: scripted_def Let_def handler_program_def set_cancelled_def returning_def Event_cancel_def
      Require_runtime_def on_events_def Cancel_def try_catch_def bind_def query_def ret_def sub_def put_sub_def
      get_def put_def of_res_def Usable_def split: if_splits)

lemma Call_handler:
  assumes "program l = handler_program cancels" "runtime s = Some rt" "rid rt = r" "Usable rt"
    "cancelled (events rt) = fr @ [False]" "never_full w" "\<forall>s. \<not> panics w s"
  shows "Call (scripted l w (Suc n)) r f name (ret args) s =
    (Ret True, s\<lparr>runtime := Some (set_cancelled (fr @ [cancels f]) rt), calls := calls s @ [(f, args)]\<rparr>)"
proof -
  let ?w = "scripted l w (Suc n)"
  let ?s = "s\<lparr>runtime := Some (rt\<lparr>depth := depth rt + 1\<rparr>), calls := calls s @ [(f, args)]\<rparr>"
  have "pcall ?w f args ?s =
     (Ret None, ?s\<lparr>runtime := Some (set_cancelled (fr @ [cancels f]) (rt\<lparr>depth := depth rt + 1\<rparr>))\<rparr>)"
    using pcall_handler [OF assms(1), of ?s "rt\<lparr>depth := depth rt + 1\<rparr>" fr False] assms
    by (simp add: Usable_def)
  moreover have "stack_full ?w s' = False" "panics ?w s' = False" for s'
    using assms(6,7) by (simp_all add: scripted_def Let_def never_full_def)
  ultimately show ?thesis
    using assms(2-5)
    by (simp add: Call_def Scope_def call_body_def unprotected_def on_exit_def bind_def query_def change_def
        ret_def sub_def put_sub_def get_def put_def Usable_def set_cancelled_def)
qed

lemma live_fns_drop:
  "i < length hs \<Longrightarrow> live_fns (drop i hs) = (if h_alive (hs ! i) then [fn (hs ! i)] else []) @ live_fns (drop (Suc i) hs)"
  by (simp add: Cons_nth_drop_Suc [symmetric] live_fns_def)

lemma loop_handlers:
  assumes l: "program l = handler_program cancels" and w: "never_full w" "\<forall>s. \<not> panics w s"
  shows "\<lbrakk>runtime s = Some rt; rid rt = r; Usable rt; cancelled (events rt) = fr @ [False];
      e < length (lists (events rt)); hs = lists (events rt) ! e; i \<le> length hs\<rbrakk> \<Longrightarrow>
    dispatch_loop (scripted l w (Suc n)) r e (ret args) (length fr) [i..<length hs] s =
      (Ret (), s\<lparr>runtime := Some (set_cancelled (fr @ [list_ex cancels (live_fns (drop i hs))]) rt),
                calls := calls s @ map (\<lambda>f. (f, args)) (upto_cancel cancels (live_fns (drop i hs)))\<rparr>)"
proof (induction "length hs - i" arbitrary: i s rt)
  case 0
  then have "i = length hs"
    by simp
  with 0 show ?case
    by (simp add: ret_def live_fns_def set_cancelled_def)
next
  case (Suc m)
  let ?w = "scripted l w (Suc n)"
  have i: "i < length hs" "[i..<length hs] = i # [Suc i..<length hs]"
    using Suc.hyps(2) by (simp_all add: upt_conv_Cons)
  have lopen: "lua_open rt"
    using Suc.prems by (simp add: Usable_def)
  show ?case
  proof (cases "h_alive (hs ! i)")
    case False
    have "dispatch_loop ?w r e (ret args) (length fr) [i..<length hs] s =
          dispatch_loop ?w r e (ret args) (length fr) [Suc i..<length hs] s"
      using Suc.prems False i lopen by (simp add: bind_def sub_def get_def)
    also have "\<dots> = (Ret (), s\<lparr>runtime := Some (set_cancelled (fr @ [list_ex cancels (live_fns (drop (Suc i) hs))]) rt),
                calls := calls s @ map (\<lambda>f. (f, args)) (upto_cancel cancels (live_fns (drop (Suc i) hs)))\<rparr>)"
      using Suc.hyps(2) Suc.prems i by (intro Suc.hyps(1)) simp_all
    finally show ?thesis
      using False i by (simp add: live_fns_drop)
  next
    case True
    let ?f = "fn (hs ! i)"
    let ?rt = "set_cancelled (fr @ [cancels ?f]) rt"
    let ?s = "s\<lparr>runtime := Some ?rt, calls := calls s @ [(?f, args)]\<rparr>"
    have call: "Call ?w r ?f name (ret args) s = (Ret True, ?s)" for name
      using Suc.prems by (intro Call_handler l w) simp_all
    have step: "dispatch_loop ?w r e (ret args) (length fr) [i..<length hs] s =
       (if cancels ?f then (Ret (), ?s) else dispatch_loop ?w r e (ret args) (length fr) [Suc i..<length hs] ?s)"
      using Suc.prems True i lopen call
      by (simp add: bind_def sub_def get_def set_cancelled_def frame_cancelled_def ret_def nth_append)
    have "dispatch_loop ?w r e (ret args) (length fr) [Suc i..<length hs] ?s =
        (Ret (), ?s\<lparr>runtime := Some (set_cancelled (fr @ [list_ex cancels (live_fns (drop (Suc i) hs))]) ?rt),
                calls := calls ?s @ map (\<lambda>f. (f, args)) (upto_cancel cancels (live_fns (drop (Suc i) hs)))\<rparr>)"
      if "\<not> cancels ?f"
      using Suc.hyps(2) Suc.prems i that
      by (intro Suc.hyps(1)) (simp_all add: set_cancelled_def Usable_def)
    then show ?thesis
      unfolding step using True i by (simp add: live_fns_drop set_cancelled_def)
  qed
qed


lemma demo_dispatch_facts:
  "never_full demo_world" "\<forall>s. \<not> panics demo_world s" "Usable (new_runtime 0 default_config)"
  by (simp_all add: never_full_def demo_world_def Usable_def new_runtime_def)

definition demo_handlers :: State where
  "demo_handlers = demo_state\<lparr>runtime := Some ((new_runtime 0 default_config)
     \<lparr>events := (events (new_runtime 0 default_config))\<lparr>lists :=
        [[\<lparr>fn = 5, h_alive = True\<rparr>, \<lparr>fn = 6, h_alive = False\<rparr>, \<lparr>fn = 7, h_alive = True\<rparr>, \<lparr>fn = 8, h_alive = True\<rparr>]]\<rparr>\<rparr>)\<rparr>"


end
