(* ===== verification/Command_Line.thy ===== *)
theory Command_Line
  imports Plugin
begin

text \<open>
  The words of a player's command: the loop of OnPlayerCommand against a reference splitting.
\<close>

abbreviation (input) blank :: "char \<Rightarrow> bool" where
  "blank c \<equiv> c = CHR '' ''"

function tokens :: "string \<Rightarrow> string list" where
  "tokens s =
     (case dropWhile blank s of
        [] \<Rightarrow> []
      | c # cs \<Rightarrow> (c # takeWhile (\<lambda>c. \<not> blank c) cs) # tokens (dropWhile (\<lambda>c. \<not> blank c) cs))"
  by pat_completeness auto
termination
proof (relation "measure length")
  fix s c cs
  assume "dropWhile blank s = c # cs"
  then have "length cs < length s"
    using length_dropWhile_le [of blank s] by simp
  moreover have "length (dropWhile (\<lambda>c. \<not> blank c) cs) \<le> length cs"
    by (rule length_dropWhile_le)
  ultimately show "(dropWhile (\<lambda>c. \<not> blank c) cs, s) \<in> measure length"
    by simp
qed simp

declare tokens.simps [simp del]

text \<open>What follows the first word, without the blanks before it.\<close>

definition after_command :: "string \<Rightarrow> string" where
  "after_command s = dropWhile blank (dropWhile (\<lambda>c. \<not> blank c) (dropWhile blank s))"

lemma drop_run: "drop (i + length (takeWhile Q (drop i msg))) msg = dropWhile Q (drop i msg)"
  using dropWhile_eq_drop [of Q "drop i msg"] by (simp add: add.commute)

lemma run_bound: "i \<le> length msg \<Longrightarrow> i + length (takeWhile Q (drop i msg)) \<le> length msg"
  using length_takeWhile_le [of Q "drop i msg"] by simp

lemma word_end_eq:
  "start \<le> length msg \<Longrightarrow> word_end msg start = start + length (takeWhile (\<lambda>c. c \<noteq> CHR '' '') (drop start msg))"
  using run_bound [of start msg "\<lambda>c. c \<noteq> CHR '' ''"] by (simp add: word_end_def find_from_def Let_def)

lemma find_from_None: "find_from P msg i = None \<Longrightarrow> dropWhile (\<lambda>c. \<not> P c) (drop i msg) = []"
  using drop_run [of i "\<lambda>c. \<not> P c" msg]
  by (simp add: find_from_def Let_def del: dropWhile_eq_Nil_conv split: if_splits)

lemma find_from_Some:
  assumes "find_from P msg i = Some n"
  shows "drop n msg = dropWhile (\<lambda>c. \<not> P c) (drop i msg)" "n < length msg"
  using assms drop_run [of i "\<lambda>c. \<not> P c" msg] by (auto simp: find_from_def Let_def split: if_splits)

lemma word_at:
  assumes "start \<le> length msg"
  shows "drop (word_end msg start) msg = dropWhile (\<lambda>c. c \<noteq> CHR '' '') (drop start msg)"
    and "take (word_end msg start - start) (drop start msg) = takeWhile (\<lambda>c. c \<noteq> CHR '' '') (drop start msg)"
proof -
  let ?w = "takeWhile (\<lambda>c. c \<noteq> CHR '' '') (drop start msg)"
  have "word_end msg start - start = length ?w"
    by (simp add: word_end_eq [OF assms])
  then show "take (word_end msg start - start) (drop start msg) = ?w"
    using takeWhile_eq_take [of "\<lambda>c. c \<noteq> CHR '' ''" "drop start msg"] by (simp only:)
  show "drop (word_end msg start) msg = dropWhile (\<lambda>c. c \<noteq> CHR '' '') (drop start msg)"
    unfolding word_end_eq [OF assms] by (rule drop_run)
qed

lemma tokens_at:
  "tokens (drop i msg) =
     (case find_from (\<lambda>c. c \<noteq> CHR '' '') msg i of
        None \<Rightarrow> []
      | Some start \<Rightarrow> take (word_end msg start - start) (drop start msg) # tokens (drop (word_end msg start) msg))"
proof (cases "find_from (\<lambda>c. c \<noteq> CHR '' '') msg i")
  case None
  then have "dropWhile blank (drop i msg) = []"
    using find_from_None [OF None] by simp
  then show ?thesis
    by (subst tokens.simps) (simp only: None list.case option.case)
next
  case (Some start)
  have start: "dropWhile blank (drop i msg) = drop start msg" "start < length msg"
    using find_from_Some [OF Some] by simp_all
  then obtain c cs where c: "drop start msg = c # cs"
    by (metis Cons_nth_drop_Suc)
  have "c \<noteq> CHR '' ''"
    using hd_dropWhile [of blank "drop i msg"] start(1) c by simp
  then have word: "take (word_end msg start - start) (drop start msg) = c # takeWhile (\<lambda>c. c \<noteq> CHR '' '') cs"
    "drop (word_end msg start) msg = dropWhile (\<lambda>c. c \<noteq> CHR '' '') cs"
    using word_at [of start msg] start(2) c by (simp_all only: less_imp_le) simp_all
  have "tokens (drop i msg) = (c # takeWhile (\<lambda>c. c \<noteq> CHR '' '') cs) # tokens (dropWhile (\<lambda>c. c \<noteq> CHR '' '') cs)"
    by (subst tokens.simps) (simp only: start c list.case)
  then show ?thesis
    by (simp only: Some option.case word)
qed

lemma command_words_tokens: "fst (command_words msg i words rest) = words @ tokens (drop i msg)"
proof (induction msg i words rest rule: command_words.induct)
  case (1 msg i words rest)
  show ?case
  proof (cases "length msg \<le> i")
    case True
    then show ?thesis
      by (simp add: command_words.simps tokens.simps)
  next
    case False
    show ?thesis
    proof (cases "find_from (\<lambda>c. c \<noteq> CHR '' '') msg i")
      case None
      with False show ?thesis
        by (simp add: command_words.simps tokens_at)
    next
      case (Some start)
      then show ?thesis
        using False 1 [OF _ Some] by (subst command_words.simps, subst tokens_at) simp
    qed
  qed
qed

lemma command_words_rest_kept: "2 \<le> length words \<Longrightarrow> snd (command_words msg i words rest) = rest"
proof (induction msg i words rest rule: command_words.induct)
  case (1 msg i words rest)
  then show ?case
    by (subst command_words.simps) (simp split: option.split)
qed

lemma command_words_rest_one:
  assumes "length words = 1"
  shows "snd (command_words msg i words rest) =
    (if length msg \<le> i then rest else case find_from (\<lambda>c. c \<noteq> CHR '' '') msg i of None \<Rightarrow> rest | Some start \<Rightarrow> start)"
  using assms by (subst command_words.simps) (auto simp: command_words_rest_kept split: option.split)

text \<open>Where the rest begins: at the next word, or at the end.\<close>

definition rest_at :: "string \<Rightarrow> nat \<Rightarrow> nat" where
  "rest_at msg e =
     (if length msg \<le> e then length msg
      else case find_from (\<lambda>c. c \<noteq> CHR '' '') msg e of None \<Rightarrow> length msg | Some n \<Rightarrow> n)"

lemma drop_rest_at: "drop (min (rest_at msg e) (length msg)) msg = dropWhile blank (drop e msg)"
proof (cases "find_from (\<lambda>c. c \<noteq> CHR '' '') msg e")
  case None
  then have "dropWhile blank (drop e msg) = []"
    using find_from_None [OF None] by simp
  then show ?thesis
    unfolding rest_at_def None by (simp del: dropWhile_eq_Nil_conv)
next
  case (Some n)
  then have "drop n msg = dropWhile blank (drop e msg)" "n < length msg" "\<not> length msg \<le> e"
    using find_from_Some [OF Some] by (auto simp: find_from_def Let_def split: if_splits)
  then show ?thesis
    unfolding rest_at_def Some by simp
qed

lemma rest_after_first:
  assumes "find_from (\<lambda>c. c \<noteq> CHR '' '') msg 0 = Some start"
  shows "snd (command_words msg 0 [] (length msg)) = rest_at msg (word_end msg start)"
proof -
  let ?e = "word_end msg start"
  have "snd (command_words msg 0 [] (length msg)) =
      snd (command_words msg ?e [take (?e - start) (drop start msg)] (length msg))"
    using find_from_Some [OF assms] by (subst command_words.simps) (auto simp: assms)
  also have "\<dots> = rest_at msg ?e"
    unfolding rest_at_def by (rule command_words_rest_one) simp
  finally show ?thesis .
qed

text \<open>
  C21. The loop of OnPlayerCommand splits the message into its words exactly as the reference
  splitting does, and the text it passes on beside them is what follows the first word and the
  blanks after it, also for messages with leading, trailing or repeated blanks.
\<close>

theorem command_split:
  "fst (command_words msg 0 [] (length msg)) = tokens msg \<and>
   drop (min (snd (command_words msg 0 [] (length msg))) (length msg)) msg = after_command msg"
proof -
  have words: "fst (command_words msg 0 [] (length msg)) = tokens msg"
    using command_words_tokens [of msg 0 "[]"] by simp
  show ?thesis
  proof (cases "find_from (\<lambda>c. c \<noteq> CHR '' '') msg 0")
    case None
    then have "dropWhile blank msg = []"
      using find_from_None [OF None] by simp
    then have "after_command msg = []"
      by (simp only: after_command_def) simp
    moreover have "snd (command_words msg 0 [] (length msg)) = length msg"
      by (subst command_words.simps) (simp add: None)
    ultimately show ?thesis
      using words by simp
  next
    case (Some start)
    have "dropWhile blank msg = drop start msg" "start \<le> length msg"
      using find_from_Some [OF Some] by simp_all
    then have "after_command msg = dropWhile blank (drop (word_end msg start) msg)"
      by (simp only: after_command_def word_at(1))
    then show ?thesis
      using words by (simp add: rest_after_first [OF Some] drop_rest_at)
  qed
qed

end
