(* ===== verification/Pool_Refinement.thy ===== *)
theory Pool_Refinement
  imports Entity_Pool
begin

text \<open>
  What a pool promises, without slots and generations: each id has had a number of lifetimes,
  and at most one of them is current. A lifetime is named by its number, which never wraps.
  The pool implements this: every operation of the pool corresponds to an operation of the
  specification, and a handle is valid exactly while the lifetime it names is current.
\<close>

record Lifetimes =
  born :: "int \<Rightarrow> nat"             \<comment> \<open>how many lifetimes an id has had\<close>
  current :: "int \<Rightarrow> nat option"   \<comment> \<open>the lifetime that is running\<close>

definition no_lifetimes :: Lifetimes where
  "no_lifetimes = \<lparr>born = (\<lambda>_. 0), current = (\<lambda>_. None)\<rparr>"

definition begin_life :: "EntityKind \<Rightarrow> int \<Rightarrow> Lifetimes \<Rightarrow> Lifetimes" where
  "begin_life k i a =
     (if first_id (Traits k) \<le> i \<and> i < capacity (Traits k) \<and> current a i = None
      then \<lparr>born = (born a)(i := born a i + 1), current = (current a)(i := Some (born a i + 1))\<rparr>
      else a)"

definition end_life :: "int \<Rightarrow> Lifetimes \<Rightarrow> Lifetimes" where
  "end_life i a = a\<lparr>current := (current a)(i := None)\<rparr>"

text \<open>Only adopting and releasing begin and end a lifetime; the other operations do neither.\<close>

fun spec_step :: "EntityKind \<Rightarrow> Lifetimes \<Rightarrow> pool_op \<Rightarrow> Lifetimes" where
  "spec_step k a (OpAdopt i) = begin_life k i a"
| "spec_step k a (OpRelease i) = end_life i a"
| "spec_step k a _ = a"

definition spec_run :: "EntityKind \<Rightarrow> pool_op list \<Rightarrow> Lifetimes" where
  "spec_run k ops = foldl (spec_step k) no_lifetimes ops"

definition life_ok :: "EntityPool \<Rightarrow> Lifetimes \<Rightarrow> int \<Rightarrow> bool" where
  "life_ok p a i \<longleftrightarrow>
     (if InRange p i
      then generation (Slot p i) = of_nat (born a i) \<and>
           current a i = (if alive (Slot p i) then Some (born a i) else None)
      else current a i = None)"

definition implements :: "EntityPool \<Rightarrow> Lifetimes \<Rightarrow> bool" where
  "implements p a \<longleftrightarrow> pool_wf p \<and> (\<forall>i. life_ok p a i)"

lemma implements_new: "implements (new_pool k) no_lifetimes"
proof -
  have "Slot (new_pool k) i = empty_slot" if "InRange (new_pool k) i" for i
    using that by (simp add: Slot_def new_pool_def slot_index_def InRange_def)
  then show ?thesis
    by (simp add: implements_def life_ok_def pool_wf_new_pool no_lifetimes_def empty_slot_def)
qed

text \<open>The other operations keep which slots are alive and their generation.\<close>

fun about_lives :: "pool_op \<Rightarrow> bool" where
  "about_lives (OpAdopt i) = True"
| "about_lives (OpRelease i) = True"
| "about_lives _ = False"

lemma step_keeps:
  assumes "pool_wf p" "InRange p i" "\<not> about_lives c"
  shows "generation (Slot (pool_step p c) i) = generation (Slot p i) \<and>
    alive (Slot (pool_step p c) i) = alive (Slot p i)"
  using assms
  by (cases c) (auto simp: MarkCreatedByUs_def Push_def Data_def SetData_def SetTag_def Let_def
      Slot_put_slot Slot_ReleaseRefs Alive_def Valid_def split: option.split sum.split)

lemma life_ok_Adopt:
  assumes "pool_wf p" "life_ok p a i" "life_ok p a j"
  shows "life_ok (Adopt p i) (begin_life (pool_kind p) i a) j"
proof (cases "InRange p i")
  case True
  then show ?thesis
    using assms by (auto simp: life_ok_def Adopt_def begin_life_def Let_def Slot_put_slot InRange_def)
next
  case False
  then show ?thesis
    using assms(3) by (auto simp: Adopt_def begin_life_def InRange_def)
qed

lemma life_ok_Release:
  assumes "pool_wf p" "life_ok p a i" "life_ok p a j"
  shows "life_ok (Release p i) (end_life i a) j"
proof (cases "Alive p i")
  case True
  then have "InRange p i"
    by (rule Alive_InRange)
  with True show ?thesis
    using assms by (auto simp: life_ok_def Release_def end_life_def Slot_put_slot)
next
  case False
  then have "end_life i a = a"
    using assms(2) by (auto simp: life_ok_def end_life_def Alive_def fun_eq_iff split: if_splits)
  with False show ?thesis
    using assms(3) by (simp add: Release_def)
qed

lemma implements_step:
  assumes "implements p a"
  shows "implements (pool_step p c) (spec_step (pool_kind p) a c)"
proof (cases "about_lives c")
  case False
  then have "spec_step (pool_kind p) a c = a"
    by (cases c) simp_all
  with False assms show ?thesis
    using step_keeps [of p _ c] by (simp add: implements_def life_ok_def pool_wf_step)
next
  case True
  then obtain i where c: "c = OpAdopt i \<or> c = OpRelease i"
    by (cases c) auto
  with assms show ?thesis
    by (auto simp: implements_def pool_wf_Adopt pool_wf_Release life_ok_Adopt life_ok_Release)
qed

lemma implements_run: "implements (pool_run (new_pool k) cs) (spec_run k cs)"
proof (induction cs rule: rev_induct)
  case Nil
  show ?case
    by (simp add: pool_run_def spec_run_def implements_new)
next
  case (snoc c cs)
  have "pool_kind (pool_run (new_pool k) cs) = k"
    unfolding pool_run_def by (induction cs rule: rev_induct) simp_all
  with implements_step [OF snoc, of c] show ?case
    by (simp add: pool_run_def spec_run_def)
qed

lemma valid_current:
  assumes "implements p a" "n \<le> born a i" "born a i - n < 2 ^ 32"
  shows "Valid p i (of_nat n) \<longleftrightarrow> current a i = Some n"
proof -
  have "(of_nat (born a i) :: u32) = of_nat n \<longleftrightarrow> n = born a i"
  proof
    assume "(of_nat (born a i) :: u32) = of_nat n"
    then have "(of_nat (born a i - n) :: u32) = 0"
      using assms(2) by (simp add: of_nat_diff)
    then show "n = born a i"
      using of_nat_word_zero_small [of "born a i - n", where 'a = 32] assms(2,3) by simp
  qed simp
  moreover have "life_ok p a i"
    using assms(1) by (simp add: implements_def)
  ultimately show ?thesis
    by (auto simp: life_ok_def Valid_def Alive_def split: if_splits)
qed

text \<open>
  C24. The pool refines the lifetimes. After any sequence of operations on a new pool, the pool
  implements the state that the same operations give the specification, and a handle with the
  generation of lifetime \<open>n\<close> is valid exactly when \<open>n\<close> is the current lifetime of its id, for
  every lifetime that lies fewer than \<open>2 ^ 32\<close> lifetimes back.
\<close>

theorem pool_refines_lifetimes:
  assumes "n \<le> born (spec_run k cs) i" and "born (spec_run k cs) i - n < 2 ^ 32"
  shows "implements (pool_run (new_pool k) cs) (spec_run k cs) \<and>
    (Valid (pool_run (new_pool k) cs) i (of_nat n) \<longleftrightarrow> current (spec_run k cs) i = Some n)"
  using implements_run valid_current [OF implements_run assms] by blast

theorem pool_refines_lifetimes_witness:
  "\<not> Valid (pool_run (new_pool Vehicle) [OpAdopt 5, OpRelease 5, OpAdopt 5]) 5 (of_nat 1)"
  using pool_refines_lifetimes [of 1 Vehicle "[OpAdopt 5, OpRelease 5, OpAdopt 5]" 5]
  by (simp add: spec_run_def begin_life_def end_life_def no_lifetimes_def)

end
