(* ===== verification/Shutdown_Reload.thy ===== *)
theory Shutdown_Reload
  imports Player_Lifetime
begin

text \<open>
  How a runtime ends: a shutdown that the server reports between callbacks leaves no runtime,
  and a reload whose configuration and Lua setup succeed replaces the runtime by a new one.
\<close>

context lua_host
begin

lemma shutdown_callback:
  assumes "settled s"
  shows "wp (server_callback w ServerShutdownNow) (\<lambda>_ s'. runtime s' = None) s"
proof (cases "runtime s")
  case (Some rt)
  have rest: "resting s"
    using assms by (simp add: settled_def)
  then have "\<not> InLuaCall rt"
    using Some by (simp add: resting_Some outside_def InLuaCall_def)
  moreover have "wp (FinishShutdown w) (\<lambda>_ s'. runtime s' = None) s"
    using wp_FinishShutdown [OF rest] Some by (auto elim!: wp_mono)
  ultimately show ?thesis
    using Some by (simp add: no_answer_def OnServerShutdown_def) (auto elim!: wp_mono split: outcome.split)
qed (simp add: no_answer_def OnServerShutdown_def)

lemma wp_reload:
  assumes s: "resting s" "runtime s = Some rt"
    and "LoadConfig (config_reader w s) (config_run w s) = Inr (c, warnings)" "setup_state w s = Inr ()"
  shows "wp (Reload w (rid rt)) (\<lambda>_ s'. \<exists>rt'. runtime s' = Some rt' \<and> rid rt' = next_rid s \<and> config rt' = c) s"
proof -
  let ?n = "new_runtime (next_rid s) c"
  have fresh: "make_fresh w s = (Ret (Inr ?n), s\<lparr>next_rid := next_rid s + 1\<rparr>)"
    using assms(3,4)
    by (simp add: make_fresh_def ReadConfig_file_def make_runtime_def try_catch_def bind_def query_def of_res_def
        ret_def change_def)
  have load: "wp (LoadScripts w (next_rid s)) (\<lambda>_ s''. \<exists>rt'. runtime s'' = Some rt' \<and> rid rt' = next_rid s \<and> config rt' = c) s'"
    if s': "runtime s' = Some ?n" "resting s'" for s'
  proof -
    have "good outside (rid ?n) (LoadScripts w (rid ?n))"
      by (rule good_LoadScripts) simp
    then have "wp (LoadScripts w (rid ?n)) (\<lambda>_ s''. resting s'' \<and> step_ok s' s'') s'"
      by (rule wp_resting [OF _ s'(2,1) refl])
    then show ?thesis
      using s'(1) by (auto elim!: wp_mono simp: step_ok_def ext_def rt_ext_def new_runtime_def)
  qed
  let ?s1 = "s\<lparr>next_rid := next_rid s + 1\<rparr>"
  have s1: "resting ?s1" "runtime ?s1 = Some rt"
    using s by (simp_all add: resting_def host_inv_def)
  have "resting (?s1\<lparr>deleted := d, errors := e, runtime := Some ?n\<rparr>)" for d e
    using rt_wf_new [of "next_rid s" c] by (simp add: resting_Some outside_def)
  then have "wp (bind (take_down ShutdownReload) (\<lambda>_. bind (change (\<lambda>s. s\<lparr>runtime := Some ?n\<rparr>)) (\<lambda>_. LoadScripts w (next_rid s))))
      (\<lambda>_ s'. \<exists>rt'. runtime s' = Some rt' \<and> rid rt' = next_rid s \<and> config rt' = c) ?s1"
    using s1 by (simp add: wp_take_down load)
  then show ?thesis
    unfolding Reload_def wp_bind [of "make_fresh w"] wp_def [of "make_fresh w"] fresh
    by (simp add: new_runtime_def del: wp_bind)
qed

end

text \<open>
  C15. A reload that reads its configuration and sets up its Lua state leaves a runtime with a
  new number and the new configuration, whatever the new scripts do while they are loaded: the
  old runtime is gone, so no pointer to it is a pointer to the new one.
\<close>

theorem reload_replaces_runtime:
  assumes "resting s" and "runtime s = Some rt"
    and "LoadConfig (config_reader w s) (config_run w s) = Inr (c, warnings)" and "setup_state w s = Inr ()"
  shows "\<exists>rt'. runtime (snd (Reload (scripted l w n) (rid rt) s)) = Some rt' \<and>
    rid rt' = next_rid s \<and> rid rt' \<noteq> rid rt \<and> config rt' = c"
proof -
  have "rid rt < next_rid s"
    using assms(1,2) by (simp add: resting_def host_inv_def)
  moreover have "LoadConfig (config_reader (scripted l w n) s) (config_run (scripted l w n) s) = Inr (c, warnings)"
    "setup_state (scripted l w n) s = Inr ()"
    using assms(3,4) by (simp_all add: scripted_def Let_def)
  ultimately show ?thesis
    using scripts.wp_reload [OF assms(1,2), where l = l and w = w and n = n] by (fastforce simp: wp_def)
qed

theorem reload_replaces_runtime_witness:
  "\<exists>rt'. runtime (snd (Reload (scripted demo_lua demo_world 2) 0 demo_state)) = Some rt' \<and> rid rt' = 1"
proof -
  obtain rt where rt: "runtime demo_state = Some rt" "rid rt = 0" "next_rid demo_state = 1" "depth rt = 0"
    by (simp add: demo_state_def new_runtime_def)
  have rest: "resting demo_state"
    using host_inv_demo rt by (simp add: resting_def outside_def)
  have "\<not> isl (LoadConfig demo_reader (Returned (LTab 0)))"
    by code_simp
  moreover have ready: "setup_state demo_world demo_state = Inr ()"
    by (simp add: demo_world_def)
  ultimately obtain c warnings where "LoadConfig (config_reader demo_world demo_state) (config_run demo_world demo_state) = Inr (c, warnings)"
    by (cases "LoadConfig demo_reader (Returned (LTab 0))") (auto simp: demo_world_def)
  then show ?thesis
    using reload_replaces_runtime [OF rest rt(1), where w = demo_world and l = demo_lua and n = 2] rt ready
    by auto
qed

end
