(* ===== verification/Hash.thy ===== *)
theory Hash
  imports Server_Call Http
begin

text \<open>
  The module Hash (\<^verbatim>\<open>src/src/modules/hash.cpp\<close>): lower-case hex, and the functions on top of
  OpenSSL and digestpp with their argument checks. The two libraries are parameters, the
  fields of the record \<open>Crypto\<close>; \<open>None\<close> is a call that reports failure. A byte is a
  character, a digest is named by its name.
\<close>

unbundle bit_operations_syntax

record Crypto =
  EVP_MD_fetch :: "string \<Rightarrow> bool"    \<comment> \<open>whether the digest is available\<close>
  HMAC :: "string \<Rightarrow> string \<Rightarrow> int \<Rightarrow> string \<Rightarrow> string option"    \<comment> \<open>digest, key, its size, data\<close>
  PBKDF2_HMAC :: "string \<Rightarrow> int \<Rightarrow> string \<Rightarrow> int \<Rightarrow> int \<Rightarrow> string \<Rightarrow> int \<Rightarrow> string option"
  PBE_scrypt :: "string \<Rightarrow> string \<Rightarrow> u64 \<Rightarrow> u64 \<Rightarrow> u64 \<Rightarrow> nat \<Rightarrow> string option"
  RAND_bytes :: "int \<Rightarrow> string option"
  hexdigest :: "string \<Rightarrow> string \<Rightarrow> string"    \<comment> \<open>digestpp: algorithm, input\<close>
  hexsqueeze :: "string \<Rightarrow> string \<Rightarrow> string \<Rightarrow> nat \<Rightarrow> string"    \<comment> \<open>digestpp: algorithm, key, input, size\<close>

section \<open>Hex\<close>

definition kDigits :: string where "kDigits = ''0123456789abcdef''"

definition hex_byte :: "char \<Rightarrow> string" where
  "hex_byte ch =
     (let b = of_nat (of_char ch) :: u8 in [kDigits ! unat (drop_bit 4 b), kDigits ! unat (b AND 0x0f)])"

definition Hex :: "string \<Rightarrow> string" where
  "Hex bytes = concat (map hex_byte bytes)"

section \<open>The functions\<close>

definition kDigests :: "string list" where
  "kDigests = [''md5'', ''sha1'', ''sha224'', ''sha256'', ''sha384'', ''sha512'', ''sha3-256'', ''sha3-512'']"

definition kMaxOutput :: int where "kMaxOutput = 1024"
definition kMaxRandom :: int where "kMaxRandom = 1048576"
definition kMaxIterations :: int where "kMaxIterations = 10000000"

definition string_at :: "Frame \<Rightarrow> int \<Rightarrow> string res" where
  "string_at f i = CheckString (n2s f) (f_dbg f) i (at_index f i)"

definition integer_at :: "Frame \<Rightarrow> int \<Rightarrow> int \<Rightarrow> int \<Rightarrow> int res" where
  "integer_at f i lo hi = CheckInteger (f_dbg f) i (at_index f i) lo hi"

definition CheckDigest :: "Crypto \<Rightarrow> Frame \<Rightarrow> int \<Rightarrow> string res" where
  "CheckDigest lib f i =
     res_bind (if noneornil (at_index f i) then Inr ''sha256'' else string_at f i) (\<lambda>name.
       if name \<in> set kDigests \<and> EVP_MD_fetch lib name then Inr name
       else Inl (ArgError (f_dbg f) i (''unknown digest '' @ quoted name
         @ '' (use md5, sha1, sha224, sha256, sha384, sha512, sha3-256 or sha3-512)'')))"

text \<open>\<^verbatim>\<open>static_cast<int>\<close> of a size.\<close>

definition int_size :: "string \<Rightarrow> int" where
  "int_size s = sint (of_nat (length s) :: 32 word)"

definition or_throw :: "string option \<Rightarrow> string \<Rightarrow> string res" where
  "or_throw x text = (case x of None \<Rightarrow> Inl (Runtime_error text) | Some bytes \<Rightarrow> Inr bytes)"

definition Digest :: "Crypto \<Rightarrow> string \<Rightarrow> Frame \<Rightarrow> string res" where
  "Digest lib hasher f = res_bind (string_at f 1) (\<lambda>input. Inr (hexdigest lib hasher input))"

definition KeyedXof :: "Crypto \<Rightarrow> string \<Rightarrow> Frame \<Rightarrow> string res" where
  "KeyedXof lib hasher f =
     res_bind (string_at f 1) (\<lambda>key. res_bind (string_at f 2) (\<lambda>input. Inr (hexsqueeze lib hasher key input 64)))"

definition Hmac :: "Crypto \<Rightarrow> Frame \<Rightarrow> string res" where
  "Hmac lib f =
     res_bind (CheckDigest lib f 1) (\<lambda>md.
     res_bind (string_at f 2) (\<lambda>key.
     res_bind (string_at f 3) (\<lambda>input.
     res_bind (or_throw (HMAC lib md key (int_size key) input) ''Hash.hmac failed'') (\<lambda>bytes.
       Inr (Hex bytes)))))"

definition Pbkdf2 :: "Crypto \<Rightarrow> Frame \<Rightarrow> string res" where
  "Pbkdf2 lib f =
     res_bind (string_at f 1) (\<lambda>password.
     res_bind (string_at f 2) (\<lambda>salt.
     res_bind (integer_at f 3 1 kMaxIterations) (\<lambda>iterations.
     res_bind (integer_at f 4 1 kMaxOutput) (\<lambda>len.
     res_bind (CheckDigest lib f 5) (\<lambda>md.
     res_bind (or_throw (PBKDF2_HMAC lib password (int_size password) salt (int_size salt) iterations md len)
       ''Hash.pbkdf2 failed'') (\<lambda>bytes.
       Inr (Hex bytes)))))))"

definition scrypt_run :: "Crypto \<Rightarrow> Frame \<Rightarrow> string \<Rightarrow> string \<Rightarrow> u64 \<Rightarrow> u64 \<Rightarrow> u64 \<Rightarrow> nat \<Rightarrow> string res" where
  "scrypt_run lib f password salt n r p len =
     (if (n AND (n - 1)) \<noteq> 0 then Inl (ArgError (f_dbg f) 3 ''N must be a power of two'')
      else res_bind (or_throw (PBE_scrypt lib password salt n r p len)
             ''Hash.scrypt: the parameters need too much memory (N * r * 128 bytes, at most 32 MiB)'') (\<lambda>bytes.
           Inr (Hex bytes)))"

definition Scrypt :: "Crypto \<Rightarrow> Frame \<Rightarrow> string res" where
  "Scrypt lib f =
     res_bind (string_at f 1) (\<lambda>password.
     res_bind (string_at f 2) (\<lambda>salt.
     res_bind (integer_at f 3 2 (2 ^ 30)) (\<lambda>n.
     res_bind (integer_at f 4 1 65536) (\<lambda>r.
     res_bind (integer_at f 5 1 65536) (\<lambda>p.
     res_bind (integer_at f 6 1 kMaxOutput) (\<lambda>len.
       scrypt_run lib f password salt (word_of_int n) (word_of_int r) (word_of_int p) (nat len)))))))"

definition RandomBytes :: "Crypto \<Rightarrow> Frame \<Rightarrow> string res" where
  "RandomBytes lib f =
     res_bind (integer_at f 1 0 kMaxRandom) (\<lambda>count.
       if count > 0 then or_throw (RAND_bytes lib count) ''Hash.randomBytes: the random generator failed''
       else Inr [])"

definition ToHex :: "Frame \<Rightarrow> string res" where
  "ToHex f = res_bind (string_at f 1) (\<lambda>bytes. Inr (Hex bytes))"

text \<open>\<^verbatim>\<open>CRYPTO_memcmp\<close> returns 0 exactly for equal memory; it is called for equal sizes only.\<close>

definition Equals :: "Frame \<Rightarrow> bool res" where
  "Equals f = res_bind (string_at f 1) (\<lambda>a. res_bind (string_at f 2) (\<lambda>b. Inr (length a = length b \<and> a = b)))"

text \<open>The table Hash, as the state gets it.\<close>

definition text_result :: "string res \<Rightarrow> lval res" where
  "text_result r = map_sum id LStr r"

definition RegisterHash :: "Crypto \<Rightarrow> (string \<times> (Frame \<Rightarrow> lval res)) list" where
  "RegisterHash lib = [
   (''MD5'', \<lambda>f. text_result (Digest lib ''md5'' f)),
   (''SHA1'', \<lambda>f. text_result (Digest lib ''sha1'' f)),
   (''SHA256'', \<lambda>f. text_result (Digest lib ''sha256'' f)),
   (''SHA512'', \<lambda>f. text_result (Digest lib ''sha512'' f)),
   (''Whirlpool'', \<lambda>f. text_result (Digest lib ''whirlpool'' f)),
   (''KMAC256'', \<lambda>f. text_result (KeyedXof lib ''kmac256_xof'' f)),
   (''SKEIN256'', \<lambda>f. text_result (KeyedXof lib ''skein256_xof'' f)),
   (''SKEIN512'', \<lambda>f. text_result (KeyedXof lib ''skein512_xof'' f)),
   (''hmac'', \<lambda>f. text_result (Hmac lib f)),
   (''pbkdf2'', \<lambda>f. text_result (Pbkdf2 lib f)),
   (''scrypt'', \<lambda>f. text_result (Scrypt lib f)),
   (''randomBytes'', \<lambda>f. text_result (RandomBytes lib f)),
   (''toHex'', \<lambda>f. text_result (ToHex f)),
   (''equals'', \<lambda>f. map_sum id LBool (Equals f))]"

section \<open>Hex can be read back\<close>

definition hex_value :: "char \<Rightarrow> nat option" where
  "hex_value ch = (let n = of_char ch :: nat in
     if 48 \<le> n \<and> n \<le> 57 then Some (n - 48) else if 97 \<le> n \<and> n \<le> 102 then Some (n - 87) else None)"

fun unhex :: "string \<Rightarrow> string option" where
  "unhex [] = Some []"
| "unhex (a # b # xs) =
     (case (hex_value a, hex_value b, unhex xs) of
        (Some hi, Some lo, Some s) \<Rightarrow> Some (char_of (16 * hi + lo) # s)
      | _ \<Rightarrow> None)"
| "unhex [_] = None"

lemma hex_digit: "n < 16 \<Longrightarrow> hex_value (kDigits ! n) = Some n"
  by (simp add: less_Suc_eq numeral_eq_Suc hex_value_def kDigits_def) auto

lemma hex_nibbles:
  fixes ch :: char
  defines "b \<equiv> of_nat (of_char ch) :: u8"
  shows "unat (drop_bit 4 b) = of_char ch div 16" "unat (b AND 0x0f) = of_char ch mod 16"
proof -
  have b: "unat b = of_char ch"
    unfolding b_def by (simp add: unat_of_nat)
  show "unat (drop_bit 4 b) = of_char ch div 16"
    by (simp only: unsigned_drop_bit_eq) (simp add: drop_bit_eq_div b take_bit_nat_eq_self)
  have "(b AND 0x0f) = take_bit 4 b"
    by (simp add: take_bit_eq_mask mask_eq_exp_minus_1)
  then show "unat (b AND 0x0f) = of_char ch mod 16"
    by (simp only: unsigned_take_bit_eq) (simp add: take_bit_eq_mod b)
qed

lemma hex_byte_eq: "hex_byte ch = [kDigits ! (of_char ch div 16), kDigits ! (of_char ch mod 16)]"
  unfolding hex_byte_def Let_def hex_nibbles ..

lemma nibble_bound: "of_char ch div 16 < (16 :: nat)"
  using nat_of_char_less_256 [of ch] by (simp add: less_mult_imp_div_less)

lemma unhex_Hex: "unhex (Hex s) = Some s"
proof (induction s)
  case (Cons ch s)
  then show ?case
    by (simp add: Hex_def hex_byte_eq hex_digit nibble_bound mult.commute)
qed (simp add: Hex_def)

text \<open>
  Hex loses nothing: for every byte string the text has two lower-case hex digits for each
  byte, and reading them back gives the string.
\<close>

theorem Hex_round_trip:
  "unhex (Hex s) = Some s \<and> length (Hex s) = 2 * length s \<and> set (Hex s) \<subseteq> set kDigits"
proof -
  have "length kDigits = 16"
    by (simp add: kDigits_def)
  then have "set (hex_byte ch) \<subseteq> set kDigits" for ch
    using nibble_bound [of ch] by (auto simp: hex_byte_eq)
  then show ?thesis
    unfolding Hex_def by (auto simp: unhex_Hex [unfolded Hex_def] length_concat hex_byte_eq comp_def sum_list_triv)
qed
section \<open>The parameters of scrypt\<close>

text \<open>The test that clears the lowest bit finds exactly the powers of two.\<close>

lemma and_pred_even: "0 < (m::nat) \<Longrightarrow> (2 * m AND (2 * m - 1)) = 2 * (m AND (m - 1))"
proof -
  assume "0 < m"
  then have e: "2 * m - 1 = Suc (2 * (m - 1))" by simp
  show ?thesis
    unfolding e by (subst and_nat_rec) simp
qed
lemma and_pred_odd: "(Suc (2 * m) AND (Suc (2 * m) - 1)) = 2 * (m::nat)"
  by (subst and_nat_rec) simp

lemma pow2_double: "(\<exists>k. 2 * m = 2 ^ k) \<longleftrightarrow> (\<exists>k. m = 2 ^ k)" if "0 < (m :: nat)"
proof
  assume "\<exists>k. 2 * m = 2 ^ k"
  then obtain k where k: "2 * m = 2 ^ k" ..
  then have "k \<noteq> 0" using that by (cases k) auto
  with k show "\<exists>k. m = 2 ^ k" by (cases k) auto
qed (metis power_Suc)

lemma pow2: "0 < (n::nat) \<Longrightarrow> (n AND (n - 1)) = 0 \<longleftrightarrow> (\<exists>k. n = 2 ^ k)"
proof (induction n rule: less_induct)
  case (less n)
  show ?case
  proof (cases "even n")
    case True
    then obtain m where m: "n = 2 * m" by (elim evenE)
    with less.prems have "0 < m" by simp
    then show ?thesis
      using less.IH [of m] m by (simp add: and_pred_even pow2_double del: One_nat_def)
  next
    case False
    then obtain m where m: "n = Suc (2 * m)" by (elim oddE) simp
    have "(\<exists>k. n = 2 ^ k) \<longleftrightarrow> m = 0"
    proof
      assume "\<exists>k. n = 2 ^ k"
      then obtain k where "n = 2 ^ k" ..
      with m show "m = 0" by (cases k) (auto, presburger)
    next
      assume "m = 0"
      with m have "n = 2 ^ 0" by simp
      then show "\<exists>k. n = 2 ^ k" ..
    qed
    then show ?thesis
      unfolding m and_pred_odd using m by simp
  qed
qed

lemma pow2_word:
  assumes "2 \<le> n" "n \<le> 2 ^ 30"
  shows "((word_of_int n :: u64) AND (word_of_int n - 1)) = 0 \<longleftrightarrow> (\<exists>k. n = 2 ^ k)"
proof -
  let ?w = "word_of_int n :: u64"
  have n: "uint ?w = n"
    using assms by (simp add: unsigned_of_int take_bit_int_eq_self)
  then have "1 \<le> ?w"
    using assms by (simp add: word_le_def)
  moreover have u: "unat ?w = nat n"
    using n by (simp flip: nat_uint_eq)
  ultimately have v: "unat (?w - 1) = nat n - 1"
    by (simp add: unat_sub)
  have "(?w AND (?w - 1)) = 0 \<longleftrightarrow> unat (?w AND (?w - 1)) = 0"
    by (simp add: unat_eq_zero)
  also have "\<dots> \<longleftrightarrow> (nat n AND (nat n - 1)) = 0"
    by (simp only: unsigned_and_eq u v)
  also have "\<dots> \<longleftrightarrow> (\<exists>k. nat n = 2 ^ k)"
    using assms by (intro pow2) simp
  also have "\<dots> \<longleftrightarrow> (\<exists>k. n = 2 ^ k)"
    using assms by (auto simp: nat_eq_iff2)
  finally show ?thesis .
qed

lemma or_throw_Inr: "or_throw x text = Inr y \<longleftrightarrow> x = Some y"
  by (simp add: or_throw_def split: option.split)

lemma integer_at_range: "integer_at f i lo hi = Inr n \<Longrightarrow> lo \<le> n \<and> n \<le> hi"
  by (simp add: integer_at_def CheckInteger_Inr)

lemma scrypt_run_Inr:
  assumes "scrypt_run lib f password salt n r p len = Inr y"
  shows "(n AND (n - 1)) = 0" "\<exists>bytes. PBE_scrypt lib password salt n r p len = Some bytes \<and> y = Hex bytes"
  using assms by (auto simp: scrypt_run_def res_bind_Inr or_throw_Inr split: if_splits)

lemma power_of_two_arg:
  assumes "integer_at f 3 2 (2 ^ 30) = Inr n"
  shows "((word_of_int n :: u64) AND (word_of_int n - 1)) = 0 \<longleftrightarrow> (\<exists>k. n = 2 ^ k \<and> 1 \<le> k \<and> k \<le> 30)"
proof -
  have n: "2 \<le> n" "n \<le> 2 ^ 30"
    using integer_at_range [OF assms] by simp_all
  have "1 \<le> k \<and> k \<le> 30" if "n = 2 ^ k" for k
  proof -
    have "(2 :: int) ^ 1 \<le> 2 ^ k" "(2 :: int) ^ k \<le> 2 ^ 30"
      using n that by simp_all
    then show ?thesis
      using power_le_imp_le_exp [of "2 :: int" 1 k] power_le_imp_le_exp [of "2 :: int" k 30] by simp
  qed
  then show ?thesis
    using pow2_word [OF n] by blast
qed

text \<open>
  C39. Hash.scrypt returns exactly when its arguments are two strings, an N that is a power of
  two from 2 to 1073741824, r and p from 1 to 65536 and a length from 1 to 1024, and the library accepts
  them; it passes these numbers on unchanged and returns the hex of what the library gives.
\<close>

theorem scrypt_accepts_exactly:
  "Scrypt lib f = Inr out_text \<longleftrightarrow>
    (\<exists>password salt k r p len bytes.
       string_at f 1 = Inr password \<and> string_at f 2 = Inr salt \<and>
       integer_at f 3 2 (2 ^ 30) = Inr (2 ^ k) \<and> 1 \<le> k \<and> k \<le> 30 \<and>
       integer_at f 4 1 65536 = Inr r \<and> integer_at f 5 1 65536 = Inr p \<and> integer_at f 6 1 1024 = Inr len \<and>
       PBE_scrypt lib password salt (2 ^ k) (word_of_int r) (word_of_int p) (nat len) = Some bytes \<and>
       out_text = Hex bytes)" (is "_ \<longleftrightarrow> ?spec")
proof
  assume "Scrypt lib f = Inr out_text"
  then obtain password salt n r p len where
    args: "string_at f 1 = Inr password" "string_at f 2 = Inr salt" "integer_at f 3 2 (2 ^ 30) = Inr n"
      "integer_at f 4 1 65536 = Inr r" "integer_at f 5 1 65536 = Inr p" "integer_at f 6 1 1024 = Inr len"
    and run: "scrypt_run lib f password salt (word_of_int n) (word_of_int r) (word_of_int p) (nat len) = Inr out_text"
    by (auto simp: Scrypt_def res_bind_Inr kMaxOutput_def)
  obtain k where "n = 2 ^ k" "1 \<le> k" "k \<le> 30"
    using scrypt_run_Inr [OF run] power_of_two_arg [OF args(3)] by blast
  then show ?spec
    using args scrypt_run_Inr [OF run] by auto
next
  assume ?spec
  then obtain password salt k r p len bytes where
    args: "string_at f 1 = Inr password" "string_at f 2 = Inr salt" "integer_at f 3 2 (2 ^ 30) = Inr (2 ^ k)"
      "1 \<le> k" "k \<le> 30" "integer_at f 4 1 65536 = Inr r" "integer_at f 5 1 65536 = Inr p" "integer_at f 6 1 1024 = Inr len"
    and lib: "PBE_scrypt lib password salt (2 ^ k) (word_of_int r) (word_of_int p) (nat len) = Some bytes"
      "out_text = Hex bytes"
    by blast
  then show "Scrypt lib f = Inr out_text"
    using power_of_two_arg [OF args(3)]
    by (simp add: Scrypt_def scrypt_run_def kMaxOutput_def res_bind_def or_throw_def)
qed

end
