(* ===== verification/Logging.thy ===== *)
theory Logging
  imports Config Server_Call
begin

text \<open>
  The log (\<^verbatim>\<open>src/src/runtime/log.cpp\<close>, \<^verbatim>\<open>log.hpp\<close>) and the table Logger
  (\<^verbatim>\<open>src/src/bindings/logger.cpp\<close>). spdlog is a parameter: a sink is an object with an address,
  opening a log file gives an error text or succeeds, and the lines given to the logger are
  a history. What a sink prints and which lines the level keeps back is spdlog's.
\<close>

section \<open>The log\<close>

record Sink =
  sink_address :: nat
  sink_file :: "(string \<times> bool) option"    \<comment> \<open>file name and daily rotation; \<open>None\<close> for the console\<close>

record Logger =
  lg_level :: level
  lg_sinks :: "Sink list"

record Log =
  g_logger :: "Logger option"
  g_file_sink :: "nat option"
  next_sink :: nat
  lines :: "(level \<times> string) list"

definition fresh_log :: Log where
  "fresh_log = \<lparr>g_logger = None, g_file_sink = None, next_sink = 0, lines = []\<rparr>"

definition log_Init :: "Log \<Rightarrow> Log" where
  "log_Init s =
     (case g_logger s of
        Some _ \<Rightarrow> s
      | None \<Rightarrow> s\<lparr>g_logger := Some \<lparr>lg_level = Info, lg_sinks = [\<lparr>sink_address = next_sink s, sink_file = None\<rparr>]\<rparr>,
                  next_sink := next_sink s + 1\<rparr>)"

definition log_SetLevel :: "level \<Rightarrow> Log \<Rightarrow> Log" where
  "log_SetLevel level s =
     (case g_logger s of None \<Rightarrow> s | Some l \<Rightarrow> s\<lparr>g_logger := Some (l\<lparr>lg_level := level\<rparr>)\<rparr>)"

definition log_Write :: "level \<Rightarrow> string \<Rightarrow> Log \<Rightarrow> Log" where
  "log_Write level line s =
     (case g_logger s of None \<Rightarrow> s | Some _ \<Rightarrow> s\<lparr>lines := lines s @ [(level, line)]\<rparr>)"

definition log_Debug :: "string \<Rightarrow> Log \<Rightarrow> Log" where "log_Debug = log_Write Debug"

definition log_Info :: "string \<Rightarrow> Log \<Rightarrow> Log" where "log_Info = log_Write Info"

definition log_Warn :: "string \<Rightarrow> Log \<Rightarrow> Log" where "log_Warn = log_Write Warn"

definition log_Error :: "string \<Rightarrow> Log \<Rightarrow> Log" where "log_Error = log_Write Err"

text \<open>\<^verbatim>\<open>std::erase_if\<close> on the sinks, by the address of the file sink.\<close>

definition without_file :: "nat option \<Rightarrow> Sink list \<Rightarrow> Sink list" where
  "without_file file sinks =
     (case file of None \<Rightarrow> sinks | Some a \<Rightarrow> filter (\<lambda>sink. sink_address sink \<noteq> a) sinks)"

definition log_Configure :: "(string \<Rightarrow> bool \<Rightarrow> string option) \<Rightarrow> Config \<Rightarrow> Log \<Rightarrow> Log" where
  "log_Configure cannot_open c s =
     (case g_logger s of
        None \<Rightarrow> s
      | Some l \<Rightarrow>
          let l' = l\<lparr>lg_level := log_level c, lg_sinks := without_file (g_file_sink s) (lg_sinks l)\<rparr>;
              s' = s\<lparr>g_logger := Some l', g_file_sink := None\<rparr> in
          if log_file c = [] then s'
          else (case cannot_open (log_file c) (log_daily c) of
                 Some e \<Rightarrow> log_Write Err (''cannot open the log file '' @ log_file c @ '': '' @ e) s'
               | None \<Rightarrow>
                   s'\<lparr>g_file_sink := Some (next_sink s), next_sink := next_sink s + 1,
                      g_logger := Some (l'\<lparr>lg_sinks := lg_sinks l' @
                        [\<lparr>sink_address = next_sink s, sink_file = Some (log_file c, log_daily c)\<rparr>]\<rparr>)\<rparr>))"

text \<open>
  The line about the libraries that the plugin logs when it starts (\<^verbatim>\<open>libraries::Versions\<close>). The
  libraries report their versions as texts, fmt and libpq as numbers.
\<close>

record LibraryVersions =
  v_lua :: string
  v_sol :: string
  v_spdlog :: "nat \<times> nat \<times> nat"
  v_fmt :: nat
  v_openssl :: string
  v_curl :: string
  v_curl_ssl :: "string option"
  v_sqlite :: string
  v_pq :: nat
  v_mariadb :: string
  v_zlib :: string

definition dotted :: "nat list \<Rightarrow> string" where
  "dotted ns = concat (case ns of [] \<Rightarrow> [] | n # ms \<Rightarrow> show_nat n # map (\<lambda>m. ''.'' @ show_nat m) ms)"

definition Versions :: "LibraryVersions \<Rightarrow> string" where
  "Versions v =
     (case v_spdlog v of (a, b, c) \<Rightarrow>
       v_lua v @ '', sol2 '' @ v_sol v @ '', spdlog '' @ dotted [a, b, c] @
       '', fmt '' @ dotted [v_fmt v div 10000, v_fmt v div 100 mod 100, v_fmt v mod 100] @ '', '' @ v_openssl v @
       '', libcurl '' @ v_curl v @ '' ('' @ (case v_curl_ssl v of Some t \<Rightarrow> t | None \<Rightarrow> ''no TLS'') @ ''), SQLite '' @ v_sqlite v @
       '', libpq '' @ dotted [v_pq v div 10000, v_pq v mod 100] @ '', MariaDB Connector/C '' @ v_mariadb v @ '', zlib '' @ v_zlib v)"

section \<open>The table Logger\<close>

definition kNumbered :: "level list" where
  "kNumbered = [Debug, Info, Warn, Err, Critical, Off]"

definition kLevelNames :: "(string \<times> level) list" where
  "kLevelNames = [(''trace'', Trace), (''debug'', Debug), (''info'', Info), (''warn'', Warn),
     (''error'', Err), (''critical'', Critical), (''off'', Off)]"

definition CheckLevel :: "Frame \<Rightarrow> int \<Rightarrow> level res" where
  "CheckLevel f i =
     (if is_number (at_index f i)
      then res_bind (CheckInteger (f_dbg f) i (at_index f i) 0 5) (\<lambda>n. Inr (kNumbered ! nat n))
      else res_bind (CheckString (n2s f) (f_dbg f) i (at_index f i)) (\<lambda>name.
           case map_of kLevelNames name of
             Some level \<Rightarrow> Inr level
           | None \<Rightarrow> Inl (ArgError (f_dbg f) i
               ''level must be trace, debug, info, warn, error, critical, off or 0-5'')))"

definition Logger_setLevel :: "Frame \<Rightarrow> Log \<Rightarrow> unit res \<times> Log" where
  "Logger_setLevel f s =
     (case CheckLevel f 1 of Inl e \<Rightarrow> (Inl e, s) | Inr level \<Rightarrow> (Inr (), log_SetLevel level s))"

definition Logger_getLevel :: "Log \<Rightarrow> string" where
  "Logger_getLevel s =
     (let level = (case g_logger s of Some l \<Rightarrow> lg_level l | None \<Rightarrow> Info) in
      case find (\<lambda>(_, value). value = level) kLevelNames of Some (name, _) \<Rightarrow> name | None \<Rightarrow> ''info'')"

definition Logger_write :: "level \<Rightarrow> Frame \<Rightarrow> Log \<Rightarrow> unit res \<times> Log" where
  "Logger_write level f s =
     (case CheckString (n2s f) (f_dbg f) 1 (at_index f 1) of
        Inl e \<Rightarrow> (Inl e, s)
      | Inr line \<Rightarrow> (Inr (), log_Write level line s))"

definition logger_functions :: "(string \<times> level) list" where
  "logger_functions = [(''debug'', Debug), (''info'', Info), (''warn'', Warn), (''error'', Err), (''critical'', Critical)]"

section \<open>Reachable logs\<close>

datatype log_op =
    Op_Init
  | Op_SetLevel level
  | Op_Write level string
  | Op_Configure "string \<Rightarrow> bool \<Rightarrow> string option" Config

fun log_step :: "log_op \<Rightarrow> Log \<Rightarrow> Log" where
  "log_step Op_Init = log_Init"
| "log_step (Op_SetLevel level) = log_SetLevel level"
| "log_step (Op_Write level line) = log_Write level line"
| "log_step (Op_Configure cannot_open c) = log_Configure cannot_open c"

definition log_run :: "log_op list \<Rightarrow> Log \<Rightarrow> Log" where
  "log_run ops s = fold log_step ops s"

text \<open>
  The console, then at most one log file, which is the one \<open>g_file_sink\<close> points to; no
  address is used twice.
\<close>

definition log_wf :: "Log \<Rightarrow> bool" where
  "log_wf s \<longleftrightarrow>
     (case g_logger s of
        None \<Rightarrow> g_file_sink s = None
      | Some l \<Rightarrow>
          (case g_file_sink s of
             None \<Rightarrow> (\<exists>c. lg_sinks l = [c] \<and> sink_file c = None \<and> sink_address c < next_sink s)
           | Some a \<Rightarrow>
               (\<exists>c file. lg_sinks l = [c, \<lparr>sink_address = a, sink_file = Some file\<rparr>] \<and> sink_file c = None \<and>
                  sink_address c < a \<and> a < next_sink s)))"

lemma log_wf_step: "log_wf s \<Longrightarrow> log_wf (log_step op s)"
  by (cases op)
     (auto simp: log_wf_def log_Init_def log_SetLevel_def log_Write_def log_Configure_def without_file_def Let_def
       split: option.splits)

interpretation the_log: machine "\<lambda>s op. log_step op s" log_wf
  by unfold_locales (rule log_wf_step)

lemma log_wf_run: "log_wf s \<Longrightarrow> log_wf (log_run ops s)"
  unfolding log_run_def by (rule the_log.wf_fold)

lemma log_wf_fresh: "log_wf fresh_log"
  by (simp add: log_wf_def fresh_log_def)

lemma without_file_wf:
  "\<lbrakk>log_wf s; g_logger s = Some l\<rbrakk> \<Longrightarrow> map sink_file (without_file (g_file_sink s) (lg_sinks l)) = [None]"
  by (auto simp: log_wf_def without_file_def split: option.splits)

text \<open>
  Applying log settings replaces the log file: whatever was configured, logged or set
  before, the logger then has the level of the settings and writes to the console and to the
  file of the settings only, or to the console alone when no file is named or it cannot be opened.
\<close>

theorem configure_replaces_file:
  "case g_logger (log_run ops fresh_log) of
     None \<Rightarrow> log_Configure cannot_open c (log_run ops fresh_log) = log_run ops fresh_log
   | Some l \<Rightarrow>
       (\<exists>l'. g_logger (log_Configure cannot_open c (log_run ops fresh_log)) = Some l' \<and>
          lg_level l' = log_level c \<and>
          map sink_file (lg_sinks l') = None # (if log_file c = [] then [] else
            case cannot_open (log_file c) (log_daily c) of None \<Rightarrow> [Some (log_file c, log_daily c)] | Some e \<Rightarrow> []))"
  using without_file_wf [OF log_wf_run [OF log_wf_fresh, of ops]]
  by (auto simp: log_Configure_def log_Write_def Let_def split: option.split)

lemma CheckLevel_name: "CheckLevel (f\<lparr>stack := [LStr name]\<rparr>) 1 = Inr lv \<longleftrightarrow> map_of kLevelNames name = Some lv"
  by (simp add: CheckLevel_def at_index_def is_number_def CheckString_def res_bind_def split: option.split)

lemma set_get_level:
  assumes "map_of kLevelNames name = Some lv"
  shows "Logger_getLevel (snd (Logger_setLevel (f\<lparr>stack := [LStr name]\<rparr>) (log_Init s))) = name"
proof -
  have "CheckLevel (f\<lparr>stack := [LStr name]\<rparr>) 1 = Inr lv"
    using assms by (simp add: CheckLevel_name)
  then show ?thesis
    using assms
    by (auto simp: Logger_setLevel_def kLevelNames_def Logger_getLevel_def log_SetLevel_def log_Init_def
        split: option.split if_splits)
qed

text \<open>
  Logger.setLevel accepts by name exactly the levels that luaconfig.lua accepts as
  log.level, with the same meaning, and after each of them Logger.getLevel returns that name.
\<close>

lemma levels_agree:
  "(CheckLevel (f\<lparr>stack := [LStr name]\<rparr>) 1 = Inr lv \<longleftrightarrow> ParseLevel r (LStr name) = Inr lv) \<and>
   list_all (\<lambda>(given, _).
     Logger_getLevel (snd (Logger_setLevel (f\<lparr>stack := [LStr given]\<rparr>) (log_Init s))) = given) kLevelNames"
proof
  show "CheckLevel (f\<lparr>stack := [LStr name]\<rparr>) 1 = Inr lv \<longleftrightarrow> ParseLevel r (LStr name) = Inr lv"
    unfolding CheckLevel_name
    by (simp add: ParseLevel_def read_String_def res_bind_def kLevels_def kLevelNames_def split: option.split)
  have "distinct (map fst kLevelNames)"
    by (simp add: kLevelNames_def)
  then show "list_all (\<lambda>(given, _).
     Logger_getLevel (snd (Logger_setLevel (f\<lparr>stack := [LStr given]\<rparr>) (log_Init s))) = given) kLevelNames"
    by (auto simp: list_all_iff intro!: set_get_level map_of_is_SomeI)
qed

end
