(* ===== verification/Spec2Isabelle.thy ===== *)
theory Spec2Isabelle
  imports Call_Agreement Http_Reply Script_Api Bus_Refinement Event_Order Command_Line
    Pool_Refinement Shutdown_Reload Hash Logging
begin

text \<open>
  Verification of VCMP-Lua, the plugin that runs Lua scripts in a Vice City Multiplayer server.

  \<^bold>\<open>The program.\<close> The server loads the plugin, calls \<^verbatim>\<open>VcmpPluginInit\<close> once and then its callbacks
  (\<^verbatim>\<open>src/src/plugin/callbacks.cpp\<close>, \<^verbatim>\<open>entry.cpp\<close>). The plugin owns at most one runtime
  (\<^verbatim>\<open>src/src/runtime/runtime.cpp\<close>): a Lua state with an event bus, timers, entity pools, an HTTP
  client and a list of things to run each frame (\<^verbatim>\<open>src/src/core\<close>, \<^verbatim>\<open>src/src/modules\<close>). A callback
  updates the pools and dispatches an event to Lua functions; these call bindings
  (\<^verbatim>\<open>src/src/bindings\<close>), which change the runtime or call functions of the server, which may call
  callbacks again before they return. Reload and shutdown replace or delete the runtime, and
  wait until no Lua function is running.

  \<^bold>\<open>How it is modelled.\<close> A part without calls into Lua is a set of functions on a record. Code
  that calls Lua or the server is a computation in the monad \<open>host\<close> of the theory Runtime: it
  maps the state of the plugin to an outcome (\<open>Ret\<close>, \<open>Throw\<close> with a C++ exception, \<open>UB\<close>) and a new
  state. Runtimes are numbered; using a runtime that has been deleted, a subsystem of a closed
  one, an erased timer or a handler list that is gone has the outcome \<open>UB\<close>. Machine integers
  are words where they wrap; a double is a rational, an infinity or NaN; exceptions and error
  texts are values. Lua, libcurl, OpenSSL, spdlog and the server are parameters: the record
  \<open>World\<close>, the programs of the theory Scripts, the server's answers.

  \<^bold>\<open>Theories.\<close>
  \<^item> Prelude, Chars, Lua\_Value, Std\_Map: machine integers, exceptions, decimal text, Lua values,
    C strings, ordered maps (locale \<open>keyed_store\<close>, interpreted for the model of \<^verbatim>\<open>std::map\<close>); the
    locale \<open>machine\<close> of a component whose operations keep an invariant, interpreted for the pools, the
    streams, the HTTP client and the log; its extension \<open>simulation\<close>, a component that implements a
    specification, interpreted for the event bus.
  \<^item> Api\_Guard, Server\_Api: \<^verbatim>\<open>plugin/api_guard.hpp\<close>, and the declarations in \<^verbatim>\<open>third_party/vcmp/vcmp.h\<close> of
    the server functions the bindings call, with the types of parameters and results.
  \<^item> Entity\_Pool, Entity\_Pools, Pool\_Refinement: \<^verbatim>\<open>core/entity_pool.cpp\<close>. Slots with generations;
    the locale \<open>lifetimes\<close>, an extension of \<open>machine\<close>, gives what any counter of lifetimes has, its interpretation that a stale
    handle stays invalid; a refinement of a specification without slots and wrap-around.
  \<^item> Event\_Bus, Scheduler: \<^verbatim>\<open>core/event_bus.cpp\<close>, \<^verbatim>\<open>core/scheduler.cpp\<close>, with their invariants and with
    relations saying what later states keep of earlier ones (used while Lua runs). Bus\_Refinement: the
    bus implements a board of the functions bound to each event. Timer\_Frames: how often a timer's
    function is called over a sequence of ticks.
  \<^item> Lua\_Stack: the Lua stack slot by slot, \<^verbatim>\<open>core/invoker.hpp\<close> and \<^verbatim>\<open>runtime/errors.cpp\<close> on it
    (ProtectedCall, Traceback, ErrorText, Call, StackRestore), and the callback of a timer. The locale
    \<open>pusher\<close> is what the invoker asks of the code that pushes the arguments, interpreted for
    timers and for HTTP replies. Lua\_States: the sandbox of \<^verbatim>\<open>runtime/config.cpp\<close>, the set-up of a runtime's
    state and the loading of scripts on that stack. Http\_Reply: the table that \<^verbatim>\<open>Http::Complete\<close> builds.
    Call\_Agreement: a call and the loading of a script do the same there as in Runtime.
  \<^item> Script\_Api: \<^verbatim>\<open>bindings/bindings.cpp\<close> and \<^verbatim>\<open>entities.cpp\<close>, the globals and members that scripts find.
  \<^item> Args, Server\_Call: \<^verbatim>\<open>bindings/args.cpp\<close>, \<^verbatim>\<open>args.hpp\<close>, \<^verbatim>\<open>convert.cpp\<close>, \<^verbatim>\<open>entity_type.hpp\<close>: checked arguments,
    and bindings as trees of questions to runtime, pools and server.
  \<^item> Player\_Class, Vehicle\_Class, Placed\_Classes, Server\_Class, Classes: every function, getter and
    setter of \<^verbatim>\<open>player.cpp\<close>, \<^verbatim>\<open>vehicle.cpp\<close>, \<^verbatim>\<open>object.cpp\<close>, \<^verbatim>\<open>pickup.cpp\<close>, \<^verbatim>\<open>checkpoint.cpp\<close> and \<^verbatim>\<open>server.cpp\<close>, and the
    proof that every call they make is well typed and about a live entity.
  \<^item> Names, Enums: \<^verbatim>\<open>bindings/names.cpp\<close> and \<^verbatim>\<open>enums.cpp\<close> with the enumerations of \<^verbatim>\<open>vcmp.h\<close>.
  \<^item> Client\_Stream: \<^verbatim>\<open>bindings/stream.cpp\<close>; the locale \<open>codec\<close> gives the round trip of a sequence of
    fields, interpreted for the stream's own fields.
  \<^item> Http, Hash, Config, Logging, Lua\_Modules: \<^verbatim>\<open>modules/http.cpp\<close>, \<^verbatim>\<open>modules/hash.cpp\<close>, \<^verbatim>\<open>runtime/config.cpp\<close>,
    \<^verbatim>\<open>runtime/log.cpp\<close> with \<^verbatim>\<open>bindings/logger.cpp\<close>, \<^verbatim>\<open>runtime/preload.cpp\<close> with \<^verbatim>\<open>bindings/removed_globals.cpp\<close>.
  \<^item> Runtime, Plugin, Bindings: \<^verbatim>\<open>runtime/runtime.cpp\<close>, \<^verbatim>\<open>core/invoker.hpp\<close>, \<^verbatim>\<open>core/frame_pump.cpp\<close>,
    \<^verbatim>\<open>runtime/libraries.cpp\<close>, the dispatch and timer loops, all callbacks, initialisation, shutdown and
    reload, and the bindings that change the runtime (\<^verbatim>\<open>event.cpp\<close>, \<^verbatim>\<open>timer.cpp\<close>, \<^verbatim>\<open>entities.cpp\<close>, \<^verbatim>\<open>bind.cpp\<close>,
    \<^verbatim>\<open>http.cpp\<close>, Server.reload).
  \<^item> Runtime\_Safety, Plugin\_Safety, Binding\_Safety, Class\_Calls, Scripts: weakest preconditions, the
    invariant \<open>host_inv\<close> and the notion \<open>good\<close> (no undefined behaviour, the invariant kept, earlier
    pointers still usable). The locale \<open>lua_host\<close> states what the plugin needs of Lua: a protected
    call is \<open>good\<close>. Scripts interprets it for every program of scripts, which closes the circle:
    scripts call bindings, bindings call the server, the server calls callbacks, callbacks call Lua.
  \<^item> Player\_Lifetime, Event\_Order, Command\_Line, Shutdown\_Reload: properties of callbacks.
  \<^item> This theory: sessions, that is, initialisation and any sequence of callbacks.

  \<^bold>\<open>What is shown.\<close> No session has undefined behaviour, leaves a callback by an exception, or
  leaves a call into Lua counted; a shutdown is final; a failed reload changes nothing and a
  successful one replaces the runtime; the handles of a disconnected player and of a deleted entity are
  dead; handlers run in order until one cancels. The pools, timers, streams, requests, configuration, names, hashes and
  log have their invariants, exact error conditions and round trips. Every class binding calls the
  server with arguments of the declared types and ids of live entities. A call into Lua leaves the Lua
  stack as it was, a timer is called as often as it should be, every script is loaded whatever
  the others do, and the event bus refines its specification.

  \<^bold>\<open>Bounds.\<close> \<open>scripted l w n\<close> lets calls into Lua nest at most \<open>n\<close> deep and then raises an error, as
  Lua does when its limit of nested C calls is reached (\<^verbatim>\<open>LUAI_MAXCCALLS\<close>); the theorems hold for
  every \<open>n\<close>. \<open>free_slots\<close> of a call frame is the room left on the Lua stack, which only
  SetRotationFromTable can exceed; scripts that pass it more deeply nested tables are excluded by
  \<open>shallow\<close>, and rotation\_needs\_room says exactly when the stack is left. The theorems about sessions
  take the call of a Lua function as one step; that its pushes stay within the stack is the subject
  of Lua\_Stack, where \<open>limit\<close> starts at the 20 slots of \<^verbatim>\<open>LUA_MINSTACK\<close> and timer\_arguments\_overrun gives
  the one exception found. All loops are structural recursions or have a termination proof.

  \<^bold>\<open>Not modelled.\<close> sol2's usertype objects and overload resolution, the lines of a Lua traceback, what
  the code of \<^verbatim>\<open>luaconfig.lua\<close> computes, what spdlog prints, memory exhaustion, the network behind libcurl, the Lua modules under
  \<^verbatim>\<open>src/lua\<close> (they are scripts here), tests and build files. Order of evaluation of function
  arguments, which C++ leaves open, is left to right.

  \<^bold>\<open>Plan.\<close> Next: the stack use of the other bindings that push and pop values themselves
  (\<^verbatim>\<open>args.cpp\<close>, ReadRequest of \<^verbatim>\<open>http.cpp\<close>); timers whose functions create and destroy timers; the
  entities that scripts created, across a reload on the server's side.
\<close>

section \<open>Whole sessions\<close>

definition initial_state :: State where
  "initial_state =
     \<lparr>runtime = None, shutdown_deferred = False, api = None, next_rid = 0, next_obj = 0, calls = [],
      deleted = [], errors = [], arrays = Map.empty, streams = Map.empty,
      libs = \<lparr>ini_openssl = False, ini_curl = False, ini_mysql = False\<rparr>\<rparr>"

definition session ::
  "World \<Rightarrow> PluginFuncs option \<Rightarrow> PluginCallbacks option \<Rightarrow> PluginInfo option \<Rightarrow> server_call list \<Rightarrow> unit host" where
  "session w funcs cbs info cs = bind (VcmpPluginInit w funcs cbs info) (\<lambda>_. callbacks_run w cs)"

lemma nothrow_callbacks_run: "nothrow (callbacks_run w cs)"
  by (induction cs) (auto intro!: nothrow_ret nothrow_bind nothrow_server_callback)

lemma wp_session: "wp (session (scripted l w n) funcs cbs info cs) (\<lambda>_ s'. settled s') initial_state"
proof -
  have "wp (Init (scripted l w n) funcs cbs info) (\<lambda>_ s'. settled s') initial_state"
    by (rule settled_Init) (simp add: initial_state_def)
  then show ?thesis
    unfolding session_def VcmpPluginInit_def wp_bind
    by (rule wp_mono) (auto split: outcome.split intro: scripts.settled_callbacks_run)
qed

lemma nothrow_session: "nothrow (session w funcs cbs info cs)"
  unfolding session_def VcmpPluginInit_def by (intro nothrow_bind nothrow_Init nothrow_callbacks_run)


text \<open>
  C2. Between two callbacks of the server's main loop, if there is a runtime: no shutdown is
  left pending, no call into Lua is counted as active, no dispatch frame is left on the stack of
  cancel flags, no timer is marked running, and the subsystems satisfy their invariants.
\<close>

theorem state_between_callbacks:
  "case runtime (snd (session (scripted l w n) funcs cbs info cs initial_state)) of
     None \<Rightarrow> True
   | Some rt \<Rightarrow>
       \<not> shutdown_deferred (snd (session (scripted l w n) funcs cbs info cs initial_state)) \<and>
       rt_wf rt \<and> depth rt = 0 \<and> cancelled (events rt) = [] \<and> idle rt"
proof -
  let ?s = "snd (session (scripted l w n) funcs cbs info cs initial_state)"
  have "settled ?s"
    using wp_session [of l w n funcs cbs info cs] by (simp add: wp_def)
  then show ?thesis
    by (auto simp: settled_def resting_def host_inv_def outside_def rt_wf_def split: option.splits)
qed

text \<open>
  C3. No exception crosses into the server: no callback and no initialisation ends by
  throwing, whatever the world does and whatever the state is.
\<close>

theorem callbacks_noexcept:
  "fst (server_callback w c s) \<noteq> Throw e \<and> fst (VcmpPluginInit w funcs cbs info s) \<noteq> Throw e"
  using nothrow_server_callback [of w c] nothrow_Init [of w funcs cbs info]
  by (simp add: nothrow_def VcmpPluginInit_def)


section \<open>Callbacks without a runtime\<close>

text \<open>A computation that returns a value and changes nothing.\<close>

definition inert :: "State \<Rightarrow> 'a \<Rightarrow> 'a host \<Rightarrow> bool" where
  "inert s x m \<longleftrightarrow> m s = (Ret x, s)"

lemma inert_bind: "\<lbrakk>inert s x m; inert s y (k x)\<rbrakk> \<Longrightarrow> inert s y (bind m k)"
  by (simp add: inert_def bind_def)

lemma inert_ret: "inert s x (ret x)"
  by (simp add: inert_def ret_def)

lemma inert_Guarded: "inert s x m \<Longrightarrow> inert s x (Guarded site y m)"
  by (simp add: inert_def Guarded_def try_catch_def)

lemma inert_Live: "runtime s = None \<Longrightarrow> inert s x (bind Live (\<lambda>live. with_live live x body))"
  by (simp add: inert_def Live_def with_live_def bind_def query_def ret_def)

lemma inert_Dispatchable: "runtime s = None \<Longrightarrow> inert s x (bind Dispatchable (\<lambda>d. with_live d x body))"
  by (simp add: inert_def Dispatchable_def Live_def with_live_def bind_def query_def ret_def)

lemma inert_AfterCallback: "runtime s = None \<Longrightarrow> inert s () (AfterCallback w)"
  by (simp add: inert_def AfterCallback_def bind_def query_def ret_def)

lemma inert_OnEvent: "runtime s = None \<Longrightarrow> inert s 1 (OnEvent w site body)"
  unfolding OnEvent_def
  by (rule inert_bind [where x = False]) (auto intro!: inert_bind inert_Guarded inert_Dispatchable inert_AfterCallback inert_ret simp: inert_ret)

lemma OnEvent_None: "runtime s = None \<Longrightarrow> OnEvent w site body s = (Ret 1, s)"
  using inert_OnEvent [of s w site body] by (simp add: inert_def)

lemma bind_Ret: "m s = (Ret x, s') \<Longrightarrow> bind m k s = k x s'"
  by (simp add: bind_def)

lemma bind_inert: "inert s x m \<Longrightarrow> bind m k s = k x s"
  by (simp add: inert_def bind_def)

lemma Guarded_None:
  "runtime s = None \<Longrightarrow> Guarded site () (bind Live (\<lambda>live. with_live live () body)) s = (Ret (), s)"
  using inert_Guarded [OF inert_Live] by (simp add: inert_def)

lemma AfterCallback_None: "runtime s = None \<Longrightarrow> AfterCallback w s = (Ret (), s)"
  using inert_AfterCallback by (simp add: inert_def)

lemmas None_steps = bind_inert [OF inert_Guarded [OF inert_Live]] bind_inert [OF inert_AfterCallback] AfterCallback_None

lemma callback_None:
  assumes "runtime s = None"
  shows "server_callback w c s = (Ret None, s) \<or> server_callback w c s = (Ret (Some 1), s)"
proof -
  have plain: "inert s 1 (event w site e as)" "inert s 1 (OnEvent w site body)" for site e "as" body
    using inert_OnEvent [OF assms] by (simp_all add: event_def)
  have direct: "inert s () (OnServerFrame w t)" "inert s () (OnPlayerConnect w i)"
    "inert s () (OnPlayerDisconnect w i d)" "inert s () (OnEntityPoolChange w ty i b)"
    "inert s () (OnServerShutdown w)" "inert s 1 (OnServerInitialise w)" for t i d ty b
    using assms
    by (simp_all add: inert_def direct_callback_defs OnServerShutdown_def None_steps
        bind_def [of "query runtime"] query_def ret_def Let_def)
  have void: "inert s () (void m)" if "inert s 1 m" for m :: "u8 host"
    using that unfolding void_def by (rule inert_bind) (rule inert_ret)
  have "inert s None (server_callback w c) \<or> inert s (Some 1) (server_callback w c)"
    by (cases c)
       (auto simp: answer_def no_answer_def plain_event_defs special_event_defs
         intro: inert_bind [OF void [OF plain(1)]] inert_bind [OF void [OF plain(2)]] inert_bind [OF plain(1)]
           inert_bind [OF plain(2)] inert_bind [OF direct(1)] inert_bind [OF direct(2)] inert_bind [OF direct(3)]
           inert_bind [OF direct(4)] inert_bind [OF direct(5)] inert_bind [OF direct(6)] inert_ret)
  then show ?thesis
    by (simp add: inert_def)
qed

text \<open>
  Every callback tolerates a missing runtime: it changes nothing, and a callback that
  the server can be refused answers 1.
\<close>

theorem callbacks_without_runtime:
  assumes "runtime s = None"
  shows "snd (server_callback w c s) = s \<and>
    (fst (server_callback w c s) = Ret None \<or> fst (server_callback w c s) = Ret (Some 1))"
  using callback_None [OF assms, of w c] by auto

theorem callbacks_without_runtime_witness:
  "snd (server_callback demo_world (RequestSpawn 3) initial_state) = initial_state \<and>
   (fst (server_callback demo_world (RequestSpawn 3) initial_state) = Ret None \<or>
    fst (server_callback demo_world (RequestSpawn 3) initial_state) = Ret (Some 1))"
  by (rule callbacks_without_runtime) (simp add: initial_state_def)

section \<open>The end of a session\<close>

lemma wp_then:
  assumes "nothrow m" "wp m (\<lambda>_ s'. P s') s" "\<And>x s'. P s' \<Longrightarrow> wp (k x) Q s'"
  shows "wp (bind m k) Q s"
proof -
  have "wp m (\<lambda>out s'. P s' \<and> (\<forall>e. out \<noteq> Throw e)) s"
    using assms(1,2) by (simp add: wp_def nothrow_def)
  then show ?thesis
    unfolding wp_bind by (rule wp_mono) (auto simp: assms(3) split: outcome.split)
qed

lemma callbacks_run_None: "runtime s = None \<Longrightarrow> wp (callbacks_run w cs) (\<lambda>_ s'. runtime s' = None) s"
proof (induction cs arbitrary: s)
  case (Cons c cs)
  have "wp (server_callback w c) (\<lambda>_ s'. runtime s' = None) s"
    using callback_None [OF Cons.prems, of w c] Cons.prems by (auto simp: wp_def)
  then show ?case
    by (simp del: wp_bind add: wp_then [OF nothrow_server_callback] Cons.IH)
qed simp

lemma shutdown_run:
  "\<lbrakk>settled s; ServerShutdownNow \<in> set cs\<rbrakk>
     \<Longrightarrow> wp (callbacks_run (scripted l w n) cs) (\<lambda>_ s'. runtime s' = None) s"
proof (induction cs arbitrary: s)
  case (Cons c cs)
  let ?w = "scripted l w n"
  have "wp (server_callback ?w c) (\<lambda>_ s'. if c = ServerShutdownNow then runtime s' = None else settled s') s"
    using scripts.shutdown_callback [OF Cons.prems(1), of l w n] scripts.settled_callback [OF Cons.prems(1), of l w n c]
    by (cases "c = ServerShutdownNow") (simp_all del: server_callback.simps)
  then show ?case
    unfolding callbacks_run.simps
    by (rule wp_then [OF nothrow_server_callback]) (use Cons in \<open>auto simp: callbacks_run_None split: if_splits\<close>)
qed simp

text \<open>
  C4. A shutdown is final: once the server has called OnServerShutdown from its main loop, no
  callback of the rest of the session brings a runtime back, whatever the scripts did while
  they were shut down.
\<close>

theorem shutdown_is_final:
  assumes "ServerShutdownNow \<in> set cs"
  shows "runtime (snd (session (scripted l w n) funcs cbs info cs initial_state)) = None"
proof -
  have "wp (Init (scripted l w n) funcs cbs info) (\<lambda>_ s'. settled s') initial_state"
    by (rule settled_Init) (simp add: initial_state_def)
  then have "wp (session (scripted l w n) funcs cbs info cs) (\<lambda>_ s'. runtime s' = None) initial_state"
    unfolding session_def VcmpPluginInit_def by (rule wp_then [OF nothrow_Init]) (rule shutdown_run [OF _ assms])
  then show ?thesis
    by (simp add: wp_def)
qed

theorem shutdown_is_final_witness:
  "runtime (snd (session (scripted demo_lua demo_world 3)
     (Some demo_funcs) (Some \<lparr>cb_structSize = 512, cb_set = []\<rparr>)
     (Some \<lparr>info_structSize = 64, info_name = [], pluginVersion = 0, apiMajorVersion = 0, apiMinorVersion = 0\<rparr>)
     [ServerInitialise, Connect 3, ServerShutdownNow, Connect 4] initial_state)) = None"
  by (rule shutdown_is_final) simp

text \<open>
  C14. A reload that cannot read the configuration or cannot set up the new Lua state leaves
  the running scripts as they are: the runtime is unchanged but for the request, which is
  cancelled, and two error lines tell why.
\<close>

theorem failed_reload_keeps_scripts:
  assumes "runtime s = Some rt"
    and "case LoadConfig (config_reader w s) (config_run w s) of Inl e \<Rightarrow> e = err | Inr _ \<Rightarrow> setup_state w s = Inl err"
  shows "Reload w (rid rt) s =
    (Ret (), s\<lparr>runtime := Some (rt\<lparr>reload_requested := False\<rparr>),
               errors := errors s @ [''Server.reload: '' @ what err,
                                     ''Server.reload: the scripts keep running unchanged'']\<rparr>)"
  using assms
  by (auto simp: Reload_def make_fresh_def ReadConfig_file_def make_runtime_def try_catch_def bind_def query_def
      of_res_def ret_def throw_def ReportException_def log_error_def change_def put_def split: sum.splits prod.splits)

theorem failed_reload_keeps_scripts_witness:
  "Reload (demo_world\<lparr>config_run := \<lambda>_. Run_failed ''luaconfig.lua:1: error''\<rparr>) 0 demo_state =
    (Ret (), demo_state\<lparr>runtime := Some ((the (runtime demo_state))\<lparr>reload_requested := False\<rparr>),
       errors := [''Server.reload: luaconfig.lua:1: error'',
                  ''Server.reload: the scripts keep running unchanged'']\<rparr>)"
  using failed_reload_keeps_scripts [where s = demo_state and rt = "the (runtime demo_state)"
      and w = "demo_world\<lparr>config_run := \<lambda>_. Run_failed ''luaconfig.lua:1: error''\<rparr>"
      and err = "Config_error ''luaconfig.lua:1: error''"]
  by (simp add: LoadConfig_def demo_state_def)

section \<open>Starting the plugin\<close>

text \<open>
  C16. VcmpPluginInit starts the plugin or leaves no trace that the server could call: it
  returns 0 with no callback set and the runtime as it was, or 1 with a new runtime, no shutdown
  pending, and the callbacks set that the server's struct has, after the three that the plugin
  needs were found in it.
\<close>

theorem start_all_or_nothing:
  "init_result_ok cbs_p s (fst (VcmpPluginInit w funcs_p cbs_p info_p s)) (snd (VcmpPluginInit w funcs_p cbs_p info_p s))"
  using wp_Init [of w funcs_p cbs_p info_p s] by (simp add: wp_def VcmpPluginInit_def)

lemma all_callbacks: "set (required_callbacks @ optional_callbacks) = set callback_fields"
  by (auto simp: required_callbacks_def optional_callbacks_def callback_fields_def)

text \<open>
  On success the plugin sets every callback of the server interface whose field lies inside
  the struct that the server passed, and writes no field beyond the end of that struct.
\<close>

theorem callbacks_set_exactly:
  assumes "list_all (has_callback c) required_callbacks" "cb_set c = []"
  shows "set (cb_set (install c)) =
    {f \<in> set callback_fields. unat (callback_offset f) + 8 \<le> unat (cb_structSize c)}"
proof -
  have "has_callback c f \<longleftrightarrow> unat (callback_offset f) + 8 \<le> unat (cb_structSize c)" for f
    by (simp add: has_callback_def FieldFits_iff)
  then show ?thesis
    using assms all_callbacks by (auto simp: cb_set_install list_all_iff)
qed

theorem callbacks_set_exactly_witness:
  "set (cb_set (install \<lparr>cb_structSize = 32, cb_set = []\<rparr>)) =
    {f \<in> set callback_fields. unat (callback_offset f) + 8 \<le> unat (32 :: u32)}"
  using callbacks_set_exactly [of "\<lparr>cb_structSize = 32, cb_set = []\<rparr>"]
  by (simp add: required_callbacks_def has_callback_def callback_offset_def FieldFits_iff callback_fields_def)

end
